(* ===== verification/Prelude.thy ===== *)
theory Prelude
  imports Complex_Main "HOL-Library.AList" "HOL-Library.Word" "HOL-Library.Code_Target_Nat"
begin

text \<open>
  Generic vocabulary shared by every component: Rust's \<open>Result\<close> as a sum, the hash
  maps of the standard library as association lists behind an interface, ASCII and UTF-8
  text as lists of bytes, decimal integers, and two locales that state what a round trip
  and an invariant are. Nothing here is specific to the server.

  Conventions. A Rust \<open>String\<close>, \<open>&str\<close> or \<open>Vec<u8>\<close> is a \<open>string\<close>: HOL's
  \<open>char\<close> has exactly 256 values, so a \<open>char list\<close> is a list of bytes and \<open>length\<close>
  is Rust's \<open>len()\<close>. A Rust \<open>char\<close> is the string of its UTF-8 bytes. An \<open>i32\<close>
  is an \<open>int\<close> (the program never does arithmetic on one; its parser checks the range),
  a \<open>usize\<close> is a \<open>nat\<close>, and \<open>u16\<close>, \<open>u32\<close>, \<open>u64\<close> are words.
\<close>

named_theorems result_simps "rules that move through Result-valued code"
named_theorems text_simps "lengths and byte sets of text operations"

type_synonym uchar = string
type_synonym i32 = int
type_synonym u8 = "8 word"
type_synonym u16 = "16 word"
type_synonym u32 = "32 word"
type_synonym u64 = "64 word"

section \<open>Results\<close>

text \<open>
  \<open>Inl\<close> is \<open>Err\<close>, \<open>Inr\<close> is \<open>Ok\<close>. \<open>and_then r f\<close> is what the \<open>?\<close>
  operator does: continue with the value or return the error at once.
\<close>

definition and_then :: "'e + 'a \<Rightarrow> ('a \<Rightarrow> 'e + 'b) \<Rightarrow> 'e + 'b" where
  "and_then r f = (case r of Inl e \<Rightarrow> Inl e | Inr x \<Rightarrow> f x)"

definition map_err :: "('e \<Rightarrow> 'f) \<Rightarrow> 'e + 'a \<Rightarrow> 'f + 'a" where
  "map_err g r = (case r of Inl e \<Rightarrow> Inl (g e) | Inr x \<Rightarrow> Inr x)"

definition ok_or :: "'e \<Rightarrow> 'a option \<Rightarrow> 'e + 'a" where
  "ok_or e r = (case r of None \<Rightarrow> Inl e | Some x \<Rightarrow> Inr x)"

definition is_ok :: "'e + 'a \<Rightarrow> bool" where
  "is_ok r = (case r of Inl _ \<Rightarrow> False | Inr _ \<Rightarrow> True)"

lemma and_then_simps [simp, result_simps]:
  "and_then (Inl e) f = Inl e"
  "and_then (Inr x) f = f x"
  by (simp_all add: and_then_def)

lemma map_err_simps [simp, result_simps]:
  "map_err g (Inl e) = Inl (g e)"
  "map_err g (Inr x) = Inr x"
  by (simp_all add: map_err_def)

lemma ok_or_simps [simp, result_simps]:
  "ok_or e None = Inl e"
  "ok_or e (Some x) = Inr x"
  by (simp_all add: ok_or_def)

lemma is_ok_simps [simp, result_simps]:
  "\<not> is_ok (Inl e)"
  "is_ok (Inr x)"
  by (simp_all add: is_ok_def)

lemma and_then_Inr_iff [result_simps]:
  "and_then r f = Inr y \<longleftrightarrow> (\<exists>x. r = Inr x \<and> f x = Inr y)"
  by (cases r) auto

lemma and_then_InrE [elim]:
  assumes "and_then r f = Inr y"
  obtains x where "r = Inr x" "f x = Inr y"
  using assms by (cases r) auto

lemma map_err_Inr_iff [simp, result_simps]: "map_err g r = Inr x \<longleftrightarrow> r = Inr x"
  by (cases r) auto

lemma ok_or_Inr_iff [simp, result_simps]: "ok_or e r = Inr x \<longleftrightarrow> r = Some x"
  by (cases r) auto

section \<open>Hash maps\<close>

text \<open>
  \<open>std::collections::HashMap\<close> as an association list with distinct keys. The order in
  which Rust iterates a hash map is unspecified; the list fixes one order, and no property
  of the development depends on which one (they speak of the set of the values, or of
  their number). The interface \<open>hash_table\<close> states what the documentation of the
  standard library promises; what clients need is proved once inside it.
\<close>

type_synonym ('k, 'v) hash_map = "('k \<times> 'v) list"

definition hm_get :: "('k, 'v) hash_map \<Rightarrow> 'k \<Rightarrow> 'v option" where
  "hm_get m k = map_of m k"

definition hm_contains_key :: "('k, 'v) hash_map \<Rightarrow> 'k \<Rightarrow> bool" where
  "hm_contains_key m k = (hm_get m k \<noteq> None)"

definition hm_insert :: "'k \<Rightarrow> 'v \<Rightarrow> ('k, 'v) hash_map \<Rightarrow> ('k, 'v) hash_map" where
  "hm_insert k v m = AList.update k v m"

definition hm_remove :: "'k \<Rightarrow> ('k, 'v) hash_map \<Rightarrow> ('k, 'v) hash_map" where
  "hm_remove k m = AList.delete k m"

definition hm_values :: "('k, 'v) hash_map \<Rightarrow> 'v list" where
  "hm_values m = map snd m"

definition hm_wf :: "('k, 'v) hash_map \<Rightarrow> bool" where
  "hm_wf m = distinct (map fst m)"

locale hash_table =
  fixes get :: "'m \<Rightarrow> 'k \<Rightarrow> 'v option"
    and insert_kv :: "'k \<Rightarrow> 'v \<Rightarrow> 'm \<Rightarrow> 'm"
    and remove_k :: "'k \<Rightarrow> 'm \<Rightarrow> 'm"
    and vals :: "'m \<Rightarrow> 'v list"
    and wf_map :: "'m \<Rightarrow> bool"
    and empty_map :: 'm
  assumes get_empty: "get empty_map k = None"
    and get_insert: "get (insert_kv k v m) k' = (if k' = k then Some v else get m k')"
    and get_remove: "wf_map m \<Longrightarrow> get (remove_k k m) k' = (if k' = k then None else get m k')"
    and wf_empty: "wf_map empty_map"
    and wf_insert: "wf_map m \<Longrightarrow> wf_map (insert_kv k v m)"
    and wf_remove: "wf_map m \<Longrightarrow> wf_map (remove_k k m)"
    and vals_get: "wf_map m \<Longrightarrow> set (vals m) = {v. \<exists>k. get m k = Some v}"
    and vals_insert_fresh: "get m k = None \<Longrightarrow> length (vals (insert_kv k v m)) = Suc (length (vals m))"
    and vals_insert_present: "get m k = Some w \<Longrightarrow> length (vals (insert_kv k v m)) = length (vals m)"
    and vals_remove: "length (vals (remove_k k m)) \<le> length (vals m)"
begin

lemma get_insert_same: "get (insert_kv k v m) k = Some v"
  by (simp add: get_insert)

lemma get_insert_other: "k' \<noteq> k \<Longrightarrow> get (insert_kv k v m) k' = get m k'"
  by (simp add: get_insert)

lemma get_insert_SomeE:
  assumes "get (insert_kv k v m) k' = Some w"
  obtains "k' = k" "w = v" | "k' \<noteq> k" "get m k' = Some w"
  using assms by (cases "k' = k") (auto simp: get_insert)

lemma get_remove_SomeE:
  assumes "wf_map m" and "get (remove_k k m) k' = Some w"
  obtains "k' \<noteq> k" "get m k' = Some w"
  using assms by (cases "k' = k") (auto simp: get_remove)

lemma in_vals_iff: "wf_map m \<Longrightarrow> v \<in> set (vals m) \<longleftrightarrow> (\<exists>k. get m k = Some v)"
  by (simp add: vals_get)

lemma length_vals_insert:
  "length (vals (insert_kv k v m)) = (if get m k = None then Suc (length (vals m)) else length (vals m))"
  by (auto simp: vals_insert_fresh vals_insert_present)

end

lemma hm_values_update_fresh:
  "map_of m k = None \<Longrightarrow> AList.update k v m = m @ [(k, v)]"
  by (induction m) (auto split: if_splits)

lemma hm_length_update_present:
  "map_of m k = Some w \<Longrightarrow> length (AList.update k v m) = length m"
  by (induction m) (auto split: if_splits)

interpretation hm: hash_table hm_get hm_insert hm_remove hm_values hm_wf "[]"
proof unfold_locales
  show "hm_get [] k = None" for k :: 'a
    by (simp add: hm_get_def)
  show "hm_get (hm_insert k v m) k' = (if k' = k then Some v else hm_get m k')"
    for k k' :: 'a and v :: 'b and m
    by (simp add: hm_get_def hm_insert_def update_conv')
  show "hm_get (hm_remove k m) k' = (if k' = k then None else hm_get m k')"
    for k k' :: 'a and m :: "('a, 'b) hash_map"
    by (simp add: hm_get_def hm_remove_def delete_conv')
  show "hm_wf []"
    by (simp add: hm_wf_def)
  show "hm_wf (hm_insert k v m)" if "hm_wf m" for k :: 'a and v :: 'b and m
    using that by (simp add: hm_wf_def hm_insert_def distinct_update)
  show "hm_wf (hm_remove k m)" if "hm_wf m" for k :: 'a and m :: "('a, 'b) hash_map"
    using that by (simp add: hm_wf_def hm_remove_def distinct_delete)
  show "set (hm_values m) = {v. \<exists>k. hm_get m k = Some v}" if "hm_wf m"
    for m :: "('a, 'b) hash_map"
    using that by (force simp: hm_wf_def hm_values_def hm_get_def map_of_eq_Some_iff)
  show "length (hm_values (hm_insert k v m)) = Suc (length (hm_values m))"
    if "hm_get m k = None" for k :: 'a and v :: 'b and m
    using that by (simp add: hm_get_def hm_insert_def hm_values_def hm_values_update_fresh)
  show "length (hm_values (hm_insert k v m)) = length (hm_values m)"
    if "hm_get m k = Some w" for k :: 'a and v w :: 'b and m
    using that by (simp add: hm_get_def hm_insert_def hm_values_def hm_length_update_present)
  show "length (hm_values (hm_remove k m)) \<le> length (hm_values m)"
    for k :: 'a and m :: "('a, 'b) hash_map"
    by (simp add: hm_remove_def hm_values_def length_delete_le)
qed

lemma hm_contains_key_iff [simp]: "hm_contains_key m k \<longleftrightarrow> (\<exists>v. hm_get m k = Some v)"
  by (simp add: hm_contains_key_def)

lemma hm_get_Nil [simp]: "hm_get [] k = None"
  by (simp add: hm_get_def)

section \<open>Round trips\<close>

text \<open>
  An encoder and a decoder that may fail. \<open>wire_codec\<close> states that decoding undoes
  encoding on the accepted values; \<open>canonical_codec\<close> adds that the decoder accepts
  nothing else, so that the two are inverse bijections.
\<close>

locale wire_codec =
  fixes enc :: "'a \<Rightarrow> 'w"
    and dec :: "'w \<Rightarrow> 'e + 'a"
    and ok :: "'a \<Rightarrow> bool"
  assumes dec_enc: "ok x \<Longrightarrow> dec (enc x) = Inr x"
begin

lemma enc_inj: "ok x \<Longrightarrow> ok y \<Longrightarrow> enc x = enc y \<longleftrightarrow> x = y"
  by (metis dec_enc sum.inject(2))

lemma enc_inj_on: "inj_on enc {x. ok x}"
  by (rule inj_onI) (simp add: enc_inj)

lemma dec_enc_is_ok: "ok x \<Longrightarrow> is_ok (dec (enc x))"
  by (simp add: dec_enc)

end

locale canonical_codec = wire_codec +
  assumes enc_dec: "dec w = Inr x \<Longrightarrow> ok x \<and> enc x = w"
begin

lemma dec_iff: "dec w = Inr x \<longleftrightarrow> ok x \<and> w = enc x"
  using dec_enc enc_dec by blast

lemma dec_inj: "dec v = Inr x \<Longrightarrow> dec w = Inr x \<Longrightarrow> v = w"
  by (simp add: dec_iff)

end

section \<open>Step relations and their invariants\<close>

text \<open>
  The states a labelled step relation can reach from its initial states, and the contract
  of an inductive invariant: what holds initially and is kept by every step holds in every
  reachable state, and along every run.
\<close>

inductive reach :: "('s \<Rightarrow> bool) \<Rightarrow> ('s \<Rightarrow> 'l \<Rightarrow> 's \<Rightarrow> bool) \<Rightarrow> 's \<Rightarrow> bool"
  for init :: "'s \<Rightarrow> bool" and step :: "'s \<Rightarrow> 'l \<Rightarrow> 's \<Rightarrow> bool" where
  reach_init: "init s \<Longrightarrow> reach init step s"
| reach_step: "reach init step s \<Longrightarrow> step s l t \<Longrightarrow> reach init step t"

fun run_of :: "('s \<Rightarrow> 'l \<Rightarrow> 's \<Rightarrow> bool) \<Rightarrow> 's \<Rightarrow> ('l \<times> 's) list \<Rightarrow> bool" where
  "run_of step s [] = True"
| "run_of step s ((l, t) # r) = (step s l t \<and> run_of step t r)"

locale invariant_system =
  fixes init :: "'s \<Rightarrow> bool"
    and step :: "'s \<Rightarrow> 'l \<Rightarrow> 's \<Rightarrow> bool"
    and inv :: "'s \<Rightarrow> bool"
  assumes inv_init: "init s \<Longrightarrow> inv s"
    and inv_step: "inv s \<Longrightarrow> step s l t \<Longrightarrow> inv t"
begin

lemma reach_inv: "reach init step s \<Longrightarrow> inv s"
  by (induction rule: reach.induct) (blast intro: inv_init inv_step)+

lemma run_inv: "inv s \<Longrightarrow> run_of step s r \<Longrightarrow> (l, t) \<in> set r \<Longrightarrow> inv t"
proof (induction r arbitrary: s)
  case (Cons e r)
  obtain l' t' where e: "e = (l', t')" by (cases e)
  with Cons.prems have "inv t'" by (auto intro: inv_step)
  with Cons e show ?case by auto
qed simp

end

section \<open>Evaluating words\<close>

text \<open>Small numbers are not reduced bit by bit when words are evaluated.\<close>

lemma take_bit_small [code]:
  "take_bit n (k :: int) = (if 0 \<le> k \<and> k < 256 \<and> 8 \<le> n then k else k mod 2 ^ n)"
proof (cases "0 \<le> k \<and> k < 256 \<and> 8 \<le> n")
  case True
  then have "(2 :: int) ^ 8 \<le> 2 ^ n" by (intro power_increasing) simp_all
  with True show ?thesis by (simp add: take_bit_eq_mod)
next
  case False
  then show ?thesis by (simp only: if_False take_bit_eq_mod)
qed

end
