(* ===== verification/Rust_Text.thy ===== *)
theory Rust_Text
  imports Prelude
begin

text \<open>
  Text operations of Rust's standard library that the program uses: ASCII case mapping,
  splitting and joining at a separator byte, UTF-8 validation, and decimal integers in both
  directions. Strings are lists of bytes.
\<close>

section \<open>Bytes and ASCII\<close>

definition byte :: "char \<Rightarrow> nat" where
  "byte c = of_char c"

definition is_ascii :: "string \<Rightarrow> bool" where
  "is_ascii s = list_all (\<lambda>c. byte c < 128) s"

definition upper_byte :: "char \<Rightarrow> char" where
  "upper_byte c = (if 97 \<le> byte c \<and> byte c \<le> 122 then char_of (byte c - 32) else c)"

definition to_ascii_uppercase :: "string \<Rightarrow> string" where
  "to_ascii_uppercase s = map upper_byte s"

definition eq_ignore_ascii_case :: "string \<Rightarrow> string \<Rightarrow> bool" where
  "eq_ignore_ascii_case s t = (to_ascii_uppercase s = to_ascii_uppercase t)"

definition is_ascii_digit :: "char \<Rightarrow> bool" where
  "is_ascii_digit c = (48 \<le> byte c \<and> byte c \<le> 57)"

definition is_octal_digit :: "char \<Rightarrow> bool" where
  "is_octal_digit c = (48 \<le> byte c \<and> byte c \<le> 55)"

definition is_ascii_hexdigit :: "char \<Rightarrow> bool" where
  "is_ascii_hexdigit c =
     (is_ascii_digit c \<or> (65 \<le> byte c \<and> byte c \<le> 70) \<or> (97 \<le> byte c \<and> byte c \<le> 102))"

definition cr :: char where "cr = CHR 0x0D"
definition lf :: char where "lf = CHR 0x0A"

text \<open>The test \<open>matches!(byte, b'\r' | b'\n')\<close> that the sources repeat.\<close>

definition is_delim :: "char \<Rightarrow> bool" where
  "is_delim c = (c = cr \<or> c = lf)"

lemma byte_less [simp]: "byte c < 256"
  by (simp add: byte_def)

lemma byte_char_of [simp]: "byte (char_of n) = n mod 256"
  by (simp add: byte_def of_char_of)

lemma byte_inj [simp]: "byte c = byte d \<longleftrightarrow> c = d"
  by (simp add: byte_def)

lemma byte_upper_byte:
  "byte (upper_byte c) = (if 97 \<le> byte c \<and> byte c \<le> 122 then byte c - 32 else byte c)"
  using byte_less [of c] by (auto simp: upper_byte_def intro!: mod_less)

lemma upper_byte_idem [simp]: "upper_byte (upper_byte c) = upper_byte c"
  by (subst upper_byte_def) (auto simp: byte_upper_byte)

lemma upper_idem [simp]: "to_ascii_uppercase (to_ascii_uppercase s) = to_ascii_uppercase s"
  by (simp add: to_ascii_uppercase_def comp_def)

lemma length_upper [simp, text_simps]: "length (to_ascii_uppercase s) = length s"
  by (simp add: to_ascii_uppercase_def)

lemma upper_Nil_iff [simp]: "to_ascii_uppercase s = [] \<longleftrightarrow> s = []"
  by (simp add: to_ascii_uppercase_def)

lemma ascii_upper_byte_iff: "byte (upper_byte c) < 128 \<longleftrightarrow> byte c < 128"
  by (auto simp: byte_upper_byte)

lemma is_ascii_upper [simp]: "is_ascii (to_ascii_uppercase s) = is_ascii s"
  by (simp add: is_ascii_def to_ascii_uppercase_def list_all_iff ascii_upper_byte_iff)

text \<open>Case mapping only moves letters, so it never creates or removes another byte.\<close>

lemma upper_byte_fixed:
  assumes "\<not> (65 \<le> byte d \<and> byte d \<le> 90)" and "\<not> (97 \<le> byte d \<and> byte d \<le> 122)"
  shows "upper_byte c = d \<longleftrightarrow> c = d"
proof (cases "97 \<le> byte c \<and> byte c \<le> 122")
  case True
  then have "byte (upper_byte c) = byte c - 32"
    by (simp add: byte_upper_byte)
  with True assms show ?thesis by auto
next
  case False
  then show ?thesis by (auto simp: upper_byte_def)
qed

lemma in_set_upper_fixed:
  assumes "\<not> (65 \<le> byte d \<and> byte d \<le> 90)" and "\<not> (97 \<le> byte d \<and> byte d \<le> 122)"
  shows "d \<in> set (to_ascii_uppercase s) \<longleftrightarrow> d \<in> set s"
  using upper_byte_fixed [OF assms] by (force simp: to_ascii_uppercase_def)

section \<open>Splitting and joining\<close>

text \<open>\<open>str::split\<close> at one ASCII byte: always at least one piece.\<close>

fun split_on :: "char \<Rightarrow> string \<Rightarrow> string list" where
  "split_on c [] = [[]]"
| "split_on c (x # xs) =
     (if x = c then [] # split_on c xs
      else (case split_on c xs of [] \<Rightarrow> [[x]] | w # ws \<Rightarrow> (x # w) # ws))"

text \<open>\<open>[String]::join\<close> with a one-byte separator.\<close>

fun join_with :: "char \<Rightarrow> string list \<Rightarrow> string" where
  "join_with c [] = []"
| "join_with c [w] = w"
| "join_with c (w # v # vs) = w @ c # join_with c (v # vs)"

text \<open>\<open>str::split_once\<close>: at the first occurrence.\<close>

definition split_once :: "char \<Rightarrow> string \<Rightarrow> (string \<times> string) option" where
  "split_once c s =
     (case dropWhile (\<lambda>x. x \<noteq> c) s of [] \<Rightarrow> None | _ # t \<Rightarrow> Some (takeWhile (\<lambda>x. x \<noteq> c) s, t))"

lemma split_on_ne [simp]: "split_on c s \<noteq> []"
  by (induction s) (auto split: list.splits)

lemma split_on_ConsE:
  obtains w ws where "split_on c s = w # ws"
  by (cases "split_on c s") auto

lemma split_on_pieces: "w \<in> set (split_on c s) \<Longrightarrow> c \<notin> set w"
  by (induction s arbitrary: w) (auto split: if_splits list.splits)

lemma split_on_bytes: "w \<in> set (split_on c s) \<Longrightarrow> set w \<subseteq> set s"
proof (induction s arbitrary: w)
  case (Cons x xs)
  obtain v vs where v: "split_on c xs = v # vs" by (rule split_on_ConsE)
  with Cons show ?case by (fastforce split: if_splits)
qed simp

lemma split_on_plain [simp]: "c \<notin> set w \<Longrightarrow> split_on c w = [w]"
  by (induction w) auto

lemma split_on_append [simp]: "c \<notin> set w \<Longrightarrow> split_on c (w @ c # s) = w # split_on c s"
  by (induction w) auto

lemma join_Cons: "ws \<noteq> [] \<Longrightarrow> join_with c (w # ws) = w @ c # join_with c ws"
  by (cases ws) auto

lemma join_Cons_Cons: "join_with c ((x # w) # ws) = x # join_with c (w # ws)"
  by (cases ws) auto

lemma join_split [simp]: "join_with c (split_on c s) = s"
proof (induction s)
  case (Cons x xs)
  obtain w ws where w: "split_on c xs = w # ws" by (rule split_on_ConsE)
  with Cons show ?case by (cases ws) auto
qed simp

lemma split_join:
  "ws \<noteq> [] \<Longrightarrow> \<forall>w \<in> set ws. c \<notin> set w \<Longrightarrow> split_on c (join_with c ws) = ws"
  by (induction c ws rule: join_with.induct) auto

lemma split_once_Some_iff:
  "split_once c s = Some (a, b) \<longleftrightarrow> s = a @ c # b \<and> c \<notin> set a"
proof
  assume *: "split_once c s = Some (a, b)"
  then obtain d where d: "dropWhile (\<lambda>x. x \<noteq> c) s = d # b" and a: "a = takeWhile (\<lambda>x. x \<noteq> c) s"
    by (auto simp: split_once_def split: list.splits)
  from d have "d = c" using hd_dropWhile [of "\<lambda>x. x \<noteq> c" s] by simp
  with d a show "s = a @ c # b \<and> c \<notin> set a"
    by (metis (mono_tags, lifting) set_takeWhileD takeWhile_dropWhile_id)
next
  assume "s = a @ c # b \<and> c \<notin> set a"
  then have "dropWhile (\<lambda>x. x \<noteq> c) s = c # b" "takeWhile (\<lambda>x. x \<noteq> c) s = a"
    by (auto simp: dropWhile_append takeWhile_append)
  then show "split_once c s = Some (a, b)"
    by (simp add: split_once_def)
qed

lemma split_once_None_iff: "split_once c s = None \<longleftrightarrow> c \<notin> set s"
proof (cases "dropWhile (\<lambda>x. x \<noteq> c) s")
  case Nil
  then have "c \<notin> set s" by (auto simp: dropWhile_eq_Nil_conv)
  then show ?thesis unfolding split_once_def Nil by simp
next
  case (Cons d t)
  then have "c \<in> set s"
    by (metis (mono_tags, lifting) dropWhile_eq_Nil_conv list.distinct(1))
  then show ?thesis unfolding split_once_def Cons by simp
qed

section \<open>UTF-8\<close>

text \<open>
  \<open>std::str::from_utf8\<close> accepts exactly the well-formed sequences of the Unicode
  standard (table 3-7): no overlong form, no surrogate, nothing above U+10FFFF.
  \<open>utf8_next\<close> is one step of \<open>str::chars\<close>: the bytes of the first scalar value and
  the rest, \<open>None\<close> at the end or at an ill-formed sequence.
\<close>

definition utf8_cont :: "char \<Rightarrow> bool" where
  "utf8_cont c = (128 \<le> byte c \<and> byte c \<le> 191)"

fun utf8_width :: "string \<Rightarrow> nat" where
  "utf8_width [] = 0"
| "utf8_width (a # s) =
     (let n = byte a in
      if n < 128 then 1
      else if 194 \<le> n \<and> n \<le> 223 then
        (case s of b # _ \<Rightarrow> if utf8_cont b then 2 else 0 | _ \<Rightarrow> 0)
      else if 224 \<le> n \<and> n \<le> 239 then
        (case s of b # c # _ \<Rightarrow>
           if (if n = 224 then 160 \<le> byte b \<and> byte b \<le> 191
               else if n = 237 then 128 \<le> byte b \<and> byte b \<le> 159
               else utf8_cont b) \<and> utf8_cont c then 3 else 0
         | _ \<Rightarrow> 0)
      else if 240 \<le> n \<and> n \<le> 244 then
        (case s of b # c # d # _ \<Rightarrow>
           if (if n = 240 then 144 \<le> byte b \<and> byte b \<le> 191
               else if n = 244 then 128 \<le> byte b \<and> byte b \<le> 143
               else utf8_cont b) \<and> utf8_cont c \<and> utf8_cont d then 4 else 0
         | _ \<Rightarrow> 0)
      else 0)"

definition utf8_next :: "string \<Rightarrow> (uchar \<times> string) option" where
  "utf8_next s = (let w = utf8_width s in if w = 0 then None else Some (take w s, drop w s))"

function valid_utf8 :: "string \<Rightarrow> bool" where
  "valid_utf8 s =
     (s = [] \<or> (case utf8_next s of None \<Rightarrow> False | Some (_, t) \<Rightarrow> valid_utf8 t))"
  by pat_completeness auto

lemma utf8_next_smaller: "utf8_next s = Some (c, t) \<Longrightarrow> length t < length s"
  by (cases s) (auto simp: utf8_next_def Let_def split: if_splits)

termination valid_utf8
  by (relation "measure length") (auto dest: utf8_next_smaller)

declare valid_utf8.simps [simp del]

section \<open>Decimal integers\<close>

definition digit_char :: "nat \<Rightarrow> char" where
  "digit_char d = char_of (48 + d)"

definition digit_value :: "char \<Rightarrow> nat" where
  "digit_value c = byte c - 48"

text \<open>The \<open>Display\<close> form of an unsigned and of a signed integer.\<close>

fun show_nat :: "nat \<Rightarrow> string" where
  "show_nat n = (if n < 10 then [digit_char n] else show_nat (n div 10) @ [digit_char (n mod 10)])"

declare show_nat.simps [simp del]

definition show_int :: "int \<Rightarrow> string" where
  "show_int i = (if i < 0 then CHR ''-'' # show_nat (nat (- i)) else show_nat (nat i))"

text \<open>The width-3 zero-padded form \<open>{:03}\<close>.\<close>

definition show_padded :: "nat \<Rightarrow> nat \<Rightarrow> string" where
  "show_padded w n = (let s = show_nat n in replicate (w - length s) (CHR ''0'') @ s)"

fun parse_digits :: "nat \<Rightarrow> string \<Rightarrow> nat option" where
  "parse_digits acc [] = Some acc"
| "parse_digits acc (c # s) =
     (if is_ascii_digit c then parse_digits (10 * acc + digit_value c) s else None)"

text \<open>
  \<open>str::parse\<close> for the integer types: an optional sign (a minus only for a signed type),
  at least one digit, nothing else, and the value within the type. The library stops at the
  first overflow, which fails exactly when the finished value is out of range.
\<close>

definition parse_magnitude :: "string \<Rightarrow> nat option" where
  "parse_magnitude s = (if s = [] then None else parse_digits 0 s)"

definition parse_signed :: "nat \<Rightarrow> string \<Rightarrow> int option" where
  "parse_signed bits s =
     (let r = (case s of
                 [] \<Rightarrow> None
               | c # t \<Rightarrow>
                   if c = CHR ''-'' then map_option (\<lambda>n. - int n) (parse_magnitude t)
                   else if c = CHR ''+'' then map_option int (parse_magnitude t)
                   else map_option int (parse_magnitude s))
      in case r of
           None \<Rightarrow> None
         | Some i \<Rightarrow> if - (2 ^ (bits - 1)) \<le> i \<and> i < 2 ^ (bits - 1) then Some i else None)"

definition parse_unsigned :: "nat \<Rightarrow> string \<Rightarrow> nat option" where
  "parse_unsigned bits s =
     (let r = (case s of
                 [] \<Rightarrow> None
               | c # t \<Rightarrow> if c = CHR ''+'' then parse_magnitude t else parse_magnitude s)
      in case r of None \<Rightarrow> None | Some n \<Rightarrow> if n < 2 ^ bits then Some n else None)"

definition i32_range :: "i32 \<Rightarrow> bool" where
  "i32_range i = (- (2 ^ 31) \<le> i \<and> i < 2 ^ 31)"

definition parse_i32_str :: "string \<Rightarrow> i32 option" where
  "parse_i32_str s = parse_signed 32 s"

definition parse_u16_str :: "string \<Rightarrow> u16 option" where
  "parse_u16_str s = map_option of_nat (parse_unsigned 16 s)"

definition parse_u32_str :: "string \<Rightarrow> u32 option" where
  "parse_u32_str s = map_option of_nat (parse_unsigned 32 s)"

text \<open>
  Printing and parsing agree. A digit string is printed most significant first, so the
  parser's accumulator is what the printed prefix stands for.
\<close>

lemma digit_char_digit [simp]: "d < 10 \<Longrightarrow> is_ascii_digit (digit_char d)"
  by (simp add: is_ascii_digit_def digit_char_def)

lemma digit_value_char [simp]: "d < 10 \<Longrightarrow> digit_value (digit_char d) = d"
  by (simp add: digit_value_def digit_char_def)

lemma parse_digits_append:
  "parse_digits acc (s @ t) =
     (case parse_digits acc s of None \<Rightarrow> None | Some n \<Rightarrow> parse_digits n t)"
  by (induction acc s rule: parse_digits.induct) auto

lemma show_nat_ne [simp]: "show_nat n \<noteq> []"
  by (subst show_nat.simps) simp

lemma show_nat_digits: "c \<in> set (show_nat n) \<Longrightarrow> is_ascii_digit c"
proof (induction n rule: show_nat.induct)
  case (1 n)
  show ?case
  proof (cases "n < 10")
    case True
    with "1.prems" show ?thesis by (simp add: show_nat.simps [of n])
  next
    case False
    with "1.prems" have "c \<in> set (show_nat (n div 10)) \<or> c = digit_char (n mod 10)"
      by (auto simp: show_nat.simps [of n])
    with False "1.IH" show ?thesis by auto
  qed
qed

lemma parse_show_nat: "parse_digits 0 (show_nat n) = Some n"
proof (induction n rule: show_nat.induct)
  case (1 n)
  show ?case
  proof (cases "n < 10")
    case True
    then show ?thesis by (simp add: show_nat.simps [of n])
  next
    case False
    with 1 have "parse_digits 0 (show_nat (n div 10)) = Some (n div 10)" by simp
    with False show ?thesis by (simp add: show_nat.simps [of n] parse_digits_append)
  qed
qed

lemma parse_magnitude_show [simp]: "parse_magnitude (show_nat n) = Some n"
  by (simp add: parse_magnitude_def parse_show_nat)

lemma sign_not_digit [simp]: "\<not> is_ascii_digit (CHR ''-'')" "\<not> is_ascii_digit (CHR ''+'')"
  by (simp_all add: is_ascii_digit_def byte_def)

lemma show_nat_unsigned:
  assumes "show_nat n = c # t"
  shows "c \<noteq> CHR ''-'' \<and> c \<noteq> CHR ''+''"
proof -
  from assms have "is_ascii_digit c" using show_nat_digits [of c n] by simp
  then show ?thesis by auto
qed

lemma parse_show_i32: "i32_range i \<Longrightarrow> parse_i32_str (show_int i) = Some i"
proof (cases "i < 0")
  case True
  moreover assume "i32_range i"
  ultimately show ?thesis
    by (simp add: parse_i32_str_def parse_signed_def show_int_def i32_range_def)
next
  case False
  obtain c t where ct: "show_nat (nat i) = c # t" by (cases "show_nat (nat i)") auto
  from show_nat_unsigned [OF this] have "c \<noteq> CHR ''-''" "c \<noteq> CHR ''+''" by auto
  moreover from ct have "parse_magnitude (c # t) = Some (nat i)"
    using parse_magnitude_show [of "nat i"] by simp
  moreover assume "i32_range i"
  ultimately show ?thesis
    using False ct by (simp add: parse_i32_str_def parse_signed_def show_int_def i32_range_def)
qed

lemma parse_i32_range: "parse_i32_str s = Some i \<Longrightarrow> i32_range i"
  by (auto simp: parse_i32_str_def parse_signed_def i32_range_def Let_def
      split: option.splits if_splits)

lemma parse_show_unsigned: "n < 2 ^ bits \<Longrightarrow> parse_unsigned bits (show_nat n) = Some n"
proof -
  assume n: "n < 2 ^ bits"
  obtain c t where ct: "show_nat n = c # t" by (cases "show_nat n") auto
  from show_nat_unsigned [OF this] have "c \<noteq> CHR ''+''" by auto
  moreover from ct have "parse_magnitude (c # t) = Some n"
    using parse_magnitude_show [of n] by simp
  ultimately show ?thesis using n ct by (simp add: parse_unsigned_def)
qed

interpretation i32_text: wire_codec show_int "\<lambda>s. ok_or () (parse_i32_str s)" i32_range
  by unfold_locales (simp add: parse_show_i32)

lemma show_nat_no_colon [text_simps]: "CHR '':'' \<notin> set (show_nat n)"
  using show_nat_digits [of "CHR '':''" n] by (auto simp: is_ascii_digit_def byte_def)

lemma show_int_no_colon [text_simps]: "CHR '':'' \<notin> set (show_int i)"
  by (auto simp: show_int_def show_nat_no_colon)

lemma show_nat_no_delim: "c \<in> set (show_nat n) \<Longrightarrow> \<not> is_delim c"
  using show_nat_digits [of c n] by (auto simp: is_ascii_digit_def is_delim_def cr_def lf_def byte_def)

lemma show_int_no_delim: "c \<in> set (show_int i) \<Longrightarrow> \<not> is_delim c"
  using show_nat_no_delim
  by (auto simp: show_int_def is_delim_def cr_def lf_def split: if_splits)

end
