(* ===== verification/Float64.thy ===== *)
theory Float64
  imports Prelude
begin

text \<open>
  Rust's \<open>f64\<close>: the IEEE 754 binary64 values, with the operations the program uses.
  A finite value is a sign (\<open>True\<close> is negative, so that the two zeros differ) and a
  non-negative rational magnitude; every operation that must round computes the exact
  rational and rounds it to nearest, ties to even, as the standard requires. Everything is
  executable.

  The documentation of the standard library leaves the precision of \<open>sin\<close>, \<open>cos\<close>,
  \<open>atan2\<close> and \<open>powi\<close> unspecified (it may differ between platforms and builds), so these
  four are the fields of a parameter of type \<open>libm\<close>, not definitions.
\<close>

datatype f64 = F64_NaN | F64_Inf bool | F64_Fin bool rat

fun f64_signed :: "bool \<Rightarrow> rat \<Rightarrow> rat" where
  "f64_signed s q = (if s then - q else q)"

section \<open>Comparison and classification\<close>

fun f64_is_finite :: "f64 \<Rightarrow> bool" where
  "f64_is_finite (F64_Fin _ _) = True"
| "f64_is_finite _ = False"

text \<open>\<open>x <= y\<close>: false as soon as one side is NaN, and the two zeros are equal.\<close>

fun f64_le :: "f64 \<Rightarrow> f64 \<Rightarrow> bool" where
  "f64_le F64_NaN _ = False"
| "f64_le _ F64_NaN = False"
| "f64_le (F64_Inf s) (F64_Inf t) = (s \<or> \<not> t)"
| "f64_le (F64_Inf s) (F64_Fin _ _) = s"
| "f64_le (F64_Fin _ _) (F64_Inf t) = (\<not> t)"
| "f64_le (F64_Fin s p) (F64_Fin t q) = (f64_signed s p \<le> f64_signed t q)"

definition f64_lt :: "f64 \<Rightarrow> f64 \<Rightarrow> bool" where
  "f64_lt x y = (f64_le x y \<and> \<not> f64_le y x)"

text \<open>\<open>(lo..=hi).contains(&x)\<close>.\<close>

definition f64_in_range :: "f64 \<Rightarrow> f64 \<Rightarrow> f64 \<Rightarrow> bool" where
  "f64_in_range lo hi x = (f64_le lo x \<and> f64_le x hi)"

section \<open>Rounding to binary64\<close>

fun ilog2 :: "nat \<Rightarrow> nat" where
  "ilog2 n = (if n < 2 then 0 else Suc (ilog2 (n div 2)))"

declare ilog2.simps [simp del]

definition pow2 :: "int \<Rightarrow> rat" where
  "pow2 e = (if 0 \<le> e then 2 ^ nat e else 1 / 2 ^ nat (- e))"

text \<open>The binary exponent of a positive rational: \<open>pow2 e \<le> q < pow2 (e + 1)\<close>.\<close>

definition rat_exponent :: "rat \<Rightarrow> int" where
  "rat_exponent q =
     (case quotient_of q of (n, d) \<Rightarrow>
       let e = int (ilog2 (nat n)) - int (ilog2 (nat d)) in if pow2 e \<le> q then e else e - 1)"

definition round_half_even :: "rat \<Rightarrow> int" where
  "round_half_even q =
     (let f = \<lfloor>q\<rfloor>; r = q - of_int f
      in if r < 1 / 2 then f else if 1 / 2 < r then f + 1 else if even f then f else f + 1)"

text \<open>The weight of the last place at a given exponent, subnormals included.\<close>

definition ulp_exponent :: "int \<Rightarrow> int" where
  "ulp_exponent e = max (e - 52) (- 1074)"

definition f64_round :: "bool \<Rightarrow> rat \<Rightarrow> f64" where
  "f64_round s q =
     (if q = 0 then F64_Fin s 0
      else let u = pow2 (ulp_exponent (rat_exponent q));
               m = of_int (round_half_even (q / u)) * u
           in if 2 ^ 1024 \<le> m then F64_Inf s else F64_Fin s m)"

text \<open>A literal of the source, and the lossless \<open>f64::from(i32)\<close>.\<close>

definition f64_lit :: "rat \<Rightarrow> f64" where
  "f64_lit q = f64_round (q < 0) \<bar>q\<bar>"

definition f64_of_i32 :: "i32 \<Rightarrow> f64" where
  "f64_of_i32 i = F64_Fin (i < 0) (of_int \<bar>i\<bar>)"

section \<open>Arithmetic\<close>

fun f64_neg :: "f64 \<Rightarrow> f64" where
  "f64_neg F64_NaN = F64_NaN"
| "f64_neg (F64_Inf s) = F64_Inf (\<not> s)"
| "f64_neg (F64_Fin s q) = F64_Fin (\<not> s) q"

fun f64_add :: "f64 \<Rightarrow> f64 \<Rightarrow> f64" where
  "f64_add F64_NaN _ = F64_NaN"
| "f64_add _ F64_NaN = F64_NaN"
| "f64_add (F64_Inf s) (F64_Inf t) = (if s = t then F64_Inf s else F64_NaN)"
| "f64_add (F64_Inf s) (F64_Fin _ _) = F64_Inf s"
| "f64_add (F64_Fin _ _) (F64_Inf t) = F64_Inf t"
| "f64_add (F64_Fin s p) (F64_Fin t q) =
     (let r = f64_signed s p + f64_signed t q
      in if r = 0 then F64_Fin (s \<and> t) 0 else f64_round (r < 0) \<bar>r\<bar>)"

definition f64_sub :: "f64 \<Rightarrow> f64 \<Rightarrow> f64" where
  "f64_sub x y = f64_add x (f64_neg y)"

fun f64_mul :: "f64 \<Rightarrow> f64 \<Rightarrow> f64" where
  "f64_mul F64_NaN _ = F64_NaN"
| "f64_mul _ F64_NaN = F64_NaN"
| "f64_mul (F64_Inf s) (F64_Inf t) = F64_Inf (s \<noteq> t)"
| "f64_mul (F64_Inf s) (F64_Fin t q) = (if q = 0 then F64_NaN else F64_Inf (s \<noteq> t))"
| "f64_mul (F64_Fin s p) (F64_Inf t) = (if p = 0 then F64_NaN else F64_Inf (s \<noteq> t))"
| "f64_mul (F64_Fin s p) (F64_Fin t q) = f64_round (s \<noteq> t) (p * q)"

fun f64_div :: "f64 \<Rightarrow> f64 \<Rightarrow> f64" where
  "f64_div F64_NaN _ = F64_NaN"
| "f64_div _ F64_NaN = F64_NaN"
| "f64_div (F64_Inf _) (F64_Inf _) = F64_NaN"
| "f64_div (F64_Inf s) (F64_Fin t _) = F64_Inf (s \<noteq> t)"
| "f64_div (F64_Fin s _) (F64_Inf t) = F64_Fin (s \<noteq> t) 0"
| "f64_div (F64_Fin s p) (F64_Fin t q) =
     (if q = 0 then if p = 0 then F64_NaN else F64_Inf (s \<noteq> t) else f64_round (s \<noteq> t) (p / q))"

text \<open>\<open>f64::max\<close> ignores a NaN when the other side is a number.\<close>

definition f64_max :: "f64 \<Rightarrow> f64 \<Rightarrow> f64" where
  "f64_max x y =
     (if x = F64_NaN then y else if y = F64_NaN then x else if f64_le x y then y else x)"

fun f64_trunc :: "f64 \<Rightarrow> f64" where
  "f64_trunc (F64_Fin s q) = F64_Fin s (of_int \<lfloor>q\<rfloor>)"
| "f64_trunc x = x"

section \<open>Square root\<close>

text \<open>
  Correctly rounded: the root of \<open>q\<close> in units of the last place is the integer square
  root of \<open>q / u\<^sup>2\<close>, and the remainder decides the direction. The integer root halves
  the length of its argument in every call.
\<close>

fun isqrt :: "nat \<Rightarrow> nat" where
  "isqrt n =
     (if n = 0 then 0
      else let r = 2 * isqrt (n div 4) in if (r + 1) * (r + 1) \<le> n then r + 1 else r)"

declare isqrt.simps [simp del]

definition f64_sqrt_mag :: "rat \<Rightarrow> rat" where
  "f64_sqrt_mag q =
     (if q = 0 then 0
      else let e = rat_exponent q div 2;
               u = pow2 (ulp_exponent e);
               t = q / (u * u);
               r = int (isqrt (nat \<lfloor>t\<rfloor>))
           in (if (of_int r + 1 / 2) * (of_int r + 1 / 2) < t
                  \<or> (of_int r + 1 / 2) * (of_int r + 1 / 2) = t \<and> odd r
               then of_int (r + 1) else of_int r) * u)"

fun f64_sqrt :: "f64 \<Rightarrow> f64" where
  "f64_sqrt F64_NaN = F64_NaN"
| "f64_sqrt (F64_Inf s) = (if s then F64_NaN else F64_Inf False)"
| "f64_sqrt (F64_Fin s q) =
     (if q = 0 then F64_Fin s 0 else if s then F64_NaN else F64_Fin False (f64_sqrt_mag q))"

section \<open>Angles and the mathematical library\<close>

text \<open>\<open>f64::to_radians\<close> multiplies by the constant \<open>PI / 180.0\<close>.\<close>

definition f64_pi :: f64 where
  "f64_pi = f64_lit (314159265358979323846264338327950288 / 10 ^ 35)"

definition f64_to_radians :: "f64 \<Rightarrow> f64" where
  "f64_to_radians x = f64_mul x (f64_div f64_pi (f64_lit 180))"

record libm =
  lm_sin :: "f64 \<Rightarrow> f64"
  lm_cos :: "f64 \<Rightarrow> f64"
  lm_atan2 :: "f64 \<Rightarrow> f64 \<Rightarrow> f64"
  lm_powi :: "f64 \<Rightarrow> i32 \<Rightarrow> f64"

section \<open>Facts about the order\<close>

lemma f64_le_refl [simp]: "x \<noteq> F64_NaN \<Longrightarrow> f64_le x x"
  by (cases x) auto

lemma f64_le_NaN [simp]: "\<not> f64_le x F64_NaN" "\<not> f64_le F64_NaN x"
  by (cases x, auto)+

lemma f64_le_trans: "f64_le x y \<Longrightarrow> f64_le y z \<Longrightarrow> f64_le x z"
  by (cases x; cases y; cases z) auto

lemma f64_le_total: "x \<noteq> F64_NaN \<Longrightarrow> y \<noteq> F64_NaN \<Longrightarrow> f64_le x y \<or> f64_le y x"
  by (cases x; cases y) auto

lemma f64_le_max1: "x \<noteq> F64_NaN \<Longrightarrow> f64_le x (f64_max x y)"
  using f64_le_total [of x y] by (auto simp: f64_max_def)

lemma f64_le_max2: "y \<noteq> F64_NaN \<Longrightarrow> f64_le y (f64_max x y)"
  using f64_le_total [of x y] by (auto simp: f64_max_def)

lemma f64_max_le_iff:
  "x \<noteq> F64_NaN \<Longrightarrow> y \<noteq> F64_NaN \<Longrightarrow> f64_le d (f64_max x y) \<longleftrightarrow> f64_le d x \<or> f64_le d y"
  using f64_le_total [of x y] f64_le_trans [of d x y] f64_le_trans [of d y x]
  by (auto simp: f64_max_def)

lemma f64_finite_not_NaN: "f64_is_finite x \<Longrightarrow> x \<noteq> F64_NaN"
  by auto

lemma f64_of_i32_finite [simp]: "f64_is_finite (f64_of_i32 i)"
  by (simp add: f64_of_i32_def)

section \<open>The integer square root is the floor of the root\<close>

lemma isqrt_bounds: "isqrt n * isqrt n \<le> n \<and> n < (isqrt n + 1) * (isqrt n + 1)"
proof (induction n rule: isqrt.induct)
  case (1 n)
  show ?case
  proof (cases "n = 0")
    case True
    then show ?thesis by (simp add: isqrt.simps)
  next
    case False
    define k where "k = isqrt (n div 4)"
    from False 1 have lo: "k * k \<le> n div 4" and hi: "n div 4 < (k + 1) * (k + 1)"
      unfolding k_def by auto
    from lo have lo4: "2 * k * (2 * k) \<le> n" by (auto simp: algebra_simps)
    from hi have "n div 4 + 1 \<le> (k + 1) * (k + 1)" by simp
    then have "4 * (n div 4 + 1) \<le> 4 * ((k + 1) * (k + 1))" by (rule mult_le_mono2)
    moreover have "n < 4 * (n div 4 + 1)" by simp
    ultimately have hi4: "n < (2 * k + 2) * (2 * k + 2)" by (simp add: algebra_simps)
    from False have "isqrt n = (if (2 * k + 1) * (2 * k + 1) \<le> n then 2 * k + 1 else 2 * k)"
      by (simp add: isqrt.simps [of n] k_def Let_def)
    with lo4 hi4 show ?thesis by (auto simp: algebra_simps)
  qed
qed

section \<open>Integer literals are exact\<close>

lemma ilog2_le: "0 < n \<Longrightarrow> 2 ^ ilog2 n \<le> n"
proof (induction n rule: ilog2.induct)
  case (1 n)
  show ?case
  proof (cases "n < 2")
    case True
    with 1 show ?thesis by (simp add: ilog2.simps [of n])
  next
    case False
    with 1 have "2 ^ ilog2 (n div 2) \<le> n div 2" by simp
    with False show ?thesis by (simp add: ilog2.simps [of n])
  qed
qed

lemma ilog2_bound: "n < 2 ^ Suc k \<Longrightarrow> ilog2 n \<le> k"
proof (induction k arbitrary: n)
  case (Suc k)
  show ?case
  proof (cases "n < 2")
    case False
    then show ?thesis using Suc.IH [of "n div 2"] Suc.prems by (simp add: ilog2.simps [of n])
  qed (simp add: ilog2.simps [of n])
qed (subst ilog2.simps, simp)

lemma round_half_even_int: "round_half_even (of_int n) = n"
  by (simp add: round_half_even_def)

text \<open>An integer below \<open>2 ^ 53\<close> is represented exactly.\<close>

lemma f64_round_int:
  assumes "0 \<le> n" "n < 2 ^ 53"
  shows "f64_round s (of_int n) = F64_Fin s (of_int n)"
proof (cases "n = 0")
  case False
  let ?e = "int (ilog2 (nat n))"
  have le: "2 ^ ilog2 (nat n) \<le> nat n" using assms False by (intro ilog2_le) auto
  then have "int (2 ^ ilog2 (nat n)) \<le> n" using assms(1) by linarith
  then have "of_int (2 ^ ilog2 (nat n)) \<le> (of_int n :: rat)" by (simp only: of_int_le_iff) simp
  then have "pow2 ?e \<le> of_int n" by (simp add: pow2_def)
  moreover have "ilog2 1 = 0" by (simp add: ilog2.simps)
  ultimately have e: "rat_exponent (of_int n) = ?e"
    by (simp add: rat_exponent_def Let_def)
  have "nat n < 2 ^ Suc 52" using assms by simp
  then have b: "ilog2 (nat n) \<le> 52" by (rule ilog2_bound)
  have u: "pow2 (ulp_exponent ?e) = 1 / 2 ^ (52 - ilog2 (nat n))"
    using b by (auto simp: pow2_def ulp_exponent_def max_def nat_diff_distrib)
  have "(of_int n :: rat) / pow2 (ulp_exponent ?e) = of_int (n * 2 ^ (52 - ilog2 (nat n)))"
    by (simp add: u)
  then have "of_int (round_half_even (of_int n / pow2 (ulp_exponent ?e))) * pow2 (ulp_exponent ?e) = (of_int n :: rat)"
    by (simp only: round_half_even_int) (simp add: u)
  moreover have "(of_int n :: rat) < 2 ^ 1024"
  proof -
    have "n < 2 ^ 1024" using assms(2) by simp
    then have "of_int n < (of_int (2 ^ 1024) :: rat)" by (simp only: of_int_less_iff)
    then show ?thesis by simp
  qed
  ultimately show ?thesis using False by (simp add: f64_round_def e Let_def)
qed (simp add: f64_round_def)

lemma f64_lit_numeral [simp]:
  "numeral k < (2 ^ 53 :: int) \<Longrightarrow> f64_lit (numeral k) = F64_Fin False (numeral k)"
  "numeral k < (2 ^ 53 :: int) \<Longrightarrow> f64_lit (- numeral k) = F64_Fin True (numeral k)"
  using f64_round_int [of "numeral k"] by (simp_all add: f64_lit_def)

lemma f64_lit_0 [simp]: "f64_lit 0 = F64_Fin False 0" "f64_lit 1 = F64_Fin False 1"
  using f64_round_int [of 0] f64_round_int [of 1] by (simp_all add: f64_lit_def)

end
