(* ===== verification/Domain.thy ===== *)
theory Domain
  imports Rust_Text Float64
begin

text \<open>
  The protocol-independent domain model (crate \<open>aster_fsd_model\<close>): validated callsigns,
  ratings, destinations, positions, flight plans, sessions, commands and events, with the
  validation functions and the wire conversions of the ratings.

  Naming. A struct is a record whose fields carry a short prefix (two records may share a
  field name in Rust, not in HOL); an enum is a datatype whose constructors carry a prefix
  where the bare name of the source is shared by several enums.
\<close>

section \<open>Errors (error.rs)\<close>

datatype model_error =
    InvalidCallsignLength
  | InvalidCallsignCharacter
  | EmptyDestination
  | InvalidField string string

text \<open>The \<open>Display\<close> form, from the \<open>#[error(..)]\<close> attributes.\<close>

fun model_error_text :: "model_error \<Rightarrow> string" where
  "model_error_text InvalidCallsignLength = ''callsign must contain between 2 and 12 ASCII bytes''"
| "model_error_text InvalidCallsignCharacter = ''callsign contains a reserved character''"
| "model_error_text EmptyDestination = ''destination is empty''"
| "model_error_text (InvalidField field reason) =
     ''field '' @ field @ '' is invalid: '' @ reason"

datatype error_code =
    E_NoError | E_CallsignInUse | E_InvalidCallsign | E_AlreadyRegistered | E_Syntax
  | E_InvalidSource | E_InvalidCredentials | E_NoSuchCallsign | E_NoFlightPlan | E_NoWeather
  | E_InvalidProtocolRevision | E_RequestedLevelTooHigh | E_ServerFull | E_Suspended
  | E_UnauthorizedClient

text \<open>The discriminant, \<open>code as u16\<close>.\<close>

fun error_code_number :: "error_code \<Rightarrow> nat" where
  "error_code_number E_NoError = 0"
| "error_code_number E_CallsignInUse = 1"
| "error_code_number E_InvalidCallsign = 2"
| "error_code_number E_AlreadyRegistered = 3"
| "error_code_number E_Syntax = 4"
| "error_code_number E_InvalidSource = 5"
| "error_code_number E_InvalidCredentials = 6"
| "error_code_number E_NoSuchCallsign = 7"
| "error_code_number E_NoFlightPlan = 8"
| "error_code_number E_NoWeather = 9"
| "error_code_number E_InvalidProtocolRevision = 10"
| "error_code_number E_RequestedLevelTooHigh = 11"
| "error_code_number E_ServerFull = 12"
| "error_code_number E_Suspended = 13"
| "error_code_number E_UnauthorizedClient = 16"

fun description :: "error_code \<Rightarrow> string" where
  "description E_NoError = ''No error''"
| "description E_CallsignInUse = ''Callsign in use''"
| "description E_InvalidCallsign = ''Invalid callsign''"
| "description E_AlreadyRegistered = ''Already registerd''"
| "description E_Syntax = ''Syntax error''"
| "description E_InvalidSource = ''Invalid source callsign''"
| "description E_InvalidCredentials = ''Invalid CID/password''"
| "description E_NoSuchCallsign = ''No such callsign''"
| "description E_NoFlightPlan = ''No flightplan''"
| "description E_NoWeather = ''No such weather profile''"
| "description E_InvalidProtocolRevision = ''Invalid protocol revision''"
| "description E_RequestedLevelTooHigh = ''Requested level too high''"
| "description E_ServerFull = ''Too many clients connected''"
| "description E_Suspended = ''CID/PID was suspended''"
| "description E_UnauthorizedClient = ''Unauthorized client software''"

section \<open>Callsigns (identity.rs)\<close>

datatype callsign = Callsign (as_str: string)

definition reserved_callsign_byte :: "char \<Rightarrow> bool" where
  "reserved_callsign_byte c =
     (c \<in> {CHR ''!'', CHR ''@'', CHR ''#'', CHR ''$'', CHR ''%'', CHR ''*'', CHR '':'',
           CHR ''&'', CHR '' '', CHR 0x09})"

definition callsign_parse :: "string \<Rightarrow> model_error + callsign" where
  "callsign_parse s =
     (if \<not> (2 \<le> length s \<and> length s \<le> 12) \<or> \<not> is_ascii s then Inl InvalidCallsignLength
      else if list_ex reserved_callsign_byte s then Inl InvalidCallsignCharacter
      else Inr (Callsign (to_ascii_uppercase s)))"

text \<open>What the private constructor guarantees of every callsign value.\<close>

definition wf_callsign :: "callsign \<Rightarrow> bool" where
  "wf_callsign c =
     (2 \<le> length (as_str c) \<and> length (as_str c) \<le> 12 \<and> is_ascii (as_str c)
      \<and> list_all (\<lambda>b. \<not> reserved_callsign_byte b) (as_str c)
      \<and> to_ascii_uppercase (as_str c) = as_str c)"

lemma reserved_upper [simp]: "reserved_callsign_byte (upper_byte b) = reserved_callsign_byte b"
  unfolding reserved_callsign_byte_def insert_iff empty_iff
  by (simp add: upper_byte_fixed byte_def)

lemma list_ex_reserved_upper [simp]:
  "list_ex reserved_callsign_byte (to_ascii_uppercase s) = list_ex reserved_callsign_byte s"
  by (simp add: to_ascii_uppercase_def list_ex_iff)

lemma list_all_reserved_upper [simp]:
  "list_all (\<lambda>b. \<not> reserved_callsign_byte b) (to_ascii_uppercase s)
   = list_all (\<lambda>b. \<not> reserved_callsign_byte b) s"
  by (simp add: to_ascii_uppercase_def list_all_iff)

lemma callsign_parse_upper: "callsign_parse (to_ascii_uppercase s) = callsign_parse s"
  by (simp add: callsign_parse_def)

lemma callsign_parse_wf: "callsign_parse s = Inr c \<Longrightarrow> wf_callsign c"
  by (auto simp: callsign_parse_def wf_callsign_def list_ex_iff list_all_iff [symmetric]
      split: if_splits)

lemma callsign_parse_as_str: "wf_callsign c \<Longrightarrow> callsign_parse (as_str c) = Inr c"
  by (cases c) (auto simp: callsign_parse_def wf_callsign_def list_ex_iff list_all_iff)

interpretation callsign_text: wire_codec as_str callsign_parse wf_callsign
  by unfold_locales (rule callsign_parse_as_str)

lemma wf_callsign_no_reserved:
  "wf_callsign c \<Longrightarrow> b \<in> set (as_str c) \<Longrightarrow> \<not> reserved_callsign_byte b"
  by (simp add: wf_callsign_def list_all_iff)

lemma wf_callsign_no_colon: "wf_callsign c \<Longrightarrow> CHR '':'' \<notin> set (as_str c)"
  using wf_callsign_no_reserved [of c "CHR '':''"] by (auto simp: reserved_callsign_byte_def)

lemma wf_callsign_ne: "wf_callsign c \<Longrightarrow> as_str c \<noteq> []"
  by (auto simp: wf_callsign_def)

section \<open>Roles and ratings (identity.rs)\<close>

datatype client_type = Pilot | Atc | Observer

datatype atc_rating =
    Atc_Suspended | Atc_Observer | Student1 | Student2 | Student3 | Controller1 | Controller2
  | Controller3 | Instructor1 | Instructor2 | Instructor3 | Supervisor | Administrator

fun atc_wire_value :: "atc_rating \<Rightarrow> i32" where
  "atc_wire_value Atc_Suspended = 0"
| "atc_wire_value Atc_Observer = 1"
| "atc_wire_value Student1 = 2"
| "atc_wire_value Student2 = 3"
| "atc_wire_value Student3 = 4"
| "atc_wire_value Controller1 = 5"
| "atc_wire_value Controller2 = 6"
| "atc_wire_value Controller3 = 7"
| "atc_wire_value Instructor1 = 8"
| "atc_wire_value Instructor2 = 9"
| "atc_wire_value Instructor3 = 10"
| "atc_wire_value Supervisor = 11"
| "atc_wire_value Administrator = 12"

definition atc_allows_wire_value :: "atc_rating \<Rightarrow> i32 \<Rightarrow> bool" where
  "atc_allows_wire_value r requested =
     (r \<noteq> Atc_Suspended \<and> (1 \<le> requested \<and> requested \<le> 12) \<and> requested \<le> atc_wire_value r)"

definition atc_try_from :: "i32 \<Rightarrow> model_error + atc_rating" where
  "atc_try_from n =
     (if n = 0 then Inr Atc_Suspended
      else if n = 1 then Inr Atc_Observer
      else if n = 2 then Inr Student1
      else if n = 3 then Inr Student2
      else if n = 4 then Inr Student3
      else if n = 5 then Inr Controller1
      else if n = 6 then Inr Controller2
      else if n = 7 then Inr Controller3
      else if n = 8 then Inr Instructor1
      else if n = 9 then Inr Instructor2
      else if n = 10 then Inr Instructor3
      else if n = 11 then Inr Supervisor
      else if n = 12 then Inr Administrator
      else Inl (InvalidField ''ATC rating'' ''must be a recognized classic FSD certification level''))"

datatype pilot_rating =
    Unrated | PrivatePilotLicense | InstrumentRating | CommercialMultiEngineLicense
  | AirlineTransportPilotLicense | FlightInstructor | FlightExaminer

fun pilot_wire_value :: "pilot_rating \<Rightarrow> i32" where
  "pilot_wire_value Unrated = 0"
| "pilot_wire_value PrivatePilotLicense = 1"
| "pilot_wire_value InstrumentRating = 3"
| "pilot_wire_value CommercialMultiEngineLicense = 7"
| "pilot_wire_value AirlineTransportPilotLicense = 15"
| "pilot_wire_value FlightInstructor = 31"
| "pilot_wire_value FlightExaminer = 63"

definition pilot_allows_wire_value :: "pilot_rating \<Rightarrow> i32 \<Rightarrow> bool" where
  "pilot_allows_wire_value r requested =
     (r \<noteq> Unrated \<and> requested \<in> {1, 3, 7, 15, 31, 63} \<and> requested \<le> pilot_wire_value r)"

definition pilot_try_from :: "i32 \<Rightarrow> model_error + pilot_rating" where
  "pilot_try_from n =
     (if n = 0 then Inr Unrated
      else if n = 1 then Inr PrivatePilotLicense
      else if n = 3 then Inr InstrumentRating
      else if n = 7 then Inr CommercialMultiEngineLicense
      else if n = 15 then Inr AirlineTransportPilotLicense
      else if n = 31 then Inr FlightInstructor
      else if n = 63 then Inr FlightExaminer
      else Inl (InvalidField ''pilot rating''
             ''must be a recognized VATSIM cumulative certification level''))"

record authenticated_identity =
  ai_network_id :: string
  ai_real_name :: string
  ai_atc_rating :: atc_rating
  ai_pilot_rating :: pilot_rating
  ai_suspended :: bool

text \<open>The certification levels are ordered by their wire values.\<close>

lemma atc_wire_value_inj: "atc_wire_value r = atc_wire_value q \<longleftrightarrow> r = q"
  by (cases r; cases q) simp_all

lemma pilot_wire_value_inj: "pilot_wire_value r = pilot_wire_value q \<longleftrightarrow> r = q"
  by (cases r; cases q) simp_all

instantiation atc_rating :: linorder
begin

definition less_eq_atc_rating :: "atc_rating \<Rightarrow> atc_rating \<Rightarrow> bool" where
  "less_eq_atc_rating r q = (atc_wire_value r \<le> atc_wire_value q)"

definition less_atc_rating :: "atc_rating \<Rightarrow> atc_rating \<Rightarrow> bool" where
  "less_atc_rating r q = (atc_wire_value r < atc_wire_value q)"

instance
  by standard (auto simp: less_eq_atc_rating_def less_atc_rating_def atc_wire_value_inj)

end

instantiation pilot_rating :: linorder
begin

definition less_eq_pilot_rating :: "pilot_rating \<Rightarrow> pilot_rating \<Rightarrow> bool" where
  "less_eq_pilot_rating r q = (pilot_wire_value r \<le> pilot_wire_value q)"

definition less_pilot_rating :: "pilot_rating \<Rightarrow> pilot_rating \<Rightarrow> bool" where
  "less_pilot_rating r q = (pilot_wire_value r < pilot_wire_value q)"

instance
  by standard (auto simp: less_eq_pilot_rating_def less_pilot_rating_def pilot_wire_value_inj)

end

lemma atc_try_from_wire: "atc_try_from (atc_wire_value r) = Inr r"
  by (cases r) (simp_all add: atc_try_from_def)

lemma atc_try_from_Inr: "atc_try_from n = Inr r \<Longrightarrow> atc_wire_value r = n"
  by (auto simp: atc_try_from_def split: if_splits)

lemma pilot_try_from_wire: "pilot_try_from (pilot_wire_value r) = Inr r"
  by (cases r) (simp_all add: pilot_try_from_def)

lemma pilot_try_from_Inr: "pilot_try_from n = Inr r \<Longrightarrow> pilot_wire_value r = n"
  by (auto simp: pilot_try_from_def split: if_splits)

interpretation atc_level: canonical_codec atc_wire_value atc_try_from "\<lambda>_. True"
  by unfold_locales (auto simp: atc_try_from_wire dest: atc_try_from_Inr)

interpretation pilot_level: canonical_codec pilot_wire_value pilot_try_from "\<lambda>_. True"
  by unfold_locales (auto simp: pilot_try_from_wire dest: pilot_try_from_Inr)

lemma atc_allows_iff:
  "atc_allows_wire_value r n \<longleftrightarrow> n \<noteq> 0 \<and> (\<exists>q. atc_try_from n = Inr q \<and> q \<le> r)"
proof
  assume a: "atc_allows_wire_value r n"
  then have "n \<in> {1..12}" by (simp add: atc_allows_wire_value_def)
  then have "n \<noteq> 0 \<and> (\<exists>q. atc_try_from n = Inr q)"
    unfolding atc_try_from_def by auto arith
  then obtain q where q: "n \<noteq> 0" "atc_try_from n = Inr q" by blast
  with a show "n \<noteq> 0 \<and> (\<exists>q. atc_try_from n = Inr q \<and> q \<le> r)"
    by (auto simp: atc_allows_wire_value_def less_eq_atc_rating_def dest: atc_try_from_Inr)
next
  assume "n \<noteq> 0 \<and> (\<exists>q. atc_try_from n = Inr q \<and> q \<le> r)"
  then obtain q where n: "n \<noteq> 0" and q: "atc_try_from n = Inr q" "q \<le> r" by blast
  from q(1) have "atc_wire_value q = n" by (rule atc_try_from_Inr)
  with n q(2) show "atc_allows_wire_value r n"
    by (cases q; cases r) (auto simp: atc_allows_wire_value_def less_eq_atc_rating_def)
qed

lemma pilot_allows_iff:
  "pilot_allows_wire_value r n \<longleftrightarrow> n \<noteq> 0 \<and> (\<exists>q. pilot_try_from n = Inr q \<and> q \<le> r)"
proof
  assume a: "pilot_allows_wire_value r n"
  then have "n \<in> {1, 3, 7, 15, 31, 63}" by (simp add: pilot_allows_wire_value_def)
  then have "n \<noteq> 0 \<and> (\<exists>q. pilot_try_from n = Inr q)"
    by (auto simp: pilot_try_from_def)
  then obtain q where q: "n \<noteq> 0" "pilot_try_from n = Inr q" by blast
  with a show "n \<noteq> 0 \<and> (\<exists>q. pilot_try_from n = Inr q \<and> q \<le> r)"
    by (auto simp: pilot_allows_wire_value_def less_eq_pilot_rating_def dest: pilot_try_from_Inr)
next
  assume "n \<noteq> 0 \<and> (\<exists>q. pilot_try_from n = Inr q \<and> q \<le> r)"
  then obtain q where n: "n \<noteq> 0" and q: "pilot_try_from n = Inr q" "q \<le> r" by blast
  from q(1) have "pilot_wire_value q = n" by (rule pilot_try_from_Inr)
  with n q(2) show "pilot_allows_wire_value r n"
    by (cases q; cases r) (auto simp: pilot_allows_wire_value_def less_eq_pilot_rating_def)
qed

section \<open>Routing targets and message kinds (routing.rs)\<close>

datatype destination =
    To_Server | To_Direct callsign | To_All | To_Atc | To_Pilots | To_Range string

definition destination_parse :: "string \<Rightarrow> model_error + destination" where
  "destination_parse v =
     (if v = [] then Inl EmptyDestination
      else let u = to_ascii_uppercase v in
        if u = ''SERVER'' then Inr To_Server
        else if u = ''*'' then Inr To_All
        else if u = ''*A'' then Inr To_Atc
        else if u = ''*P'' then Inr To_Pilots
        else if hd v = CHR ''@'' then Inr (To_Range v)
        else map_sum id To_Direct (callsign_parse v))"

datatype query_kind =
    Q_RealName | Q_FlightPlan | Q_Capabilities | Q_Atis | Q_SystemInfo | Q_AircraftConfiguration
  | Q_Raw string

datatype handoff_kind = H_Request | H_Accept

datatype client_data_kind =
    SquawkBox | ProController | CommunicationRequest | CommunicationReply

section \<open>Positions (position.rs)\<close>

record pilot_position =
  pp_callsign :: callsign
  pp_mode :: uchar
  pp_squawk :: string
  pp_rating :: i32
  pp_latitude :: f64
  pp_longitude :: f64
  pp_altitude :: i32
  pp_groundspeed :: i32
  pp_pbh :: u32
  pp_flags :: i32

record atc_position =
  ap_callsign :: callsign
  ap_frequency :: i32
  ap_facility_type :: i32
  ap_visual_range :: i32
  ap_rating :: i32
  ap_latitude :: f64
  ap_longitude :: f64
  ap_altitude :: i32

datatype position = Position_Pilot pilot_position | Position_Atc atc_position

fun position_callsign :: "position \<Rightarrow> callsign" where
  "position_callsign (Position_Pilot p) = pp_callsign p"
| "position_callsign (Position_Atc p) = ap_callsign p"

fun coordinates :: "position \<Rightarrow> f64 \<times> f64" where
  "coordinates (Position_Pilot p) = (pp_latitude p, pp_longitude p)"
| "coordinates (Position_Atc p) = (ap_latitude p, ap_longitude p)"

fun altitude :: "position \<Rightarrow> i32" where
  "altitude (Position_Pilot p) = pp_altitude p"
| "altitude (Position_Atc p) = ap_altitude p"

definition position_validate :: "position \<Rightarrow> model_error + unit" where
  "position_validate pos =
     (case coordinates pos of (latitude, longitude) \<Rightarrow>
      if \<not> f64_is_finite latitude \<or> \<not> f64_in_range (f64_lit (- 90)) (f64_lit 90) latitude
      then Inl (InvalidField ''latitude'' ''must be finite and between -90 and 90'')
      else if \<not> f64_is_finite longitude \<or> \<not> f64_in_range (f64_lit (- 180)) (f64_lit 180) longitude
      then Inl (InvalidField ''longitude'' ''must be finite and between -180 and 180'')
      else (case pos of
          Position_Pilot p \<Rightarrow>
            if pp_mode p \<notin> {''N'', ''S'', ''Y''}
            then Inl (InvalidField ''mode'' ''must be N, S, or Y'')
            else if pp_squawk p = [] \<or> 4 < length (pp_squawk p)
                    \<or> \<not> list_all is_octal_digit (pp_squawk p)
            then Inl (InvalidField ''squawk'' ''must contain between one and four octal digits'')
            else Inr ()
        | Position_Atc p \<Rightarrow>
            if ap_visual_range p < 0
            then Inl (InvalidField ''visual_range'' ''must be non-negative'')
            else Inr ()))"

section \<open>Flight plans (flight\_plan.rs)\<close>

record flight_plan =
  fp_callsign :: callsign
  fp_flight_rules :: uchar
  fp_aircraft :: string
  fp_cruise_speed :: i32
  fp_departure :: string
  fp_estimated_departure :: i32
  fp_actual_departure :: i32
  fp_cruise_altitude :: string
  fp_destination :: string
  fp_hours_enroute :: i32
  fp_minutes_enroute :: i32
  fp_hours_fuel :: i32
  fp_minutes_fuel :: i32
  fp_alternate :: string
  fp_remarks :: string
  fp_route :: string

section \<open>Sessions (session.rs)\<close>

definition CLASSIC_PROTOCOL_REVISION :: u16 where
  "CLASSIC_PROTOCOL_REVISION = 9"

definition VATSIM_PROTOCOL_REVISION :: u16 where
  "VATSIM_PROTOCOL_REVISION = 100"

datatype protocol_dialect = Classic | Vatsim | AsterV1

type_synonym connection_id = u64

datatype session_phase = Connected | Identified | Active | Closed

record identification =
  id_callsign :: callsign
  id_client_id :: string
  id_client_name :: string
  id_network_id :: "string option"

record login_command =
  lc_callsign :: callsign
  lc_client_type :: client_type
  lc_network_id :: string
  lc_password :: string
  lc_requested_rating :: i32
  lc_protocol_revision :: u16
  lc_real_name :: string
  lc_simulator_type :: "i32 option"

record client_presence =
  cp_callsign :: callsign
  cp_client_type :: client_type
  cp_network_id :: string
  cp_real_name :: string
  cp_rating :: i32
  cp_protocol_revision :: u16
  cp_simulator_type :: "i32 option"

section \<open>Weather (weather.rs)\<close>

record temperature_layer =
  tl_ceiling :: i32
  tl_temperature :: i32

record wind_layer =
  wl_ceiling :: i32
  wl_floor :: i32
  wl_direction :: i32
  wl_speed :: i32
  wl_gusting :: i32
  wl_turbulence :: i32

record cloud_layer =
  cl_ceiling :: i32
  cl_floor :: i32
  cl_coverage :: i32
  cl_icing :: i32
  cl_turbulence :: i32

text \<open>The fixed arrays \<open>[_; 4]\<close> and \<open>[_; 2]\<close> are tuples, so their size is in the type.\<close>

record weather_profile =
  wp_temperatures :: "temperature_layer \<times> temperature_layer \<times> temperature_layer \<times> temperature_layer"
  wp_winds :: "wind_layer \<times> wind_layer \<times> wind_layer \<times> wind_layer"
  wp_clouds :: "cloud_layer \<times> cloud_layer"
  wp_thunderstorm :: cloud_layer
  wp_barometer :: i32
  wp_visibility :: f64

definition weather_validate :: "weather_profile \<Rightarrow> model_error + unit" where
  "weather_validate w =
     (if \<not> f64_is_finite (wp_visibility w) \<or> f64_lt (wp_visibility w) (f64_lit 0)
      then Inl (InvalidField ''weather visibility'' ''must be finite and non-negative'')
      else Inr ())"

section \<open>Commands (command.rs)\<close>

datatype command =
    C_Noop callsign
  | C_Identify identification
  | C_Login login_command
  | C_Logoff callsign
  | C_Position position
  | C_Text callsign destination string
  | C_FlightPlan flight_plan
  | C_Query callsign destination query_kind "string list"
  | C_Response callsign destination query_kind "string list"
  | C_Ping callsign destination string
  | C_Pong callsign destination string
  | C_Handoff callsign callsign handoff_kind "string list"
  | C_ClientData callsign callsign client_data_kind "string list"
  | C_WeatherRequest callsign string bool
  | C_Kill callsign callsign string

fun command_destination :: "command \<Rightarrow> destination option" where
  "command_destination (C_Text _ d _) = Some d"
| "command_destination (C_Query _ d _ _) = Some d"
| "command_destination (C_Response _ d _ _) = Some d"
| "command_destination (C_Ping _ d _) = Some d"
| "command_destination (C_Pong _ d _) = Some d"
| "command_destination _ = None"

fun direct_target :: "command \<Rightarrow> callsign option" where
  "direct_target (C_Handoff _ t _ _) = Some t"
| "direct_target (C_ClientData _ t _ _) = Some t"
| "direct_target (C_Kill _ t _) = Some t"
| "direct_target _ = None"

fun command_source :: "command \<Rightarrow> callsign option" where
  "command_source (C_Identify i) = Some (id_callsign i)"
| "command_source (C_Login l) = Some (lc_callsign l)"
| "command_source (C_Noop s) = Some s"
| "command_source (C_Logoff s) = Some s"
| "command_source (C_Text s _ _) = Some s"
| "command_source (C_Query s _ _ _) = Some s"
| "command_source (C_Response s _ _ _) = Some s"
| "command_source (C_Ping s _ _) = Some s"
| "command_source (C_Pong s _ _) = Some s"
| "command_source (C_Handoff s _ _ _) = Some s"
| "command_source (C_ClientData s _ _ _) = Some s"
| "command_source (C_WeatherRequest s _ _) = Some s"
| "command_source (C_Kill s _ _) = Some s"
| "command_source (C_Position p) = Some (position_callsign p)"
| "command_source (C_FlightPlan p) = Some (fp_callsign p)"

fun command_kind :: "command \<Rightarrow> string" where
  "command_kind (C_Noop _) = ''noop''"
| "command_kind (C_Identify _) = ''identify''"
| "command_kind (C_Login _) = ''login''"
| "command_kind (C_Logoff _) = ''logoff''"
| "command_kind (C_Position _) = ''position''"
| "command_kind (C_Text _ _ _) = ''text''"
| "command_kind (C_FlightPlan _) = ''flight_plan''"
| "command_kind (C_Query _ _ _ _) = ''query''"
| "command_kind (C_Response _ _ _ _) = ''response''"
| "command_kind (C_Ping _ _ _) = ''ping''"
| "command_kind (C_Pong _ _ _) = ''pong''"
| "command_kind (C_Handoff _ _ _ _) = ''handoff''"
| "command_kind (C_ClientData _ _ _ _) = ''client_data''"
| "command_kind (C_WeatherRequest _ _ _) = ''weather_request''"
| "command_kind (C_Kill _ _ _) = ''kill''"

section \<open>Events (event.rs)\<close>

datatype event =
    Ev_Error "callsign option" error_code string string
  | Ev_Welcome callsign string
  | Ev_ClientAdded client_presence
  | Ev_ClientRemoved callsign client_type string
  | Ev_Position position
  | Ev_Text callsign destination string
  | Ev_FlightPlan flight_plan destination
  | Ev_Query string destination query_kind "string list"
  | Ev_Response string destination query_kind "string list"
  | Ev_Ping callsign destination string
  | Ev_Pong string destination string
  | Ev_Handoff callsign callsign handoff_kind "string list"
  | Ev_ClientData callsign callsign client_data_kind "string list"
  | Ev_WeatherReport string callsign string string
  | Ev_WeatherProfile callsign string weather_profile
  | Ev_WindDelta i32 i32
  | Ev_Disconnect callsign string

fun event_kind :: "event \<Rightarrow> string" where
  "event_kind (Ev_Error _ _ _ _) = ''error''"
| "event_kind (Ev_Welcome _ _) = ''welcome''"
| "event_kind (Ev_ClientAdded _) = ''client_added''"
| "event_kind (Ev_ClientRemoved _ _ _) = ''client_removed''"
| "event_kind (Ev_Position _) = ''position''"
| "event_kind (Ev_Text _ _ _) = ''text''"
| "event_kind (Ev_FlightPlan _ _) = ''flight_plan''"
| "event_kind (Ev_Query _ _ _ _) = ''query''"
| "event_kind (Ev_Response _ _ _ _) = ''response''"
| "event_kind (Ev_Ping _ _ _) = ''ping''"
| "event_kind (Ev_Pong _ _ _) = ''pong''"
| "event_kind (Ev_Handoff _ _ _ _) = ''handoff''"
| "event_kind (Ev_ClientData _ _ _ _) = ''client_data''"
| "event_kind (Ev_WeatherReport _ _ _ _) = ''weather_report''"
| "event_kind (Ev_WeatherProfile _ _ _) = ''weather_profile''"
| "event_kind (Ev_WindDelta _ _) = ''wind_delta''"
| "event_kind (Ev_Disconnect _ _) = ''disconnect''"

end
