(* ===== verification/Net_State.thy ===== *)
theory Net_State
  imports Domain
begin

text \<open>
  The authoritative state of the network core (crate \<open>aster_fsd_core\<close>, files
  \<open>network/state.rs\<close>, \<open>network/mod.rs\<close>, \<open>network/routing.rs\<close>, \<open>network/lifecycle.rs\<close>,
  \<open>effects.rs\<close>, \<open>config.rs\<close>): sessions, the callsign index, the effects an operation
  returns, registration, recipient resolution and disconnection.

  Every operation takes the state and returns it updated together with its result; the
  read-write lock makes each of them atomic.
\<close>

section \<open>Sessions\<close>

text \<open>A \<open>std::net::SocketAddr\<close>: the program reads the displayed IP address only.\<close>

record socket_addr =
  sa_ip :: string
  sa_port :: u16

record session =
  s_connection_id :: connection_id
  s_peer :: socket_addr
  s_dialect :: protocol_dialect
  s_phase :: session_phase
  s_generation :: u64
  s_identification :: "identification option"
  s_presence :: "client_presence option"
  s_position :: "position option"
  s_flight_plan :: "flight_plan option"

record session_snapshot =
  ss_connection_id :: connection_id
  ss_peer :: socket_addr
  ss_dialect :: protocol_dialect
  ss_phase :: session_phase
  ss_callsign :: "callsign option"
  ss_presence :: "client_presence option"

definition session_snapshot_of :: "session \<Rightarrow> session_snapshot" where
  "session_snapshot_of s =
     \<lparr>ss_connection_id = s_connection_id s, ss_peer = s_peer s, ss_dialect = s_dialect s,
      ss_phase = s_phase s,
      ss_callsign = (case map_option cp_callsign (s_presence s) of
          Some c \<Rightarrow> Some c
        | None \<Rightarrow> map_option id_callsign (s_identification s)),
      ss_presence = s_presence s\<rparr>"

definition session_callsign :: "session \<Rightarrow> callsign option" where
  "session_callsign s = map_option cp_callsign (s_presence s)"

record net_state =
  ns_sessions :: "(connection_id, session) hash_map"
  ns_callsigns :: "(callsign, connection_id) hash_map"

definition net_state_default :: net_state where
  "net_state_default = \<lparr>ns_sessions = [], ns_callsigns = []\<rparr>"

text \<open>\<open>sessions.get(\&id)\<close>, and the write-back through \<open>sessions.get_mut(\&id)\<close>.\<close>

abbreviation session_of :: "net_state \<Rightarrow> connection_id \<Rightarrow> session option" where
  "session_of state connection_id \<equiv> hm_get (ns_sessions state) connection_id"

abbreviation owner_of :: "net_state \<Rightarrow> callsign \<Rightarrow> connection_id option" where
  "owner_of state c \<equiv> hm_get (ns_callsigns state) c"

definition put_session :: "connection_id \<Rightarrow> session \<Rightarrow> net_state \<Rightarrow> net_state" where
  "put_session i s state = state\<lparr>ns_sessions := hm_insert i s (ns_sessions state)\<rparr>"

section \<open>Effects and configuration\<close>

record delivery =
  dl_recipients :: "connection_id list"
  dl_event :: event

record close_connection =
  cc_connection_id :: connection_id
  cc_reason :: string

record effects =
  ef_deliveries :: "delivery list"
  ef_close :: "close_connection option"

definition effects_default :: effects where
  "effects_default = \<lparr>ef_deliveries = [], ef_close = None\<rparr>"

definition effects_is_empty :: "effects \<Rightarrow> bool" where
  "effects_is_empty e = (ef_deliveries e = [] \<and> ef_close e = None)"

text \<open>The \<open>debug_assert!\<close> of the source is not compiled into release builds.\<close>

definition effects_extend :: "effects \<Rightarrow> effects \<Rightarrow> effects" where
  "effects_extend e other =
     (let e' = e\<lparr>ef_deliveries := ef_deliveries e @ ef_deliveries other\<rparr>
      in if ef_close other \<noteq> None then e'\<lparr>ef_close := ef_close other\<rparr> else e')"

definition effects_push :: "delivery \<Rightarrow> effects \<Rightarrow> effects" where
  "effects_push d e = e\<lparr>ef_deliveries := ef_deliveries e @ [d]\<rparr>"

record core_config =
  co_max_clients :: nat
  co_product_message :: string
  co_motd :: "string list"

definition core_config_default :: "string \<Rightarrow> core_config" where
  "core_config_default pkg_version =
     \<lparr>co_max_clients = 1000, co_product_message = ''AsterFSD '' @ pkg_version, co_motd = []\<rparr>"

section \<open>Registration and snapshots\<close>

datatype register_error = ServerFull | DuplicateConnection

definition fresh_session :: "connection_id \<Rightarrow> socket_addr \<Rightarrow> protocol_dialect \<Rightarrow> session" where
  "fresh_session connection_id peer dialect =
     \<lparr>s_connection_id = connection_id, s_peer = peer, s_dialect = dialect, s_phase = Connected,
      s_generation = 0, s_identification = None, s_presence = None, s_position = None,
      s_flight_plan = None\<rparr>"

definition register ::
  "core_config \<Rightarrow> connection_id \<Rightarrow> socket_addr \<Rightarrow> protocol_dialect \<Rightarrow> net_state
   \<Rightarrow> (register_error + unit) \<times> net_state" where
  "register config connection_id peer dialect state =
     (if hm_contains_key (ns_sessions state) connection_id then (Inl DuplicateConnection, state)
      else if co_max_clients config \<le> length (hm_values (ns_sessions state)) then (Inl ServerFull, state)
      else (Inr (), put_session connection_id (fresh_session connection_id peer dialect) state))"

definition snapshot :: "net_state \<Rightarrow> connection_id \<Rightarrow> session_snapshot option" where
  "snapshot state connection_id = map_option session_snapshot_of (session_of state connection_id)"

section \<open>Recipients (routing.rs)\<close>

datatype range_policy = Range_Source | Range_Message

definition active_ids :: "net_state \<Rightarrow> connection_id option \<Rightarrow> connection_id list" where
  "active_ids state exclude =
     map s_connection_id
       (filter (\<lambda>s. s_phase s = Active \<and> Some (s_connection_id s) \<noteq> exclude)
         (hm_values (ns_sessions state)))"

definition is_pilot_like :: "client_presence option \<Rightarrow> bool" where
  "is_pilot_like p =
     (case p of None \<Rightarrow> False | Some presence \<Rightarrow> cp_client_type presence \<in> {Pilot, Observer})"

definition is_atc :: "client_presence option \<Rightarrow> bool" where
  "is_atc p = (case p of None \<Rightarrow> False | Some presence \<Rightarrow> cp_client_type presence = Atc)"

definition session_range :: "session \<Rightarrow> f64" where
  "session_range s =
     (case s_position s of
        None \<Rightarrow> f64_lit 40
      | Some pos \<Rightarrow>
          if is_pilot_like (s_presence s) then
            f64_trunc (f64_add (f64_lit 10)
              (f64_mul (f64_lit (1414 / 1000)) (f64_sqrt (f64_of_i32 (max (altitude pos) 0)))))
          else (case pos of
              Position_Atc p \<Rightarrow>
                if ap_facility_type p = 1 \<or> ap_facility_type p = 7 then f64_lit 1500
                else if ap_facility_type p = 2 \<or> ap_facility_type p = 3 then f64_lit 5
                else if ap_facility_type p = 4 then f64_lit 30
                else if ap_facility_type p = 5 then f64_lit 100
                else if ap_facility_type p = 6 then f64_lit 400
                else f64_lit 40
            | Position_Pilot _ \<Rightarrow> f64_lit 40))"

text \<open>The haversine distance in nautical miles; \<open>lm\<close> is the platform's math library.\<close>

definition distance_between :: "libm \<Rightarrow> net_state \<Rightarrow> connection_id \<Rightarrow> connection_id \<Rightarrow> f64 option" where
  "distance_between lm state source target =
     (case (Option.bind (session_of state source) s_position,
            Option.bind (session_of state target) s_position) of
        (Some source_position, Some target_position) \<Rightarrow>
          let (source_latitude, source_longitude) = coordinates source_position;
              (target_latitude, target_longitude) = coordinates target_position;
              source_latitude = f64_to_radians source_latitude;
              target_latitude = f64_to_radians target_latitude;
              latitude_delta = f64_sub target_latitude source_latitude;
              longitude_delta = f64_to_radians (f64_sub target_longitude source_longitude);
              a = f64_add
                    (lm_powi lm (lm_sin lm (f64_div latitude_delta (f64_lit 2))) 2)
                    (f64_mul (f64_mul (lm_cos lm source_latitude) (lm_cos lm target_latitude))
                      (lm_powi lm (lm_sin lm (f64_div longitude_delta (f64_lit 2))) 2))
          in Some (f64_mul (f64_mul (f64_lit (3440065 / 1000)) (f64_lit 2))
                     (lm_atan2 lm (f64_sqrt a) (f64_sqrt (f64_sub (f64_lit 1) a))))
      | _ \<Rightarrow> None)"

definition within_position_range ::
  "libm \<Rightarrow> net_state \<Rightarrow> connection_id \<Rightarrow> connection_id \<Rightarrow> bool" where
  "within_position_range lm state source_id target_id =
     (case (session_of state source_id, session_of state target_id) of
        (Some source, Some target) \<Rightarrow>
          (case distance_between lm state source_id target_id of
             None \<Rightarrow> False
           | Some distance \<Rightarrow>
               let source_range = session_range source; target_range = session_range target;
                   permitted =
                     (if is_atc (s_presence target) then
                        (case s_position target of
                           Some (Position_Atc p) \<Rightarrow> f64_of_i32 (max (ap_visual_range p) 0)
                         | _ \<Rightarrow> target_range)
                      else if is_pilot_like (s_presence source) then f64_add source_range target_range
                      else f64_max source_range target_range)
               in f64_le distance permitted)
      | _ \<Rightarrow> False)"

definition within_message_range ::
  "libm \<Rightarrow> net_state \<Rightarrow> connection_id \<Rightarrow> connection_id \<Rightarrow> bool" where
  "within_message_range lm state source_id target_id =
     (case (session_of state source_id, session_of state target_id,
            distance_between lm state source_id target_id) of
        (Some source, Some target, Some distance) \<Rightarrow>
          let source_range = session_range source; target_range = session_range target;
              both_pilot = is_pilot_like (s_presence source) \<and> is_pilot_like (s_presence target)
          in f64_le distance
               (if both_pilot then f64_add source_range target_range
                else f64_max source_range target_range)
      | _ \<Rightarrow> False)"

definition within_source_range ::
  "libm \<Rightarrow> net_state \<Rightarrow> connection_id \<Rightarrow> connection_id \<Rightarrow> bool" where
  "within_source_range lm state source_id target_id =
     (case (session_of state source_id, distance_between lm state source_id target_id) of
        (Some source, Some distance) \<Rightarrow> f64_le distance (session_range source)
      | _ \<Rightarrow> False)"

definition resolve_destination ::
  "libm \<Rightarrow> net_state \<Rightarrow> connection_id \<Rightarrow> destination \<Rightarrow> range_policy \<Rightarrow> connection_id list" where
  "resolve_destination lm state sender dest policy =
     (case dest of
        To_Server \<Rightarrow> []
      | To_Direct c \<Rightarrow>
          (case owner_of state c of
             None \<Rightarrow> []
           | Some i \<Rightarrow> if i \<noteq> sender then [i] else [])
      | To_All \<Rightarrow> active_ids state (Some sender)
      | To_Atc \<Rightarrow>
          map s_connection_id
            (filter (\<lambda>s. s_connection_id s \<noteq> sender \<and> s_phase s = Active \<and> is_atc (s_presence s))
              (hm_values (ns_sessions state)))
      | To_Pilots \<Rightarrow>
          map s_connection_id
            (filter (\<lambda>s. s_connection_id s \<noteq> sender \<and> s_phase s = Active
                       \<and> is_pilot_like (s_presence s))
              (hm_values (ns_sessions state)))
      | To_Range _ \<Rightarrow>
          map s_connection_id
            (filter (\<lambda>s. s_connection_id s \<noteq> sender \<and> s_phase s = Active
                       \<and> (case policy of
                            Range_Source \<Rightarrow> within_source_range lm state sender (s_connection_id s)
                          | Range_Message \<Rightarrow> within_message_range lm state sender (s_connection_id s)))
              (hm_values (ns_sessions state))))"

definition position_recipients :: "libm \<Rightarrow> net_state \<Rightarrow> connection_id \<Rightarrow> connection_id list" where
  "position_recipients lm state source =
     map s_connection_id
       (filter (\<lambda>t. s_connection_id t \<noteq> source \<and> s_phase t = Active
                  \<and> within_position_range lm state source (s_connection_id t))
         (hm_values (ns_sessions state)))"

definition flight_plan_recipients ::
  "libm \<Rightarrow> net_state \<Rightarrow> connection_id \<Rightarrow> f64 \<Rightarrow> connection_id list" where
  "flight_plan_recipients lm state source radius =
     map s_connection_id
       (filter (\<lambda>t. s_connection_id t \<noteq> source \<and> s_phase t = Active \<and> is_atc (s_presence t)
                  \<and> (case distance_between lm state source (s_connection_id t) of
                       None \<Rightarrow> False
                     | Some distance \<Rightarrow> f64_le distance radius))
         (hm_values (ns_sessions state)))"

section \<open>Sending, errors and disconnection (lifecycle.rs)\<close>

definition send :: "connection_id list \<Rightarrow> event \<Rightarrow> effects" where
  "send recipients ev =
     (if recipients = [] then effects_default
      else \<lparr>ef_deliveries = [\<lparr>dl_recipients = recipients, dl_event = ev\<rparr>], ef_close = None\<rparr>)"

definition error_effect :: "connection_id \<Rightarrow> callsign option \<Rightarrow> error_code \<Rightarrow> string \<Rightarrow> effects" where
  "error_effect connection_id c code environment =
     send [connection_id] (Ev_Error c code environment (description code))"

definition error_and_close :: "connection_id \<Rightarrow> callsign option \<Rightarrow> error_code \<Rightarrow> string \<Rightarrow> effects" where
  "error_and_close connection_id c code environment =
     (error_effect connection_id c code environment)
       \<lparr>ef_close := Some \<lparr>cc_connection_id = connection_id, cc_reason = description code\<rparr>\<rparr>"

text \<open>
  The removed session is marked closed before it is dropped; nothing reads the mark
  afterwards, so it does not appear in the result.
\<close>

definition disconnect_locked ::
  "connection_id \<Rightarrow> string \<Rightarrow> net_state \<Rightarrow> effects \<times> net_state" where
  "disconnect_locked connection_id reason state =
     (case session_of state connection_id of
        None \<Rightarrow> (effects_default, state)
      | Some session \<Rightarrow>
          let state1 = state\<lparr>ns_sessions := hm_remove connection_id (ns_sessions state)\<rparr>;
              (eff, state2) =
                (case s_presence session of
                   None \<Rightarrow> (effects_default, state1)
                 | Some presence \<Rightarrow>
                     let state2 = state1\<lparr>ns_callsigns :=
                           hm_remove (cp_callsign presence) (ns_callsigns state1)\<rparr>;
                         peers = active_ids state2 None
                     in (if peers = [] then effects_default
                         else effects_push
                           \<lparr>dl_recipients = peers,
                            dl_event = Ev_ClientRemoved (cp_callsign presence)
                              (cp_client_type presence) (cp_network_id presence)\<rparr>
                           effects_default, state2))
          in (eff\<lparr>ef_close := Some \<lparr>cc_connection_id = connection_id, cc_reason = reason\<rparr>\<rparr>, state2))"

definition disconnect :: "connection_id \<Rightarrow> string \<Rightarrow> net_state \<Rightarrow> effects \<times> net_state" where
  "disconnect connection_id reason state = disconnect_locked connection_id reason state"

definition broadcast :: "net_state \<Rightarrow> event \<Rightarrow> effects" where
  "broadcast state ev = send (active_ids state None) ev"

end
