(* ===== verification/Auth.thy ===== *)
theory Auth
  imports Domain
begin

text \<open>
  The authentication port (crate \<open>aster_fsd_auth\<close>) and its persistent implementation (crate
  \<open>aster_fsd_persistence\<close>). What is not under \<open>src/\<close> is a parameter: the Argon2 primitives
  are the record \<open>argon2\<close>, the two SeaORM queries are the record \<open>database\<close>. The locale
  \<open>authenticator_port\<close> states what the network core may rely on, and is interpreted on both
  implementations the repository has.
\<close>

section \<open>The port (aster\_fsd\_auth)\<close>

datatype auth_error =
    Auth_InvalidCredentials | Auth_ClientNotAuthorized | Auth_Suspended
  | Auth_Backend string | Auth_InvalidPasswordHash

fun auth_error_text :: "auth_error \<Rightarrow> string" where
  "auth_error_text Auth_InvalidCredentials = ''invalid credentials''"
| "auth_error_text Auth_ClientNotAuthorized = ''client software is not authorized''"
| "auth_error_text Auth_Suspended = ''identity is suspended''"
| "auth_error_text (Auth_Backend e) = ''authentication backend failed: '' @ e"
| "auth_error_text Auth_InvalidPasswordHash = ''password hash is invalid''"

text \<open>A value of \<open>Arc<dyn Authenticator>\<close>: the two methods of the trait.\<close>

record authenticator =
  au_authorize_client :: "string \<Rightarrow> auth_error + unit"
  au_authenticate :: "string \<Rightarrow> string \<Rightarrow> auth_error + authenticated_identity"

text \<open>
  \<open>verify_password\<close> runs Argon2 on the blocking pool. \<open>ar_parse\<close> is
  \<open>PasswordHash::new\<close>, \<open>ar_verify\<close> is \<open>Argon2::verify_password\<close>, and the third
  argument is the outcome of joining the task: the text of the \<open>JoinError\<close>, if any.
\<close>

datatype argon2_outcome = Argon_Ok | Argon_Password | Argon_Error

record 'h argon2 =
  ar_parse :: "string \<Rightarrow> 'h option"
  ar_verify :: "string \<Rightarrow> 'h \<Rightarrow> argon2_outcome"

definition verify_password ::
  "'h argon2 \<Rightarrow> string option \<Rightarrow> string \<Rightarrow> string \<Rightarrow> auth_error + bool" where
  "verify_password ar join_error password hash =
     (case join_error of
        Some e \<Rightarrow> Inl (Auth_Backend e)
      | None \<Rightarrow>
          and_then (ok_or Auth_InvalidPasswordHash (ar_parse ar hash)) (\<lambda>parsed.
            case ar_verify ar password parsed of
              Argon_Ok \<Rightarrow> Inr True
            | Argon_Password \<Rightarrow> Inr False
            | Argon_Error \<Rightarrow> Inl Auth_InvalidPasswordHash))"

definition allow_all_authorize_client :: "string \<Rightarrow> auth_error + unit" where
  "allow_all_authorize_client client_id = Inr ()"

definition allow_all_authenticate ::
  "string \<Rightarrow> string \<Rightarrow> auth_error + authenticated_identity" where
  "allow_all_authenticate network_id password =
     Inr \<lparr>ai_network_id = network_id, ai_real_name = network_id,
          ai_atc_rating = Administrator, ai_pilot_rating = FlightExaminer, ai_suspended = False\<rparr>"

definition allow_all_authenticator :: authenticator where
  "allow_all_authenticator =
     \<lparr>au_authorize_client = allow_all_authorize_client, au_authenticate = allow_all_authenticate\<rparr>"

section \<open>Persistence (aster\_fsd\_persistence)\<close>

datatype sqlx_log_level = Sqlx_Error | Sqlx_Warn | Sqlx_Info | Sqlx_Debug | Sqlx_Trace

record database_config =
  db_url :: string
  db_max_connections :: u32
  db_min_connections :: u32
  db_sqlx_logging :: bool
  db_sqlx_logging_level :: sqlx_log_level

definition database_config_default :: database_config where
  "database_config_default =
     \<lparr>db_url = ''sqlite://asterfsd.db'', db_max_connections = 100, db_min_connections = 5,
      db_sqlx_logging = False, db_sqlx_logging_level = Sqlx_Debug\<rparr>"

definition database_backend :: "string \<Rightarrow> string" where
  "database_backend url =
     (case map_option fst (split_once (CHR '':'') url) of
        None \<Rightarrow> ''unknown''
      | Some scheme \<Rightarrow>
          if scheme = ''sqlite'' then ''sqlite''
          else if scheme = ''postgres'' \<or> scheme = ''postgresql'' then ''postgresql''
          else if scheme = ''mysql'' then ''mysql''
          else ''unknown'')"

text \<open>The columns of \<open>entities::user::Model\<close> and \<open>entities::client\_whitelist::Model\<close> that are read.\<close>

record user_row =
  ur_network_id :: string
  ur_password_hash :: string
  ur_real_name :: string
  ur_atc_rating :: atc_rating
  ur_pilot_rating :: pilot_rating

record whitelist_row =
  wr_client_id :: string
  wr_enabled :: bool

text \<open>
  \<open>find().filter(..).one(..)\<close> on the two tables: the text of a \<open>DbErr\<close>, or a row that
  satisfies the filter if there is one.
\<close>

record database =
  db_find_client :: "string \<Rightarrow> string + whitelist_row option"
  db_find_user :: "string \<Rightarrow> string + user_row option"

definition sea_orm_authorize_client :: "database \<Rightarrow> string \<Rightarrow> auth_error + unit" where
  "sea_orm_authorize_client db client_id =
     and_then (map_err Auth_Backend (db_find_client db client_id)) (\<lambda>found.
       ok_or Auth_ClientNotAuthorized (map_option (\<lambda>_. ()) found))"

definition sea_orm_authenticate ::
  "database \<Rightarrow> (string \<Rightarrow> string \<Rightarrow> auth_error + bool) \<Rightarrow> string \<Rightarrow> string
   \<Rightarrow> auth_error + authenticated_identity" where
  "sea_orm_authenticate db verify network_id password =
     and_then (map_err Auth_Backend (db_find_user db network_id)) (\<lambda>row.
     and_then (ok_or Auth_InvalidCredentials row) (\<lambda>user.
     and_then (verify password (ur_password_hash user)) (\<lambda>valid.
       if \<not> valid then Inl Auth_InvalidCredentials
       else Inr \<lparr>ai_network_id = ur_network_id user, ai_real_name = ur_real_name user,
                 ai_atc_rating = ur_atc_rating user, ai_pilot_rating = ur_pilot_rating user,
                 ai_suspended = False\<rparr>)))"

definition sea_orm_authenticator ::
  "database \<Rightarrow> (string \<Rightarrow> string \<Rightarrow> auth_error + bool) \<Rightarrow> authenticator" where
  "sea_orm_authenticator db verify =
     \<lparr>au_authorize_client = sea_orm_authorize_client db,
      au_authenticate = sea_orm_authenticate db verify\<rparr>"

text \<open>
  Tables as lists of rows under the semantics of SQL equality on exact bytes (the filters
  \<open>network_id = ?\<close> and \<open>client_id = ? AND enabled = true\<close>, first match).
\<close>

definition table_database :: "user_row list \<Rightarrow> whitelist_row list \<Rightarrow> database" where
  "table_database users clients =
     \<lparr>db_find_client = (\<lambda>c. Inr (find (\<lambda>r. wr_client_id r = c \<and> wr_enabled r) clients)),
      db_find_user = (\<lambda>n. Inr (find (\<lambda>r. ur_network_id r = n) users))\<rparr>"

section \<open>The contract of the port\<close>

text \<open>An accepted login is for the identity that was asked for.\<close>

locale authenticator_port =
  fixes authorize :: "string \<Rightarrow> auth_error + unit"
    and authenticate :: "string \<Rightarrow> string \<Rightarrow> auth_error + authenticated_identity"
  assumes same_identity: "authenticate n p = Inr i \<Longrightarrow> ai_network_id i = n"
begin

lemma identity_determined:
  "authenticate n p = Inr i \<Longrightarrow> authenticate m q = Inr i \<Longrightarrow> n = m"
  using same_identity by blast

end

interpretation allow_all: authenticator_port allow_all_authorize_client allow_all_authenticate
  by unfold_locales (auto simp: allow_all_authenticate_def)

text \<open>The database interface: a row returned by a query satisfies the query's filter.\<close>

locale database_port =
  fixes db :: database
    and verify :: "string \<Rightarrow> string \<Rightarrow> auth_error + bool"
  assumes user_filter: "db_find_user db n = Inr (Some u) \<Longrightarrow> ur_network_id u = n"
    and client_filter: "db_find_client db c = Inr (Some r) \<Longrightarrow> wr_client_id r = c \<and> wr_enabled r"
begin

lemma authenticate_Inr:
  "sea_orm_authenticate db verify n p = Inr i \<longleftrightarrow>
     (\<exists>u. db_find_user db n = Inr (Some u) \<and> verify p (ur_password_hash u) = Inr True
        \<and> i = \<lparr>ai_network_id = n, ai_real_name = ur_real_name u, ai_atc_rating = ur_atc_rating u,
               ai_pilot_rating = ur_pilot_rating u, ai_suspended = False\<rparr>)"
  by (auto simp: sea_orm_authenticate_def and_then_Inr_iff dest: user_filter)

lemma authorize_Inr:
  "sea_orm_authorize_client db c = Inr () \<longleftrightarrow>
     (\<exists>r. db_find_client db c = Inr (Some r) \<and> wr_client_id r = c \<and> wr_enabled r)"
  by (auto simp: sea_orm_authorize_client_def and_then_Inr_iff dest: client_filter)

end

sublocale database_port \<subseteq> port: authenticator_port "sea_orm_authorize_client db" "sea_orm_authenticate db verify"
  by unfold_locales (auto simp: authenticate_Inr)

interpretation table_db: database_port "table_database users clients" verify
  for users clients verify
  by unfold_locales (auto simp: table_database_def find_Some_iff)

end
