(* ===== verification/Net_Login.thy ===== *)
theory Net_Login
  imports Net_State Auth
begin

text \<open>
  Identification and login (crate \<open>aster_fsd_core\<close>, file \<open>network/authentication.rs\<close>).

  Both are asynchronous functions with two critical sections around a call of the
  authentication port: \<open>identify_begin\<close> and \<open>login_generation\<close> read the state under the
  read lock and remember the session's generation; \<open>identify_finish\<close> and \<open>login_resume\<close>
  go on with the port's answer under the write lock, when other commands may have run in
  between. \<open>identify\<close> and \<open>login\<close> are the uninterrupted compositions; the theory
  \<open>Net_System\<close> interleaves the parts.
\<close>

section \<open>Identification\<close>

definition identify_begin :: "net_state \<Rightarrow> connection_id \<Rightarrow> effects + u64" where
  "identify_begin state connection_id =
     (case session_of state connection_id of
        None \<Rightarrow> Inl effects_default
      | Some session \<Rightarrow>
          if s_phase session \<noteq> Connected
          then Inl (error_effect connection_id (session_callsign session) E_AlreadyRegistered [])
          else Inr (s_generation session))"

definition identify_finish ::
  "connection_id \<Rightarrow> identification \<Rightarrow> u64 \<Rightarrow> auth_error + unit \<Rightarrow> net_state
   \<Rightarrow> effects \<times> net_state" where
  "identify_finish connection_id command generation answer state =
     (case answer of
        Inl _ \<Rightarrow>
          (error_and_close connection_id (Some (id_callsign command)) E_UnauthorizedClient
             (id_client_id command), state)
      | Inr _ \<Rightarrow>
          (case session_of state connection_id of
             None \<Rightarrow> (effects_default, state)
           | Some session \<Rightarrow>
               if s_phase session \<noteq> Connected \<or> s_generation session \<noteq> generation
               then (error_effect connection_id (session_callsign session) E_AlreadyRegistered [], state)
               else (effects_default,
                     put_session connection_id
                       (session\<lparr>s_identification := Some command, s_phase := Identified,
                                s_generation := s_generation session + 1\<rparr>) state)))"

definition identify ::
  "authenticator \<Rightarrow> connection_id \<Rightarrow> identification \<Rightarrow> net_state \<Rightarrow> effects \<times> net_state" where
  "identify auth connection_id command state =
     (case identify_begin state connection_id of
        Inl eff \<Rightarrow> (eff, state)
      | Inr generation \<Rightarrow>
          identify_finish connection_id command generation
            (au_authorize_client auth (id_client_id command)) state)"

section \<open>Login\<close>

fun expected_revision :: "protocol_dialect \<Rightarrow> u16" where
  "expected_revision Classic = CLASSIC_PROTOCOL_REVISION"
| "expected_revision AsterV1 = 1"
| "expected_revision Vatsim = VATSIM_PROTOCOL_REVISION"

definition login_generation ::
  "net_state \<Rightarrow> connection_id \<Rightarrow> login_command \<Rightarrow> effects + u64" where
  "login_generation state connection_id command =
     (case session_of state connection_id of
        None \<Rightarrow> Inl effects_default
      | Some session \<Rightarrow>
          if s_phase session = Active
          then Inl (error_effect connection_id (session_callsign session) E_AlreadyRegistered [])
          else if s_dialect session = Vatsim \<and> s_phase session \<noteq> Identified
          then Inl (error_and_close connection_id (Some (lc_callsign command)) E_Syntax ''missing $ID'')
          else if lc_protocol_revision command \<noteq> expected_revision (s_dialect session)
          then Inl (error_and_close connection_id (Some (lc_callsign command))
                      E_InvalidProtocolRevision [])
          else if hm_contains_key (ns_callsigns state) (lc_callsign command)
          then Inl (error_and_close connection_id (Some (lc_callsign command)) E_CallsignInUse [])
          else Inr (s_generation session))"

definition validate_rating ::
  "connection_id \<Rightarrow> login_command \<Rightarrow> authenticated_identity \<Rightarrow> effects + unit" where
  "validate_rating connection_id command authenticated =
     (let identity_is_active =
            (case lc_client_type command of
               Atc \<Rightarrow> ai_atc_rating authenticated \<noteq> Atc_Suspended
             | _ \<Rightarrow> ai_pilot_rating authenticated \<noteq> Unrated)
      in if ai_suspended authenticated \<or> \<not> identity_is_active
         then Inl (error_and_close connection_id (Some (lc_callsign command)) E_Suspended [])
         else let rating_is_authorized =
                    (case lc_client_type command of
                       Atc \<Rightarrow> atc_allows_wire_value (ai_atc_rating authenticated)
                                (lc_requested_rating command)
                     | _ \<Rightarrow> pilot_allows_wire_value (ai_pilot_rating authenticated)
                                (lc_requested_rating command))
              in if \<not> rating_is_authorized
                 then Inl (error_and_close connection_id (Some (lc_callsign command))
                             E_RequestedLevelTooHigh (show_int (lc_requested_rating command)))
                 else Inr ())"

definition append_vatsim_login_profile ::
  "connection_id \<Rightarrow> socket_addr \<Rightarrow> client_presence \<Rightarrow> effects \<Rightarrow> effects" where
  "append_vatsim_login_profile connection_id peer presence eff =
     (let dest = To_Direct (cp_callsign presence);
          say = (\<lambda>ev. effects_push \<lparr>dl_recipients = [connection_id], dl_event = ev\<rparr>);
          e1 = say (Ev_Query ''SERVER'' dest Q_Capabilities []) eff;
          e2 = (if cp_client_type presence = Atc
                then say (Ev_Response ''SERVER'' dest Q_Capabilities [''ATCINFO=1'', ''SECPOS=1''])
                       (say (Ev_Response ''SERVER'' dest (Q_Raw ''ATC'')
                               [''N'', as_str (cp_callsign presence)]) e1)
                else e1);
          e3 = say (Ev_Response ''SERVER'' dest (Q_Raw ''IP'') [sa_ip peer]) e2
      in if cp_client_type presence \<in> {Pilot, Observer}
         then say (Ev_Error (Some (cp_callsign presence)) E_NoFlightPlan
                    (as_str (cp_callsign presence)) (description E_NoFlightPlan)) e3
         else e3)"

definition login_effects ::
  "core_config \<Rightarrow> net_state \<Rightarrow> connection_id \<Rightarrow> client_presence \<Rightarrow> effects" where
  "login_effects config state connection_id presence =
     (let peers = active_ids state (Some connection_id);
          e0 = (if peers = [] then effects_default
                else effects_push \<lparr>dl_recipients = peers, dl_event = Ev_ClientAdded presence\<rparr>
                       effects_default);
          e1 = effects_push
                 \<lparr>dl_recipients = [connection_id],
                  dl_event = Ev_Welcome (cp_callsign presence) (co_product_message config)\<rparr> e0;
          e2 = fold (\<lambda>line. effects_push
                 \<lparr>dl_recipients = [connection_id],
                  dl_event = Ev_Welcome (cp_callsign presence) line\<rparr>) (co_motd config) e1
      in case session_of state connection_id of
           Some session \<Rightarrow>
             if s_dialect session = Vatsim
             then append_vatsim_login_profile connection_id (s_peer session) presence e2 else e2
         | None \<Rightarrow> e2)"

definition presence_of_login :: "login_command \<Rightarrow> authenticated_identity \<Rightarrow> client_presence" where
  "presence_of_login command authenticated =
     \<lparr>cp_callsign = lc_callsign command, cp_client_type = lc_client_type command,
      cp_network_id = ai_network_id authenticated, cp_real_name = ai_real_name authenticated,
      cp_rating = lc_requested_rating command,
      cp_protocol_revision = lc_protocol_revision command,
      cp_simulator_type = lc_simulator_type command\<rparr>"

definition identification_matches :: "identification option \<Rightarrow> login_command \<Rightarrow> bool" where
  "identification_matches ident command =
     (case ident of
        None \<Rightarrow> False
      | Some i \<Rightarrow>
          id_callsign i = lc_callsign command \<and> id_network_id i = Some (lc_network_id command))"

definition activate_login ::
  "core_config \<Rightarrow> connection_id \<Rightarrow> login_command \<Rightarrow> authenticated_identity \<Rightarrow> u64 \<Rightarrow> net_state
   \<Rightarrow> effects \<times> net_state" where
  "activate_login config connection_id command authenticated generation state =
     (if hm_contains_key (ns_callsigns state) (lc_callsign command)
      then (error_and_close connection_id (Some (lc_callsign command)) E_CallsignInUse [], state)
      else case session_of state connection_id of
        None \<Rightarrow> (effects_default, state)
      | Some session \<Rightarrow>
          if s_phase session \<notin> {Connected, Identified} \<or> s_generation session \<noteq> generation
          then (error_effect connection_id (session_callsign session) E_AlreadyRegistered [], state)
          else if s_dialect session = Vatsim
                  \<and> \<not> identification_matches (s_identification session) command
          then (error_and_close connection_id (Some (lc_callsign command)) E_InvalidSource [], state)
          else
            let presence = presence_of_login command authenticated;
                state1 = put_session connection_id
                  (session\<lparr>s_phase := Active, s_presence := Some presence,
                           s_generation := s_generation session + 1\<rparr>) state;
                state2 = state1\<lparr>ns_callsigns :=
                  hm_insert (lc_callsign command) connection_id (ns_callsigns state1)\<rparr>
            in (login_effects config state2 connection_id presence, state2))"

text \<open>What follows the answer of \<open>authenticate\<close>.\<close>

definition login_resume ::
  "core_config \<Rightarrow> connection_id \<Rightarrow> login_command \<Rightarrow> u64 \<Rightarrow> auth_error + authenticated_identity
   \<Rightarrow> net_state \<Rightarrow> effects \<times> net_state" where
  "login_resume config connection_id command generation answer state =
     (case answer of
        Inl Auth_Suspended \<Rightarrow>
          (error_and_close connection_id (Some (lc_callsign command)) E_Suspended [], state)
      | Inl _ \<Rightarrow>
          (error_and_close connection_id (Some (lc_callsign command)) E_InvalidCredentials
             (lc_network_id command), state)
      | Inr authenticated \<Rightarrow>
          (case validate_rating connection_id command authenticated of
             Inl eff \<Rightarrow> (eff, state)
           | Inr _ \<Rightarrow>
               activate_login config connection_id command authenticated generation state))"

definition login ::
  "core_config \<Rightarrow> authenticator \<Rightarrow> connection_id \<Rightarrow> login_command \<Rightarrow> net_state
   \<Rightarrow> effects \<times> net_state" where
  "login config auth connection_id command state =
     (case login_generation state connection_id command of
        Inl eff \<Rightarrow> (eff, state)
      | Inr generation \<Rightarrow>
          login_resume config connection_id command generation
            (au_authenticate auth (lc_network_id command) (lc_password command)) state)"

end
