(* ===== verification/Net_Commands.thy ===== *)
theory Net_Commands
  imports Net_Login
begin

text \<open>
  Commands of active sessions, the weather request and the entry point \<open>Network::execute\<close>
  (crate \<open>aster_fsd_core\<close>, files \<open>network/commands.rs\<close>, \<open>network/weather.rs\<close>,
  \<open>network/mod.rs\<close>, \<open>provider/weather.rs\<close>).
\<close>

section \<open>Handlers (commands.rs)\<close>

definition handle_state_command ::
  "libm \<Rightarrow> connection_id \<Rightarrow> callsign \<Rightarrow> client_type \<Rightarrow> command \<Rightarrow> net_state
   \<Rightarrow> effects \<times> net_state" where
  "handle_state_command lm connection_id c client_type command state =
     (case command of
        C_Logoff _ \<Rightarrow> disconnect_locked connection_id ''client logoff'' state
      | C_Position pos \<Rightarrow>
          (case position_validate pos of
             Inl e \<Rightarrow> (error_effect connection_id (Some c) E_Syntax (model_error_text e), state)
           | Inr _ \<Rightarrow>
               let expected_type = (case pos of Position_Pilot _ \<Rightarrow> Pilot | Position_Atc _ \<Rightarrow> Atc)
               in if client_type \<noteq> expected_type
                  then (error_effect connection_id (Some c) E_Syntax ''position type'', state)
                  else case session_of state connection_id of
                    None \<Rightarrow> (effects_default, state)
                  | Some session \<Rightarrow>
                      let state1 = put_session connection_id (session\<lparr>s_position := Some pos\<rparr>) state
                      in (send (position_recipients lm state1 connection_id) (Ev_Position pos), state1))
      | C_FlightPlan plan \<Rightarrow>
          (case session_of state connection_id of
             None \<Rightarrow> (effects_default, state)
           | Some session \<Rightarrow>
               let state1 = put_session connection_id (session\<lparr>s_flight_plan := Some plan\<rparr>) state
               in (send (flight_plan_recipients lm state1 connection_id (f64_lit 400))
                     (Ev_FlightPlan plan To_Atc), state1))
      | _ \<Rightarrow> (effects_default, state))"

definition handle_ping ::
  "libm \<Rightarrow> net_state \<Rightarrow> connection_id \<Rightarrow> callsign \<Rightarrow> destination \<Rightarrow> string \<Rightarrow> effects" where
  "handle_ping lm state connection_id source dest payload =
     (if dest = To_Server
      then send [connection_id] (Ev_Pong ''server'' (To_Direct source) payload)
      else send (resolve_destination lm state connection_id dest Range_Source)
             (Ev_Ping source dest payload))"

definition handle_routed_command ::
  "libm \<Rightarrow> net_state \<Rightarrow> connection_id \<Rightarrow> command \<Rightarrow> effects" where
  "handle_routed_command lm state connection_id command =
     (let route = (\<lambda>dest policy ev.
            send (resolve_destination lm state connection_id dest policy) ev)
      in case command of
           C_Text source dest message \<Rightarrow>
             route dest Range_Message (Ev_Text source dest message)
         | C_Response source dest kind arguments \<Rightarrow>
             route dest Range_Source (Ev_Response (as_str source) dest kind arguments)
         | C_Pong source dest payload \<Rightarrow>
             route dest Range_Source (Ev_Pong (as_str source) dest payload)
         | C_Handoff source target kind flds \<Rightarrow>
             route (To_Direct target) Range_Source (Ev_Handoff source target kind flds)
         | C_ClientData source target kind flds \<Rightarrow>
             route (To_Direct target) Range_Source (Ev_ClientData source target kind flds)
         | _ \<Rightarrow> effects_default)"

definition handle_kill ::
  "connection_id \<Rightarrow> callsign \<Rightarrow> i32 \<Rightarrow> callsign \<Rightarrow> string \<Rightarrow> net_state \<Rightarrow> effects \<times> net_state" where
  "handle_kill connection_id c rating target reason state =
     (case owner_of state target of
        None \<Rightarrow> (error_effect connection_id (Some c) E_NoSuchCallsign (as_str target), state)
      | Some target_id \<Rightarrow>
          if rating < 11
          then (send [connection_id] (Ev_Welcome c ''You are not allowed to kill users!''), state)
          else
            let e1 = send [connection_id] (Ev_Welcome c (''Attempting to kill '' @ as_str target));
                e2 = effects_extend e1 (send [target_id] (Ev_Disconnect target reason));
                (e3, state1) = disconnect_locked target_id reason state
            in (effects_extend e2 e3, state1))"

definition handle_query ::
  "libm \<Rightarrow> net_state \<Rightarrow> connection_id \<Rightarrow> callsign \<Rightarrow> destination \<Rightarrow> query_kind \<Rightarrow> string list
   \<Rightarrow> effects" where
  "handle_query lm state connection_id source dest kind arguments =
     (if dest \<noteq> To_Server
      then send (resolve_destination lm state connection_id dest Range_Source)
             (Ev_Query (as_str source) dest kind arguments)
      else case kind of
        Q_FlightPlan \<Rightarrow>
          (case (case arguments of
                   [] \<Rightarrow> None
                 | v # _ \<Rightarrow> (case callsign_parse v of Inl _ \<Rightarrow> None | Inr t \<Rightarrow> Some t)) of
             None \<Rightarrow> error_effect connection_id (Some source) E_Syntax []
           | Some target \<Rightarrow>
               (case owner_of state target of
                  None \<Rightarrow> error_effect connection_id (Some source) E_NoSuchCallsign (as_str target)
                | Some target_id \<Rightarrow>
                    (case Option.bind (session_of state target_id) s_flight_plan of
                       None \<Rightarrow> error_effect connection_id (Some source) E_NoFlightPlan []
                     | Some plan \<Rightarrow>
                         send [connection_id] (Ev_FlightPlan plan (To_Direct source)))))
      | _ \<Rightarrow> effects_default)"

definition execute_active ::
  "libm \<Rightarrow> connection_id \<Rightarrow> command \<Rightarrow> net_state \<Rightarrow> effects \<times> net_state" where
  "execute_active lm connection_id command state =
     (case session_of state connection_id of
        None \<Rightarrow> (effects_default, state)
      | Some session \<Rightarrow>
          if s_phase session \<noteq> Active then (effects_default, state)
          else case s_presence session of
            None \<Rightarrow> (effects_default, state)
          | Some presence \<Rightarrow>
              let c = cp_callsign presence in
              if command_source command \<noteq> Some c
              then (error_effect connection_id (Some c) E_InvalidSource
                      (case command_source command of None \<Rightarrow> [] | Some s \<Rightarrow> as_str s), state)
              else case command of
                C_Logoff _ \<Rightarrow>
                  handle_state_command lm connection_id c (cp_client_type presence) command state
              | C_Position _ \<Rightarrow>
                  handle_state_command lm connection_id c (cp_client_type presence) command state
              | C_FlightPlan _ \<Rightarrow>
                  handle_state_command lm connection_id c (cp_client_type presence) command state
              | C_Query source dest kind arguments \<Rightarrow>
                  (handle_query lm state connection_id source dest kind arguments, state)
              | C_Ping source dest payload \<Rightarrow>
                  (handle_ping lm state connection_id source dest payload, state)
              | C_Text _ _ _ \<Rightarrow> (handle_routed_command lm state connection_id command, state)
              | C_Response _ _ _ _ \<Rightarrow> (handle_routed_command lm state connection_id command, state)
              | C_Pong _ _ _ \<Rightarrow> (handle_routed_command lm state connection_id command, state)
              | C_Handoff _ _ _ _ \<Rightarrow> (handle_routed_command lm state connection_id command, state)
              | C_ClientData _ _ _ _ \<Rightarrow> (handle_routed_command lm state connection_id command, state)
              | C_Kill _ target reason \<Rightarrow>
                  handle_kill connection_id c (cp_rating presence) target reason state
              | C_Noop _ \<Rightarrow> (effects_default, state)
              | C_Identify _ \<Rightarrow> (effects_default, state)
              | C_Login _ \<Rightarrow> (effects_default, state)
              | C_WeatherRequest _ _ _ \<Rightarrow> (effects_default, state))"

section \<open>Weather (provider/weather.rs, network/weather.rs)\<close>

record weather_lookup =
  wk_station :: string
  wk_coordinates :: "(f64 \<times> f64) option"

record weather_observation =
  wo_raw_metar :: "string option"
  wo_profile :: "weather_profile option"

datatype weather_provider_error = Weather_Provider_Error (wpe_message: string)

text \<open>A value of \<open>Arc<dyn WeatherProvider>\<close>: the method \<open>lookup\<close>.\<close>

type_synonym weather_provider =
  "weather_lookup \<Rightarrow> weather_provider_error + weather_observation option"

definition unavailable_weather_provider :: weather_provider where
  "unavailable_weather_provider request = Inr None"

definition weather_request_coordinates ::
  "net_state \<Rightarrow> connection_id \<Rightarrow> callsign \<Rightarrow> effects + (f64 \<times> f64) option" where
  "weather_request_coordinates state connection_id source =
     (case session_of state connection_id of
        None \<Rightarrow> Inl effects_default
      | Some session \<Rightarrow>
          if s_phase session \<noteq> Active then Inl effects_default
          else if session_callsign session \<noteq> Some source
          then Inl (error_effect connection_id (session_callsign session) E_InvalidSource (as_str source))
          else Inr (map_option coordinates (s_position session)))"

definition no_weather :: "connection_id \<Rightarrow> callsign \<Rightarrow> string \<Rightarrow> effects" where
  "no_weather connection_id source station =
     error_effect connection_id (Some source) E_NoWeather station"

definition parsed_weather_effect ::
  "connection_id \<Rightarrow> callsign \<Rightarrow> string \<Rightarrow> weather_profile option \<Rightarrow> effects" where
  "parsed_weather_effect connection_id source station profile =
     (case profile of
        None \<Rightarrow> no_weather connection_id source station
      | Some w \<Rightarrow>
          if \<not> is_ok (weather_validate w) then no_weather connection_id source station
          else send [connection_id] (Ev_WeatherProfile source station w))"

definition raw_weather_effect ::
  "connection_id \<Rightarrow> callsign \<Rightarrow> string \<Rightarrow> string option \<Rightarrow> effects" where
  "raw_weather_effect connection_id source station report =
     (case report of
        None \<Rightarrow> no_weather connection_id source station
      | Some r \<Rightarrow>
          if list_ex is_delim r then no_weather connection_id source station
          else send [connection_id] (Ev_WeatherReport ''server'' source station r))"

text \<open>What follows the answer of the provider; it reads no shared state.\<close>

definition weather_resume ::
  "connection_id \<Rightarrow> callsign \<Rightarrow> string \<Rightarrow> bool
   \<Rightarrow> weather_provider_error + weather_observation option \<Rightarrow> effects" where
  "weather_resume connection_id source station parsed answer =
     (case answer of
        Inr (Some observation) \<Rightarrow>
          if parsed then parsed_weather_effect connection_id source station (wo_profile observation)
          else raw_weather_effect connection_id source station (wo_raw_metar observation)
      | Inr None \<Rightarrow> no_weather connection_id source station
      | Inl _ \<Rightarrow> no_weather connection_id source station)"

definition weather_request ::
  "weather_provider \<Rightarrow> net_state \<Rightarrow> connection_id \<Rightarrow> callsign \<Rightarrow> string \<Rightarrow> bool \<Rightarrow> effects" where
  "weather_request provider state connection_id source station parsed =
     (case weather_request_coordinates state connection_id source of
        Inl eff \<Rightarrow> eff
      | Inr position \<Rightarrow>
          weather_resume connection_id source station parsed
            (provider \<lparr>wk_station = station, wk_coordinates = position\<rparr>))"

section \<open>The network\<close>

text \<open>\<open>Network\<close>: its configuration, its two ports and the platform's math library.\<close>

record network =
  nw_config :: core_config
  nw_authenticator :: authenticator
  nw_weather_provider :: weather_provider
  nw_libm :: libm

definition execute :: "network \<Rightarrow> connection_id \<Rightarrow> command \<Rightarrow> net_state \<Rightarrow> effects \<times> net_state" where
  "execute nw connection_id command state =
     (case command of
        C_Identify c \<Rightarrow> identify (nw_authenticator nw) connection_id c state
      | C_Login c \<Rightarrow> login (nw_config nw) (nw_authenticator nw) connection_id c state
      | C_WeatherRequest source station parsed \<Rightarrow>
          (weather_request (nw_weather_provider nw) state connection_id source station parsed, state)
      | _ \<Rightarrow> execute_active (nw_libm nw) connection_id command state)"

end
