(* ===== verification/Net_Inv.thy ===== *)
theory Net_Inv
  imports Net_Commands
begin

text \<open>
  The invariant of the network state and its preservation by every operation of
  \<open>Net_State\<close>, \<open>Net_Login\<close> and \<open>Net_Commands\<close>: the two indexes agree, every session is in
  a consistent phase, and the capacity is respected.
\<close>

section \<open>The invariant\<close>

definition position_ok :: "session \<Rightarrow> bool" where
  "position_ok s =
     (case s_position s of
        None \<Rightarrow> True
      | Some pos \<Rightarrow>
          s_phase s = Active \<and> is_ok (position_validate pos)
          \<and> map_option cp_client_type (s_presence s)
            = Some (case pos of Position_Pilot _ \<Rightarrow> Pilot | Position_Atc _ \<Rightarrow> Atc)
          \<and> session_callsign s = Some (position_callsign pos))"

definition plan_ok :: "session \<Rightarrow> bool" where
  "plan_ok s =
     (case s_flight_plan s of
        None \<Rightarrow> True
      | Some plan \<Rightarrow> s_phase s = Active \<and> session_callsign s = Some (fp_callsign plan))"

definition phase_ok :: "session \<Rightarrow> bool" where
  "phase_ok s =
     (case s_phase s of
        Connected \<Rightarrow>
          s_generation s = 0 \<and> s_identification s = None \<and> s_presence s = None
      | Identified \<Rightarrow>
          s_generation s = 1 \<and> s_identification s \<noteq> None \<and> s_presence s = None
      | Active \<Rightarrow>
          s_generation s = (if s_identification s = None then 1 else 2) \<and> s_presence s \<noteq> None
          \<and> (s_dialect s = Vatsim \<longrightarrow>
               map_option id_callsign (s_identification s) = session_callsign s)
      | Closed \<Rightarrow> False)"

definition session_ok :: "session \<Rightarrow> bool" where
  "session_ok s = (phase_ok s \<and> position_ok s \<and> plan_ok s)"

definition sessions_ok :: "net_state \<Rightarrow> bool" where
  "sessions_ok st =
     (\<forall>i s. session_of st i = Some s \<longrightarrow> s_connection_id s = i \<and> session_ok s)"

definition indexes_agree :: "net_state \<Rightarrow> bool" where
  "indexes_agree st =
     (\<forall>c i. owner_of st c = Some i \<longleftrightarrow>
        (\<exists>s. session_of st i = Some s \<and> session_callsign s = Some c))"

definition net_inv :: "core_config \<Rightarrow> net_state \<Rightarrow> bool" where
  "net_inv config st =
     (hm_wf (ns_sessions st) \<and> hm_wf (ns_callsigns st) \<and> sessions_ok st \<and> indexes_agree st
      \<and> length (hm_values (ns_sessions st)) \<le> co_max_clients config)"

section \<open>Reading updated states\<close>

lemma session_of_put [simp]:
  "session_of (put_session i s st) j = (if j = i then Some s else session_of st j)"
  by (simp add: put_session_def hm.get_insert)

lemma owner_of_put [simp]: "ns_callsigns (put_session i s st) = ns_callsigns st"
  by (simp add: put_session_def)

lemma put_session_wf [simp]: "hm_wf (ns_sessions st) \<Longrightarrow> hm_wf (ns_sessions (put_session i s st))"
  by (simp add: put_session_def hm.wf_insert)

lemma put_session_size:
  "length (hm_values (ns_sessions (put_session i s st))) =
     (if session_of st i = None then Suc (length (hm_values (ns_sessions st)))
      else length (hm_values (ns_sessions st)))"
  by (simp add: put_session_def hm.length_vals_insert)

lemma session_okD:
  assumes "session_ok s"
  shows "s_phase s = Active \<longleftrightarrow> s_presence s \<noteq> None" and "s_phase s \<noteq> Closed"
  using assms by (auto simp: session_ok_def phase_ok_def split: session_phase.splits)

lemma session_ok_callsign:
  "session_ok s \<Longrightarrow> s_phase s = Active \<longleftrightarrow> session_callsign s \<noteq> None"
  by (auto simp: session_callsign_def dest: session_okD(1))

lemma net_invD:
  assumes "net_inv config st"
  shows net_inv_wf: "hm_wf (ns_sessions st)" "hm_wf (ns_callsigns st)"
    and net_inv_sessions: "session_of st i = Some s \<Longrightarrow> s_connection_id s = i \<and> session_ok s"
    and net_inv_owner:
      "owner_of st c = Some i \<longleftrightarrow> (\<exists>s. session_of st i = Some s \<and> session_callsign s = Some c)"
    and net_inv_size: "length (hm_values (ns_sessions st)) \<le> co_max_clients config"
  using assms by (auto simp: net_inv_def sessions_ok_def indexes_agree_def)

lemma net_inv_callsign_unique:
  assumes "net_inv config st" "session_of st i = Some s" "session_of st j = Some t"
    and "session_callsign s = Some c" "session_callsign t = Some c"
  shows "i = j"
  using net_inv_owner [OF assms(1), of c] assms(2-) by (metis option.inject)

text \<open>Updating a session without touching its presence or its identity keeps the indexes.\<close>

lemma net_inv_update_session:
  assumes "net_inv config st" "session_of st i = Some s"
    and "s_connection_id s' = i" "session_ok s'" "s_presence s' = s_presence s"
  shows "net_inv config (put_session i s' st)"
proof -
  have "indexes_agree (put_session i s' st)"
    using assms(1,2,5) by (auto simp: net_inv_def indexes_agree_def session_callsign_def)
  with assms show ?thesis
    by (auto simp: net_inv_def sessions_ok_def put_session_size)
qed

section \<open>Registration\<close>

lemma net_inv_default: "net_inv config net_state_default"
  by (simp add: net_inv_def net_state_default_def sessions_ok_def indexes_agree_def
      hm.wf_empty hm_values_def)

lemma fresh_session_ok: "session_ok (fresh_session i p d)"
  by (simp add: session_ok_def phase_ok_def position_ok_def plan_ok_def fresh_session_def)

lemma register_inv:
  assumes "net_inv config st"
  shows "net_inv config (snd (register config i p d st))"
proof (cases "session_of st i = None \<and> length (hm_values (ns_sessions st)) < co_max_clients config")
  case True
  have "indexes_agree (put_session i (fresh_session i p d) st)"
    using assms True net_inv_owner [OF assms]
    by (auto simp: indexes_agree_def session_callsign_def fresh_session_def)
  with assms True show ?thesis
    by (auto simp: register_def net_inv_def sessions_ok_def put_session_size fresh_session_ok)
      (auto simp: fresh_session_def)
next
  case False
  with assms show ?thesis by (auto simp: register_def)
qed

section \<open>Disconnection\<close>

lemma disconnect_session_of:
  assumes "hm_wf (ns_sessions st)"
  shows "session_of (snd (disconnect_locked i r st)) j = (if j = i then None else session_of st j)"
  using assms by (auto simp: disconnect_locked_def Let_def hm.get_remove split: option.splits)

lemma disconnect_owner_of:
  assumes "hm_wf (ns_callsigns st)"
  shows "owner_of (snd (disconnect_locked i r st)) c =
    (case Option.bind (session_of st i) session_callsign of
       Some c' \<Rightarrow> if c = c' then None else owner_of st c
     | None \<Rightarrow> owner_of st c)"
  using assms
  by (auto simp: disconnect_locked_def Let_def session_callsign_def hm.get_remove split: option.splits)

lemma disconnect_inv:
  assumes inv: "net_inv config st"
  shows "net_inv config (snd (disconnect_locked i r st))"
proof -
  let ?t = "snd (disconnect_locked i r st)"
  note wf = net_inv_wf [OF inv]
  have s: "session_of ?t j = (if j = i then None else session_of st j)" for j
    by (rule disconnect_session_of [OF wf(1)])
  have "hm_wf (ns_sessions ?t)" "hm_wf (ns_callsigns ?t)"
    using wf by (auto simp: disconnect_locked_def Let_def hm.wf_remove split: option.splits)
  moreover have "sessions_ok ?t"
    using inv s by (auto simp: net_inv_def sessions_ok_def split: if_splits)
  moreover have "indexes_agree ?t"
    using net_inv_owner [OF inv] net_inv_callsign_unique [OF inv]
    unfolding indexes_agree_def s disconnect_owner_of [OF wf(2)]
    by (auto split: option.splits Option.bind_splits)
  moreover have "length (hm_values (ns_sessions ?t)) \<le> length (hm_values (ns_sessions st))"
    by (auto simp: disconnect_locked_def Let_def hm.vals_remove split: option.splits)
  ultimately show ?thesis using net_inv_size [OF inv] by (simp add: net_inv_def)
qed

section \<open>Identification and login\<close>

lemma identify_finish_inv:
  assumes inv: "net_inv config st"
  shows "net_inv config (snd (identify_finish i cmd g ans st))"
proof (cases "session_of st i")
  case None
  with inv show ?thesis by (simp add: identify_finish_def split: sum.splits)
next
  case (Some s)
  with inv have ok: "s_connection_id s = i" "session_ok s" by (auto dest: net_inv_sessions)
  have "session_ok (s\<lparr>s_identification := Some cmd, s_phase := Identified,
                      s_generation := s_generation s + 1\<rparr>)" if "s_phase s = Connected"
    using ok(2) that
    by (auto simp: session_ok_def phase_ok_def position_ok_def plan_ok_def split: option.splits)
  with Some inv ok show ?thesis
    by (auto simp: identify_finish_def split: sum.splits intro!: net_inv_update_session)
qed

lemma identify_inv: "net_inv config st \<Longrightarrow> net_inv config (snd (identify auth i cmd st))"
  by (simp add: identify_def identify_finish_inv split: sum.splits)

text \<open>The session a successful login installs.\<close>

definition activated :: "session \<Rightarrow> login_command \<Rightarrow> authenticated_identity \<Rightarrow> session" where
  "activated s command authenticated =
     s\<lparr>s_phase := Active, s_presence := Some (presence_of_login command authenticated),
       s_generation := s_generation s + 1\<rparr>"

definition login_activates ::
  "connection_id \<Rightarrow> login_command \<Rightarrow> u64 \<Rightarrow> net_state \<Rightarrow> session \<Rightarrow> bool" where
  "login_activates i command generation st s =
     (owner_of st (lc_callsign command) = None \<and> session_of st i = Some s
      \<and> s_phase s \<in> {Connected, Identified} \<and> s_generation s = generation
      \<and> (s_dialect s = Vatsim \<longrightarrow> identification_matches (s_identification s) command))"

lemma activate_login_cases:
  obtains (active) s where "login_activates i command g st s"
      "activate_login config i command a g st =
         (let st' = (put_session i (activated s command a) st)
                \<lparr>ns_callsigns := hm_insert (lc_callsign command) i (ns_callsigns st)\<rparr>
          in (login_effects config st' i (presence_of_login command a), st'))"
  | (refused) e where "activate_login config i command a g st = (e, st)"
      "\<And>s. \<not> login_activates i command g st s"
proof (cases "\<exists>s. login_activates i command g st s")
  case True
  then obtain s where s: "login_activates i command g st s" ..
  then show ?thesis
    by (intro active [of s])
      (auto simp: activate_login_def login_activates_def activated_def Let_def)
next
  case False
  then have "snd (activate_login config i command a g st) = st"
    by (auto simp: activate_login_def login_activates_def split: option.split)
  then have "activate_login config i command a g st = (fst (activate_login config i command a g st), st)"
    by (metis prod.collapse)
  with False show ?thesis by (intro refused) auto
qed

lemma activated_ok:
  assumes "session_ok s" "login_activates i command g st s"
  shows "session_ok (activated s command a)"
  using assms
  by (auto simp: session_ok_def phase_ok_def position_ok_def plan_ok_def login_activates_def
      activated_def session_callsign_def presence_of_login_def identification_matches_def
      split: option.splits)

lemma activate_login_inv:
  assumes inv: "net_inv config st"
  shows "net_inv config (snd (activate_login config i command a g st))"
proof (cases rule: activate_login_cases [of i command g st config a])
  case (active s)
  let ?t = "(put_session i (activated s command a) st)
              \<lparr>ns_callsigns := hm_insert (lc_callsign command) i (ns_callsigns st)\<rparr>"
  from active(1) have s: "session_of st i = Some s" and free: "owner_of st (lc_callsign command) = None"
    and ph: "s_phase s \<in> {Connected, Identified}" by (auto simp: login_activates_def)
  from inv s have ok: "s_connection_id s = i" "session_ok s" by (auto dest: net_inv_sessions)
  from ph have "s_phase s \<noteq> Active" by auto
  with ok(2) have noc: "session_callsign s = None" by (simp add: session_ok_callsign)
  have t: "session_of ?t j = (if j = i then Some (activated s command a) else session_of st j)" for j
    by simp
  have o': "owner_of ?t c = (if c = lc_callsign command then Some i else owner_of st c)" for c
    by (simp add: hm.get_insert)
  have c: "session_callsign (activated s command a) = Some (lc_callsign command)"
    by (simp add: session_callsign_def activated_def presence_of_login_def)
  have "sessions_ok ?t"
    using inv ok activated_ok [OF ok(2) active(1)] unfolding sessions_ok_def t
    by (auto simp: net_inv_def sessions_ok_def activated_def)
  moreover have "indexes_agree ?t"
    unfolding indexes_agree_def t o'
  proof (intro allI)
    fix c' j
    note ow = net_inv_owner [OF inv, of c' j]
    show "(if c' = lc_callsign command then Some i else owner_of st c') = Some j \<longleftrightarrow>
      (\<exists>s'. (if j = i then Some (activated s command a) else session_of st j) = Some s'
         \<and> session_callsign s' = Some c')"
      using ow s free noc c by (cases "j = i"; cases "c' = lc_callsign command") auto
  qed
  ultimately have "net_inv config ?t"
    using inv s by (simp add: net_inv_def put_session_size hm.wf_insert)
  then show ?thesis by (simp add: active(2) Let_def)
next
  case (refused e)
  with inv show ?thesis by simp
qed

lemma login_resume_inv:
  "net_inv config st \<Longrightarrow> net_inv config (snd (login_resume config i command g ans st))"
  by (auto simp: login_resume_def activate_login_inv split: sum.splits auth_error.splits)

lemma login_inv: "net_inv config st \<Longrightarrow> net_inv config (snd (login config auth i command st))"
  by (simp add: login_def login_resume_inv split: sum.splits)

section \<open>Commands of active sessions\<close>

lemma net_inv_set_position:
  assumes "net_inv config st" "session_of st i = Some s" "s_presence s = Some p"
    and "position_callsign pos = cp_callsign p" "is_ok (position_validate pos)"
    and "cp_client_type p = (case pos of Position_Pilot _ \<Rightarrow> Pilot | Position_Atc _ \<Rightarrow> Atc)"
  shows "net_inv config (put_session i (s\<lparr>s_position := Some pos\<rparr>) st)"
proof -
  have ok: "s_connection_id s = i" "session_ok s"
    using assms(1,2) by (auto dest: net_inv_sessions)
  then have "s_phase s = Active" using assms(3) by (simp add: session_okD(1))
  then have "session_ok (s\<lparr>s_position := Some pos\<rparr>)"
    using ok(2) assms(3-)
    by (auto simp: session_ok_def phase_ok_def position_ok_def plan_ok_def session_callsign_def
        split: option.splits)
  with assms ok show ?thesis by (intro net_inv_update_session) auto
qed

lemma net_inv_set_plan:
  assumes "net_inv config st" "session_of st i = Some s" "s_presence s = Some p"
    and "fp_callsign plan = cp_callsign p"
  shows "net_inv config (put_session i (s\<lparr>s_flight_plan := Some plan\<rparr>) st)"
proof -
  have ok: "s_connection_id s = i" "session_ok s"
    using assms(1,2) by (auto dest: net_inv_sessions)
  then have "s_phase s = Active" using assms(3) by (simp add: session_okD(1))
  then have "session_ok (s\<lparr>s_flight_plan := Some plan\<rparr>)"
    using ok(2) assms(3-)
    by (auto simp: session_ok_def phase_ok_def position_ok_def plan_ok_def session_callsign_def
        split: option.splits)
  with assms ok show ?thesis by (intro net_inv_update_session) auto
qed

lemma handle_state_command_inv:
  assumes "net_inv config st" "session_of st i = Some s" "s_presence s = Some p"
    and "command_source command = Some (cp_callsign p)"
  shows "net_inv config
    (snd (handle_state_command lm i (cp_callsign p) (cp_client_type p) command st))"
proof (cases command)
  case (C_Position pos)
  with assms show ?thesis
    by (auto simp: handle_state_command_def Let_def intro!: net_inv_set_position
        split: sum.splits position.splits)
next
  case (C_FlightPlan plan)
  with assms show ?thesis
    by (auto simp: handle_state_command_def Let_def intro!: net_inv_set_plan)
qed (use assms in \<open>auto simp: handle_state_command_def disconnect_inv\<close>)

lemma handle_kill_inv:
  "net_inv config st \<Longrightarrow> net_inv config (snd (handle_kill i c rating target reason st))"
  using disconnect_inv [of config st _ reason]
  by (auto simp: handle_kill_def Let_def split: option.splits prod.splits) (metis snd_conv)

text \<open>
  What \<open>execute_active\<close> does, by cases: nothing for a session that is not active, an error
  for a spoofed source, otherwise the handler of the command.
\<close>

lemma execute_active_cases:
  assumes "net_inv config st"
  obtains (inactive) "execute_active lm i command st = (effects_default, st)"
      "\<forall>s. session_of st i = Some s \<longrightarrow> s_phase s \<noteq> Active"
  | (spoofed) s p e where "session_of st i = Some s" "s_phase s = Active" "s_presence s = Some p"
      "command_source command \<noteq> Some (cp_callsign p)"
      "e = (case command_source command of None \<Rightarrow> [] | Some c \<Rightarrow> as_str c)"
      "execute_active lm i command st = (error_effect i (Some (cp_callsign p)) E_InvalidSource e, st)"
  | (handled) s p where "session_of st i = Some s" "s_phase s = Active" "s_presence s = Some p"
      "command_source command = Some (cp_callsign p)"
proof (cases "session_of st i")
  case None
  then show ?thesis by (intro inactive) (auto simp: execute_active_def)
next
  case (Some s)
  show ?thesis
  proof (cases "s_phase s = Active")
    case False
    with Some show ?thesis by (intro inactive) (auto simp: execute_active_def)
  next
    case True
    with Some assms obtain p where p: "s_presence s = Some p"
      by (metis net_inv_sessions not_None_eq session_okD(1))
    show ?thesis
    proof (cases "command_source command = Some (cp_callsign p)")
      case True
      with Some \<open>s_phase s = Active\<close> p show ?thesis by (rule handled)
    next
      case False
      with Some \<open>s_phase s = Active\<close> p show ?thesis
        by (intro spoofed) (auto simp: execute_active_def Let_def)
    qed
  qed
qed

lemma execute_active_inv:
  assumes "net_inv config st"
  shows "net_inv config (snd (execute_active lm i command st))"
  using assms
proof (cases rule: execute_active_cases [of config st lm i command])
  case (handled s p)
  with assms show ?thesis
    using handle_state_command_inv [OF assms handled(1,3,4), of lm]
    by (cases command) (auto simp: execute_active_def Let_def handle_kill_inv)
qed (use assms in auto)

lemma execute_inv:
  "net_inv (nw_config nw) st \<Longrightarrow> net_inv (nw_config nw) (snd (execute nw i command st))"
  by (cases command) (simp_all add: execute_def identify_inv login_inv execute_active_inv)

end
