(* ===== verification/Net_Routing.thy ===== *)
theory Net_Routing
  imports Net_Inv
begin

text \<open>
  Who receives what: the recipient lists computed by \<open>routing.rs\<close> as sets of sessions, and
  the recipients of the effects of every operation.
\<close>

section \<open>Recipient lists\<close>

definition ids_where :: "(session \<Rightarrow> bool) \<Rightarrow> net_state \<Rightarrow> connection_id list" where
  "ids_where P st = map s_connection_id (filter P (hm_values (ns_sessions st)))"

lemma ids_where_keys:
  assumes "hm_wf (ns_sessions st)" "sessions_ok st"
  shows "ids_where P st = map fst (filter (\<lambda>(i, s). P s) (ns_sessions st))"
proof -
  have "s_connection_id s = i" if "(i, s) \<in> set (ns_sessions st)" for i s
  proof -
    from that assms(1) have "session_of st i = Some s" by (simp add: hm_wf_def hm_get_def)
    with assms(2) show ?thesis by (simp add: sessions_ok_def)
  qed
  then show ?thesis
    by (auto simp: ids_where_def hm_values_def filter_map comp_def case_prod_unfold)
qed

lemma ids_where:
  assumes "net_inv config st"
  shows ids_where_distinct: "distinct (ids_where P st)"
    and ids_where_iff: "i \<in> set (ids_where P st) \<longleftrightarrow> (\<exists>s. session_of st i = Some s \<and> P s)"
proof -
  have wf: "hm_wf (ns_sessions st)" and ok: "sessions_ok st" using assms by (auto simp: net_inv_def)
  note k = ids_where_keys [OF wf ok, of P]
  have "distinct (map fst (filter (\<lambda>(i, s). P s) (ns_sessions st)))"
    using wf by (auto simp: hm_wf_def intro: distinct_map_filter)
  then show "distinct (ids_where P st)" by (simp add: k)
  show "i \<in> set (ids_where P st) \<longleftrightarrow> (\<exists>s. session_of st i = Some s \<and> P s)"
    using wf by (force simp: k hm_wf_def hm_get_def map_of_eq_Some_iff)
qed

definition receives_all :: "connection_id option \<Rightarrow> session \<Rightarrow> bool" where
  "receives_all exclude s = (s_phase s = Active \<and> Some (s_connection_id s) \<noteq> exclude)"

lemma active_ids_where: "active_ids st exclude = ids_where (receives_all exclude) st"
  by (simp add: active_ids_def ids_where_def receives_all_def [abs_def])

lemma active_ids:
  assumes "net_inv config st"
  shows active_ids_distinct: "distinct (active_ids st exclude)"
    and active_ids_iff: "i \<in> set (active_ids st exclude) \<longleftrightarrow>
      Some i \<noteq> exclude \<and> (\<exists>s. session_of st i = Some s \<and> s_phase s = Active)"
  using ids_where_distinct [OF assms, of "receives_all exclude"]
    ids_where_iff [OF assms, of i "receives_all exclude"] net_inv_sessions [OF assms]
  by (auto simp: active_ids_where receives_all_def)

text \<open>The sessions a destination addresses, as the protocol describes it.\<close>

definition addressed ::
  "libm \<Rightarrow> net_state \<Rightarrow> connection_id \<Rightarrow> destination \<Rightarrow> range_policy \<Rightarrow> connection_id \<Rightarrow> session \<Rightarrow> bool"
  where
  "addressed lm st sender dest policy i s =
     (case dest of
        To_Server \<Rightarrow> False
      | To_Direct c \<Rightarrow> session_callsign s = Some c
      | To_All \<Rightarrow> True
      | To_Atc \<Rightarrow> is_atc (s_presence s)
      | To_Pilots \<Rightarrow> is_pilot_like (s_presence s)
      | To_Range _ \<Rightarrow>
          (case policy of
             Range_Source \<Rightarrow> within_source_range lm st sender i
           | Range_Message \<Rightarrow> within_message_range lm st sender i))"

lemma resolve_destination_Range:
  "resolve_destination lm st sender (To_Range r) policy =
     ids_where (\<lambda>s. s_connection_id s \<noteq> sender \<and> s_phase s = Active
       \<and> addressed lm st sender (To_Range r) policy (s_connection_id s) s) st"
  by (simp add: resolve_destination_def ids_where_def addressed_def cong: range_policy.case_cong)

lemma resolve_destination_spec:
  assumes inv: "net_inv config st"
  shows "distinct (resolve_destination lm st sender dest policy)"
    and "i \<in> set (resolve_destination lm st sender dest policy) \<longleftrightarrow>
      i \<noteq> sender \<and> (\<exists>s. session_of st i = Some s \<and> s_phase s = Active
        \<and> addressed lm st sender dest policy i s)"
proof -
  have d: "distinct (resolve_destination lm st sender dest policy) \<and>
    (i \<in> set (resolve_destination lm st sender dest policy) \<longleftrightarrow>
      i \<noteq> sender \<and> (\<exists>s. session_of st i = Some s \<and> s_phase s = Active
        \<and> addressed lm st sender dest policy i s))"
  proof (cases dest)
    case (To_Direct c)
    have "owner_of st c = Some i \<longleftrightarrow>
        (\<exists>s. session_of st i = Some s \<and> s_phase s = Active \<and> session_callsign s = Some c)"
      using net_inv_owner [OF inv, of c i] net_inv_sessions [OF inv, of i]
      by (auto simp: session_ok_callsign)
    with To_Direct show ?thesis
      by (auto simp: resolve_destination_def addressed_def split: option.splits)
  next
    case (To_Range r)
    with ids_where_distinct [OF inv, of "\<lambda>s. s_connection_id s \<noteq> sender \<and> s_phase s = Active
       \<and> addressed lm st sender dest policy (s_connection_id s) s"]
    ids_where_iff [OF inv, of i "\<lambda>s. s_connection_id s \<noteq> sender \<and> s_phase s = Active
       \<and> addressed lm st sender dest policy (s_connection_id s) s"] net_inv_sessions [OF inv, of i]
    show ?thesis by (auto simp: resolve_destination_Range)
  next
    case To_All
    with active_ids_distinct [OF inv, of "Some sender"] active_ids_iff [OF inv, of i "Some sender"] show ?thesis
      by (auto simp: resolve_destination_def addressed_def)
  next
    case To_Atc
    with ids_where_distinct [OF inv, of "\<lambda>s. s_connection_id s \<noteq> sender \<and> s_phase s = Active \<and> is_atc (s_presence s)"]
    ids_where_iff [OF inv, of i "\<lambda>s. s_connection_id s \<noteq> sender \<and> s_phase s = Active \<and> is_atc (s_presence s)"]
      net_inv_sessions [OF inv, of i]
    show ?thesis by (auto simp: resolve_destination_def ids_where_def addressed_def)
  next
    case To_Pilots
    with ids_where_distinct [OF inv, of "\<lambda>s. s_connection_id s \<noteq> sender \<and> s_phase s = Active \<and> is_pilot_like (s_presence s)"]
    ids_where_iff [OF inv, of i "\<lambda>s. s_connection_id s \<noteq> sender \<and> s_phase s = Active \<and> is_pilot_like (s_presence s)"]
      net_inv_sessions [OF inv, of i]
    show ?thesis by (auto simp: resolve_destination_def ids_where_def addressed_def)
  qed (simp add: resolve_destination_def addressed_def)
  from d show "distinct (resolve_destination lm st sender dest policy)" by simp
  from d show "i \<in> set (resolve_destination lm st sender dest policy) \<longleftrightarrow>
      i \<noteq> sender \<and> (\<exists>s. session_of st i = Some s \<and> s_phase s = Active
        \<and> addressed lm st sender dest policy i s)" by simp
qed

lemma position_recipients:
  assumes inv: "net_inv config st"
  shows "distinct (position_recipients lm st source)"
    and "i \<in> set (position_recipients lm st source) \<longleftrightarrow>
      i \<noteq> source \<and> (\<exists>s. session_of st i = Some s \<and> s_phase s = Active)
      \<and> within_position_range lm st source i"
  using ids_where_distinct [OF inv, of "\<lambda>t. s_connection_id t \<noteq> source \<and> s_phase t = Active
      \<and> within_position_range lm st source (s_connection_id t)"]
    ids_where_iff [OF inv, of i "\<lambda>t. s_connection_id t \<noteq> source \<and> s_phase t = Active
      \<and> within_position_range lm st source (s_connection_id t)"] net_inv_sessions [OF inv, of i]
  by (auto simp: position_recipients_def ids_where_def)

definition within_radius :: "libm \<Rightarrow> net_state \<Rightarrow> connection_id \<Rightarrow> f64 \<Rightarrow> connection_id \<Rightarrow> bool" where
  "within_radius lm st source radius i =
     (\<exists>d. distance_between lm st source i = Some d \<and> f64_le d radius)"

lemma flight_plan_recipients_where:
  "flight_plan_recipients lm st source radius =
     ids_where (\<lambda>t. s_connection_id t \<noteq> source \<and> s_phase t = Active \<and> is_atc (s_presence t)
       \<and> within_radius lm st source radius (s_connection_id t)) st"
proof -
  have "(case x of None \<Rightarrow> False | Some d \<Rightarrow> f64_le d radius) \<longleftrightarrow> (\<exists>d. x = Some d \<and> f64_le d radius)"
    for x by (cases x) auto
  then show ?thesis
    by (simp add: flight_plan_recipients_def ids_where_def within_radius_def)
qed

lemma flight_plan_recipients:
  assumes inv: "net_inv config st"
  shows "distinct (flight_plan_recipients lm st source radius)"
    and "i \<in> set (flight_plan_recipients lm st source radius) \<longleftrightarrow>
      i \<noteq> source \<and> (\<exists>s. session_of st i = Some s \<and> s_phase s = Active \<and> is_atc (s_presence s))
      \<and> (\<exists>d. distance_between lm st source i = Some d \<and> f64_le d radius)"
  using ids_where_distinct [OF inv, of "\<lambda>t. s_connection_id t \<noteq> source \<and> s_phase t = Active
      \<and> is_atc (s_presence t) \<and> within_radius lm st source radius (s_connection_id t)"]
    ids_where_iff [OF inv, of i "\<lambda>t. s_connection_id t \<noteq> source \<and> s_phase t = Active
      \<and> is_atc (s_presence t) \<and> within_radius lm st source radius (s_connection_id t)"] net_inv_sessions [OF inv, of i]
  by (auto simp: flight_plan_recipients_where within_radius_def)

section \<open>Position ranges\<close>

definition permitted_range :: "session \<Rightarrow> session \<Rightarrow> f64" where
  "permitted_range x y =
     (if is_atc (s_presence y) then
        (case s_position y of
           Some (Position_Atc p) \<Rightarrow> f64_of_i32 (max (ap_visual_range p) 0)
         | _ \<Rightarrow> session_range y)
      else if is_pilot_like (s_presence x) then f64_add (session_range x) (session_range y)
      else f64_max (session_range x) (session_range y))"

lemma distance_between_positions:
  "distance_between lm st i j = Some d \<Longrightarrow>
     \<exists>x y px py. session_of st i = Some x \<and> session_of st j = Some y
       \<and> s_position x = Some px \<and> s_position y = Some py"
  by (auto simp: distance_between_def bind_eq_Some_conv split: option.splits)

lemma position_in_range_iff:
  "within_position_range lm st i j \<longleftrightarrow>
     (\<exists>x y px py d. session_of st i = Some x \<and> session_of st j = Some y
        \<and> s_position x = Some px \<and> s_position y = Some py
        \<and> distance_between lm st i j = Some d \<and> f64_le d (permitted_range x y))"
proof -
  have "within_position_range lm st i j \<longleftrightarrow>
     (\<exists>x y d. session_of st i = Some x \<and> session_of st j = Some y
        \<and> distance_between lm st i j = Some d \<and> f64_le d (permitted_range x y))"
    by (auto simp: within_position_range_def permitted_range_def Let_def split: option.splits)
  with distance_between_positions [of lm st i j] show ?thesis by fastforce
qed

end
