(* ===== verification/Net_Effects.thy ===== *)
theory Net_Effects
  imports Net_Routing
begin

text \<open>
  Where the effects of an operation go: \<open>delivers_within P e\<close> says that every delivery of
  \<open>e\<close> has recipients, lists none of them twice, and that all of them satisfy \<open>P\<close>.
\<close>

definition delivery_within :: "(connection_id \<Rightarrow> bool) \<Rightarrow> delivery \<Rightarrow> bool" where
  "delivery_within P d =
     (dl_recipients d \<noteq> [] \<and> distinct (dl_recipients d) \<and> list_all P (dl_recipients d))"

definition delivers_within :: "(connection_id \<Rightarrow> bool) \<Rightarrow> effects \<Rightarrow> bool" where
  "delivers_within P e = list_all (delivery_within P) (ef_deliveries e)"

definition is_active :: "net_state \<Rightarrow> connection_id \<Rightarrow> bool" where
  "is_active st i = (\<exists>s. session_of st i = Some s \<and> s_phase s = Active)"

definition self_or_active :: "net_state \<Rightarrow> connection_id \<Rightarrow> connection_id \<Rightarrow> bool" where
  "self_or_active st i j = (j = i \<or> is_active st j)"

lemma self_or_active_self [simp]: "self_or_active st i i"
  by (simp add: self_or_active_def)

lemma active_is_self_or_active [simp]: "is_active st j \<Longrightarrow> self_or_active st i j"
  by (simp add: self_or_active_def)

lemma effects_default_simps [simp]:
  "ef_deliveries effects_default = []" "ef_close effects_default = None"
  by (simp_all add: effects_default_def)

lemma effects_push_simps [simp]:
  "ef_deliveries (effects_push d e) = ef_deliveries e @ [d]"
  "ef_close (effects_push d e) = ef_close e"
  by (simp_all add: effects_push_def)

lemma effects_extend_simps [simp]:
  "ef_deliveries (effects_extend e f) = ef_deliveries e @ ef_deliveries f"
  "ef_close (effects_extend e f) = (if ef_close f = None then ef_close e else ef_close f)"
  by (simp_all add: effects_extend_def Let_def)

lemma send_simps [simp]:
  "ef_deliveries (send r ev) = (if r = [] then [] else [\<lparr>dl_recipients = r, dl_event = ev\<rparr>])"
  "ef_close (send r ev) = None"
  by (simp_all add: send_def)

lemma error_effect_simps [simp]:
  "ef_deliveries (error_effect i c code env) =
     [\<lparr>dl_recipients = [i], dl_event = Ev_Error c code env (description code)\<rparr>]"
  "ef_close (error_effect i c code env) = None"
  by (simp_all add: error_effect_def)

lemma error_and_close_simps [simp]:
  "ef_deliveries (error_and_close i c code env) =
     [\<lparr>dl_recipients = [i], dl_event = Ev_Error c code env (description code)\<rparr>]"
  "ef_close (error_and_close i c code env) =
     Some \<lparr>cc_connection_id = i, cc_reason = description code\<rparr>"
  by (simp_all add: error_and_close_def)

lemma delivers_default [simp, intro]: "delivers_within P effects_default"
  by (simp add: delivers_within_def)

lemma delivers_push [simp]:
  "delivers_within P (effects_push d e) \<longleftrightarrow> delivers_within P e \<and> delivery_within P d"
  by (simp add: delivers_within_def)

lemma delivers_extend [simp]:
  "delivers_within P (effects_extend e f) \<longleftrightarrow> delivers_within P e \<and> delivers_within P f"
  by (simp add: delivers_within_def)

lemma delivers_send: "distinct r \<Longrightarrow> list_all P r \<Longrightarrow> delivers_within P (send r ev)"
  by (simp add: delivers_within_def delivery_within_def)

lemma delivers_send_one [simp]: "delivers_within P (send [i] ev) = P i"
  by (simp add: delivers_within_def delivery_within_def)

lemma delivers_error [simp]:
  "delivers_within P (error_effect i c code env) = P i"
  "delivers_within P (error_and_close i c code env) = P i"
  by (simp_all add: delivers_within_def delivery_within_def)

lemma delivery_one [simp]: "delivery_within P \<lparr>dl_recipients = [i], dl_event = ev\<rparr> = P i"
  by (simp add: delivery_within_def)

lemma delivers_within_mono:
  "delivers_within P e \<Longrightarrow> (\<And>j. P j \<Longrightarrow> Q j) \<Longrightarrow> delivers_within Q e"
  by (auto simp: delivers_within_def delivery_within_def list_all_iff)

lemma delivers_recipient:
  "delivers_within P e \<Longrightarrow> d \<in> set (ef_deliveries e) \<Longrightarrow> j \<in> set (dl_recipients d) \<Longrightarrow> P j"
  by (auto simp: delivers_within_def delivery_within_def list_all_iff)

section \<open>Routed events\<close>

lemma delivers_active_ids:
  assumes "net_inv config st"
  shows "delivers_within (is_active st) (send (active_ids st ex) ev)"
  using active_ids_iff [OF assms]
  by (auto intro!: delivers_send simp: active_ids_distinct [OF assms] list_all_iff is_active_def)

lemma delivers_resolved:
  assumes "net_inv config st"
  shows "delivers_within (is_active st) (send (resolve_destination lm st i dest policy) ev)"
  using resolve_destination_spec(2) [OF assms]
  by (auto intro!: delivers_send resolve_destination_spec(1) [OF assms]
      simp: list_all_iff is_active_def)

lemma delivers_resolved_self:
  assumes "net_inv config st"
  shows "delivers_within (self_or_active st j) (send (resolve_destination lm st i dest policy) ev)"
  by (rule delivers_within_mono [OF delivers_resolved [OF assms]]) simp

section \<open>Operations\<close>

lemma disconnect_delivers:
  assumes inv: "net_inv config st"
  shows "delivers_within (is_active st) (fst (disconnect_locked i reason st))"
proof (cases "session_of st i")
  case None
  then show ?thesis by (simp add: disconnect_locked_def)
next
  case (Some s)
  let ?t = "snd (disconnect_locked i reason st)"
  have inv': "net_inv config ?t" by (rule disconnect_inv [OF inv])
  have sub: "is_active ?t j \<Longrightarrow> is_active st j" for j
    using disconnect_session_of [OF net_inv_wf(1) [OF inv], of i reason j]
    by (auto simp: is_active_def split: if_splits)
  show ?thesis
  proof (cases "s_presence s")
    case None
    with Some show ?thesis by (simp add: disconnect_locked_def delivers_within_def)
  next
    case (Some p)
    with \<open>session_of st i = Some s\<close>
    have t: "?t = st\<lparr>ns_sessions := hm_remove i (ns_sessions st),
                     ns_callsigns := hm_remove (cp_callsign p) (ns_callsigns st)\<rparr>"
      by (simp add: disconnect_locked_def Let_def)
    have "active_ids ?t None \<noteq> [] \<Longrightarrow>
        delivery_within (is_active st) \<lparr>dl_recipients = active_ids ?t None, dl_event = ev\<rparr>" for ev
      using active_ids_iff [OF inv', of _ None] active_ids_distinct [OF inv', of None] sub
      by (auto simp: delivery_within_def list_all_iff is_active_def)
    with Some \<open>session_of st i = Some s\<close> t show ?thesis
      by (auto simp: disconnect_locked_def Let_def delivers_within_def)
  qed
qed

lemma delivers_active_self:
  "delivers_within (is_active st) e \<Longrightarrow> delivers_within (self_or_active st i) e"
  by (erule delivers_within_mono) simp

lemma is_active_put:
  "session_of st i = Some s \<Longrightarrow> s_phase s' = s_phase s \<Longrightarrow> is_active (put_session i s' st) j = is_active st j"
  by (auto simp: is_active_def)

lemma position_delivers:
  assumes "net_inv config (put_session i s' st)" "session_of st i = Some s" "s_phase s' = s_phase s"
  shows "delivers_within (is_active st)
    (send (position_recipients lm (put_session i s' st) i) ev)"
proof (rule delivers_send)
  show "distinct (position_recipients lm (put_session i s' st) i)"
    by (rule position_recipients(1) [OF assms(1)])
  show "list_all (is_active st) (position_recipients lm (put_session i s' st) i)"
    using position_recipients(2) [OF assms(1), of _ lm i] is_active_put [OF assms(2,3)]
    by (auto simp: list_all_iff is_active_def)
qed

lemma flight_plan_delivers:
  assumes "net_inv config (put_session i s' st)" "session_of st i = Some s" "s_phase s' = s_phase s"
  shows "delivers_within (is_active st)
    (send (flight_plan_recipients lm (put_session i s' st) i radius) ev)"
proof (rule delivers_send)
  show "distinct (flight_plan_recipients lm (put_session i s' st) i radius)"
    by (rule flight_plan_recipients(1) [OF assms(1)])
  show "list_all (is_active st) (flight_plan_recipients lm (put_session i s' st) i radius)"
    using flight_plan_recipients(2) [OF assms(1), of _ lm i] is_active_put [OF assms(2,3)]
    by (auto simp: list_all_iff is_active_def)
qed

lemma execute_active_delivers:
  assumes inv: "net_inv config st"
  shows "delivers_within (self_or_active st i) (fst (execute_active lm i command st))"
  using inv
proof (cases rule: execute_active_cases [of config st lm i command])
  case (handled s p)
  note [simp] = handled delivers_resolved_self [OF inv]
  have self: "is_active st i" using handled by (simp add: is_active_def)
  show ?thesis
  proof (cases command)
    case (C_Logoff c)
    with handled delivers_within_mono [OF disconnect_delivers [OF inv, of i], of "self_or_active st i"]
    show ?thesis by (auto simp: execute_active_def Let_def handle_state_command_def)
  next
    case (C_Position pos)
    let ?st = "put_session i (s\<lparr>s_position := Some pos\<rparr>) st"
    have "delivers_within (self_or_active st i) (send (position_recipients lm ?st i) (Ev_Position pos))"
      if ok: "is_ok (position_validate pos)"
        "cp_client_type p = (case pos of Position_Pilot _ \<Rightarrow> Pilot | Position_Atc _ \<Rightarrow> Atc)"
    proof (rule delivers_active_self, rule position_delivers)
      show "net_inv config ?st"
        using handled(4) C_Position ok by (intro net_inv_set_position [OF inv handled(1,3)]) auto
      show "session_of st i = Some s" by (rule handled(1))
    qed simp
    with C_Position show ?thesis
      by (auto simp: execute_active_def Let_def handle_state_command_def split: sum.splits)
  next
    case (C_FlightPlan plan)
    let ?st = "put_session i (s\<lparr>s_flight_plan := Some plan\<rparr>) st"
    have "delivers_within (is_active st)
        (send (flight_plan_recipients lm ?st i (f64_lit 400)) (Ev_FlightPlan plan To_Atc))"
    proof (rule flight_plan_delivers)
      show "net_inv config ?st"
        using handled(4) C_FlightPlan by (intro net_inv_set_plan [OF inv handled(1,3)]) auto
      show "session_of st i = Some s" by (rule handled(1))
    qed simp
    then have "delivers_within (self_or_active st i)
        (send (flight_plan_recipients lm ?st i (f64_lit 400)) (Ev_FlightPlan plan To_Atc))"
      by (rule delivers_within_mono) simp
    with C_FlightPlan show ?thesis
      by (simp add: execute_active_def Let_def handle_state_command_def)
  next
    case (C_Kill src target reason)
    have "is_active st t" if "owner_of st target = Some t" for t
      using that net_inv_owner [OF inv, of target t] net_inv_sessions [OF inv, of t]
      by (auto simp: is_active_def session_ok_callsign)
    with C_Kill show ?thesis
      using delivers_within_mono [OF disconnect_delivers [OF inv], of "self_or_active st i"]
      by (auto simp: execute_active_def Let_def handle_kill_def case_prod_unfold split: option.splits)
  qed (auto simp: execute_active_def Let_def handle_ping_def handle_query_def
      handle_routed_command_def split: query_kind.splits option.splits)
qed auto

lemma login_effects_delivers:
  assumes inv: "net_inv config st"
  shows "delivers_within (self_or_active st i) (login_effects cfg st i p)"
proof -
  have motd: "delivers_within P
      (fold (\<lambda>line. effects_push \<lparr>dl_recipients = [i], dl_event = Ev_Welcome c line\<rparr>) ls e)
    \<longleftrightarrow> delivers_within P e \<and> (ls \<noteq> [] \<longrightarrow> P i)" for P c ls e
    by (induction ls arbitrary: e) auto
  have peers: "active_ids st (Some i) \<noteq> [] \<Longrightarrow>
      delivery_within (self_or_active st i) \<lparr>dl_recipients = active_ids st (Some i), dl_event = ev\<rparr>" for ev
    using active_ids_iff [OF inv, of _ "Some i"] active_ids_distinct [OF inv, of "Some i"]
    by (auto simp: delivery_within_def list_all_iff is_active_def)
  have vatsim: "delivers_within (self_or_active st i) e \<Longrightarrow>
      delivers_within (self_or_active st i) (append_vatsim_login_profile i peer p e)" for peer e
    by (simp add: append_vatsim_login_profile_def Let_def)
  show ?thesis
    using peers by (auto simp: login_effects_def Let_def motd vatsim split: option.splits)
qed

lemma login_resume_delivers:
  assumes inv: "net_inv config st"
  shows "delivers_within (self_or_active st i) (fst (login_resume config i command g ans st))"
proof -
  have act: "delivers_within (self_or_active st i) (fst (activate_login config i command a g st))" for a
  proof (cases rule: activate_login_cases [of i command g st config a])
    case (active s)
    let ?t = "(put_session i (activated s command a) st)
              \<lparr>ns_callsigns := hm_insert (lc_callsign command) i (ns_callsigns st)\<rparr>"
    have inv': "net_inv config ?t"
      using activate_login_inv [OF inv, of i command a g] active(2) by (simp add: Let_def)
    have "self_or_active ?t i j \<Longrightarrow> self_or_active st i j" for j
      by (auto simp: self_or_active_def is_active_def split: if_splits)
    then show ?thesis
      using active(2) login_effects_delivers [OF inv', of i config "presence_of_login command a"]
      by (auto simp: Let_def intro: delivers_within_mono)
  next
    case (refused e)
    then show ?thesis
      by (auto simp: activate_login_def login_activates_def split: option.splits if_splits)
  qed
  have val: "validate_rating i command a = Inl e \<Longrightarrow> delivers_within (self_or_active st i) e" for a e
    by (auto simp: validate_rating_def Let_def split: if_splits)
  show ?thesis
    by (auto simp: login_resume_def act dest: val split: sum.splits auth_error.splits)
qed

lemma identify_finish_delivers:
  "delivers_within (self_or_active st i) (fst (identify_finish i cmd g ans st))"
  by (auto simp: identify_finish_def split: sum.splits option.splits)

lemma begin_delivers:
  "identify_begin st i = Inl e \<Longrightarrow> delivers_within (self_or_active st i) e"
  "login_generation st i command = Inl e \<Longrightarrow> delivers_within (self_or_active st i) e"
  "weather_request_coordinates st i c = Inl e \<Longrightarrow> delivers_within (self_or_active st i) e"
  by (auto simp: identify_begin_def login_generation_def weather_request_coordinates_def
      split: option.splits if_splits)

lemma weather_resume_delivers: "delivers_within (self_or_active st i) (weather_resume i c station parsed ans)"
  by (auto simp: weather_resume_def parsed_weather_effect_def raw_weather_effect_def no_weather_def
      split: sum.splits option.splits)

lemma execute_delivers:
  assumes "net_inv (nw_config nw) st"
  shows "delivers_within (self_or_active st i) (fst (execute nw i command st))"
  using assms begin_delivers [of st i]
  by (cases command)
    (auto simp: execute_def identify_def login_def weather_request_def identify_finish_delivers
      login_resume_delivers weather_resume_delivers execute_active_delivers split: sum.splits)

end
