(* ===== verification/Net_System.thy ===== *)
theory Net_System
  imports Net_Effects
begin

text \<open>
  The network under concurrency. The state behind the lock is shared by all connection
  tasks; \<open>identify\<close>, \<open>login\<close> and the weather request release it while they wait for a
  port. A step of the system is one critical section: the operations of other connections may
  run between the two halves of such a command, in any order and any number, and the port may
  answer anything.

  \<open>sys_next\<close> is the counter \<open>next_connection_id\<close> of the runtime
  (\<open>handle_connection\<close> takes its value with \<open>fetch_add\<close> before it registers); a
  connection is registered only while the counter has not gone through all 64-bit values.
\<close>

section \<open>The step relation\<close>

datatype pending =
    Pending_Identify connection_id identification u64
  | Pending_Login connection_id login_command u64
  | Pending_Weather connection_id callsign string bool

record system =
  sys_net :: net_state
  sys_pending :: "pending list"
  sys_next :: nat

datatype label =
    L_Register socket_addr protocol_dialect
  | L_Disconnect connection_id string
  | L_Command connection_id command
  | L_Authorized connection_id identification "auth_error + unit"
  | L_Authenticated connection_id login_command "auth_error + authenticated_identity"
  | L_Weather connection_id callsign string bool
      "weather_provider_error + weather_observation option"
  | L_Broadcast event

fun is_async :: "command \<Rightarrow> bool" where
  "is_async (C_Identify _) = True"
| "is_async (C_Login _) = True"
| "is_async (C_WeatherRequest _ _ _) = True"
| "is_async _ = False"

definition sys_init :: "system \<Rightarrow> bool" where
  "sys_init s = (sys_net s = net_state_default \<and> sys_pending s = [] \<and> sys_next s = 1)"

inductive sys_step :: "core_config \<Rightarrow> libm \<Rightarrow> system \<Rightarrow> label \<times> effects \<Rightarrow> system \<Rightarrow> bool"
  for config :: core_config and lm :: libm where
  Step_Register:
    "sys_next s < 2 ^ 64 \<Longrightarrow>
     register config (of_nat (sys_next s)) peer dialect (sys_net s) = (r, st) \<Longrightarrow>
     sys_step config lm s (L_Register peer dialect, effects_default)
       (s\<lparr>sys_net := st, sys_next := Suc (sys_next s)\<rparr>)"
| Step_Disconnect:
    "disconnect i reason (sys_net s) = (e, st) \<Longrightarrow>
     sys_step config lm s (L_Disconnect i reason, e) (s\<lparr>sys_net := st\<rparr>)"
| Step_Active:
    "\<not> is_async command \<Longrightarrow> execute_active lm i command (sys_net s) = (e, st) \<Longrightarrow>
     sys_step config lm s (L_Command i command, e) (s\<lparr>sys_net := st\<rparr>)"
| Step_Identify_Refused:
    "identify_begin (sys_net s) i = Inl e \<Longrightarrow>
     sys_step config lm s (L_Command i (C_Identify c), e) s"
| Step_Identify_Begin:
    "identify_begin (sys_net s) i = Inr g \<Longrightarrow>
     sys_step config lm s (L_Command i (C_Identify c), effects_default)
       (s\<lparr>sys_pending := Pending_Identify i c g # sys_pending s\<rparr>)"
| Step_Identify_Finish:
    "Pending_Identify i c g \<in> set (sys_pending s) \<Longrightarrow>
     identify_finish i c g answer (sys_net s) = (e, st) \<Longrightarrow>
     sys_step config lm s (L_Authorized i c answer, e)
       (s\<lparr>sys_net := st, sys_pending := remove1 (Pending_Identify i c g) (sys_pending s)\<rparr>)"
| Step_Login_Refused:
    "login_generation (sys_net s) i c = Inl e \<Longrightarrow>
     sys_step config lm s (L_Command i (C_Login c), e) s"
| Step_Login_Begin:
    "login_generation (sys_net s) i c = Inr g \<Longrightarrow>
     sys_step config lm s (L_Command i (C_Login c), effects_default)
       (s\<lparr>sys_pending := Pending_Login i c g # sys_pending s\<rparr>)"
| Step_Login_Finish:
    "Pending_Login i c g \<in> set (sys_pending s) \<Longrightarrow>
     login_resume config i c g answer (sys_net s) = (e, st) \<Longrightarrow>
     sys_step config lm s (L_Authenticated i c answer, e)
       (s\<lparr>sys_net := st, sys_pending := remove1 (Pending_Login i c g) (sys_pending s)\<rparr>)"
| Step_Weather_Refused:
    "weather_request_coordinates (sys_net s) i src = Inl e \<Longrightarrow>
     sys_step config lm s (L_Command i (C_WeatherRequest src station parsed), e) s"
| Step_Weather_Begin:
    "weather_request_coordinates (sys_net s) i src = Inr position \<Longrightarrow>
     sys_step config lm s (L_Command i (C_WeatherRequest src station parsed), effects_default)
       (s\<lparr>sys_pending := Pending_Weather i src station parsed # sys_pending s\<rparr>)"
| Step_Weather_Finish:
    "Pending_Weather i src station parsed \<in> set (sys_pending s) \<Longrightarrow>
     sys_step config lm s
       (L_Weather i src station parsed answer, weather_resume i src station parsed answer)
       (s\<lparr>sys_pending := remove1 (Pending_Weather i src station parsed) (sys_pending s)\<rparr>)"
| Step_Broadcast:
    "sys_step config lm s (L_Broadcast ev, broadcast (sys_net s) ev) s"

inductive_cases register_stepE: "sys_step config lm s (L_Register peer dialect, e) t"
inductive_cases disconnect_stepE: "sys_step config lm s (L_Disconnect i reason, e) t"
inductive_cases command_stepE: "sys_step config lm s (L_Command i command, e) t"
inductive_cases login_stepE: "sys_step config lm s (L_Authenticated i c answer, e) t"
inductive_simps broadcast_step_iff: "sys_step config lm s (L_Broadcast ev, e) t"

section \<open>The system invariant\<close>

text \<open>A login that waits for its answer was checked against the session it is for.\<close>

fun pending_ok :: "net_state \<Rightarrow> nat \<Rightarrow> pending \<Rightarrow> bool" where
  "pending_ok st n (Pending_Identify i _ _) = (unat i < n)"
| "pending_ok st n (Pending_Login i c _) =
     (unat i < n \<and> (\<forall>s. session_of st i = Some s \<longrightarrow>
        lc_protocol_revision c = expected_revision (s_dialect s)
        \<and> (s_dialect s = Vatsim \<longrightarrow> s_phase s \<noteq> Connected)))"
| "pending_ok st n (Pending_Weather i _ _ _) = (unat i < n)"

definition revision_ok :: "session \<Rightarrow> bool" where
  "revision_ok s =
     (\<forall>p. s_presence s = Some p \<longrightarrow> cp_protocol_revision p = expected_revision (s_dialect s))"

definition sys_inv :: "core_config \<Rightarrow> system \<Rightarrow> bool" where
  "sys_inv config s =
     (net_inv config (sys_net s) \<and> sys_next s \<le> 2 ^ 64
      \<and> (\<forall>i x. session_of (sys_net s) i = Some x \<longrightarrow> unat i < sys_next s \<and> revision_ok x)
      \<and> (\<forall>p \<in> set (sys_pending s). pending_ok (sys_net s) (sys_next s) p))"

text \<open>
  Between two states of the network no operation but registration creates a session, and none
  changes the dialect of a session or takes a session back to \<open>Connected\<close>.
\<close>

definition session_kept :: "session \<Rightarrow> session \<Rightarrow> bool" where
  "session_kept x y =
     (s_dialect y = s_dialect x \<and> s_peer y = s_peer x
      \<and> (s_phase y = Connected \<longrightarrow> s_phase x = Connected))"

text \<open>\<open>session_same\<close> adds that the presence stays: only a login changes it.\<close>

definition session_same :: "session \<Rightarrow> session \<Rightarrow> bool" where
  "session_same x y = (session_kept x y \<and> s_presence y = s_presence x)"

definition evolves :: "(session \<Rightarrow> session \<Rightarrow> bool) \<Rightarrow> net_state \<Rightarrow> net_state \<Rightarrow> bool" where
  "evolves R st st' =
     (\<forall>i y. session_of st' i = Some y \<longrightarrow> (\<exists>x. session_of st i = Some x \<and> R x y))"

lemma session_kept_refl [simp]: "session_kept x x" "session_same x x"
  by (simp_all add: session_kept_def session_same_def)

lemma evolves_refl [simp]: "evolves session_same st st"
  by (simp add: evolves_def)

lemma evolves_mono: "evolves session_same st st' \<Longrightarrow> evolves session_kept st st'"
  by (fastforce simp: evolves_def session_same_def)

lemma evolves_put:
  "session_of st i = Some x \<Longrightarrow> session_same x y \<Longrightarrow> evolves session_same st (put_session i y st)"
  by (auto simp: evolves_def)

lemma evolves_disconnect:
  "net_inv config st \<Longrightarrow> evolves session_same st (snd (disconnect_locked i reason st))"
  using disconnect_session_of [OF net_inv_wf(1)] by (auto simp: evolves_def split: if_splits)

lemma evolves_execute_active:
  assumes inv: "net_inv config st"
  shows "evolves session_same st (snd (execute_active lm i command st))"
  using inv
proof (cases rule: execute_active_cases [of config st lm i command])
  case (handled s p)
  show ?thesis
  proof (cases command)
    case (C_Position pos)
    with handled show ?thesis
      by (auto simp: execute_active_def Let_def handle_state_command_def split: sum.splits
          intro!: evolves_put) (auto simp: session_kept_def session_same_def)
  next
    case (C_FlightPlan plan)
    with handled show ?thesis
      by (auto simp: execute_active_def Let_def handle_state_command_def
          intro!: evolves_put) (auto simp: session_kept_def session_same_def)
  next
    case (C_Kill src target reason)
    with handled evolves_disconnect [OF inv, of _ reason] show ?thesis
      by (auto simp: execute_active_def Let_def handle_kill_def case_prod_unfold split: option.splits)
  qed (use handled evolves_disconnect [OF inv]
      in \<open>auto simp: execute_active_def Let_def handle_state_command_def\<close>)
qed simp_all

lemma evolves_identify_finish: "evolves session_same st (snd (identify_finish i c g answer st))"
  by (auto simp: identify_finish_def session_kept_def session_same_def evolves_put
      split: sum.splits option.splits)

lemma evolves_activated:
  assumes "login_activates i c g st x"
  shows "evolves session_kept st ((put_session i (activated x c a) st)
    \<lparr>ns_callsigns := hm_insert (lc_callsign c) i (ns_callsigns st)\<rparr>)"
  using assms by (auto simp: evolves_def login_activates_def activated_def session_kept_def)

lemma login_resume_cases:
  obtains (active) a x where "answer = Inr a" "validate_rating i c a = Inr ()"
      "login_activates i c g st x"
      "login_resume config i c g answer st =
         (let st' = (put_session i (activated x c a) st)
                \<lparr>ns_callsigns := hm_insert (lc_callsign c) i (ns_callsigns st)\<rparr>
          in (login_effects config st' i (presence_of_login c a), st'))"
  | (refused) "snd (login_resume config i c g answer st) = st"
proof (cases answer)
  case (Inl err)
  then have "snd (login_resume config i c g answer st) = st"
    by (cases err) (simp_all add: login_resume_def)
  then show ?thesis by (rule refused)
next
  case (Inr a)
  show ?thesis
  proof (cases "validate_rating i c a")
    case (Inl e)
    with Inr show ?thesis by (intro refused) (simp add: login_resume_def)
  next
    case ok: (Inr u)
    show ?thesis
    proof (cases rule: activate_login_cases [of i c g st config a])
      case (active x)
      with Inr ok show ?thesis
        by (intro that(1) [of a x]) (simp_all add: login_resume_def)
    next
      case (refused e)
      with Inr ok show ?thesis by (intro that(2)) (simp add: login_resume_def)
    qed
  qed
qed

lemma evolves_login_resume: "evolves session_kept st (snd (login_resume config i c g answer st))"
  by (cases rule: login_resume_cases [of answer i c g st config])
    (simp_all add: Let_def evolves_activated evolves_mono)

lemma pending_ok_evolves:
  "pending_ok st n p \<Longrightarrow> evolves session_kept st st' \<Longrightarrow> pending_ok st' n p"
  by (cases p) (fastforce simp: evolves_def session_kept_def)+

lemma revision_ok_same: "session_same x y \<Longrightarrow> revision_ok x \<Longrightarrow> revision_ok y"
  by (simp add: revision_ok_def session_same_def session_kept_def)

section \<open>The invariant is inductive\<close>

lemma sys_inv_bound:
  "sys_inv config s \<Longrightarrow> session_of (sys_net s) i = Some x \<Longrightarrow> unat i < sys_next s \<and> revision_ok x"
  by (simp add: sys_inv_def)

lemma sys_inv_net: "sys_inv config s \<Longrightarrow> net_inv config (sys_net s)"
  by (simp add: sys_inv_def)

lemma begin_registered:
  "identify_begin st i = Inr g \<Longrightarrow> \<exists>x. session_of st i = Some x"
  "weather_request_coordinates st i c = Inr w \<Longrightarrow> \<exists>x. session_of st i = Some x"
  by (auto simp: identify_begin_def weather_request_coordinates_def split: option.splits)

lemma sys_inv_evolves:
  assumes "sys_inv config s" "net_inv config st" "evolves session_same (sys_net s) st"
    and "set ps \<subseteq> set (sys_pending s)"
  shows "sys_inv config (s\<lparr>sys_net := st, sys_pending := ps\<rparr>)"
proof -
  have "unat i < sys_next s \<and> revision_ok y" if y: "session_of st i = Some y" for i y
  proof -
    obtain x where x: "session_of (sys_net s) i = Some x" "session_same x y"
      using assms(3) y by (auto simp: evolves_def)
    then show ?thesis using assms(1) revision_ok_same [OF x(2)] by (auto simp: sys_inv_def)
  qed
  moreover have "pending_ok st (sys_next s) p" if "p \<in> set ps" for p
    using that assms(1,4) evolves_mono [OF assms(3)]
    by (auto simp: sys_inv_def intro: pending_ok_evolves)
  ultimately show ?thesis using assms(1,2) by (simp add: sys_inv_def)
qed

lemma sys_inv_pending:
  assumes "sys_inv config s" "pending_ok (sys_net s) (sys_next s) p"
  shows "sys_inv config (s\<lparr>sys_pending := p # sys_pending s\<rparr>)"
  using assms by (auto simp: sys_inv_def)

lemma sys_inv_register:
  assumes inv: "sys_inv config s" and n: "sys_next s < 2 ^ 64"
    and reg: "register config (of_nat (sys_next s)) peer dialect (sys_net s) = (r, st)"
  shows "sys_inv config (s\<lparr>sys_net := st, sys_next := Suc (sys_next s)\<rparr>)"
proof -
  let ?i = "of_nat (sys_next s) :: u64"
  have u: "unat ?i = sys_next s" using n by (simp add: unat_of_nat take_bit_nat_eq_self)
  then have fresh: "session_of (sys_net s) ?i = None"
    using sys_inv_bound [OF inv, of ?i] by (cases "session_of (sys_net s) ?i") auto
  have st: "session_of st j = Some y \<Longrightarrow>
      session_of (sys_net s) j = Some y \<or> (j = ?i \<and> y = fresh_session ?i peer dialect)" for j y
    using reg by (auto simp: register_def split: if_splits)
  have "net_inv config st"
    using inv reg register_inv [of config "sys_net s" ?i peer dialect] by (simp add: sys_inv_def)
  moreover have "unat j < Suc (sys_next s) \<and> revision_ok y" if "session_of st j = Some y" for j y
    using st [OF that] inv u by (auto simp: sys_inv_def revision_ok_def fresh_session_def less_SucI)
  moreover have "pending_ok st (Suc (sys_next s)) p" if "p \<in> set (sys_pending s)" for p
  proof -
    have "pending_ok (sys_net s) (sys_next s) p" using inv that by (simp add: sys_inv_def)
    moreover have "session_of (sys_net s) j = Some y"
      if "session_of st j = Some y" "unat j < sys_next s" for j y
      using st [OF that(1)] that(2) u by auto
    ultimately show ?thesis by (cases p) (auto simp: less_SucI)
  qed
  ultimately show ?thesis using inv n by (simp add: sys_inv_def)
qed

lemma login_begin_ok:
  assumes "sys_inv config s" "login_generation (sys_net s) i c = Inr g"
  shows "pending_ok (sys_net s) (sys_next s) (Pending_Login i c g)"
  using assms by (auto simp: sys_inv_def login_generation_def split: option.splits if_splits)

lemma sys_inv_login_resume:
  assumes inv: "sys_inv config s" and p: "Pending_Login i c g \<in> set (sys_pending s)"
    and res: "login_resume config i c g answer (sys_net s) = (e, st)"
  shows "sys_inv config (s\<lparr>sys_net := st, sys_pending := remove1 (Pending_Login i c g) (sys_pending s)\<rparr>)"
proof -
  have net: "net_inv config st"
    using inv res login_resume_inv [of config "sys_net s" i c g answer] by (simp add: sys_inv_def)
  have po: "pending_ok (sys_net s) (sys_next s) (Pending_Login i c g)"
    using inv p by (auto simp only: sys_inv_def)
  have ev: "evolves session_kept (sys_net s) st"
    using res evolves_login_resume [of "sys_net s" config i c g answer] by simp
  have "unat j < sys_next s \<and> revision_ok y" if "session_of st j = Some y" for j y
  proof (cases rule: login_resume_cases [of answer i c g "sys_net s" config])
    case (active a x)
    with res have st: "st = (put_session i (activated x c a) (sys_net s))
          \<lparr>ns_callsigns := hm_insert (lc_callsign c) i (ns_callsigns (sys_net s))\<rparr>"
      by (simp add: Let_def)
    have "revision_ok (activated x c a)"
      using po active(3)
      by (auto simp: revision_ok_def activated_def presence_of_login_def login_activates_def)
    with that st inv po show ?thesis by (auto simp: sys_inv_def split: if_splits)
  next
    case refused
    with res inv that show ?thesis by (simp add: sys_inv_def)
  qed
  moreover have "pending_ok st (sys_next s) q" if "q \<in> set (remove1 (Pending_Login i c g) (sys_pending s))" for q
    using that inv by (auto simp: sys_inv_def intro!: pending_ok_evolves [OF _ ev] dest: notin_set_remove1)
  ultimately show ?thesis using inv net by (simp add: sys_inv_def)
qed

lemma sys_inv_init: "sys_init s \<Longrightarrow> sys_inv config s"
  using net_inv_default [of config] by (auto simp: sys_init_def sys_inv_def net_state_default_def)

lemma sys_inv_step:
  assumes "sys_inv config s" "sys_step config lm s l t"
  shows "sys_inv config t"
  using assms(2,1)
proof (cases rule: sys_step.cases)
  case (Step_Disconnect i reason e st)
  with assms(1) have "net_inv config (sys_net s)" by (simp add: sys_inv_def)
  with Step_Disconnect have "net_inv config st" "evolves session_same (sys_net s) st"
    using disconnect_inv [of config "sys_net s" i reason] evolves_disconnect [of config "sys_net s" i reason]
    by (simp_all add: disconnect_def)
  with assms(1) Step_Disconnect show ?thesis
    using sys_inv_evolves [of config s st "sys_pending s"] by simp
next
  case (Step_Active command i e st)
  with assms(1) have "net_inv config (sys_net s)" by (simp add: sys_inv_def)
  with Step_Active have "net_inv config st" "evolves session_same (sys_net s) st"
    using execute_active_inv [of config "sys_net s" lm i command]
      evolves_execute_active [of config "sys_net s" lm i command] by simp_all
  with assms(1) Step_Active show ?thesis
    using sys_inv_evolves [of config s st "sys_pending s"] by simp
next
  case (Step_Identify_Finish i c g answer e st)
  with assms(1) have "net_inv config st" "evolves session_same (sys_net s) st"
    using identify_finish_inv [of config "sys_net s" i c g answer]
      evolves_identify_finish [of "sys_net s" i c g answer] by (simp_all add: sys_inv_def)
  with assms(1) Step_Identify_Finish show ?thesis
    using sys_inv_evolves [of config s st "remove1 (Pending_Identify i c g) (sys_pending s)"]
    by (simp add: set_remove1_subset)
next
  case (Step_Weather_Finish i src station parsed answer)
  with assms(1) show ?thesis
    using sys_inv_evolves [of config s "sys_net s" "remove1 (Pending_Weather i src station parsed) (sys_pending s)"]
      set_remove1_subset by (auto simp: sys_inv_def)
next
  case (Step_Identify_Begin i g c)
  then have "pending_ok (sys_net s) (sys_next s) (Pending_Identify i c g)"
    using begin_registered(1) sys_inv_bound [OF assms(1)] by (metis pending_ok.simps(1))
  with assms(1) Step_Identify_Begin show ?thesis by (simp add: sys_inv_pending)
next
  case (Step_Login_Begin i c g)
  with login_begin_ok [OF assms(1) Step_Login_Begin(3)] assms(1) show ?thesis
    by (simp only: sys_inv_pending)
next
  case (Step_Weather_Begin i src pos station parsed)
  then have "pending_ok (sys_net s) (sys_next s) (Pending_Weather i src station parsed)"
    using begin_registered(2) sys_inv_bound [OF assms(1)] by (metis pending_ok.simps(3))
  with assms(1) Step_Weather_Begin show ?thesis by (simp add: sys_inv_pending)
qed (simp_all add: sys_inv_register sys_inv_login_resume)

text \<open>The network satisfies the contract of an invariant system, for every configuration.\<close>

interpretation net: invariant_system sys_init "sys_step config lm" "sys_inv config"
  for config lm
  by unfold_locales (auto intro: sys_inv_init sys_inv_step)

section \<open>How a session becomes active\<close>

lemma validate_rating_ok:
  "validate_rating i c a = Inr () \<longleftrightarrow>
     \<not> ai_suspended a \<and> lc_requested_rating c \<noteq> 0
     \<and> (if lc_client_type c = Atc
        then \<exists>q. atc_try_from (lc_requested_rating c) = Inr q \<and> q \<le> ai_atc_rating a
        else \<exists>q. pilot_try_from (lc_requested_rating c) = Inr q \<and> q \<le> ai_pilot_rating a)"
proof -
  have atc: "atc_allows_wire_value r n \<Longrightarrow> r \<noteq> Atc_Suspended" for r n
    by (simp add: atc_allows_wire_value_def)
  have pilot: "pilot_allows_wire_value r n \<Longrightarrow> r \<noteq> Unrated" for r n
    by (simp add: pilot_allows_wire_value_def)
  show ?thesis
    using atc [of "ai_atc_rating a"] pilot [of "ai_pilot_rating a"]
    by (cases "lc_client_type c")
      (auto simp: validate_rating_def Let_def simp flip: atc_allows_iff pilot_allows_iff)
qed

lemma execute_active_phase:
  assumes "net_inv config st" "is_active (snd (execute_active lm i command st)) j"
  shows "is_active st j"
  using assms(1)
proof (cases rule: execute_active_cases [of config st lm i command])
  case (handled s p)
  note gone = disconnect_session_of [OF net_inv_wf(1) [OF assms(1)]]
  show ?thesis
  proof (cases command)
    case (C_Logoff c)
    with assms(2) handled gone [of i] show ?thesis
      by (auto simp: execute_active_def handle_state_command_def is_active_def split: if_splits)
  next
    case (C_Kill src target reason)
    with assms(2) handled gone [of _ reason] show ?thesis
      by (auto simp: execute_active_def handle_kill_def is_active_def Let_def case_prod_unfold
          split: option.splits if_splits)
  next
    case (C_Position pos)
    with assms(2) handled show ?thesis
      by (auto simp: execute_active_def handle_state_command_def is_active_def Let_def
          split: sum.splits if_splits)
  next
    case (C_FlightPlan plan)
    with assms(2) handled show ?thesis
      by (auto simp: execute_active_def handle_state_command_def is_active_def Let_def
          split: if_splits)
  qed (use assms(2) handled in \<open>simp_all add: execute_active_def Let_def\<close>)
qed (use assms(2) in simp_all)

lemma activation_step:
  assumes inv: "sys_inv config s" and step: "sys_step config lm s (l, e) t"
    and new: "is_active (sys_net t) i" "\<not> is_active (sys_net s) i"
  obtains c g a x where "l = L_Authenticated i c (Inr a)"
    "Pending_Login i c g \<in> set (sys_pending s)" "validate_rating i c a = Inr ()"
    "login_activates i c g (sys_net s) x"
  using step
proof (cases rule: sys_step.cases)
  case (Step_Register peer dialect r st)
  with new show ?thesis
    by (auto simp: register_def is_active_def fresh_session_def split: if_splits)
next
  case (Step_Disconnect j reason st)
  with new show ?thesis
    using disconnect_session_of [OF net_inv_wf(1) [OF sys_inv_net [OF inv]], of j reason]
    by (auto simp: disconnect_def is_active_def split: if_splits)
next
  case (Step_Active command j st)
  with new show ?thesis
    using execute_active_phase [OF sys_inv_net [OF inv], of lm j command i] by simp
next
  case (Step_Identify_Finish j c g answer st)
  with new show ?thesis
    by (auto simp: identify_finish_def is_active_def split: sum.splits option.splits if_splits)
next
  case (Step_Login_Finish j c g answer st)
  show ?thesis
  proof (cases rule: login_resume_cases [of answer j c g "sys_net s" config])
    case (active a x)
    with Step_Login_Finish new have "i = j"
      by (auto simp: Let_def is_active_def split: if_splits)
    with Step_Login_Finish active show ?thesis by (intro that) auto
  next
    case refused
    with Step_Login_Finish new show ?thesis by simp
  qed
qed (use new in simp_all)

end
