(* ===== verification/Net_Directory.thy ===== *)
theory Net_Directory
  imports Net_System
begin

text \<open>
  The abstract contract of the registry: a directory that maps a callsign to the connection
  and the presence behind it. A joining client takes a free callsign for a connection that
  holds none; a leaving client frees its callsign; nothing else changes the directory. The
  two indexes of the network state implement it, under every interleaving.
\<close>

type_synonym directory = "callsign \<Rightarrow> (connection_id \<times> client_presence) option"

inductive dir_step :: "directory \<Rightarrow> directory \<Rightarrow> bool" where
  Dir_Keep: "dir_step d d"
| Dir_Join: "d (cp_callsign p) = None \<Longrightarrow> (\<And>c q. d c \<noteq> Some (i, q)) \<Longrightarrow>
     dir_step d (d(cp_callsign p \<mapsto> (i, p)))"
| Dir_Leave: "d c = Some (i, p) \<Longrightarrow> dir_step d (d(c := None))"

definition directory_of :: "net_state \<Rightarrow> directory" where
  "directory_of st c =
     Option.bind (owner_of st c) (\<lambda>i.
     Option.bind (session_of st i) (\<lambda>s. map_option (Pair i) (s_presence s)))"

lemma option_eqI: "(\<And>x. a = Some x \<longleftrightarrow> b = Some x) \<Longrightarrow> a = b"
  by (cases a; cases b) auto

lemma directory_of_Some:
  assumes "net_inv config st"
  shows "directory_of st c = Some (i, p) \<longleftrightarrow>
    (\<exists>s. session_of st i = Some s \<and> s_presence s = Some p) \<and> cp_callsign p = c"
proof -
  have "directory_of st c = Some (i, p) \<longleftrightarrow>
      owner_of st c = Some i \<and> (\<exists>s. session_of st i = Some s \<and> s_presence s = Some p)"
    by (auto simp: directory_of_def bind_eq_Some_conv)
  also have "\<dots> \<longleftrightarrow> (\<exists>s. session_of st i = Some s \<and> s_presence s = Some p) \<and> cp_callsign p = c"
    unfolding net_inv_owner [OF assms] by (cases "session_of st i") (auto simp: session_callsign_def)
  finally show ?thesis .
qed

lemma directory_eqI:
  assumes "net_inv config st" "net_inv config st'"
    and "\<And>i p. (\<exists>s. session_of st' i = Some s \<and> s_presence s = Some p)
          \<longleftrightarrow> (\<exists>s. session_of st i = Some s \<and> s_presence s = Some p)"
  shows "directory_of st' = directory_of st"
proof
  fix c
  have *: "directory_of st' c = Some (i, p) \<longleftrightarrow> directory_of st c = Some (i, p)" for i p
    by (simp only: directory_of_Some [OF assms(1)] directory_of_Some [OF assms(2)] assms(3))
  show "directory_of st' c = directory_of st c"
    by (rule option_eqI) (simp add: * split_paired_all)
qed

lemma directory_disconnect:
  assumes inv: "net_inv config st"
  shows "dir_step (directory_of st) (directory_of (snd (disconnect_locked i reason st)))"
proof -
  let ?t = "snd (disconnect_locked i reason st)"
  have inv': "net_inv config ?t" by (rule disconnect_inv [OF inv])
  have s: "session_of ?t j = (if j = i then None else session_of st j)" for j
    by (rule disconnect_session_of [OF net_inv_wf(1) [OF inv]])
  show ?thesis
  proof (cases "\<exists>x p. session_of st i = Some x \<and> s_presence x = Some p")
    case False
    then have "directory_of ?t = directory_of st"
      using s by (intro directory_eqI [OF inv inv']) auto
    then show ?thesis by (simp add: Dir_Keep)
  next
    case True
    then obtain x p where x: "session_of st i = Some x" "s_presence x = Some p" by blast
    let ?d = "(directory_of st)(cp_callsign p := None)"
    have "directory_of ?t c = Some (j, q) \<longleftrightarrow> ?d c = Some (j, q)" for c j q
    proof -
      have "directory_of st c = Some (j, q) \<Longrightarrow> c = cp_callsign p \<longleftrightarrow> j = i"
        using directory_of_Some [OF inv, of c j q] x net_inv_callsign_unique [OF inv, of j _ i x]
        by (auto simp: session_callsign_def)
      then show ?thesis
        using directory_of_Some [OF inv, of c j q] directory_of_Some [OF inv', of c j q] s [of j] x
        by (cases "j = i") auto
    qed
    then have "directory_of ?t = ?d"
      by (intro ext option_eqI) (simp add: split_paired_all)
    moreover have "directory_of st (cp_callsign p) = Some (i, p)"
      using directory_of_Some [OF inv] x by blast
    ultimately show ?thesis by (simp add: Dir_Leave)
  qed
qed

lemma directory_activated:
  assumes inv: "net_inv config st" and act: "login_activates i c g st x"
    and inv': "net_inv config st'"
    and st': "st' = (put_session i (activated x c a) st)
                \<lparr>ns_callsigns := hm_insert (lc_callsign c) i (ns_callsigns st)\<rparr>"
  shows "dir_step (directory_of st) (directory_of st')"
proof -
  let ?p = "presence_of_login c a"
  from act have x: "session_of st i = Some x" and free: "owner_of st (lc_callsign c) = None"
    and "s_phase x \<in> {Connected, Identified}" by (auto simp: login_activates_def)
  then have none: "s_presence x = None"
    using net_inv_sessions [OF inv x] by (metis insertE session_okD(1) session_phase.distinct singletonD)
  let ?d = "(directory_of st)(lc_callsign c \<mapsto> (i, ?p))"
  have "directory_of st' k = Some (j, q) \<longleftrightarrow> ?d k = Some (j, q)" for k j q
  proof (cases "j = i")
    case True
    then show ?thesis
      using directory_of_Some [OF inv, of k i q] directory_of_Some [OF inv', of k i q] x none
      by (auto simp: st' activated_def presence_of_login_def)
  next
    case False
    moreover have "directory_of st (lc_callsign c) = None"
      using free by (simp add: directory_of_def)
    ultimately show ?thesis
      using directory_of_Some [OF inv, of k j q] directory_of_Some [OF inv', of k j q]
      by (auto simp: st')
  qed
  then have "directory_of st' = ?d"
    by (intro ext option_eqI) (simp add: split_paired_all)
  moreover have "directory_of st k \<noteq> Some (i, q)" for k q
    using directory_of_Some [OF inv, of k i q] x none by simp
  moreover have "directory_of st (lc_callsign c) = None"
    using free by (simp add: directory_of_def)
  ultimately show ?thesis
    using Dir_Join [of "directory_of st" ?p i] by (simp add: presence_of_login_def)
qed

lemma directory_register:
  assumes "net_inv config st"
  shows "directory_of (snd (register config i peer dialect st)) = directory_of st"
proof (rule directory_eqI [OF assms register_inv [OF assms]])
  fix j p
  show "(\<exists>s. session_of (snd (register config i peer dialect st)) j = Some s \<and> s_presence s = Some p)
    \<longleftrightarrow> (\<exists>s. session_of st j = Some s \<and> s_presence s = Some p)"
    by (auto simp: register_def fresh_session_def)
qed

lemma directory_identify:
  assumes "net_inv config st"
  shows "directory_of (snd (identify_finish i c g answer st)) = directory_of st"
  by (rule directory_eqI [OF assms identify_finish_inv [OF assms]])
    (auto simp: identify_finish_def split: sum.splits option.splits)

lemma directory_execute_active:
  assumes inv: "net_inv config st"
  shows "dir_step (directory_of st) (directory_of (snd (execute_active lm i command st)))"
  using inv
proof (cases rule: execute_active_cases [of config st lm i command])
  case (handled s p)
  have same: "directory_of (put_session i s' st) = directory_of st"
    if "net_inv config (put_session i s' st)" "s_presence s' = s_presence s" for s'
    using that handled(1) by (intro directory_eqI [OF inv]) auto
  show ?thesis
  proof (cases command)
    case (C_Logoff c)
    with handled directory_disconnect [OF inv] show ?thesis
      by (simp add: execute_active_def handle_state_command_def)
  next
    case (C_Kill src target reason)
    with handled directory_disconnect [OF inv, of _ reason] show ?thesis
      by (auto simp: execute_active_def handle_kill_def Let_def case_prod_unfold Dir_Keep
          split: option.splits)
  next
    case (C_Position pos)
    have pos: "net_inv config (put_session i (s\<lparr>s_position := Some pos\<rparr>) st)"
      if "position_validate pos = Inr u"
        "cp_client_type p = (case pos of Position_Pilot _ \<Rightarrow> Pilot | Position_Atc _ \<Rightarrow> Atc)" for u
      using handled(4) C_Position that by (intro net_inv_set_position [OF inv handled(1,3)]) auto
    show ?thesis
    proof (cases "position_validate pos")
      case (Inr u)
      with C_Position handled same [OF pos [OF Inr]] show ?thesis
        by (auto simp: execute_active_def handle_state_command_def Let_def Dir_Keep)
    qed (use C_Position handled in \<open>simp add: execute_active_def handle_state_command_def Dir_Keep\<close>)
  next
    case (C_FlightPlan plan)
    have "net_inv config (put_session i (s\<lparr>s_flight_plan := Some plan\<rparr>) st)"
      using handled(4) C_FlightPlan by (intro net_inv_set_plan [OF inv handled(1,3)]) auto
    with C_FlightPlan handled same show ?thesis
      by (simp add: execute_active_def handle_state_command_def Let_def Dir_Keep)
  qed (use handled in \<open>simp_all add: execute_active_def Let_def Dir_Keep\<close>)
qed (simp_all add: Dir_Keep)

lemma directory_login_resume:
  assumes inv: "net_inv config st"
  shows "dir_step (directory_of st) (directory_of (snd (login_resume config i c g answer st)))"
proof (cases rule: login_resume_cases [of answer i c g st config])
  case (active a x)
  then have "snd (login_resume config i c g answer st) =
      (put_session i (activated x c a) st)\<lparr>ns_callsigns := hm_insert (lc_callsign c) i (ns_callsigns st)\<rparr>"
    by (simp add: Let_def)
  with directory_activated [OF inv active(3)] login_resume_inv [OF inv, of i c g answer]
  show ?thesis by simp
qed (simp add: Dir_Keep)

lemma directory_step:
  assumes "sys_inv config s" "sys_step config lm s l t"
  shows "dir_step (directory_of (sys_net s)) (directory_of (sys_net t))"
proof -
  note inv = sys_inv_net [OF assms(1)]
  from assms(2) show ?thesis
  proof (cases rule: sys_step.cases)
    case (Step_Register peer dialect r st)
    then show ?thesis
      using directory_register [OF inv, of "of_nat (sys_next s)" peer dialect] by (simp add: Dir_Keep)
  next
    case (Step_Disconnect i reason e st)
    then show ?thesis using directory_disconnect [OF inv, of i reason] by (simp add: disconnect_def)
  next
    case (Step_Active command i e st)
    then show ?thesis using directory_execute_active [OF inv, of lm i command] by simp
  next
    case (Step_Identify_Finish i c g answer e st)
    then show ?thesis using directory_identify [OF inv, of i c g answer] by (simp add: Dir_Keep)
  next
    case (Step_Login_Finish i c g answer e st)
    then show ?thesis using directory_login_resume [OF inv, of i c g answer] by simp
  qed (simp_all add: Dir_Keep)
qed

end
