(* ===== verification/Scenario.thy ===== *)
theory Scenario
  imports Net_Directory
begin

text \<open>
  Executing the step relation, and one concrete run of it. \<open>exec_label\<close> performs the step a
  label names, if it is possible; every step it performs is a step of the relation. The run
  logs in a classic pilot and a VATSIM controller while a third connection waits for the
  authenticator; the witnesses of the properties evaluate on its final state.
\<close>

section \<open>An executable step function\<close>

fun find_pending :: "(pending \<Rightarrow> u64 option) \<Rightarrow> pending list \<Rightarrow> u64 option" where
  "find_pending f [] = None"
| "find_pending f (p # ps) = (case f p of Some g \<Rightarrow> Some g | None \<Rightarrow> find_pending f ps)"

definition identify_generation :: "connection_id \<Rightarrow> identification \<Rightarrow> pending \<Rightarrow> u64 option" where
  "identify_generation i c p =
     (case p of Pending_Identify j d g \<Rightarrow> if j = i \<and> d = c then Some g else None | _ \<Rightarrow> None)"

definition login_generation_of :: "connection_id \<Rightarrow> login_command \<Rightarrow> pending \<Rightarrow> u64 option" where
  "login_generation_of i c p =
     (case p of Pending_Login j d g \<Rightarrow> if j = i \<and> d = c then Some g else None | _ \<Rightarrow> None)"

fun exec_label :: "core_config \<Rightarrow> libm \<Rightarrow> label \<Rightarrow> system \<Rightarrow> (effects \<times> system) option" where
  "exec_label config lm (L_Register peer dialect) s =
     (if sys_next s < 2 ^ 64
      then (case register config (of_nat (sys_next s)) peer dialect (sys_net s) of (_, st) \<Rightarrow>
              Some (effects_default, s\<lparr>sys_net := st, sys_next := Suc (sys_next s)\<rparr>))
      else None)"
| "exec_label config lm (L_Disconnect i reason) s =
     (case disconnect i reason (sys_net s) of (e, st) \<Rightarrow> Some (e, s\<lparr>sys_net := st\<rparr>))"
| "exec_label config lm (L_Command i command) s =
     (case command of
        C_Identify c \<Rightarrow>
          (case identify_begin (sys_net s) i of
             Inl e \<Rightarrow> Some (e, s)
           | Inr g \<Rightarrow> Some (effects_default, s\<lparr>sys_pending := Pending_Identify i c g # sys_pending s\<rparr>))
      | C_Login c \<Rightarrow>
          (case login_generation (sys_net s) i c of
             Inl e \<Rightarrow> Some (e, s)
           | Inr g \<Rightarrow> Some (effects_default, s\<lparr>sys_pending := Pending_Login i c g # sys_pending s\<rparr>))
      | C_WeatherRequest src station parsed \<Rightarrow>
          (case weather_request_coordinates (sys_net s) i src of
             Inl e \<Rightarrow> Some (e, s)
           | Inr _ \<Rightarrow> Some (effects_default,
                 s\<lparr>sys_pending := Pending_Weather i src station parsed # sys_pending s\<rparr>))
      | _ \<Rightarrow> (case execute_active lm i command (sys_net s) of (e, st) \<Rightarrow> Some (e, s\<lparr>sys_net := st\<rparr>)))"
| "exec_label config lm (L_Authorized i c answer) s =
     (case find_pending (identify_generation i c) (sys_pending s) of
        None \<Rightarrow> None
      | Some g \<Rightarrow>
          (case identify_finish i c g answer (sys_net s) of (e, st) \<Rightarrow>
             Some (e, s\<lparr>sys_net := st,
                        sys_pending := remove1 (Pending_Identify i c g) (sys_pending s)\<rparr>)))"
| "exec_label config lm (L_Authenticated i c answer) s =
     (case find_pending (login_generation_of i c) (sys_pending s) of
        None \<Rightarrow> None
      | Some g \<Rightarrow>
          (case login_resume config i c g answer (sys_net s) of (e, st) \<Rightarrow>
             Some (e, s\<lparr>sys_net := st,
                        sys_pending := remove1 (Pending_Login i c g) (sys_pending s)\<rparr>)))"
| "exec_label config lm (L_Weather i src station parsed answer) s =
     (if Pending_Weather i src station parsed \<in> set (sys_pending s)
      then Some (weather_resume i src station parsed answer,
             s\<lparr>sys_pending := remove1 (Pending_Weather i src station parsed) (sys_pending s)\<rparr>)
      else None)"
| "exec_label config lm (L_Broadcast ev) s = Some (broadcast (sys_net s) ev, s)"

fun exec_labels :: "core_config \<Rightarrow> libm \<Rightarrow> label list \<Rightarrow> system \<Rightarrow> system option" where
  "exec_labels config lm [] s = Some s"
| "exec_labels config lm (l # ls) s =
     Option.bind (exec_label config lm l s) (\<lambda>(e, t). exec_labels config lm ls t)"

lemma find_pending_Some: "find_pending f ps = Some g \<Longrightarrow> \<exists>p \<in> set ps. f p = Some g"
  by (induction ps) (auto split: option.splits)

lemma find_identify:
  "find_pending (identify_generation i c) ps = Some g \<Longrightarrow> Pending_Identify i c g \<in> set ps"
  by (auto dest!: find_pending_Some simp: identify_generation_def split: pending.splits if_splits)

lemma find_login:
  "find_pending (login_generation_of i c) ps = Some g \<Longrightarrow> Pending_Login i c g \<in> set ps"
  by (auto dest!: find_pending_Some simp: login_generation_of_def split: pending.splits if_splits)

lemma exec_label_sound: "exec_label config lm l s = Some (e, t) \<Longrightarrow> sys_step config lm s (l, e) t"
proof (cases l)
  case (L_Command i command)
  moreover assume "exec_label config lm l s = Some (e, t)"
  ultimately show ?thesis
    by (cases command) (auto split: sum.splits prod.splits intro: sys_step.intros)
qed (auto split: option.splits prod.splits if_splits
      intro: sys_step.intros dest!: find_identify find_login)

lemma exec_labels_reach:
  "reach sys_init (sys_step config lm) s \<Longrightarrow> exec_labels config lm ls s = Some t \<Longrightarrow>
     reach sys_init (sys_step config lm) t"
proof (induction ls arbitrary: s)
  case (Cons l ls)
  then obtain e u where "exec_label config lm l s = Some (e, u)" "exec_labels config lm ls u = Some t"
    by (auto simp: bind_eq_Some_conv)
  with Cons show ?case by (blast intro: reach_step exec_label_sound)
qed simp

section \<open>A run\<close>

definition demo_config :: core_config where
  "demo_config = \<lparr>co_max_clients = 3, co_product_message = ''AsterFSD'', co_motd = [''Welcome'']\<rparr>"

definition demo_libm :: libm where
  "demo_libm = \<lparr>lm_sin = (\<lambda>_. f64_lit 0), lm_cos = (\<lambda>_. f64_lit 1),
                lm_atan2 = (\<lambda>_ _. f64_lit 0), lm_powi = (\<lambda>_ _. f64_lit 0)\<rparr>"

definition demo_peer :: socket_addr where
  "demo_peer = \<lparr>sa_ip = ''127.0.0.1'', sa_port = 50000\<rparr>"

definition demo_identity :: authenticated_identity where
  "demo_identity = \<lparr>ai_network_id = ''100'', ai_real_name = ''A'', ai_atc_rating = Controller1,
     ai_pilot_rating = AirlineTransportPilotLicense, ai_suspended = False\<rparr>"

definition demo_pilot :: callsign where "demo_pilot = Callsign ''AFR1''"
definition demo_tower :: callsign where "demo_tower = Callsign ''LFPG''"

definition demo_pilot_login :: login_command where
  "demo_pilot_login = \<lparr>lc_callsign = demo_pilot, lc_client_type = Pilot, lc_network_id = ''100'',
     lc_password = ''pw'', lc_requested_rating = 15, lc_protocol_revision = 9,
     lc_real_name = ''A'', lc_simulator_type = Some 1\<rparr>"

definition demo_identification :: identification where
  "demo_identification = \<lparr>id_callsign = demo_tower, id_client_id = ''48e2'', id_client_name = ''c'',
     id_network_id = Some ''100''\<rparr>"

definition demo_tower_login :: login_command where
  "demo_tower_login = \<lparr>lc_callsign = demo_tower, lc_client_type = Atc, lc_network_id = ''100'',
     lc_password = ''pw'', lc_requested_rating = 5, lc_protocol_revision = 100,
     lc_real_name = ''A'', lc_simulator_type = None\<rparr>"

definition demo_position :: pilot_position where
  "demo_position = \<lparr>pp_callsign = demo_pilot, pp_mode = ''N'', pp_squawk = ''7000'', pp_rating = 1,
     pp_latitude = f64_lit 49, pp_longitude = f64_lit 2, pp_altitude = 0, pp_groundspeed = 0,
     pp_pbh = 0, pp_flags = 0\<rparr>"

definition demo_labels :: "label list" where
  "demo_labels =
     [L_Register demo_peer Classic, L_Register demo_peer Vatsim, L_Register demo_peer Classic,
      L_Command 1 (C_Login demo_pilot_login), L_Command 3 (C_Login demo_pilot_login),
      L_Command 2 (C_Identify demo_identification),
      L_Authorized 2 demo_identification (Inr ()),
      L_Authenticated 1 demo_pilot_login (Inr demo_identity),
      L_Command 2 (C_Login demo_tower_login),
      L_Authenticated 2 demo_tower_login (Inr demo_identity),
      L_Command 1 (C_Position (Position_Pilot demo_position))]"

definition demo_start :: system where
  "demo_start = \<lparr>sys_net = net_state_default, sys_pending = [], sys_next = 1\<rparr>"

definition demo_login3 :: login_command where
  "demo_login3 = demo_pilot_login\<lparr>lc_callsign := Callsign ''AFR3''\<rparr>"

text \<open>The state after the run: two active sessions, a third one with a login pending.\<close>

definition demo_pilot_session :: session where
  "demo_pilot_session = \<lparr>s_connection_id = 1, s_peer = demo_peer, s_dialect = Classic,
     s_phase = Active, s_generation = 1, s_identification = None,
     s_presence = Some (presence_of_login demo_pilot_login demo_identity),
     s_position = Some (Position_Pilot demo_position), s_flight_plan = None\<rparr>"

definition demo_tower_session :: session where
  "demo_tower_session = \<lparr>s_connection_id = 2, s_peer = demo_peer, s_dialect = Vatsim,
     s_phase = Active, s_generation = 2, s_identification = Some demo_identification,
     s_presence = Some (presence_of_login demo_tower_login demo_identity),
     s_position = None, s_flight_plan = None\<rparr>"

definition demo_net :: net_state where
  "demo_net =
     \<lparr>ns_sessions = [(1, demo_pilot_session), (2, demo_tower_session), (3, fresh_session 3 demo_peer Classic)],
      ns_callsigns = [(demo_pilot, 1), (demo_tower, 2)]\<rparr>"

definition demo_system :: system where
  "demo_system =
     \<lparr>sys_net = demo_net, sys_pending = [Pending_Login 3 demo_pilot_login 0], sys_next = 4\<rparr>"

lemmas net_eval = register_def net_state_default_def hm_get_def hm_insert_def hm_values_def
  put_session_def fresh_session_def login_generation_def identify_begin_def identify_finish_def
  session_callsign_def login_resume_def validate_rating_def activate_login_def
  identification_matches_def presence_of_login_def atc_allows_wire_value_def
  pilot_allows_wire_value_def CLASSIC_PROTOCOL_REVISION_def VATSIM_PROTOCOL_REVISION_def
  login_generation_of_def identify_generation_def execute_active_def handle_state_command_def
  position_validate_def f64_in_range_def is_octal_digit_def byte_def Let_def

lemmas demo_defs = demo_config_def demo_peer_def demo_identity_def demo_pilot_def demo_tower_def
  demo_pilot_login_def demo_login3_def demo_identification_def demo_tower_login_def demo_position_def
  demo_labels_def demo_start_def

lemmas demo_state = demo_system_def demo_net_def demo_pilot_session_def demo_tower_session_def

lemma demo_runs: "exec_labels demo_config demo_libm demo_labels demo_start = Some demo_system"
  by (simp add: net_eval demo_defs demo_state)

lemma demo_reach: "reach sys_init (sys_step demo_config demo_libm) demo_system"
  using demo_runs
  by (rule exec_labels_reach [rotated]) (simp add: reach_init sys_init_def demo_start_def)

lemma demo_inv: "sys_inv demo_config demo_system" "net_inv demo_config demo_net"
  using net.reach_inv [OF demo_reach] sys_inv_net [of demo_config demo_system]
  by (simp_all add: demo_system_def)

lemma demo_lookup:
  "session_of demo_net 1 = Some demo_pilot_session"
  "session_of demo_net 2 = Some demo_tower_session"
  "owner_of demo_net demo_pilot = Some 1"
  "owner_of demo_net demo_tower = Some 2"
  by (simp_all add: demo_net_def hm_get_def demo_pilot_def demo_tower_def)

end
