(* ===== verification/Net_Properties.thy ===== *)
theory Net_Properties
  imports Scenario
begin

text \<open>
  The properties of the network core: ownership of callsigns, authorisation of logins,
  recipients of events, removal of sessions, and the answers of the individual commands.
\<close>

section \<open>Sessions and callsigns\<close>

text \<open>
  C1: In every state the network can reach, under every interleaving of commands, answers of
  the authentication port and disconnections, the callsign index and the sessions agree: a
  callsign is owned by a connection exactly when that connection has an active session under
  that callsign. In particular no two connections are active under one callsign.
\<close>

theorem registry_agrees:
  assumes "reach sys_init (sys_step config lm) s"
  shows "(\<forall>c i. owner_of (sys_net s) c = Some i \<longleftrightarrow>
            (\<exists>x. session_of (sys_net s) i = Some x \<and> s_phase x = Active \<and> session_callsign x = Some c))
    \<and> (\<forall>i j x y c. session_of (sys_net s) i = Some x \<and> session_of (sys_net s) j = Some y
          \<and> session_callsign x = Some c \<and> session_callsign y = Some c \<longrightarrow> i = j)"
proof -
  note inv = sys_inv_net [OF net.reach_inv [OF assms]]
  have "owner_of (sys_net s) c = Some i \<longleftrightarrow>
      (\<exists>x. session_of (sys_net s) i = Some x \<and> s_phase x = Active \<and> session_callsign x = Some c)" for c i
    using net_inv_owner [OF inv, of c i] net_inv_sessions [OF inv, of i]
    by (auto simp: session_ok_callsign)
  then show ?thesis using net_inv_callsign_unique [OF inv] by blast
qed

theorem registry_agrees_witness:
  "owner_of (sys_net demo_system) demo_pilot = Some 1 \<and>
   (\<exists>x. session_of (sys_net demo_system) 1 = Some x \<and> s_phase x = Active
      \<and> session_callsign x = Some demo_pilot)"
  using registry_agrees [OF demo_reach] demo_lookup by (metis demo_system_def system.select_convs(1))

text \<open>
  C4: The two indexes implement an abstract directory of callsigns: every step of the network
  keeps the directory, lets one connection that held no callsign take a free one, or frees one.
  An existing entry is never changed or given to another connection.
\<close>

theorem registry_refines_directory:
  assumes "reach sys_init (sys_step config lm) s" and "sys_step config lm s l t"
  shows "dir_step (directory_of (sys_net s)) (directory_of (sys_net t))"
  using assms by (intro directory_step net.reach_inv)

theorem registry_refines_directory_witness:
  "dir_step (directory_of demo_net) (directory_of (snd (disconnect 1 ''x'' demo_net)))"
proof -
  have "sys_step demo_config demo_libm demo_system
      (L_Disconnect 1 ''x'', fst (disconnect 1 ''x'' demo_net))
      (demo_system\<lparr>sys_net := snd (disconnect 1 ''x'' demo_net)\<rparr>)"
    by (rule Step_Disconnect) (simp add: demo_system_def)
  from registry_refines_directory [OF demo_reach this] show ?thesis
    by (simp add: demo_system_def)
qed

text \<open>
  C2: A session becomes active in one way only: the authentication port accepted the identity,
  the identity is not suspended, the requested rating is one of the recognised certification
  levels and does not exceed the level of the identity on the scale of the requested role,
  the callsign was free, the login used the protocol revision of the listener, and a VATSIM
  client had identified itself before with the same callsign and network ID.
\<close>

theorem login_authorised:
  assumes "reach sys_init (sys_step config lm) s" and "sys_step config lm s (l, e) t"
    and "is_active (sys_net t) i" and "\<not> is_active (sys_net s) i"
  shows "\<exists>c a x. l = L_Authenticated i c (Inr a) \<and> session_of (sys_net s) i = Some x
    \<and> \<not> ai_suspended a \<and> lc_requested_rating c \<noteq> 0
    \<and> (if lc_client_type c = Atc
       then \<exists>q. atc_try_from (lc_requested_rating c) = Inr q \<and> q \<le> ai_atc_rating a
       else \<exists>q. pilot_try_from (lc_requested_rating c) = Inr q \<and> q \<le> ai_pilot_rating a)
    \<and> owner_of (sys_net s) (lc_callsign c) = None
    \<and> lc_protocol_revision c = expected_revision (s_dialect x)
    \<and> (s_dialect x = Vatsim \<longrightarrow> identification_matches (s_identification x) c)"
proof -
  have inv: "sys_inv config s" by (rule net.reach_inv [OF assms(1)])
  obtain c g a x where l: "l = L_Authenticated i c (Inr a)"
    and p: "Pending_Login i c g \<in> set (sys_pending s)"
    and v: "validate_rating i c a = Inr ()" and act: "login_activates i c g (sys_net s) x"
    by (rule activation_step [OF inv assms(2-4)])
  from inv p have "pending_ok (sys_net s) (sys_next s) (Pending_Login i c g)"
    by (auto simp only: sys_inv_def)
  with act have "lc_protocol_revision c = expected_revision (s_dialect x)"
    by (simp add: login_activates_def)
  with l v act show ?thesis
    unfolding validate_rating_ok by (auto simp: login_activates_def)
qed

theorem login_authorised_witness:
  "\<exists>s e t c a x. reach sys_init (sys_step demo_config demo_libm) s
     \<and> sys_step demo_config demo_libm s (L_Authenticated 1 c (Inr a), e) t
     \<and> is_active (sys_net t) 1 \<and> session_of (sys_net s) 1 = Some x
     \<and> lc_protocol_revision c = expected_revision (s_dialect x)"
proof -
  have "\<exists>s e t. exec_labels demo_config demo_libm (take 7 demo_labels) demo_start = Some s
      \<and> exec_label demo_config demo_libm (L_Authenticated 1 demo_pilot_login (Inr demo_identity)) s = Some (e, t)
      \<and> is_active (sys_net t) 1 \<and> \<not> is_active (sys_net s) 1"
    by (simp add: net_eval demo_defs is_active_def)
  then obtain s e t where run: "exec_labels demo_config demo_libm (take 7 demo_labels) demo_start = Some s"
    and step: "sys_step demo_config demo_libm s (L_Authenticated 1 demo_pilot_login (Inr demo_identity), e) t"
    and act: "is_active (sys_net t) 1" "\<not> is_active (sys_net s) 1"
    by (blast intro: exec_label_sound)
  have "reach sys_init (sys_step demo_config demo_libm) s"
    using run by (rule exec_labels_reach [rotated]) (simp add: reach_init sys_init_def demo_start_def)
  with login_authorised [OF this step act] step act(1) show ?thesis by blast
qed

text \<open>
  Of two logins for one callsign that both wait for the authentication port, the one that
  resumes second loses: it is answered "callsign in use" and changes nothing, whatever the
  port says about it.
\<close>

theorem second_login_loses:
  assumes "login_activates i c g st x" and "validate_rating i c a = Inr ()"
    and "lc_callsign d = lc_callsign c" and "validate_rating j d b = Inr ()"
  shows "let st' = snd (login_resume config i c g (Inr a) st)
    in owner_of st' (lc_callsign c) = Some i
      \<and> login_resume config j d h (Inr b) st' =
          (error_and_close j (Some (lc_callsign c)) E_CallsignInUse [], st')"
  using assms
  by (auto simp: login_resume_def activate_login_def login_activates_def Let_def hm.get_insert)

theorem second_login_loses_witness:
  "let st' = snd (login_resume demo_config 3 demo_login3 0 (Inr demo_identity) demo_net)
   in owner_of st' (Callsign ''AFR3'') = Some 3
     \<and> login_resume demo_config 4 demo_login3 0 (Inr demo_identity) st' =
         (error_and_close 4 (Some (Callsign ''AFR3'')) E_CallsignInUse [], st')"
  using second_login_loses [of 3 demo_login3 0 demo_net "fresh_session 3 demo_peer Classic"
      demo_identity demo_login3 4 demo_identity demo_config 0]
  by (simp add: login_activates_def demo_net_def net_eval demo_defs)

text \<open>
  A login that resumes after the generation of its session has moved on (another
  identification or login of the same connection got there first) is refused and changes
  nothing.
\<close>

theorem stale_login_refused:
  assumes "session_of st i = Some x" and "s_generation x \<noteq> g"
    and "owner_of st (lc_callsign c) = None" and "validate_rating i c a = Inr ()"
  shows "login_resume config i c g (Inr a) st =
    (error_effect i (session_callsign x) E_AlreadyRegistered [], st)"
  using assms by (simp add: login_resume_def activate_login_def)

theorem stale_login_refused_witness:
  "login_resume demo_config 1 demo_login3 0 (Inr demo_identity) demo_net =
     (error_effect 1 (Some demo_pilot) E_AlreadyRegistered [], demo_net)"
  using stale_login_refused [of demo_net 1 demo_pilot_session 0 demo_login3 demo_identity demo_config]
    demo_lookup(1)
  by (simp add: demo_net_def net_eval demo_defs demo_pilot_session_def)

text \<open>
  C23: Every session of a reachable state is in a consistent phase: before the login it has no
  presence, position or flight plan; the generation counts the completed phases and never
  exceeds 2, so the 64-bit counter cannot wrap; an active VATSIM session is identified under
  its own callsign; the number of sessions stays within the configured capacity.
\<close>

theorem sessions_consistent:
  assumes "reach sys_init (sys_step config lm) s" and "session_of (sys_net s) i = Some x"
  shows "s_connection_id x = i \<and> s_phase x \<noteq> Closed
    \<and> (s_phase x = Active \<longleftrightarrow> s_presence x \<noteq> None)
    \<and> (s_phase x \<noteq> Active \<longrightarrow> s_position x = None \<and> s_flight_plan x = None)
    \<and> unat (s_generation x) = (if s_identification x = None then 0 else 1)
        + (if s_presence x = None then 0 else 1)
    \<and> (s_phase x = Active \<and> s_dialect x = Vatsim \<longrightarrow>
         map_option id_callsign (s_identification x) = session_callsign x)
    \<and> length (hm_values (ns_sessions (sys_net s))) \<le> co_max_clients config"
proof -
  note inv = sys_inv_net [OF net.reach_inv [OF assms(1)]]
  have ok: "s_connection_id x = i" "session_ok x" using net_inv_sessions [OF inv assms(2)] by auto
  note session_okD [OF ok(2)]
  moreover have "unat (s_generation x) = (if s_identification x = None then 0 else 1)
        + (if s_presence x = None then 0 else 1)"
    using ok(2) by (auto simp: session_ok_def phase_ok_def split: session_phase.splits)
  moreover have "s_phase x \<noteq> Active \<longrightarrow> s_position x = None \<and> s_flight_plan x = None"
    using ok(2) by (auto simp: session_ok_def position_ok_def plan_ok_def split: option.splits)
  moreover have "s_phase x = Active \<and> s_dialect x = Vatsim \<longrightarrow>
         map_option id_callsign (s_identification x) = session_callsign x"
    using ok(2) by (auto simp: session_ok_def phase_ok_def)
  ultimately show ?thesis using ok(1) net_inv_size [OF inv] by blast
qed

theorem sessions_consistent_witness:
  "s_connection_id demo_tower_session = 2 \<and> s_phase demo_tower_session \<noteq> Closed
   \<and> length (hm_values (ns_sessions demo_net)) \<le> 3"
  using sessions_consistent [OF demo_reach, of 2 demo_tower_session] demo_lookup
  by (simp add: demo_system_def demo_config_def)

text \<open>
  C24: A stored position was validated (finite coordinates within range, a legal transponder
  mode and octal squawk, a non-negative visual range), reports the callsign of its own
  session, and is of the kind of its role; in particular an observer never has a position.
\<close>

theorem stored_position_valid:
  assumes "reach sys_init (sys_step config lm) s" and "session_of (sys_net s) i = Some x"
    and "s_position x = Some pos"
  shows "position_validate pos = Inr () \<and> session_callsign x = Some (position_callsign pos)
    \<and> map_option cp_client_type (s_presence x) =
        Some (case pos of Position_Pilot _ \<Rightarrow> Pilot | Position_Atc _ \<Rightarrow> Atc)
    \<and> map_option cp_client_type (s_presence x) \<noteq> Some Observer"
proof -
  have "session_ok x"
    using net_inv_sessions [OF sys_inv_net [OF net.reach_inv [OF assms(1)]] assms(2)] by blast
  with assms(3) show ?thesis
    by (cases "position_validate pos")
      (auto simp: session_ok_def position_ok_def split: position.splits)
qed

theorem stored_position_valid_witness:
  "position_validate (Position_Pilot demo_position) = Inr ()"
  using stored_position_valid [OF demo_reach, of 1 demo_pilot_session "Position_Pilot demo_position"]
    demo_lookup by (simp add: demo_system_def demo_pilot_session_def)

section \<open>Recipients\<close>

fun label_connection :: "label \<Rightarrow> connection_id option" where
  "label_connection (L_Command i _) = Some i"
| "label_connection (L_Authorized i _ _) = Some i"
| "label_connection (L_Authenticated i _ _) = Some i"
| "label_connection (L_Weather i _ _ _ _) = Some i"
| "label_connection _ = None"

text \<open>
  C5: Every event a step of the network delivers goes to at least one recipient, to none of
  them twice, and only to the connection whose command is being executed or to connections
  with an active session; a connection that has not logged in receives nothing but the answers
  to its own commands.
\<close>

theorem step_delivers:
  assumes "reach sys_init (sys_step config lm) s" and "sys_step config lm s (l, e) t"
  shows "delivers_within (\<lambda>j. label_connection l = Some j \<or> is_active (sys_net s) j) e"
proof -
  note inv = sys_inv_net [OF net.reach_inv [OF assms(1)]]
  have own: "delivers_within (self_or_active (sys_net s) i) e \<Longrightarrow> label_connection l = Some i \<Longrightarrow> ?thesis" for i
    by (erule delivers_within_mono) (auto simp: self_or_active_def)
  have self: "delivers_within (\<lambda>j. i = j \<or> is_active (sys_net s) j) f =
      delivers_within (self_or_active (sys_net s) i) f" for i f
    by (simp add: self_or_active_def [abs_def] eq_commute)
  have act: "delivers_within (is_active (sys_net s)) e \<Longrightarrow> ?thesis"
    by (erule delivers_within_mono) simp
  from assms(2) show ?thesis
  proof (cases rule: sys_step.cases)
    case (Step_Disconnect i reason st)
    then show ?thesis using disconnect_delivers [OF inv, of i reason] act by (simp add: disconnect_def)
  next
    case (Step_Active command i st)
    then show ?thesis using execute_active_delivers [OF inv, of i lm command] own by simp
  next
    case (Step_Identify_Finish i c g answer st)
    then show ?thesis using identify_finish_delivers [of "sys_net s" i c g answer] own by simp
  next
    case (Step_Login_Finish i c g answer st)
    then show ?thesis using login_resume_delivers [OF inv, of i c g answer] own by simp
  next
    case Step_Broadcast
    then show ?thesis using delivers_active_ids [OF inv] act by (simp add: broadcast_def)
  qed (auto simp: self weather_resume_delivers intro: begin_delivers)
qed

theorem step_delivers_witness:
  "delivers_within (\<lambda>j. is_active demo_net j) (broadcast demo_net (Ev_WindDelta 1 2))
   \<and> broadcast demo_net (Ev_WindDelta 1 2) =
       \<lparr>ef_deliveries = [\<lparr>dl_recipients = [1, 2], dl_event = Ev_WindDelta 1 2\<rparr>], ef_close = None\<rparr>"
proof
  have "sys_step demo_config demo_libm demo_system
      (L_Broadcast (Ev_WindDelta 1 2), broadcast demo_net (Ev_WindDelta 1 2)) demo_system"
    using Step_Broadcast [of demo_config demo_libm demo_system] by (simp add: demo_system_def)
  from step_delivers [OF demo_reach this]
  show "delivers_within (\<lambda>j. is_active demo_net j) (broadcast demo_net (Ev_WindDelta 1 2))"
    by (simp add: demo_system_def)
  show "broadcast demo_net (Ev_WindDelta 1 2) =
       \<lparr>ef_deliveries = [\<lparr>dl_recipients = [1, 2], dl_event = Ev_WindDelta 1 2\<rparr>], ef_close = None\<rparr>"
    by (simp add: broadcast_def send_def active_ids_def demo_net_def hm_values_def
        demo_pilot_session_def demo_tower_session_def fresh_session_def)
qed

text \<open>
  C11: Resolving a destination yields, without repetition, exactly the active sessions other
  than the sender that the destination addresses: the owner of the callsign, all clients,
  controllers, pilots and observers, or the clients in range under the policy of the command.
\<close>

theorem destination_resolved:
  assumes "reach sys_init (sys_step config lm) s"
  shows "distinct (resolve_destination lm (sys_net s) sender dest policy)
    \<and> (\<forall>i. i \<in> set (resolve_destination lm (sys_net s) sender dest policy) \<longleftrightarrow>
          i \<noteq> sender \<and> (\<exists>x. session_of (sys_net s) i = Some x \<and> s_phase x = Active
            \<and> addressed lm (sys_net s) sender dest policy i x))"
  using resolve_destination_spec [OF sys_inv_net [OF net.reach_inv [OF assms]]] by blast

theorem destination_resolved_witness:
  "2 \<in> set (resolve_destination demo_libm demo_net 1 (To_Direct demo_tower) Range_Source)
   \<and> 1 \<notin> set (resolve_destination demo_libm demo_net 1 To_All Range_Source)"
  using destination_resolved [OF demo_reach, of 1 "To_Direct demo_tower" Range_Source]
    destination_resolved [OF demo_reach, of 1 To_All Range_Source] demo_lookup
  by (auto simp: demo_system_def addressed_def session_callsign_def demo_tower_session_def
      presence_of_login_def demo_tower_login_def)

text \<open>
  C32: A position report reaches exactly the other active sessions that have a position
  themselves and lie within the permitted distance: the visual range of a controller who
  receives it, otherwise the sum of both ranges when the sender is a pilot and the larger of
  the two when the sender is a controller.
\<close>

theorem position_reaches:
  assumes "reach sys_init (sys_step config lm) s"
  shows "i \<in> set (position_recipients lm (sys_net s) src) \<longleftrightarrow>
    i \<noteq> src \<and> (\<exists>x y px py d.
      session_of (sys_net s) src = Some x \<and> session_of (sys_net s) i = Some y
      \<and> s_position x = Some px \<and> s_position y = Some py
      \<and> distance_between lm (sys_net s) src i = Some d
      \<and> f64_le d (case py of
            Position_Atc p \<Rightarrow> f64_of_i32 (ap_visual_range p)
          | Position_Pilot _ \<Rightarrow>
              (case px of
                 Position_Pilot _ \<Rightarrow> f64_add (session_range x) (session_range y)
               | Position_Atc _ \<Rightarrow> f64_max (session_range x) (session_range y))))"
proof -
  note inv = sys_inv_net [OF net.reach_inv [OF assms]]
  have role: "s_phase x = Active \<and> is_ok (position_validate p)
      \<and> (is_atc (s_presence x) \<longleftrightarrow> (\<exists>q. p = Position_Atc q))
      \<and> (is_pilot_like (s_presence x) \<longleftrightarrow> (\<exists>q. p = Position_Pilot q))"
    if "session_of (sys_net s) j = Some x" "s_position x = Some p" for j x p
    using net_inv_sessions [OF inv that(1)] that(2)
    by (cases "s_presence x")
      (auto simp: session_ok_def position_ok_def is_atc_def is_pilot_like_def split: position.splits)
  have permitted: "permitted_range x y = (case py of
            Position_Atc p \<Rightarrow> f64_of_i32 (ap_visual_range p)
          | Position_Pilot _ \<Rightarrow>
              (case px of
                 Position_Pilot _ \<Rightarrow> f64_add (session_range x) (session_range y)
               | Position_Atc _ \<Rightarrow> f64_max (session_range x) (session_range y)))"
    if "session_of (sys_net s) src = Some x" "s_position x = Some px"
       "session_of (sys_net s) i = Some y" "s_position y = Some py" for x y px py
    using role [OF that(1,2)] role [OF that(3,4)] that(4)
    by (cases px; cases py)
      (auto simp: permitted_range_def position_validate_def max_def split: if_splits)
  show ?thesis
    unfolding position_recipients(2) [OF inv] position_in_range_iff
    using permitted role by (auto; metis)
qed

theorem position_reaches_witness:
  "2 \<notin> set (position_recipients demo_libm demo_net 1) \<and> s_position demo_tower_session = None"
  using position_reaches [OF demo_reach, of 2 1] demo_lookup
  by (simp add: demo_system_def demo_tower_session_def)

end
