(* ===== verification/Net_Answers.thy ===== *)
theory Net_Answers
  imports Net_Properties
begin

text \<open>
  More properties of the network core: which commands are executed at all, who can remove a
  session, what a removal releases and announces, and what the queries answer.
\<close>

section \<open>Which commands are executed\<close>

text \<open>
  A command that does not carry the callsign of its own active session as its source is
  not executed: the state stays as it is and the sender alone is told "invalid source". A
  command of a connection without an active session is dropped without any effect.
\<close>

theorem source_ownership:
  assumes "\<not> is_async command"
  shows "case session_of st i of
      None \<Rightarrow> execute nw i command st = (effects_default, st)
    | Some x \<Rightarrow>
        (s_phase x \<noteq> Active \<longrightarrow> execute nw i command st = (effects_default, st))
        \<and> (\<forall>c. s_phase x = Active \<and> session_callsign x = Some c \<and> command_source command \<noteq> Some c \<longrightarrow>
             execute nw i command st =
               (send [i] (Ev_Error (Some c) E_InvalidSource
                  (case command_source command of None \<Rightarrow> [] | Some d \<Rightarrow> as_str d)
                  ''Invalid source callsign''), st))"
proof -
  have "execute nw i command st = execute_active (nw_libm nw) i command st"
    using assms by (cases command) (simp_all add: execute_def)
  then show ?thesis
    by (auto simp: execute_active_def session_callsign_def error_effect_def Let_def split: option.splits)
qed

definition demo_network :: network where
  "demo_network = \<lparr>nw_config = demo_config, nw_authenticator = allow_all_authenticator,
     nw_weather_provider = unavailable_weather_provider, nw_libm = demo_libm\<rparr>"

theorem source_ownership_witness:
  "execute demo_network 1 (C_Text demo_tower To_All ''hi'') demo_net =
     (send [1] (Ev_Error (Some demo_pilot) E_InvalidSource ''LFPG'' ''Invalid source callsign''), demo_net)"
  using source_ownership [where command = "C_Text demo_tower To_All ''hi''" and st = demo_net
      and i = 1 and nw = demo_network] demo_lookup(1)
  by (simp add: session_callsign_def demo_pilot_session_def presence_of_login_def
      demo_pilot_login_def demo_pilot_def demo_tower_def)

lemma async_keeps_sessions:
  assumes "is_async command" "session_of st j \<noteq> None"
  shows "session_of (snd (execute nw i command st)) j \<noteq> None"
proof -
  have "session_of (snd (login_resume (nw_config nw) i c g a st)) j \<noteq> None" for c g a
    using assms(2) by (cases rule: login_resume_cases [of a i c g st "nw_config nw"]) (simp_all add: Let_def)
  with assms show ?thesis
    by (cases command) (auto simp: execute_def identify_def identify_finish_def login_def
        split: sum.splits option.splits if_splits)
qed

lemma execute_sync: "\<not> is_async command \<Longrightarrow> execute nw i command st = execute_active (nw_libm nw) i command st"
  by (cases command) (simp_all add: execute_def)

lemma execute_active_removes:
  assumes inv: "net_inv config st" and "session_of st j \<noteq> None"
    and "session_of (snd (execute_active lm i command st)) j = None"
  shows "(\<exists>c. command = C_Logoff c \<and> j = i) \<or>
    (\<exists>src target reason x p. command = C_Kill src target reason \<and> owner_of st target = Some j
       \<and> session_of st i = Some x \<and> s_presence x = Some p \<and> src = cp_callsign p \<and> 11 \<le> cp_rating p)"
  using inv
proof (cases rule: execute_active_cases [of config st lm i command])
  case (handled x p)
  note gone = disconnect_session_of [OF net_inv_wf(1) [OF inv]]
  show ?thesis
  proof (cases command)
    case (C_Logoff c)
    with assms(2,3) handled gone [of i] show ?thesis
      by (auto simp: execute_active_def handle_state_command_def split: if_splits)
  next
    case (C_Kill src target reason)
    with assms(2,3) handled gone [of _ reason] show ?thesis
      by (auto simp: execute_active_def handle_kill_def Let_def case_prod_unfold split: option.splits if_splits)
  next
    case (C_Position pos)
    with assms(2,3) handled show ?thesis
      by (auto simp: execute_active_def handle_state_command_def Let_def split: sum.splits if_splits)
  next
    case (C_FlightPlan plan)
    with assms(2,3) handled show ?thesis
      by (auto simp: execute_active_def handle_state_command_def Let_def split: if_splits)
  qed (use assms(2,3) handled in \<open>simp_all add: execute_active_def Let_def\<close>)
qed (use assms(2,3) in simp_all)

text \<open>
  C12: A client command removes a session in two cases only: a client logs off itself, or a
  client whose session rating is at least 11 kills the owner of the named callsign.
\<close>

theorem who_removes_sessions:
  assumes "reach sys_init (sys_step config lm) s" and "nw_config nw = config"
    and "session_of (sys_net s) j \<noteq> None"
    and "session_of (snd (execute nw i command (sys_net s))) j = None"
  shows "(\<exists>c. command = C_Logoff c \<and> j = i) \<or>
    (\<exists>src target reason x p. command = C_Kill src target reason
       \<and> owner_of (sys_net s) target = Some j \<and> session_of (sys_net s) i = Some x
       \<and> s_presence x = Some p \<and> src = cp_callsign p \<and> 11 \<le> cp_rating p)"
proof -
  have "\<not> is_async command" using async_keeps_sessions assms(3,4) by blast
  from execute_sync [OF this] execute_active_removes [OF sys_inv_net [OF net.reach_inv [OF assms(1)]] assms(3)] assms(4)
  show ?thesis by simp
qed

text \<open>
  C33: The rating test of a kill compares the wire value of the session's rating with 11 on
  whichever scale that rating is. On the pilots' cumulative scale the value of an airline
  transport pilot licence is 15, so an authenticated airline transport pilot may disconnect
  any client, a controller included, whereas a controller needs supervisor level.
\<close>

theorem licensed_pilot_kills:
  assumes "reach sys_init (sys_step config lm) s"
    and "session_of (sys_net s) i = Some x" and "s_presence x = Some p"
    and "cp_client_type p = Pilot" and "pilot_try_from (cp_rating p) = Inr AirlineTransportPilotLicense"
    and "owner_of (sys_net s) target = Some j"
  shows "session_of (snd (execute nw i (C_Kill (cp_callsign p) target reason) (sys_net s))) j = None"
proof -
  note inv = sys_inv_net [OF net.reach_inv [OF assms(1)]]
  have "s_phase x = Active"
    using net_inv_sessions [OF inv assms(2)] assms(3) by (simp add: session_okD(1))
  moreover have "cp_rating p = 15"
    using assms(5) by (simp add: pilot_level.dec_iff)
  ultimately show ?thesis
    using assms(2,3,6) disconnect_session_of [OF net_inv_wf(1) [OF inv], of j reason j]
    by (simp add: execute_def execute_active_def handle_kill_def Let_def case_prod_unfold)
qed

theorem licensed_pilot_kills_witness:
  "session_of demo_net 2 = Some demo_tower_session \<and>
   session_of (snd (execute demo_network 1 (C_Kill demo_pilot demo_tower ''bye'') demo_net)) 2 = None"
  using licensed_pilot_kills [OF demo_reach, of 1 demo_pilot_session
      "presence_of_login demo_pilot_login demo_identity" demo_tower 2 demo_network "''bye''"] demo_lookup
  by (simp add: demo_system_def demo_pilot_session_def presence_of_login_def demo_pilot_login_def
      pilot_try_from_def)

theorem who_removes_sessions_witness:
  "session_of (snd (execute demo_network 1 (C_Kill demo_pilot demo_tower ''bye'') demo_net)) 2 = None \<and>
   (\<exists>src target reason x p. C_Kill demo_pilot demo_tower ''bye'' = C_Kill src target reason
       \<and> owner_of demo_net target = Some 2 \<and> session_of demo_net 1 = Some x
       \<and> s_presence x = Some p \<and> src = cp_callsign p \<and> 11 \<le> cp_rating p)"
proof -
  have gone: "session_of (snd (execute demo_network 1 (C_Kill demo_pilot demo_tower ''bye'') demo_net)) 2 = None"
    by (simp add: execute_def execute_active_def handle_kill_def Let_def demo_lookup
        demo_pilot_session_def presence_of_login_def demo_pilot_login_def case_prod_unfold
        disconnect_session_of [OF net_inv_wf(1) [OF demo_inv(2)]])
  then show ?thesis
    using who_removes_sessions [OF demo_reach, of demo_network 2 1 "C_Kill demo_pilot demo_tower ''bye''"]
      demo_lookup by (simp add: demo_system_def demo_network_def)
qed

section \<open>Removal\<close>

text \<open>
  C18: Disconnecting a connection removes its session, frees its callsign for the next login,
  leaves every other session and callsign as it was, announces the removal of an active
  client to exactly the sessions that remain active, and asks for the socket to be closed.
\<close>

theorem disconnect_releases:
  assumes "reach sys_init (sys_step config lm) s" and "session_of (sys_net s) i = Some x"
    and "disconnect i reason (sys_net s) = (e, st)"
  shows "session_of st i = None \<and> (\<forall>j. j \<noteq> i \<longrightarrow> session_of st j = session_of (sys_net s) j)
    \<and> (\<forall>c. owner_of st c = (if session_callsign x = Some c then None else owner_of (sys_net s) c))
    \<and> ef_close e = Some \<lparr>cc_connection_id = i, cc_reason = reason\<rparr>
    \<and> (case s_presence x of
         None \<Rightarrow> ef_deliveries e = []
       | Some p \<Rightarrow>
           (let peers = active_ids st None in
             ef_deliveries e = (if peers = [] then [] else
               [\<lparr>dl_recipients = peers, dl_event =
                   Ev_ClientRemoved (cp_callsign p) (cp_client_type p) (cp_network_id p)\<rparr>])
             \<and> (\<forall>j. j \<in> set peers \<longleftrightarrow> j \<noteq> i \<and> is_active (sys_net s) j)))"
proof -
  note inv = sys_inv_net [OF net.reach_inv [OF assms(1)]]
  have st: "st = snd (disconnect_locked i reason (sys_net s))" and e: "e = fst (disconnect_locked i reason (sys_net s))"
    using assms(3) by (simp_all add: disconnect_def)
  have sess: "session_of st j = (if j = i then None else session_of (sys_net s) j)" for j
    unfolding st by (rule disconnect_session_of [OF net_inv_wf(1) [OF inv]])
  have own: "owner_of st c = (if session_callsign x = Some c then None else owner_of (sys_net s) c)" for c
    unfolding st using disconnect_owner_of [OF net_inv_wf(2) [OF inv]] assms(2)
    by (auto split: option.splits)
  have "net_inv config st" unfolding st by (rule disconnect_inv [OF inv])
  then have peers: "j \<in> set (active_ids st None) \<longleftrightarrow> j \<noteq> i \<and> is_active (sys_net s) j" for j
    using sess by (auto simp: active_ids_iff is_active_def split: if_splits)
  have "ef_close e = Some \<lparr>cc_connection_id = i, cc_reason = reason\<rparr>"
    using assms(2) by (simp add: e disconnect_locked_def Let_def case_prod_unfold)
  moreover have "case s_presence x of
         None \<Rightarrow> ef_deliveries e = []
       | Some p \<Rightarrow> ef_deliveries e = (if active_ids st None = [] then [] else
               [\<lparr>dl_recipients = active_ids st None, dl_event =
                   Ev_ClientRemoved (cp_callsign p) (cp_client_type p) (cp_network_id p)\<rparr>])"
    using assms(2) by (auto simp: e st disconnect_locked_def Let_def split: option.splits)
  ultimately show ?thesis
    using sess own peers by (cases "s_presence x") (simp_all add: Let_def)
qed

theorem disconnect_releases_witness:
  "owner_of (snd (disconnect 1 ''gone'' demo_net)) demo_pilot = None
   \<and> owner_of (snd (disconnect 1 ''gone'' demo_net)) demo_tower = Some 2"
  using disconnect_releases [OF demo_reach, of 1 demo_pilot_session "''gone''"
      "fst (disconnect 1 ''gone'' demo_net)" "snd (disconnect 1 ''gone'' demo_net)"] demo_lookup
  by (simp add: demo_system_def demo_pilot_session_def session_callsign_def presence_of_login_def
      demo_pilot_login_def demo_pilot_def demo_tower_def)

text \<open>
  Registration: a connection ID is never registered twice, the capacity is never
  exceeded, a refused connection leaves the state unchanged, and an accepted one starts
  unidentified and without a callsign, next to the unchanged other sessions.
\<close>

theorem register_outcome:
  "case register config i peer dialect st of
     (Inl DuplicateConnection, st') \<Rightarrow> st' = st \<and> session_of st i \<noteq> None
   | (Inl ServerFull, st') \<Rightarrow> st' = st \<and> session_of st i = None
        \<and> co_max_clients config \<le> length (hm_values (ns_sessions st))
   | (Inr _, st') \<Rightarrow> session_of st i = None
        \<and> length (hm_values (ns_sessions st')) = Suc (length (hm_values (ns_sessions st)))
        \<and> length (hm_values (ns_sessions st')) \<le> co_max_clients config
        \<and> session_of st' i = Some (fresh_session i peer dialect)
        \<and> (\<forall>j. j \<noteq> i \<longrightarrow> session_of st' j = session_of st j)
        \<and> ns_callsigns st' = ns_callsigns st"
  by (auto simp: register_def put_session_size)

theorem register_outcome_witness:
  "register demo_config 4 demo_peer Vatsim demo_net = (Inl ServerFull, demo_net)
   \<and> session_of demo_net 4 = None"
  using register_outcome [where config = demo_config and i = 4 and peer = demo_peer
      and dialect = Vatsim and st = demo_net]
  by (auto simp: register_def demo_net_def demo_config_def hm_values_def hm_get_def)

section \<open>Queries\<close>

text \<open>
  The server's answer to a flight-plan query is a plan filed by the present owner of the
  callsign that was asked for, under that callsign, and goes to the asking client alone; if the
  owner has filed none, or nobody owns the callsign, or it is not a callsign, the client gets
  the matching error.
\<close>

theorem flight_plan_query:
  assumes "reach sys_init (sys_step config lm) s"
  shows "handle_query lm (sys_net s) i source To_Server Q_FlightPlan (v # vs) =
    (case callsign_parse v of
       Inl _ \<Rightarrow> error_effect i (Some source) E_Syntax []
     | Inr target \<Rightarrow>
         (case owner_of (sys_net s) target of
            None \<Rightarrow> error_effect i (Some source) E_NoSuchCallsign (as_str target)
          | Some j \<Rightarrow>
              (case Option.bind (session_of (sys_net s) j) s_flight_plan of
                 None \<Rightarrow> error_effect i (Some source) E_NoFlightPlan []
               | Some plan \<Rightarrow> send [i] (Ev_FlightPlan plan (To_Direct source)))))
    \<and> (\<forall>target j plan. owner_of (sys_net s) target = Some j
         \<and> Option.bind (session_of (sys_net s) j) s_flight_plan = Some plan \<longrightarrow> fp_callsign plan = target)"
proof -
  note inv = sys_inv_net [OF net.reach_inv [OF assms]]
  have "fp_callsign plan = target"
    if own: "owner_of (sys_net s) target = Some j"
      and plan: "Option.bind (session_of (sys_net s) j) s_flight_plan = Some plan" for target j plan
  proof -
    from plan obtain x where x: "session_of (sys_net s) j = Some x" "s_flight_plan x = Some plan"
      by (auto simp: bind_eq_Some_conv)
    from own x(1) have "session_callsign x = Some target" by (simp add: net_inv_owner [OF inv])
    with net_inv_sessions [OF inv x(1)] x(2) show ?thesis by (simp add: session_ok_def plan_ok_def)
  qed
  then show ?thesis by (auto simp: handle_query_def split: sum.splits)
qed

lemma demo_parse: "callsign_parse ''afr1'' = Inr demo_pilot"
  by code_simp

theorem flight_plan_query_witness:
  "handle_query demo_libm demo_net 2 demo_tower To_Server Q_FlightPlan [''afr1''] =
     error_effect 2 (Some demo_tower) E_NoFlightPlan []"
  using flight_plan_query [OF demo_reach, of 2 demo_tower "''afr1''" "[]"] demo_lookup
  by (simp add: demo_system_def demo_parse demo_pilot_session_def)

text \<open>
  A weather answer goes to the asking client alone, whatever the provider says: a raw
  report only if it holds no line delimiter, a parsed profile only if its visibility is a
  finite non-negative number, and "no such weather profile" in every other case.
\<close>

theorem weather_answer:
  "\<exists>ev. weather_resume i source station parsed answer = send [i] ev \<and>
     (ev = Ev_Error (Some source) E_NoWeather station (description E_NoWeather)
      \<or> (\<exists>r. \<not> parsed \<and> ev = Ev_WeatherReport ''server'' source station r
           \<and> list_all (\<lambda>b. \<not> is_delim b) r)
      \<or> (\<exists>w. parsed \<and> ev = Ev_WeatherProfile source station w
           \<and> f64_is_finite (wp_visibility w) \<and> f64_le (f64_lit 0) (wp_visibility w)))"
proof -
  have total: "f64_is_finite v \<Longrightarrow> f64_lt v (F64_Fin False 0) \<longleftrightarrow> \<not> f64_le (F64_Fin False 0) v" for v
    by (cases v) (auto simp: f64_lt_def)
  have send_inj: "send [i] a = send [i] b \<longleftrightarrow> a = b" for a b
    by (simp add: send_def)
  show ?thesis
    by (cases answer)
      (auto simp: weather_resume_def no_weather_def error_effect_def raw_weather_effect_def
        parsed_weather_effect_def weather_validate_def list_ex_iff list_all_iff
        total send_inj split: option.splits if_splits)
qed

section \<open>Authentication end to end\<close>

text \<open>
  The password influences a login only through the answer of the authentication port: two
  logins that differ in the password alone and get the same answer have the same effects and
  leave the same state, so no password reaches the state or another client.
\<close>

theorem password_not_disclosed:
  assumes "au_authenticate auth (lc_network_id c) p = au_authenticate auth (lc_network_id c) q"
  shows "login config auth i (c\<lparr>lc_password := p\<rparr>) st = login config auth i (c\<lparr>lc_password := q\<rparr>) st"
proof -
  have "login_generation st i (c\<lparr>lc_password := w\<rparr>) = login_generation st i c" for w
    by (simp add: login_generation_def split: option.splits)
  moreover have "login_resume config i (c\<lparr>lc_password := w\<rparr>) g a st = login_resume config i c g a st" for w g a
  proof -
    have "validate_rating i (c\<lparr>lc_password := w\<rparr>) b = validate_rating i c b" for b
      by (simp add: validate_rating_def split: client_type.split)
    moreover have "activate_login config i (c\<lparr>lc_password := w\<rparr>) b g st = activate_login config i c b g st" for b
    proof -
      have "presence_of_login (c\<lparr>lc_password := w\<rparr>) b = presence_of_login c b"
        by (simp add: presence_of_login_def)
      moreover have "identification_matches d (c\<lparr>lc_password := w\<rparr>) = identification_matches d c" for d
        by (simp add: identification_matches_def split: option.split)
      ultimately show ?thesis
        by (simp add: activate_login_def Let_def cong: option.case_cong if_cong)
    qed
    ultimately show ?thesis by (simp add: login_resume_def split: sum.splits auth_error.splits)
  qed
  ultimately show ?thesis using assms by (simp add: login_def cong: sum.case_cong)
qed

theorem password_not_disclosed_witness:
  "login demo_config allow_all_authenticator 3 (demo_tower_login\<lparr>lc_password := ''x''\<rparr>) demo_net =
   login demo_config allow_all_authenticator 3 (demo_tower_login\<lparr>lc_password := ''y''\<rparr>) demo_net"
  by (rule password_not_disclosed) (simp add: allow_all_authenticator_def allow_all_authenticate_def)





section \<open>The decision of a login\<close>







end
