(* ===== verification/Framing.thy ===== *)
theory Framing
  imports Rust_Text
begin

text \<open>
  Bounded line framing (crate \<open>aster_fsd_codec\<close>, file \<open>lib.rs\<close>, the first half). The frame
  codec cuts a byte stream at CR, LF and CRLF under a length limit. \<open>drain\<close> is the loop in
  which the reader task calls the decoder until it asks for more bytes, and \<open>feed\<close> is that
  loop over the chunks the socket delivers; \<open>spec_lines\<close> is what they are to compute.
\<close>

section \<open>Errors\<close>

datatype codec_error =
    CE_FrameTooLong nat
  | CE_InvalidUtf8
  | CE_Empty
  | CE_UnknownPrefix char
  | CE_Missing string
  | CE_InvalidCommand
  | CE_EmbeddedDelimiter

text \<open>\<open>{:#04x}\<close> of a byte: the prefix \<open>0x\<close> and two lower-case hexadecimal digits.\<close>

definition hex_digit :: "nat \<Rightarrow> char" where
  "hex_digit d = (if d < 10 then char_of (48 + d) else char_of (87 + d))"

definition show_hex_byte :: "char \<Rightarrow> string" where
  "show_hex_byte c = ''0x'' @ [hex_digit (byte c div 16), hex_digit (byte c mod 16)]"

fun codec_error_text :: "codec_error \<Rightarrow> string" where
  "codec_error_text (CE_FrameTooLong limit) =
     ''frame exceeds configured limit of '' @ show_nat limit @ '' bytes''"
| "codec_error_text CE_InvalidUtf8 = ''frame contains invalid UTF-8''"
| "codec_error_text CE_Empty = ''frame is empty''"
| "codec_error_text (CE_UnknownPrefix c) = ''unknown packet prefix '' @ show_hex_byte c"
| "codec_error_text (CE_Missing what) = ''packet is missing '' @ what"
| "codec_error_text CE_InvalidCommand = ''packet command is invalid''"
| "codec_error_text CE_EmbeddedDelimiter = ''encoded frame contains a line delimiter''"

datatype io_error_kind = IO_InvalidData | IO_InvalidInput

datatype io_error = Io_Error (io_kind: io_error_kind) (io_inner: codec_error)

fun io_error_from :: "codec_error \<Rightarrow> io_error" where
  "io_error_from (CE_FrameTooLong limit) = Io_Error IO_InvalidData (CE_FrameTooLong limit)"
| "io_error_from e = Io_Error IO_InvalidInput e"

section \<open>The frame codec\<close>

definition CLASSIC_MAX_FRAME_BYTES :: nat where
  "CLASSIC_MAX_FRAME_BYTES = 511"

record frame_codec =
  fc_max_frame_bytes :: nat

definition codec_new :: "nat \<Rightarrow> codec_error + frame_codec" where
  "codec_new m = (if m = 0 then Inl (CE_FrameTooLong 0) else Inr \<lparr>fc_max_frame_bytes = m\<rparr>)"

definition delimiter_index :: "string \<Rightarrow> nat option" where
  "delimiter_index source =
     (let n = length (takeWhile (\<lambda>c. \<not> is_delim c) source)
      in if n < length source then Some n else None)"

definition discard_delimiters :: "string \<Rightarrow> string" where
  "discard_delimiters source = drop (length (takeWhile is_delim source)) source"

text \<open>
  \<open>Decoder::decode\<close>: the buffer that is left and the outcome, \<open>Ok(None)\<close> asking for more
  bytes. Reserving capacity in the buffer changes no byte of it and is left out. The
  recursive call of the source is kept, although its guard is never true: the bytes before
  the first delimiter are not empty, because leading delimiters were dropped.
\<close>

lemma discard_delimiters_eq: "discard_delimiters s = dropWhile is_delim s"
  by (simp add: discard_delimiters_def dropWhile_eq_drop)

lemma discarded_not_delim: "discard_delimiters s = c # t \<Longrightarrow> \<not> is_delim c"
  using hd_dropWhile [of is_delim s] by (simp add: discard_delimiters_eq)

function frame_decode :: "frame_codec \<Rightarrow> string \<Rightarrow> string \<times> (io_error + string option)" where
  "frame_decode codec buffer =
     (let source = discard_delimiters buffer in
      if source = [] then (source, Inr None)
      else case delimiter_index source of
        Some index \<Rightarrow>
          if fc_max_frame_bytes codec < index
          then (discard_delimiters (drop index source),
                Inl (io_error_from (CE_FrameTooLong (fc_max_frame_bytes codec))))
          else let frame = take index source; rest = discard_delimiters (drop index source) in
            if frame = [] then frame_decode codec rest else (rest, Inr (Some frame))
      | None \<Rightarrow>
          if fc_max_frame_bytes codec < length source
          then ([], Inl (io_error_from (CE_FrameTooLong (fc_max_frame_bytes codec))))
          else (source, Inr None))"
  by pat_completeness auto

termination frame_decode
proof (relation "measure (\<lambda>(codec, buffer). length buffer)")
  fix codec :: frame_codec and buffer source frame rest :: string and index :: nat
  assume src: "source = discard_delimiters buffer" "source \<noteq> []"
    and idx: "delimiter_index source = Some index"
    and fr: "frame = take index source" "frame = []"
  obtain c t where ct: "source = c # t" using src(2) by (cases source) auto
  with src have "\<not> is_delim c" using discarded_not_delim by metis
  with ct have "0 < length (takeWhile (\<lambda>c. \<not> is_delim c) source)" by simp
  with idx have "0 < index" by (auto simp: delimiter_index_def Let_def split: if_splits)
  with ct fr have False by (cases index) auto
  then show "((codec, rest), codec, buffer) \<in> measure (\<lambda>(codec, buffer). length buffer)" ..
qed simp

declare frame_decode.simps [simp del]

definition frame_encode :: "frame_codec \<Rightarrow> string \<Rightarrow> string \<Rightarrow> string \<times> (io_error + unit)" where
  "frame_encode codec frame dst =
     (if fc_max_frame_bytes codec < length frame
      then (dst, Inl (io_error_from (CE_FrameTooLong (fc_max_frame_bytes codec))))
      else if list_ex is_delim frame then (dst, Inl (io_error_from CE_EmbeddedDelimiter))
      else (dst @ frame @ [cr, lf], Inr ()))"

text \<open>The second \<open>Encoder\<close> instance, for shared \<open>Bytes\<close>, repeats the first one.\<close>

definition frame_encode_bytes :: "frame_codec \<Rightarrow> string \<Rightarrow> string \<Rightarrow> string \<times> (io_error + unit)" where
  "frame_encode_bytes codec frame dst =
     (if fc_max_frame_bytes codec < length frame
      then (dst, Inl (io_error_from (CE_FrameTooLong (fc_max_frame_bytes codec))))
      else if list_ex is_delim frame then (dst, Inl (io_error_from CE_EmbeddedDelimiter))
      else (dst @ frame @ [cr, lf], Inr ()))"

section \<open>What one call does\<close>

lemma discard_Cons:
  "discard_delimiters (c # s) = (if is_delim c then discard_delimiters s else c # s)"
  by (simp add: discard_delimiters_eq)

lemma discard_Nil [simp]: "discard_delimiters [] = []"
  by (simp add: discard_delimiters_eq)

lemma discard_idem [simp]: "discard_delimiters (discard_delimiters s) = discard_delimiters s"
  by (induction s) (auto simp: discard_Cons)

lemma discard_append:
  "discard_delimiters (a @ b) =
     (if discard_delimiters a = [] then discard_delimiters b else discard_delimiters a @ b)"
  by (induction a) (auto simp: discard_Cons)

lemma frame_decode_discard: "frame_decode codec (discard_delimiters s) = frame_decode codec s"
  by (simp add: frame_decode.simps [of codec "discard_delimiters s"] frame_decode.simps [of codec s])

text \<open>The lines of a byte string: the pieces between delimiter bytes.\<close>

fun lines_of :: "string \<Rightarrow> string list" where
  "lines_of [] = [[]]"
| "lines_of (c # s) =
     (if is_delim c then [] # lines_of s
      else (case lines_of s of [] \<Rightarrow> [[c]] | w # ws \<Rightarrow> (c # w) # ws))"

lemma lines_of_ne [simp]: "lines_of s \<noteq> []"
  by (induction s) (auto split: list.splits)

lemma lines_of_plain: "list_all (\<lambda>c. \<not> is_delim c) w \<Longrightarrow> lines_of w = [w]"
  by (induction w) auto

lemma lines_of_append_delim:
  "list_all (\<lambda>c. \<not> is_delim c) w \<Longrightarrow> is_delim d \<Longrightarrow> lines_of (w @ d # s) = w # lines_of s"
  by (induction w) auto

lemma delimiter_index_None:
  "delimiter_index s = None \<longleftrightarrow> list_all (\<lambda>c. \<not> is_delim c) s"
proof -
  have "length (takeWhile (\<lambda>c. \<not> is_delim c) s) < length s \<longleftrightarrow> \<not> list_all (\<lambda>c. \<not> is_delim c) s"
    by (induction s) auto
  then show ?thesis by (simp add: delimiter_index_def Let_def)
qed

lemma delimiter_index_Some:
  assumes "delimiter_index s = Some i"
  obtains w d t where "s = w @ d # t" "length w = i" "list_all (\<lambda>c. \<not> is_delim c) w" "is_delim d"
proof -
  let ?w = "takeWhile (\<lambda>c. \<not> is_delim c) s"
  from assms have i: "i = length ?w" "length ?w < length s"
    by (auto simp: delimiter_index_def Let_def split: if_splits)
  have "dropWhile (\<lambda>c. \<not> is_delim c) s \<noteq> []"
    using i takeWhile_dropWhile_id [of "\<lambda>c. \<not> is_delim c" s] by (metis append_Nil2 less_irrefl)
  then obtain d t where dt: "dropWhile (\<lambda>c. \<not> is_delim c) s = d # t"
    by (cases "dropWhile (\<lambda>c. \<not> is_delim c) s") auto
  then have "is_delim d" using hd_dropWhile [of "\<lambda>c. \<not> is_delim c" s] by simp
  moreover have "s = ?w @ d # t" using dt takeWhile_dropWhile_id [of "\<lambda>c. \<not> is_delim c" s] by simp
  moreover have "list_all (\<lambda>c. \<not> is_delim c) ?w" by (auto simp: list_all_iff dest: set_takeWhileD)
  ultimately show thesis using that i by blast
qed

lemma delimiter_index_split:
  "list_all (\<lambda>c. \<not> is_delim c) w \<Longrightarrow> is_delim d \<Longrightarrow> delimiter_index (w @ d # t) = Some (length w)"
  by (simp add: delimiter_index_def Let_def takeWhile_append list_all_iff)

text \<open>One call of the decoder, by what the buffer holds after its leading delimiters.\<close>

lemma frame_decode_empty: "frame_decode codec [] = ([], Inr None)"
  by (simp add: frame_decode.simps)

lemma frame_decode_line:
  assumes "list_all (\<lambda>c. \<not> is_delim c) w" "w \<noteq> []" "is_delim d"
  shows "frame_decode codec (w @ d # t) =
    (discard_delimiters t,
     if fc_max_frame_bytes codec < length w
     then Inl (io_error_from (CE_FrameTooLong (fc_max_frame_bytes codec))) else Inr (Some w))"
proof -
  from assms obtain c v where w: "w = c # v" "\<not> is_delim c" by (cases w) auto
  then have "discard_delimiters (w @ d # t) = w @ d # t" by (simp add: discard_Cons)
  with assms show ?thesis
    by (simp add: frame_decode.simps [of codec "w @ d # t"] delimiter_index_split Let_def
        discard_Cons)
qed

lemma frame_decode_partial:
  assumes "list_all (\<lambda>c. \<not> is_delim c) w" "w \<noteq> []"
  shows "frame_decode codec w =
    (if fc_max_frame_bytes codec < length w
     then ([], Inl (io_error_from (CE_FrameTooLong (fc_max_frame_bytes codec))))
     else (w, Inr None))"
proof -
  from assms obtain c v where w: "w = c # v" "\<not> is_delim c" by (cases w) auto
  then have "discard_delimiters w = w" by (simp add: discard_Cons)
  moreover have "delimiter_index w = None" using assms by (simp add: delimiter_index_None)
  ultimately show ?thesis
    using assms by (simp add: frame_decode.simps [of codec w] Let_def)
qed

lemma buffer_cases:
  obtains (empty) "discard_delimiters s = []"
  | (partial) "discard_delimiters s \<noteq> []" "list_all (\<lambda>c. \<not> is_delim c) (discard_delimiters s)"
  | (line) w d t where "discard_delimiters s = w @ d # t" "w \<noteq> []"
      "list_all (\<lambda>c. \<not> is_delim c) w" "is_delim d"
proof (cases "delimiter_index (discard_delimiters s)")
  case None
  then show ?thesis using empty partial by (auto simp: delimiter_index_None)
next
  case (Some i)
  then obtain w d t where *: "discard_delimiters s = w @ d # t"
      "list_all (\<lambda>c. \<not> is_delim c) w" "is_delim d"
    by (rule delimiter_index_Some)
  then have "w \<noteq> []" using discarded_not_delim [of s d t] by auto
  with * show ?thesis by (auto intro: line)
qed

section \<open>Draining a buffer\<close>

text \<open>
  The loop of the reader task (\<open>FramedRead\<close> in connection/reader.rs): decode until the
  decoder asks for more bytes or fails. The result holds the frames in order and, when no
  error occurred, the bytes that stay in the buffer.
\<close>

function drain :: "frame_codec \<Rightarrow> string \<Rightarrow> string list \<times> (io_error + string)" where
  "drain codec buffer =
     (case frame_decode codec buffer of
        (rest, Inl e) \<Rightarrow> ([], Inl e)
      | (rest, Inr None) \<Rightarrow> ([], Inr rest)
      | (rest, Inr (Some frame)) \<Rightarrow> (case drain codec rest of (fs, r) \<Rightarrow> (frame # fs, r)))"
  by pat_completeness auto

lemma length_discard_le: "length (discard_delimiters s) \<le> length s"
  by (simp add: discard_delimiters_def)

lemma frame_decode_frame_smaller:
  assumes "frame_decode codec s = (rest, Inr (Some frame))"
  shows "length rest + length frame < length s \<and> frame \<noteq> []
    \<and> length frame \<le> fc_max_frame_bytes codec \<and> list_all (\<lambda>c. \<not> is_delim c) frame"
proof -
  have *: "frame_decode codec (discard_delimiters s) = (rest, Inr (Some frame))"
    using assms by (simp add: frame_decode_discard)
  show ?thesis
  proof (cases s rule: buffer_cases)
    case empty
    with * show ?thesis by (simp add: frame_decode_empty)
  next
    case partial
    with * show ?thesis by (simp add: frame_decode_partial split: if_splits)
  next
    case (line w d t)
    with * have "rest = discard_delimiters t" "frame = w" "length w \<le> fc_max_frame_bytes codec"
      by (simp_all add: frame_decode_line split: if_splits)
    with line show ?thesis
      using length_discard_le [of s] length_discard_le [of t] by auto
  qed
qed

termination drain
  by (relation "measure (\<lambda>(codec, buffer). length buffer)")
    (auto dest!: frame_decode_frame_smaller [OF sym])

declare drain.simps [simp del]

lemma drain_discard: "drain codec (discard_delimiters s) = drain codec s"
  by (subst (1 2) drain.simps) (simp only: frame_decode_discard)

lemma drain_empty: "drain codec [] = ([], Inr [])"
  by (subst drain.simps) (simp add: frame_decode_empty)

lemma drain_line:
  assumes "list_all (\<lambda>c. \<not> is_delim c) w" "w \<noteq> []" "is_delim d"
  shows "drain codec (w @ d # t) =
    (if fc_max_frame_bytes codec < length w
     then ([], Inl (io_error_from (CE_FrameTooLong (fc_max_frame_bytes codec))))
     else (case drain codec t of (fs, r) \<Rightarrow> (w # fs, r)))"
  by (subst drain.simps) (simp add: frame_decode_line [OF assms] drain_discard)

lemma drain_partial:
  assumes "list_all (\<lambda>c. \<not> is_delim c) w" "w \<noteq> []"
  shows "drain codec w =
    (if fc_max_frame_bytes codec < length w
     then ([], Inl (io_error_from (CE_FrameTooLong (fc_max_frame_bytes codec))))
     else ([], Inr w))"
  by (subst drain.simps) (simp add: frame_decode_partial [OF assms])

lemma drain_induct [case_names empty partial line]:
  assumes "\<And>s. discard_delimiters s = [] \<Longrightarrow> P s"
    and "\<And>s. discard_delimiters s \<noteq> [] \<Longrightarrow> list_all (\<lambda>c. \<not> is_delim c) (discard_delimiters s) \<Longrightarrow> P s"
    and "\<And>s w d t. discard_delimiters s = w @ d # t \<Longrightarrow> w \<noteq> [] \<Longrightarrow>
           list_all (\<lambda>c. \<not> is_delim c) w \<Longrightarrow> is_delim d \<Longrightarrow> P t \<Longrightarrow> P s"
  shows "P s"
proof (induction s rule: length_induct)
  case (1 s)
  show ?case
  proof (cases s rule: buffer_cases)
    case empty
    then show ?thesis by (rule assms(1))
  next
    case partial
    then show ?thesis by (rule assms(2))
  next
    case (line w d t)
    then have "length t < length s" using length_discard_le [of s] by simp
    with 1 have "P t" by blast
    with line show ?thesis by (rule assms(3))
  qed
qed

text \<open>
  The specification: cut the bytes at every delimiter, drop the empty lines, stop at the first
  line over the limit; the last piece has no delimiter yet and stays in the buffer.
\<close>

fun spec_lines :: "nat \<Rightarrow> string list \<Rightarrow> string list \<times> (io_error + string)" where
  "spec_lines m [] = ([], Inr [])"
| "spec_lines m [p] =
     (if m < length p then ([], Inl (io_error_from (CE_FrameTooLong m))) else ([], Inr p))"
| "spec_lines m (w # v # ws) =
     (if w = [] then spec_lines m (v # ws)
      else if m < length w then ([], Inl (io_error_from (CE_FrameTooLong m)))
      else (case spec_lines m (v # ws) of (fs, r) \<Rightarrow> (w # fs, r)))"

lemma spec_lines_Cons:
  "ws \<noteq> [] \<Longrightarrow> spec_lines m (w # ws) =
     (if w = [] then spec_lines m ws
      else if m < length w then ([], Inl (io_error_from (CE_FrameTooLong m)))
      else (case spec_lines m ws of (fs, r) \<Rightarrow> (w # fs, r)))"
  by (cases ws) auto

lemma spec_lines_discard: "spec_lines m (lines_of (discard_delimiters s)) = spec_lines m (lines_of s)"
  by (induction s) (auto simp: discard_Cons spec_lines_Cons)

lemma drain_refines_lines: "drain codec s = spec_lines (fc_max_frame_bytes codec) (lines_of s)"
proof (induction s rule: drain_induct)
  case (empty s)
  then show ?case
    using drain_discard [of codec s] spec_lines_discard [of "fc_max_frame_bytes codec" s]
    by (simp add: drain_empty)
next
  case (partial s)
  then show ?case
    using drain_discard [of codec s] spec_lines_discard [of "fc_max_frame_bytes codec" s]
    by (simp add: drain_partial lines_of_plain split: if_splits)
next
  case (line s w d t)
  then show ?case
    using drain_discard [of codec s] spec_lines_discard [of "fc_max_frame_bytes codec" s]
    by (auto simp: drain_line lines_of_append_delim spec_lines_Cons split: if_splits)
qed

lemma drain_append:
  "drain codec (a @ b) =
     (case drain codec a of
        (fs, Inl e) \<Rightarrow> (fs, Inl e)
      | (fs, Inr rest) \<Rightarrow> (case drain codec (rest @ b) of (gs, r) \<Rightarrow> (fs @ gs, r)))"
proof (induction a rule: drain_induct)
  case (empty s)
  then have "drain codec (s @ b) = drain codec b"
    using drain_discard [of codec "s @ b"] drain_discard [of codec b] by (simp add: discard_append)
  moreover have "drain codec s = ([], Inr [])"
    using empty drain_discard [of codec s] by (simp add: drain_empty)
  ultimately show ?case by simp
next
  case (partial s)
  let ?w = "discard_delimiters s"
  have s: "drain codec s = drain codec ?w" and sb: "drain codec (s @ b) = drain codec (?w @ b)"
    using partial drain_discard [of codec s] drain_discard [of codec "s @ b"]
    by (simp_all add: discard_append)
  show ?case
  proof (cases "fc_max_frame_bytes codec < length ?w")
    case False
    with partial s sb show ?thesis by (simp add: drain_partial)
  next
    case True
    have "drain codec (?w @ b) = ([], Inl (io_error_from (CE_FrameTooLong (fc_max_frame_bytes codec))))"
    proof (cases "delimiter_index b")
      case None
      with partial True show ?thesis by (simp add: delimiter_index_None drain_partial)
    next
      case (Some i)
      then obtain v d t where "b = v @ d # t" "list_all (\<lambda>c. \<not> is_delim c) v" "is_delim d"
        by (rule delimiter_index_Some)
      with partial True show ?thesis using drain_line [of "?w @ v" d codec t] by simp
    qed
    with partial True s sb show ?thesis by (simp add: drain_partial)
  qed
next
  case (line s w d t)
  have "drain codec s = drain codec (w @ d # t)"
    using line drain_discard [of codec s] by simp
  moreover have "drain codec (s @ b) = drain codec (w @ d # (t @ b))"
    using line drain_discard [of codec "s @ b"] by (simp add: discard_append)
  ultimately show ?case
    using line by (auto simp: drain_line split: prod.splits sum.splits)
qed

lemma drain_rest:
  "drain codec s = (fs, Inr rest) \<Longrightarrow>
     length rest \<le> fc_max_frame_bytes codec \<and> list_all (\<lambda>c. \<not> is_delim c) rest
     \<and> drain codec rest = ([], Inr rest)"
proof (induction s arbitrary: fs rule: drain_induct)
  case (empty s)
  then show ?case using drain_discard [of codec s] by (simp add: drain_empty)
next
  case (partial s)
  then show ?case using drain_discard [of codec s] by (auto simp: drain_partial split: if_splits)
next
  case (line s w d t)
  then show ?case
    using drain_discard [of codec s] by (auto simp: drain_line split: if_splits prod.splits)
qed

section \<open>Chunked input\<close>

fun feed :: "frame_codec \<Rightarrow> string \<Rightarrow> string list \<Rightarrow> string list \<times> (io_error + string)" where
  "feed codec buffer [] = ([], Inr buffer)"
| "feed codec buffer (chunk # chunks) =
     (case drain codec (buffer @ chunk) of
        (fs, Inl e) \<Rightarrow> (fs, Inl e)
      | (fs, Inr rest) \<Rightarrow> (case feed codec rest chunks of (gs, r) \<Rightarrow> (fs @ gs, r)))"

lemma feed_concat_from:
  "drain codec buffer = ([], Inr buffer) \<Longrightarrow>
     feed codec buffer chunks = drain codec (buffer @ concat chunks)"
proof (induction chunks arbitrary: buffer)
  case (Cons chunk chunks)
  have split: "drain codec (buffer @ concat (chunk # chunks)) =
     (case drain codec (buffer @ chunk) of
        (fs, Inl e) \<Rightarrow> (fs, Inl e)
      | (fs, Inr rest) \<Rightarrow> (case drain codec (rest @ concat chunks) of (gs, r) \<Rightarrow> (fs @ gs, r)))"
    using drain_append [of codec "buffer @ chunk" "concat chunks"] by simp
  show ?case
  proof (cases "drain codec (buffer @ chunk)")
    case (Pair fs r)
    with split Cons.IH drain_rest [of codec "buffer @ chunk" fs] show ?thesis
      by (cases r) auto
  qed
qed simp

lemma frame_encode_ok_iff:
  "snd (frame_encode codec frame dst) = Inr () \<longleftrightarrow>
     length frame \<le> fc_max_frame_bytes codec \<and> list_all (\<lambda>c. \<not> is_delim c) frame"
  by (auto simp: frame_encode_def list_ex_iff list_all_iff)

lemma drain_encoded:
  "\<forall>f \<in> set fs. f \<noteq> [] \<and> length f \<le> fc_max_frame_bytes codec \<and> list_all (\<lambda>c. \<not> is_delim c) f \<Longrightarrow>
     drain codec (concat (map (\<lambda>f. f @ [cr, lf]) fs)) = (fs, Inr [])"
proof (induction fs)
  case Nil
  show ?case by (simp add: drain_empty)
next
  case (Cons f fs)
  have "is_delim cr" "is_delim lf" by (simp_all add: is_delim_def)
  moreover have "drain codec (lf # x) = drain codec x" for x
    using drain_discard [of codec "lf # x"] drain_discard [of codec x] \<open>is_delim lf\<close>
    by (simp add: discard_Cons)
  ultimately show ?case using Cons by (simp add: drain_line)
qed

end
