(* ===== verification/Utf8.thy ===== *)
theory Utf8
  imports Rust_Text
begin

text \<open>
  Facts about UTF-8 validity that the packet and text layers rest on: validity of a
  concatenation, of ASCII text, and around an ASCII separator byte (cutting a valid string at
  a colon yields valid pieces, and joining valid pieces with a colon yields a valid string).
\<close>

lemma utf8_width_le: "utf8_width s \<le> length s"
  by (cases s) (auto simp: Let_def split: list.splits)

lemma utf8_width_append: "utf8_width s \<noteq> 0 \<Longrightarrow> utf8_width (s @ t) = utf8_width s"
  by (cases s) (auto simp: Let_def split: list.splits if_splits)

lemma utf8_width_ascii: "byte c < 128 \<Longrightarrow> utf8_width (c # s) = 1"
  by simp

text \<open>A continuation byte is not ASCII, so a sequence that starts before an ASCII byte ends before it.\<close>

lemma utf8_width_before_ascii:
  assumes "byte c < 128" "a \<noteq> []" "utf8_width (a @ c # b) \<noteq> 0"
  shows "utf8_width (a @ c # b) = utf8_width a"
proof -
  obtain x xs where a: "a = x # xs" using assms(2) by (cases a) auto
  show ?thesis
  proof (cases xs)
    case Nil
    with a assms show ?thesis
      by (auto simp: Let_def utf8_cont_def split: list.splits if_splits)
  next
    case (Cons y ys)
    show ?thesis
    proof (cases ys)
      case Nil
      with a Cons assms show ?thesis
        by (auto simp: Let_def utf8_cont_def split: list.splits if_splits)
    next
      case (Cons z zs)
      with a \<open>xs = y # ys\<close> assms show ?thesis
        by (cases zs) (auto simp: Let_def utf8_cont_def split: list.splits if_splits)
    qed
  qed
qed

lemma utf8_next_Some:
  "utf8_next s = Some (c, t) \<longleftrightarrow> utf8_width s \<noteq> 0 \<and> c = take (utf8_width s) s \<and> t = drop (utf8_width s) s"
  by (auto simp: utf8_next_def Let_def)

lemma utf8_width_take: "utf8_width v \<noteq> 0 \<Longrightarrow> utf8_width (take (utf8_width v) v) = utf8_width v"
  by (cases v) (auto simp: Let_def numeral_eq_Suc split: list.splits if_splits)

lemma utf8_next_append: "utf8_next s = Some (c, t) \<Longrightarrow> utf8_next (s @ u) = Some (c, t @ u)"
  using utf8_width_le [of s] by (auto simp: utf8_next_Some utf8_width_append)

lemma valid_utf8_Nil [simp]: "valid_utf8 []"
  by (simp add: valid_utf8.simps)

lemma valid_utf8_step: "utf8_next s = Some (c, t) \<Longrightarrow> valid_utf8 s = valid_utf8 t"
  by (subst valid_utf8.simps) (auto simp: utf8_next_def)

lemma valid_utf8_stuck: "utf8_next s = None \<Longrightarrow> valid_utf8 s \<longleftrightarrow> s = []"
  by (subst valid_utf8.simps) auto

lemma valid_utf8_append: "valid_utf8 a \<Longrightarrow> valid_utf8 (a @ b) = valid_utf8 b"
proof (induction a rule: valid_utf8.induct)
  case (1 a)
  show ?case
  proof (cases "utf8_next a")
    case None
    with "1.prems" show ?thesis by (simp add: valid_utf8_stuck)
  next
    case (Some p)
    obtain c t where p: "p = (c, t)" by (cases p)
    from "1.prems" Some p have "valid_utf8 t" by (simp add: valid_utf8_step)
    with "1.IH" [OF Some] p have "valid_utf8 (t @ b) = valid_utf8 b" by simp
    with Some p show ?thesis using utf8_next_append [of a c t b] by (simp add: valid_utf8_step)
  qed
qed

lemma valid_utf8_ascii: "is_ascii s \<Longrightarrow> valid_utf8 s"
proof (induction s)
  case (Cons c s)
  then have "byte c < 128" "valid_utf8 s" by (auto simp: is_ascii_def)
  then show ?case using valid_utf8_step [of "c # s" "[c]" s] by (simp add: utf8_next_def)
qed simp

lemma valid_utf8_around_ascii:
  "byte c < 128 \<Longrightarrow> valid_utf8 (a @ c # b) \<longleftrightarrow> valid_utf8 a \<and> valid_utf8 b"
proof (induction a rule: length_induct)
  case (1 a)
  have c: "utf8_next (c # b) = Some ([c], b)" using 1 by (simp add: utf8_next_def)
  show ?case
  proof (cases "a = []")
    case True
    with c show ?thesis by (simp add: valid_utf8_step)
  next
    case False
    show ?thesis
    proof (cases "utf8_width (a @ c # b) = 0")
      case True
      moreover from this have "utf8_width a = 0"
        using utf8_width_append [of a "c # b"] by auto
      ultimately show ?thesis using False
        by (simp add: valid_utf8_stuck utf8_next_def)
    next
      case w: False
      with 1(2) False have e: "utf8_width (a @ c # b) = utf8_width a"
        by (intro utf8_width_before_ascii) auto
      let ?t = "drop (utf8_width a) a"
      have "utf8_next a = Some (take (utf8_width a) a, ?t)"
        using w e by (simp add: utf8_next_def Let_def)
      moreover from this have "utf8_next (a @ c # b) = Some (take (utf8_width a) a, ?t @ c # b)"
        by (rule utf8_next_append)
      moreover have "valid_utf8 (?t @ c # b) \<longleftrightarrow> valid_utf8 ?t \<and> valid_utf8 b"
      proof -
        have "length ?t < length a" using w e False by (cases a) auto
        with 1 show ?thesis by blast
      qed
      ultimately show ?thesis by (simp add: valid_utf8_step)
    qed
  qed
qed

lemma valid_utf8_join:
  "byte c < 128 \<Longrightarrow> ws \<noteq> [] \<Longrightarrow> valid_utf8 (join_with c ws) \<longleftrightarrow> (\<forall>w \<in> set ws. valid_utf8 w)"
  by (induction c ws rule: join_with.induct) (auto simp: valid_utf8_around_ascii)

lemma is_ascii_append [simp]: "is_ascii (a @ b) \<longleftrightarrow> is_ascii a \<and> is_ascii b"
  by (simp add: is_ascii_def)

lemma is_ascii_Cons [simp]: "is_ascii (c # s) \<longleftrightarrow> byte c < 128 \<and> is_ascii s"
  by (simp add: is_ascii_def)

lemma valid_utf8_Cons_ascii [simp]: "byte c < 128 \<Longrightarrow> valid_utf8 (c # s) = valid_utf8 s"
  using valid_utf8_around_ascii [of c "[]" s] by simp

lemma valid_utf8_split:
  "byte c < 128 \<Longrightarrow> valid_utf8 s \<longleftrightarrow> (\<forall>w \<in> set (split_on c s). valid_utf8 w)"
  using valid_utf8_join [of c "split_on c s"] by simp

end
