(* ===== verification/Packets.thy ===== *)
theory Packets
  imports Framing Utf8 Domain
begin

text \<open>
  Packet tokenization (crate \<open>aster_fsd_codec\<close>, file \<open>lib.rs\<close>, the second half): one frame is
  split into a family, a command, two identifiers and colon-separated fields, and put together
  again. \<open>wf_packet\<close> is what the tokenizer guarantees of its results and what makes the
  encoder's output parse back.
\<close>

section \<open>Packets\<close>

datatype raw_packet_kind =
    K_Request | K_Client | K_PilotPosition | K_AtcPosition | K_IvaoSpecific | K_IvaoData | K_IvaoOther

definition kind_from_prefix :: "char \<Rightarrow> codec_error + raw_packet_kind" where
  "kind_from_prefix c =
     (if c = CHR ''$'' then Inr K_Request
      else if c = CHR ''#'' then Inr K_Client
      else if c = CHR ''@'' then Inr K_PilotPosition
      else if c = CHR ''%'' then Inr K_AtcPosition
      else if c = CHR ''!'' then Inr K_IvaoSpecific
      else if c = CHR ''&'' then Inr K_IvaoData
      else if c = CHR ''-'' then Inr K_IvaoOther
      else Inl (CE_UnknownPrefix c))"

fun kind_prefix :: "raw_packet_kind \<Rightarrow> char" where
  "kind_prefix K_Request = CHR ''$''"
| "kind_prefix K_Client = CHR ''#''"
| "kind_prefix K_PilotPosition = CHR ''@''"
| "kind_prefix K_AtcPosition = CHR ''%''"
| "kind_prefix K_IvaoSpecific = CHR ''!''"
| "kind_prefix K_IvaoData = CHR ''&''"
| "kind_prefix K_IvaoOther = CHR ''-''"

record raw_packet =
  rp_kind :: raw_packet_kind
  rp_command :: string
  rp_source :: string
  rp_destination :: string
  rp_fields :: "string list"

abbreviation (input) colon :: char where
  "colon \<equiv> CHR '':''"

text \<open>
  \<open>str::split\<close> always yields a first piece, so the first \<open>ok_or\<close> of the source never
  fires; the pattern \<open>[]\<close> below is that unreachable branch.
\<close>

definition parse_pilot :: "string \<Rightarrow> codec_error + raw_packet" where
  "parse_pilot body =
     (case split_on colon body of
        [] \<Rightarrow> Inl (CE_Missing ''pilot mode'')
      | mode_and_callsign # pieces \<Rightarrow>
          (case utf8_next mode_and_callsign of
             None \<Rightarrow> Inl (CE_Missing ''pilot mode'')
           | Some (mode, compact_callsign) \<Rightarrow>
               if mode \<notin> {''N'', ''S'', ''Y''} then Inl CE_InvalidCommand
               else and_then
                 (if compact_callsign = [] then
                    (case pieces of
                       [] \<Rightarrow> Inl (CE_Missing ''pilot callsign'')
                     | s # others \<Rightarrow>
                         if s = [] then Inl (CE_Missing ''pilot callsign'') else Inr (s, others))
                  else Inr (compact_callsign, pieces))
                 (\<lambda>(source, others).
                    Inr \<lparr>rp_kind = K_PilotPosition, rp_command = mode, rp_source = source,
                         rp_destination = [], rp_fields = others\<rparr>)))"

definition parse_atc :: "string \<Rightarrow> codec_error + raw_packet" where
  "parse_atc body =
     (case split_on colon body of
        [] \<Rightarrow> Inl (CE_Missing ''ATC callsign'')
      | source # pieces \<Rightarrow>
          if source = [] then Inl (CE_Missing ''ATC callsign'')
          else Inr \<lparr>rp_kind = K_AtcPosition, rp_command = [], rp_source = source,
                    rp_destination = [], rp_fields = pieces\<rparr>)"

definition parse_command :: "raw_packet_kind \<Rightarrow> string \<Rightarrow> codec_error + raw_packet" where
  "parse_command kind body =
     (case split_once colon body of
        None \<Rightarrow> Inl (CE_Missing ''destination separator'')
      | Some (head, rest) \<Rightarrow>
          if length head < 2 \<or> \<not> is_ascii head then Inl CE_InvalidCommand
          else let command = take 2 head; first_identifier = drop 2 head in
            (case split_on colon rest of
               [] \<Rightarrow> Inl (CE_Missing ''destination'')
             | second_identifier # pieces \<Rightarrow>
                 let (source, destination) =
                       (if command = ''DI'' then (second_identifier, first_identifier)
                        else (first_identifier, second_identifier))
                 in Inr \<lparr>rp_kind = kind, rp_command = command, rp_source = source,
                          rp_destination = destination, rp_fields = pieces\<rparr>))"

definition raw_packet_parse :: "string \<Rightarrow> codec_error + raw_packet" where
  "raw_packet_parse frame =
     (case frame of
        [] \<Rightarrow> Inl CE_Empty
      | c # body \<Rightarrow>
          and_then (kind_from_prefix c) (\<lambda>kind.
            if \<not> valid_utf8 body then Inl CE_InvalidUtf8
            else case kind of
                K_PilotPosition \<Rightarrow> parse_pilot body
              | K_AtcPosition \<Rightarrow> parse_atc body
              | _ \<Rightarrow> parse_command kind body))"

definition packet_head :: "raw_packet \<Rightarrow> string" where
  "packet_head p =
     (case rp_kind p of
        K_PilotPosition \<Rightarrow> rp_command p @ colon # rp_source p
      | K_AtcPosition \<Rightarrow> rp_source p
      | _ \<Rightarrow> if rp_command p = ''DI''
            then rp_command p @ rp_destination p @ colon # rp_source p
            else rp_command p @ rp_source p @ colon # rp_destination p)"

definition packet_bytes :: "raw_packet \<Rightarrow> string" where
  "packet_bytes p =
     kind_prefix (rp_kind p) # packet_head p @ concat (map (\<lambda>f. colon # f) (rp_fields p))"

definition raw_packet_encode :: "raw_packet \<Rightarrow> nat \<Rightarrow> codec_error + string" where
  "raw_packet_encode p max_bytes =
     (let out = packet_bytes p in
      if max_bytes < length out then Inl (CE_FrameTooLong max_bytes)
      else if list_ex is_delim out then Inl CE_EmbeddedDelimiter
      else Inr out)"

section \<open>Separator bytes\<close>

lemma byte_modes [simp]: "byte CHR ''N'' < 128" "byte CHR ''S'' < 128" "byte CHR ''Y'' < 128"
    "byte CHR ''D'' < 128" "byte CHR ''I'' < 128"
  by (simp_all add: byte_def)

lemma join_concat: "w @ concat (map (\<lambda>f. c # f) ws) = join_with c (w # ws)"
  by (induction ws arbitrary: w) (simp_all add: join_Cons join_Cons_Cons)

lemma byte_colon [simp]: "byte CHR '':'' < 128"
  by (simp add: byte_def)

section \<open>Well-formed packets\<close>

text \<open>
  The type invariant of tokenized packets: no field holds a colon, every field is valid UTF-8,
  and the command and identifiers have the shape of the family.
\<close>

definition wf_packet :: "raw_packet \<Rightarrow> bool" where
  "wf_packet p =
     (list_all (\<lambda>w. CHR '':'' \<notin> set w \<and> valid_utf8 w) (rp_source p # rp_destination p # rp_fields p)
      \<and> (case rp_kind p of
           K_PilotPosition \<Rightarrow>
             rp_command p \<in> {''N'', ''S'', ''Y''} \<and> rp_source p \<noteq> [] \<and> rp_destination p = []
         | K_AtcPosition \<Rightarrow>
             rp_command p = [] \<and> rp_source p \<noteq> [] \<and> rp_destination p = []
         | _ \<Rightarrow>
             length (rp_command p) = 2 \<and> CHR '':'' \<notin> set (rp_command p) \<and> is_ascii (rp_command p)
             \<and> is_ascii (if rp_command p = ''DI'' then rp_destination p else rp_source p)))"

lemma kind_from_prefix_prefix [simp]: "kind_from_prefix (kind_prefix k) = Inr k"
  by (cases k) (simp_all add: kind_from_prefix_def)

lemma kind_from_prefix_Inr: "kind_from_prefix c = Inr k \<Longrightarrow> kind_prefix k = c"
  by (auto simp: kind_from_prefix_def split: if_splits)

interpretation packet_kind: canonical_codec kind_prefix kind_from_prefix "\<lambda>_. True"
  by unfold_locales (auto dest: kind_from_prefix_Inr)

definition packet_body :: "raw_packet \<Rightarrow> string" where
  "packet_body p =
     (case rp_kind p of
        K_PilotPosition \<Rightarrow> join_with colon (rp_command p # rp_source p # rp_fields p)
      | K_AtcPosition \<Rightarrow> join_with colon (rp_source p # rp_fields p)
      | _ \<Rightarrow> if rp_command p = ''DI''
            then rp_command p @ rp_destination p @ colon # join_with colon (rp_source p # rp_fields p)
            else rp_command p @ rp_source p @ colon # join_with colon (rp_destination p # rp_fields p))"

lemma packet_bytes_body: "packet_bytes p = kind_prefix (rp_kind p) # packet_body p"
  by (auto simp: packet_bytes_def packet_head_def packet_body_def join_concat [symmetric]
      join_Cons split: raw_packet_kind.splits)

lemma utf8_next_mode:
  "m \<in> {''N'', ''S'', ''Y''} \<Longrightarrow> utf8_next (m @ s) = Some (m, s)"
  by (auto simp: utf8_next_def byte_def)

lemma mode_plain: "m \<in> {''N'', ''S'', ''Y''} \<Longrightarrow> colon \<notin> set m \<and> is_ascii m"
  by (auto simp: is_ascii_def byte_def)

lemma packet_body_command:
  assumes "rp_kind p \<noteq> K_PilotPosition" "rp_kind p \<noteq> K_AtcPosition"
  shows "packet_body p =
    (rp_command p @ (if rp_command p = ''DI'' then rp_destination p else rp_source p))
    @ colon # join_with colon ((if rp_command p = ''DI'' then rp_source p else rp_destination p) # rp_fields p)"
  using assms by (cases "rp_kind p") (auto simp: packet_body_def)

lemma wf_packet_body_utf8:
  assumes "wf_packet p" shows "valid_utf8 (packet_body p)"
proof (cases "rp_kind p = K_PilotPosition \<or> rp_kind p = K_AtcPosition")
  case True
  with assms show ?thesis
    by (auto simp: wf_packet_def packet_body_def valid_utf8_join list_all_iff
        valid_utf8_ascii dest!: mode_plain)
next
  case False
  then have k: "rp_kind p \<noteq> K_PilotPosition" "rp_kind p \<noteq> K_AtcPosition" by auto
  from assms k have "is_ascii (rp_command p @ (if rp_command p = ''DI'' then rp_destination p else rp_source p))"
    by (auto simp: wf_packet_def split: raw_packet_kind.splits)
  moreover from assms have "\<forall>w \<in> set (rp_source p # rp_destination p # rp_fields p). valid_utf8 w"
    by (simp add: wf_packet_def list_all_iff)
  ultimately show ?thesis
    unfolding packet_body_command [OF k] valid_utf8_around_ascii [OF byte_colon]
    by (auto simp: valid_utf8_join intro!: valid_utf8_ascii)
qed

lemma parse_pilot_body:
  assumes "wf_packet p" "rp_kind p = K_PilotPosition"
  shows "parse_pilot (packet_body p) = Inr p"
proof -
  let ?ws = "rp_command p # rp_source p # rp_fields p"
  from assms have m: "rp_command p \<in> {''N'', ''S'', ''Y''}" and src: "rp_source p \<noteq> []"
      and dst: "rp_destination p = []" and "\<forall>w \<in> set ?ws. colon \<notin> set w"
    by (auto simp: wf_packet_def list_all_iff)
  then have "split_on colon (join_with colon ?ws) = ?ws"
    by (intro split_join) auto
  with assms(2) have "split_on colon (packet_body p) = ?ws" by (simp add: packet_body_def)
  with m src dst assms(2) show ?thesis
    using utf8_next_mode [OF m, of "[]"] by (simp add: parse_pilot_def)
qed

lemma parse_atc_body:
  assumes "wf_packet p" "rp_kind p = K_AtcPosition"
  shows "parse_atc (packet_body p) = Inr p"
proof -
  from assms have "split_on colon (packet_body p) = rp_source p # rp_fields p"
    by (auto simp: wf_packet_def packet_body_def list_all_iff split_join)
  with assms show ?thesis by (simp add: parse_atc_def wf_packet_def)
qed

lemma parse_command_body:
  assumes "wf_packet p" "rp_kind p \<noteq> K_PilotPosition" "rp_kind p \<noteq> K_AtcPosition"
  shows "parse_command (rp_kind p) (packet_body p) = Inr p"
proof -
  let ?first = "if rp_command p = ''DI'' then rp_destination p else rp_source p"
  let ?second = "if rp_command p = ''DI'' then rp_source p else rp_destination p"
  from assms have wf: "length (rp_command p) = 2" "colon \<notin> set (rp_command p)" "is_ascii (rp_command p)"
      "is_ascii ?first" "colon \<notin> set ?first" "\<forall>w \<in> set (?second # rp_fields p). colon \<notin> set w"
    by (auto simp: wf_packet_def list_all_iff split: raw_packet_kind.splits)
  from wf have "split_once colon (packet_body p) =
      Some (rp_command p @ ?first, join_with colon (?second # rp_fields p))"
    unfolding packet_body_command [OF assms(2,3)] split_once_Some_iff by (simp del: append_assoc)
  moreover have "split_on colon (join_with colon (?second # rp_fields p)) = ?second # rp_fields p"
    using wf(6) by (intro split_join) auto
  ultimately show ?thesis using wf(1,3,4) by (cases "rp_command p = ''DI''") (auto simp: parse_command_def Let_def)
qed

lemma raw_packet_parse_Cons:
  "raw_packet_parse (kind_prefix k # body) =
     (if \<not> valid_utf8 body then Inl CE_InvalidUtf8
      else if k = K_PilotPosition then parse_pilot body
      else if k = K_AtcPosition then parse_atc body
      else parse_command k body)"
  by (cases k) (simp_all add: raw_packet_parse_def del: kind_prefix.simps add: kind_from_prefix_prefix)

lemma parse_packet_bytes: "wf_packet p \<Longrightarrow> raw_packet_parse (packet_bytes p) = Inr p"
  by (auto simp: packet_bytes_body raw_packet_parse_Cons wf_packet_body_utf8 parse_pilot_body
      parse_atc_body parse_command_body)

section \<open>What the tokenizer accepts\<close>

lemma valid_pieces:
  assumes "valid_utf8 s" "split_on colon s = ws"
  shows "list_all (\<lambda>w. CHR '':'' \<notin> set w \<and> valid_utf8 w) ws"
  using assms valid_utf8_split [of colon s] split_on_pieces [of _ colon s]
  by (auto simp: list_all_iff)

lemma utf8_next_ascii_mode:
  assumes "utf8_next s = Some (m, t)" "m \<in> {''N'', ''S'', ''Y''}"
  shows "s = m @ t"
  using assms by (auto simp: utf8_next_Some)

lemma parse_pilot_wf:
  assumes "parse_pilot body = Inr p" "valid_utf8 body"
  shows "wf_packet p \<and> (packet_body p = body \<or> (\<exists>t. body = rp_command p @ t \<and> t \<noteq> [] \<and> hd t \<noteq> colon))"
proof -
  obtain w ws where ws: "split_on colon body = w # ws" by (rule split_on_ConsE)
  from valid_pieces [OF assms(2) ws]
  have v: "list_all (\<lambda>w. CHR '':'' \<notin> set w \<and> valid_utf8 w) (w # ws)" .
  have body: "body = join_with colon (w # ws)"
    using ws join_split [of colon body] by simp
  from assms(1) ws obtain m t where mt: "utf8_next w = Some (m, t)" "m \<in> {''N'', ''S'', ''Y''}"
    by (auto simp: parse_pilot_def split: option.splits prod.splits if_splits)
  then have w: "w = m @ t" by (rule utf8_next_ascii_mode)
  with v mt(2) have t: "CHR '':'' \<notin> set t" "valid_utf8 t"
    by auto
  show ?thesis
  proof (cases t)
    case Nil
    with assms(1) ws mt obtain s vs where "ws = s # vs" "s \<noteq> []"
      "p = \<lparr>rp_kind = K_PilotPosition, rp_command = m, rp_source = s, rp_destination = [], rp_fields = vs\<rparr>"
      by (auto simp: parse_pilot_def split: list.splits if_splits)
    with v mt(2) body w Nil show ?thesis
      by (auto simp: wf_packet_def packet_body_def)
  next
    case (Cons c t')
    with assms(1) ws mt have
      "p = \<lparr>rp_kind = K_PilotPosition, rp_command = m, rp_source = t, rp_destination = [], rp_fields = ws\<rparr>"
      by (auto simp: parse_pilot_def)
    with v mt(2) t Cons have "wf_packet p" by (auto simp: wf_packet_def)
    moreover have "body = rp_command p @ join_with colon (t # ws)"
      using body w \<open>p = _\<close> mt(2) by (auto simp: join_Cons_Cons)
    moreover have "join_with colon (t # ws) \<noteq> []" "hd (join_with colon (t # ws)) \<noteq> colon"
      using t(1) Cons by (auto simp: join_Cons_Cons)
    ultimately show ?thesis by blast
  qed
qed

lemma parse_atc_wf:
  assumes "parse_atc body = Inr p" "valid_utf8 body"
  shows "wf_packet p \<and> packet_body p = body"
proof -
  obtain w ws where ws: "split_on colon body = w # ws" by (rule split_on_ConsE)
  from valid_pieces [OF assms(2) ws] assms(1) ws join_split [of colon body]
  show ?thesis by (auto simp: parse_atc_def wf_packet_def packet_body_def split: if_splits)
qed

lemma parse_command_wf:
  assumes "parse_command k body = Inr p" "valid_utf8 body" "k \<noteq> K_PilotPosition" "k \<noteq> K_AtcPosition"
  shows "wf_packet p \<and> packet_body p = body \<and> rp_kind p = k"
proof -
  from assms(1) obtain h r where hr: "split_once colon body = Some (h, r)"
    by (auto simp: parse_command_def split: option.splits)
  then have body: "body = h @ colon # r" and h: "colon \<notin> set h"
    by (auto simp: split_once_Some_iff)
  obtain w ws where ws: "split_on colon r = w # ws" by (rule split_on_ConsE)
  from assms(2) body have vr: "valid_utf8 r" by (simp add: valid_utf8_around_ascii)
  have r: "r = join_with colon (w # ws)" using ws join_split [of colon r] by simp
  from assms(1) hr have ok: "2 \<le> length h" "is_ascii h"
    by (auto simp: parse_command_def split: if_splits)
  then have th: "length (take 2 h) = 2" "h = take 2 h @ drop 2 h" by auto
  from ok(2) th(2) have asc: "is_ascii (take 2 h)" "is_ascii (drop 2 h)"
    by (metis is_ascii_append)+
  from h have nc: "colon \<notin> set (take 2 h)" "colon \<notin> set (drop 2 h)"
    by (auto dest: in_set_takeD in_set_dropD)
  have v: "valid_utf8 (drop 2 h)" using asc(2) by (rule valid_utf8_ascii)
  let ?p = "\<lparr>rp_kind = k, rp_command = take 2 h,
     rp_source = (if take 2 h = ''DI'' then w else drop 2 h),
     rp_destination = (if take 2 h = ''DI'' then drop 2 h else w), rp_fields = ws\<rparr>"
  have p: "p = ?p"
    using assms(1) hr ok ws by (auto simp: parse_command_def Let_def split: if_splits)
  have "wf_packet ?p"
    using valid_pieces [OF vr ws] th(1) asc nc v assms(3,4)
    by (cases "take 2 h = ''DI''") (auto simp: wf_packet_def split: raw_packet_kind.splits)
  moreover have "packet_body ?p = body"
  proof -
    have "packet_body ?p = (take 2 h @ drop 2 h) @ colon # join_with colon (w # ws)"
      using packet_body_command [of ?p] assms(3,4)
      by (cases "take 2 h = ''DI''") (simp_all del: append_take_drop_id)
    then show ?thesis using body r by simp
  qed
  ultimately show ?thesis using p by simp
qed

lemma raw_packet_parse_InrE:
  assumes "raw_packet_parse f = Inr p"
  obtains k body where "f = kind_prefix k # body" "valid_utf8 body"
    "(k = K_PilotPosition \<and> parse_pilot body = Inr p) \<or> (k = K_AtcPosition \<and> parse_atc body = Inr p)
     \<or> (k \<noteq> K_PilotPosition \<and> k \<noteq> K_AtcPosition \<and> parse_command k body = Inr p)"
proof -
  from assms obtain c body where f: "f = c # body" by (cases f) (auto simp: raw_packet_parse_def)
  with assms obtain k where "kind_from_prefix c = Inr k" by (auto simp: raw_packet_parse_def)
  then have c: "c = kind_prefix k" by (simp add: kind_from_prefix_Inr)
  from assms show thesis
    unfolding f c raw_packet_parse_Cons
    by (intro that [of k body]) (auto simp: f c split: if_splits)
qed

lemma parse_kind: "parse_pilot b = Inr p \<Longrightarrow> rp_kind p = K_PilotPosition"
    "parse_atc b = Inr q \<Longrightarrow> rp_kind q = K_AtcPosition"
  by (auto simp: parse_pilot_def parse_atc_def split: list.splits option.splits if_splits)

lemma raw_packet_parse_wf: "raw_packet_parse f = Inr p \<Longrightarrow> wf_packet p"
  by (erule raw_packet_parse_InrE) (auto dest: parse_pilot_wf parse_atc_wf parse_command_wf)

text \<open>The compact form \<open>@Scallsign:..\<close>: the mode is followed directly by the callsign.\<close>

definition compact_pilot_frame :: "string \<Rightarrow> bool" where
  "compact_pilot_frame f =
     (3 \<le> length f \<and> f ! 0 = CHR ''@'' \<and> f ! 2 \<noteq> colon)"

lemma packet_bytes_parse:
  assumes "raw_packet_parse f = Inr p" "\<not> compact_pilot_frame f"
  shows "packet_bytes p = f"
proof -
  from assms(1) obtain k body where k: "f = kind_prefix k # body" "valid_utf8 body"
    and cases: "(k = K_PilotPosition \<and> parse_pilot body = Inr p) \<or> (k = K_AtcPosition \<and> parse_atc body = Inr p)
     \<or> (k \<noteq> K_PilotPosition \<and> k \<noteq> K_AtcPosition \<and> parse_command k body = Inr p)"
    by (rule raw_packet_parse_InrE)
  show ?thesis
  proof (cases "k = K_PilotPosition")
    case True
    with cases have pp: "parse_pilot body = Inr p" by simp
    then have wf: "wf_packet p" and kind: "rp_kind p = K_PilotPosition"
      using k(2) by (auto dest: parse_pilot_wf parse_kind)
    from wf kind have cmd: "rp_command p \<in> {''N'', ''S'', ''Y''}" by (simp add: wf_packet_def)
    have "packet_body p = body"
    proof (rule ccontr)
      assume "packet_body p \<noteq> body"
      with parse_pilot_wf [OF pp k(2)] obtain t where "body = rp_command p @ t" "t \<noteq> []" "hd t \<noteq> colon"
        by blast
      with cmd k(1) True have "compact_pilot_frame f"
        by (cases t) (auto simp: compact_pilot_frame_def)
      with assms(2) show False by simp
    qed
    with k kind True show ?thesis by (simp add: packet_bytes_body)
  next
    case False
    with cases k have "packet_body p = body \<and> rp_kind p = k"
      by (auto dest: parse_atc_wf parse_command_wf parse_kind)
    with k show ?thesis by (simp add: packet_bytes_body)
  qed
qed

interpretation packet_text: wire_codec packet_bytes raw_packet_parse wf_packet
  by unfold_locales (rule parse_packet_bytes)

lemma raw_packet_encode_ok_iff:
  "raw_packet_encode p m = Inr out \<longleftrightarrow>
     out = packet_bytes p \<and> length out \<le> m \<and> list_all (\<lambda>c. \<not> is_delim c) out"
  by (auto simp: raw_packet_encode_def Let_def list_ex_iff list_all_iff)

lemma compact_packet_bytes:
  assumes "raw_packet_parse (CHR ''@'' # m # t) = Inr p" "t \<noteq> []" "hd t \<noteq> colon"
  shows "packet_bytes p = CHR ''@'' # m # colon # t"
proof -
  from assms(1) have pp: "parse_pilot (m # t) = Inr p" and v: "valid_utf8 (m # t)"
    using raw_packet_parse_Cons [of K_PilotPosition "m # t"] by (simp_all split: if_splits)
  from parse_kind(1) [OF pp] parse_pilot_wf [OF pp v]
  have k: "rp_kind p = K_PilotPosition" and wf: "wf_packet p"
    and disj: "packet_body p = m # t \<or> (\<exists>u. m # t = rp_command p @ u \<and> u \<noteq> [] \<and> hd u \<noteq> colon)" by auto
  from wf k have c: "rp_command p \<in> {''N'', ''S'', ''Y''}" by (simp add: wf_packet_def)
  obtain w ws where ws: "split_on colon (m # t) = w # ws" by (rule split_on_ConsE)
  from c k disj assms(2,3) have m: "rp_command p = [m]"
    by (auto simp: packet_body_def)
  then have "m \<noteq> colon" using c by auto
  then obtain v vs where vs: "split_on colon t = v # vs" "w = m # v" "ws = vs"
    using ws by (cases "split_on colon t") auto
  have "v \<noteq> []" using vs(1) assms(2,3) by (cases t) (auto split: if_splits list.splits)
  moreover have "utf8_next w = Some ([m], v)"
    using utf8_next_mode [of "[m]" v] c m vs(2) by simp
  ultimately have "p = \<lparr>rp_kind = K_PilotPosition, rp_command = [m], rp_source = v,
      rp_destination = [], rp_fields = vs\<rparr>"
    using pp ws vs c m by (auto simp: parse_pilot_def)
  moreover have "join_with colon (v # vs) = t" using join_split [of colon t] vs(1) by simp
  ultimately show ?thesis by (simp add: packet_bytes_body packet_body_def)
qed

end
