(* ===== verification/Wire_Properties.thy ===== *)
theory Wire_Properties
  imports Packets
begin

text \<open>The properties of the frame codec and of the packet tokenizer.\<close>

section \<open>Frames\<close>

text \<open>
  C26: What a connection reads is its byte stream cut into lines. However the transport cuts the
  stream into chunks, feeding them one after another (keeping the rest of each in the buffer)
  yields what the framing contract says of the concatenated bytes: they are cut at every CR and
  LF, empty lines are dropped (so that CRLF ends one line), the lines are delivered in order, the
  first line over the limit is an error, and an unfinished last line within the limit is kept.
\<close>

theorem stream_refines_lines:
  "feed codec [] chunks = spec_lines (fc_max_frame_bytes codec) (lines_of (concat chunks))"
  using feed_concat_from [of codec "[]" chunks] drain_refines_lines [of codec "concat chunks"]
  by (simp add: drain_empty)

text \<open>
  The decoder loop computes what the framing contract says: it cuts the bytes at every CR
  and LF, drops the empty lines (so that CRLF ends one line), delivers the lines in order,
  stops with an error at the first line over the limit, and keeps an unfinished last line
  within the limit in the buffer.
\<close>

theorem decoder_refines_lines:
  "drain codec buffer = spec_lines (fc_max_frame_bytes codec) (lines_of buffer)"
  by (rule drain_refines_lines)

text \<open>
  The frames do not depend on how the transport cuts the byte stream: feeding the chunks
  one after another, keeping the rest of each, yields the frames, and the error or the
  rest, of the concatenated bytes.
\<close>

theorem chunking_irrelevant:
  "feed codec [] chunks = drain codec (concat chunks)"
  using feed_concat_from [of codec "[]" chunks] by (simp add: drain_empty)

text \<open>
  What the encoder accepts comes back from the decoder: frames encoded one after another
  into one buffer, each not empty, decode to exactly those frames and leave nothing behind.
\<close>

theorem frames_roundtrip:
  assumes "[] \<notin> set frames"
    and "\<forall>f \<in> set frames. snd (frame_encode codec f []) = Inr ()"
  shows "drain codec (fold (\<lambda>f dst. fst (frame_encode codec f dst)) frames []) = (frames, Inr [])"
proof -
  have ok: "length f \<le> fc_max_frame_bytes codec \<and> list_all (\<lambda>c. \<not> is_delim c) f" if "f \<in> set frames" for f
    using assms(2) that frame_encode_ok_iff by blast
  have app: "fst (frame_encode codec f dst) = dst @ f @ [cr, lf]" if "f \<in> set frames" for f dst
    using ok [OF that] by (auto simp: frame_encode_def list_ex_iff list_all_iff)
  have "fold (\<lambda>f dst. fst (frame_encode codec f dst)) fs dst = dst @ concat (map (\<lambda>f. f @ [cr, lf]) fs)"
    if "set fs \<subseteq> set frames" for fs dst
    using that by (induction fs arbitrary: dst) (simp_all add: app)
  moreover have "\<forall>f \<in> set frames. f \<noteq> [] \<and> length f \<le> fc_max_frame_bytes codec
      \<and> list_all (\<lambda>c. \<not> is_delim c) f"
    using ok assms(1) by auto
  ultimately show ?thesis using drain_encoded by simp
qed

theorem frames_roundtrip_witness:
  "drain \<lparr>fc_max_frame_bytes = 4\<rparr>
     (fold (\<lambda>f dst. fst (frame_encode \<lparr>fc_max_frame_bytes = 4\<rparr> f dst)) [''ab'', ''#TM'' ] []) =
   ([''ab'', ''#TM''], Inr [])"
  by (rule frames_roundtrip) (auto simp: frame_encode_def is_delim_def cr_def lf_def)

text \<open>
  Every decoded frame is not empty, holds no line delimiter and respects the limit, and
  each call that yields a frame consumes more bytes than the frame has, so the loop over a
  buffer of n bytes yields at most n frames; no call keeps more than the limit unless it
  yields a frame.
\<close>

theorem decoded_frame_bounds:
  "case frame_decode codec buffer of
     (rest, Inr (Some frame)) \<Rightarrow> frame \<noteq> [] \<and> list_all (\<lambda>c. \<not> is_delim c) frame
       \<and> length frame \<le> fc_max_frame_bytes codec \<and> length rest + length frame < length buffer
   | (rest, Inr None) \<Rightarrow> length rest \<le> fc_max_frame_bytes codec \<and> list_all (\<lambda>c. \<not> is_delim c) rest
   | (rest, Inl e) \<Rightarrow> e = io_error_from (CE_FrameTooLong (fc_max_frame_bytes codec))
       \<and> fc_max_frame_bytes codec < length buffer"
proof -
  have d: "frame_decode codec buffer = frame_decode codec (discard_delimiters buffer)"
    by (simp add: frame_decode_discard)
  have le: "length (discard_delimiters buffer) \<le> length buffer" by (rule length_discard_le)
  show ?thesis
  proof (cases buffer rule: buffer_cases)
    case empty
    then show ?thesis by (simp add: d frame_decode_empty)
  next
    case partial
    with le show ?thesis by (simp add: d frame_decode_partial)
  next
    case (line w dl t)
    with le length_discard_le [of t] show ?thesis by (simp add: d frame_decode_line)
  qed
qed

section \<open>Packets\<close>

text \<open>
  C28: Tokenizing the encoding of a well-formed packet gives the packet back, for every
  family, including the \<open>$DI\<close> packet whose identifiers change places on the wire; and the
  tokenizer produces well-formed packets only.
\<close>

theorem packet_roundtrip:
  "(wf_packet p \<longrightarrow> raw_packet_parse (packet_bytes p) = Inr p)
   \<and> (raw_packet_parse frame = Inr q \<longrightarrow> wf_packet q)"
  using packet_text.dec_enc raw_packet_parse_wf by blast

theorem packet_roundtrip_witness:
  "raw_packet_parse ''$DIECP1:SERVER:x'' =
     Inr \<lparr>rp_kind = K_Request, rp_command = ''DI'', rp_source = ''SERVER'',
          rp_destination = ''ECP1'', rp_fields = [''x'']\<rparr>"
proof -
  let ?p = "\<lparr>rp_kind = K_Request, rp_command = ''DI'', rp_source = ''SERVER'',
          rp_destination = ''ECP1'', rp_fields = [''x'']\<rparr>"
  have "wf_packet ?p" by code_simp
  moreover have "packet_bytes ?p = ''$DIECP1:SERVER:x''" by code_simp
  ultimately show ?thesis using packet_roundtrip [of ?p] by simp
qed

text \<open>
  Tokenizing loses nothing: re-encoding the packet of a frame gives the frame back byte
  for byte, unless the frame is a pilot position in the compact form.
\<close>

theorem tokenizer_lossless:
  assumes "raw_packet_parse frame = Inr p" and "\<not> compact_pilot_frame frame"
  shows "packet_bytes p = frame"
  using assms by (rule packet_bytes_parse)

theorem tokenizer_lossless_witness:
  "packet_bytes \<lparr>rp_kind = K_Client, rp_command = ''TM'', rp_source = ''A1'', rp_destination = ''B1'',
      rp_fields = [''hi'', [], ''x'']\<rparr> = ''#TMA1:B1:hi::x''"
  by (rule tokenizer_lossless) (code_simp, simp add: compact_pilot_frame_def)

text \<open>
  The compact form of a pilot position is accepted but not reproduced: a colon appears
  between the mode and the callsign, so re-encoding is one byte longer than the frame.
\<close>

theorem compact_form_not_lossless:
  assumes "raw_packet_parse (CHR ''@'' # m # t) = Inr p" and "t \<noteq> []" and "hd t \<noteq> CHR '':''"
  shows "packet_bytes p = CHR ''@'' # m # CHR '':'' # t"
  using assms by (rule compact_packet_bytes)

theorem compact_form_not_lossless_witness:
  "case raw_packet_parse ''@SECP1:1200'' of Inl _ \<Rightarrow> False | Inr p \<Rightarrow> packet_bytes p = ''@S:ECP1:1200''"
proof -
  have "raw_packet_parse ''@SECP1:1200'' =
      Inr \<lparr>rp_kind = K_PilotPosition, rp_command = ''S'', rp_source = ''ECP1'',
           rp_destination = [], rp_fields = [''1200'']\<rparr>"
    by code_simp
  with compact_form_not_lossless [of "CHR ''S''" "''ECP1:1200''"] show ?thesis by simp
qed

text \<open>
  The packet encoder never emits bytes that would break the framing: its output respects
  the limit and holds no line delimiter, so the frame encoder accepts it under the same limit.
\<close>

theorem encoded_packet_is_frame:
  assumes "raw_packet_encode p (fc_max_frame_bytes codec) = Inr out"
  shows "out = packet_bytes p \<and> frame_encode codec out dst = (dst @ out @ [cr, lf], Inr ())"
  using assms by (auto simp: raw_packet_encode_ok_iff frame_encode_def list_ex_iff list_all_iff)

theorem encoded_packet_is_frame_witness:
  "snd (frame_encode \<lparr>fc_max_frame_bytes = 511\<rparr> ''#TMA1:B1:hi'' []) = Inr ()"
proof -
  let ?p = "\<lparr>rp_kind = K_Client, rp_command = ''TM'', rp_source = ''A1'', rp_destination = ''B1'',
      rp_fields = [''hi'']\<rparr>"
  have "raw_packet_encode ?p (fc_max_frame_bytes \<lparr>fc_max_frame_bytes = 511\<rparr>) = Inr ''#TMA1:B1:hi''"
    by code_simp
  from encoded_packet_is_frame [OF this, of "[]"] show ?thesis by (metis snd_conv)
qed

end
