(* ===== verification/Protocol.thy ===== *)
theory Protocol
  imports Packets Net_State
begin

text \<open>
  The contract every wire-protocol backend implements (crate \<open>aster_fsd_protocol\<close>): frames
  without line delimiters, the contexts a backend is given, structured errors, and the
  backend itself. The locale \<open>protocol_backend\<close> states what the transport relies on; each
  backend's theory interprets it.
\<close>

section \<open>Frames, contexts and errors\<close>

datatype protocol_error_kind =
    PE_Framing | PE_Syntax | PE_Unsupported | PE_InvalidField | PE_Encoding | PE_Version

record protocol_error =
  pe_kind :: protocol_error_kind
  pe_message :: string
  pe_error_code :: "error_code option"

definition protocol_error_new :: "protocol_error_kind \<Rightarrow> string \<Rightarrow> protocol_error" where
  "protocol_error_new kind message =
     \<lparr>pe_kind = kind, pe_message = message, pe_error_code = None\<rparr>"

definition with_error_code :: "error_code \<Rightarrow> protocol_error \<Rightarrow> protocol_error" where
  "with_error_code code e = e\<lparr>pe_error_code := Some code\<rparr>"

datatype wire_frame = Wire_Frame (frame_bytes: string)

definition wire_frame_new :: "string \<Rightarrow> protocol_error + wire_frame" where
  "wire_frame_new bytes =
     (if list_ex is_delim bytes
      then Inl (protocol_error_new PE_Encoding ''wire frame contains a line delimiter'')
      else Inr (Wire_Frame bytes))"

definition wire_frame_from_text :: "string \<Rightarrow> protocol_error + wire_frame" where
  "wire_frame_from_text v = wire_frame_new v"

record handshake_context =
  hc_connection_id :: connection_id
  hc_peer :: socket_addr
  hc_server_name :: string
  hc_server_version :: string
  hc_challenge :: string

record decode_context =
  dc_connection_id :: connection_id
  dc_phase :: session_phase
  dc_callsign :: "callsign option"
  dc_challenge :: string

record encode_context =
  ec_connection_id :: connection_id
  ec_recipient :: "client_presence option"
  ec_server_name :: string

text \<open>A value of \<open>Arc<dyn ProtocolBackend>\<close>: the methods of the trait.\<close>

record backend =
  pb_dialect :: protocol_dialect
  pb_initial_frames :: "handshake_context \<Rightarrow> protocol_error + wire_frame list"
  pb_decode :: "decode_context \<Rightarrow> string \<Rightarrow> protocol_error + command"
  pb_encode :: "encode_context \<Rightarrow> event \<Rightarrow> protocol_error + wire_frame list"
  pb_recipient_specific :: "event \<Rightarrow> bool"

definition sendable :: "wire_frame \<Rightarrow> bool" where
  "sendable f = (frame_bytes f \<noteq> [] \<and> list_all (\<lambda>c. \<not> is_delim c) (frame_bytes f))"

lemma wire_frame_new_Inr:
  "wire_frame_new bytes = Inr f \<longleftrightarrow> f = Wire_Frame bytes \<and> list_all (\<lambda>c. \<not> is_delim c) bytes"
  by (auto simp: wire_frame_new_def list_ex_iff list_all_iff)

section \<open>The contract\<close>

text \<open>What the transport needs: whatever a backend emits is a sequence of sendable frames.\<close>

locale protocol_backend =
  fixes b :: backend
  assumes encode_sendable: "pb_encode b ctx ev = Inr fs \<Longrightarrow> list_all sendable fs"
    and initial_sendable: "pb_initial_frames b hs = Inr fs \<Longrightarrow> list_all sendable fs"
begin

text \<open>Frames within the limit of the peer's codec arrive one by one, as they were encoded.\<close>

lemma encode_arrives:
  assumes "pb_encode b ctx ev = Inr fs"
    and "\<forall>f \<in> set fs. length (frame_bytes f) \<le> fc_max_frame_bytes codec"
  shows "drain codec (concat (map (\<lambda>f. frame_bytes f @ [cr, lf]) fs)) = (map frame_bytes fs, Inr [])"
  using drain_encoded [of "map frame_bytes fs" codec] encode_sendable [OF assms(1)] assms(2)
  by (simp add: list_all_iff sendable_def comp_def)

lemma encode_accepted:
  assumes "pb_encode b ctx ev = Inr fs" "f \<in> set fs"
    and "length (frame_bytes f) \<le> fc_max_frame_bytes codec"
  shows "snd (frame_encode codec (frame_bytes f) dst) = Inr ()"
  using encode_sendable [OF assms(1)] assms(2,3)
  by (auto simp: frame_encode_ok_iff list_all_iff sendable_def)

end

end
