(* ===== verification/Float_Text.thy ===== *)
theory Float_Text
  imports Rust_Text Float64
begin

text \<open>
  Floating-point numbers as text: \<open>str::parse::<f64>\<close> and the fixed-precision form
  \<open>{:.N}\<close> of Rust's standard library. Both are exact: parsing rounds the rational value of
  the decimal text to the nearest \<open>f64\<close>, formatting rounds the exact value of the \<open>f64\<close>
  to the nearest decimal, ties to even.
\<close>

section \<open>Parsing\<close>

definition span_digits :: "string \<Rightarrow> string \<times> string" where
  "span_digits s = (takeWhile is_ascii_digit s, dropWhile is_ascii_digit s)"

definition digits_value :: "string \<Rightarrow> nat" where
  "digits_value ds = foldl (\<lambda>n c. 10 * n + digit_value c) 0 ds"

definition pow10 :: "int \<Rightarrow> rat" where
  "pow10 e = (if 0 \<le> e then 10 ^ nat e else 1 / 10 ^ nat (- e))"

text \<open>An optional exponent: \<open>e\<close> or \<open>E\<close>, an optional sign, at least one digit, and the end.\<close>

definition parse_exponent :: "string \<Rightarrow> int option" where
  "parse_exponent s =
     (case s of
        [] \<Rightarrow> Some 0
      | c # t \<Rightarrow>
          if c = CHR ''e'' \<or> c = CHR ''E'' then
            let (neg, ds) = (case t of
                  [] \<Rightarrow> (False, [])
                | d # u \<Rightarrow> if d = CHR ''-'' then (True, u)
                           else if d = CHR ''+'' then (False, u) else (False, t))
            in if ds = [] \<or> \<not> list_all is_ascii_digit ds then None
               else Some (if neg then - int (digits_value ds) else int (digits_value ds))
          else None)"

definition parse_f64_magnitude :: "bool \<Rightarrow> string \<Rightarrow> f64 option" where
  "parse_f64_magnitude neg s =
     (if eq_ignore_ascii_case s ''inf'' \<or> eq_ignore_ascii_case s ''infinity'' then Some (F64_Inf neg)
      else if eq_ignore_ascii_case s ''nan'' then Some F64_NaN
      else
        let (whole, s1) = span_digits s;
            (frac, s2) = (case s1 of
                c # t \<Rightarrow> if c = CHR ''.'' then span_digits t else ([], s1)
              | [] \<Rightarrow> ([], []))
        in if whole = [] \<and> frac = [] then None
           else map_option (\<lambda>e. f64_round neg
                  (of_nat (digits_value (whole @ frac)) * pow10 (e - int (length frac))))
                (parse_exponent s2))"

definition parse_f64_str :: "string \<Rightarrow> f64 option" where
  "parse_f64_str s =
     (case s of
        [] \<Rightarrow> None
      | c # t \<Rightarrow>
          if c = CHR ''-'' then parse_f64_magnitude True t
          else if c = CHR ''+'' then parse_f64_magnitude False t
          else parse_f64_magnitude False s)"

section \<open>Formatting\<close>

text \<open>The form \<open>{:.N}\<close> for N at least 1.\<close>

fun show_fixed :: "nat \<Rightarrow> f64 \<Rightarrow> string" where
  "show_fixed n F64_NaN = ''NaN''"
| "show_fixed n (F64_Inf s) = (if s then ''-inf'' else ''inf'')"
| "show_fixed n (F64_Fin s q) =
     (let m = nat (round_half_even (q * 10 ^ n)) in
      (if s then ''-'' else []) @ show_nat (m div 10 ^ n) @ CHR ''.'' # show_padded n (m mod 10 ^ n))"

lemma show_padded_digits: "c \<in> set (show_padded w n) \<Longrightarrow> is_ascii_digit c"
  by (auto simp: show_padded_def Let_def is_ascii_digit_def byte_def dest: show_nat_digits split: if_splits)

lemma show_fixed_bytes:
  assumes "c \<in> set (show_fixed n x)"
  shows "c \<noteq> CHR '':'' \<and> \<not> is_delim c \<and> byte c < 128"
proof -
  have dig: "is_ascii_digit c \<Longrightarrow> c \<noteq> CHR '':'' \<and> \<not> is_delim c \<and> byte c < 128"
    by (auto simp: is_ascii_digit_def is_delim_def cr_def lf_def byte_def)
  show ?thesis
  proof (cases x)
    case F64_NaN
    with assms show ?thesis by (auto simp: is_delim_def cr_def lf_def byte_def)
  next
    case (F64_Inf s)
    with assms show ?thesis by (auto simp: is_delim_def cr_def lf_def byte_def split: if_splits)
  next
    case (F64_Fin s q)
    with assms have "is_ascii_digit c \<or> c = CHR ''-'' \<or> c = CHR ''.''"
      by (auto simp: Let_def dest: show_nat_digits show_padded_digits split: if_splits)
    with dig show ?thesis by (auto simp: is_delim_def cr_def lf_def byte_def)
  qed
qed

end
