(* ===== verification/Classic_Decode.thy ===== *)
theory Classic_Decode
  imports Protocol Float_Text
begin

text \<open>
  The classic dialect, inbound (crate \<open>aster_fsd_protocol_classic\<close>, directory \<open>decode\<close>): one
  frame is tokenized and translated into a command. The checks run in the order in which the
  source evaluates them, struct fields included, since the first failure decides the error.
\<close>

section \<open>Fields (decode/mod.rs)\<close>

definition syntax_error :: "string \<Rightarrow> protocol_error" where
  "syntax_error message = protocol_error_new PE_Syntax message"

definition get_field :: "string list \<Rightarrow> nat \<Rightarrow> string \<Rightarrow> protocol_error + string" where
  "get_field flds index name =
     (if index < length flds then Inr (flds ! index)
      else Inl (syntax_error (''missing '' @ name)))"

definition parse_i32 :: "string \<Rightarrow> string \<Rightarrow> protocol_error + i32" where
  "parse_i32 v name = ok_or (syntax_error (''invalid '' @ name)) (parse_i32_str v)"

definition parse_protocol_revision :: "string \<Rightarrow> protocol_error + u16" where
  "parse_protocol_revision v =
     ok_or (with_error_code E_InvalidProtocolRevision
              (protocol_error_new PE_InvalidField ''protocol revision is not an unsigned integer''))
       (parse_u16_str v)"

definition parse_u32 :: "string \<Rightarrow> string \<Rightarrow> protocol_error + u32" where
  "parse_u32 v name = ok_or (syntax_error (''invalid '' @ name)) (parse_u32_str v)"

definition parse_f64 :: "string \<Rightarrow> string \<Rightarrow> protocol_error + f64" where
  "parse_f64 v name = ok_or (syntax_error (''invalid '' @ name)) (parse_f64_str v)"

definition decode_callsign :: "string \<Rightarrow> error_code \<Rightarrow> protocol_error + callsign" where
  "decode_callsign v code =
     map_err (\<lambda>e. case e of
          InvalidCallsignLength \<Rightarrow>
            with_error_code code (protocol_error_new PE_InvalidField (model_error_text e))
        | InvalidCallsignCharacter \<Rightarrow>
            with_error_code code (protocol_error_new PE_InvalidField (model_error_text e))
        | _ \<Rightarrow> protocol_error_new PE_Syntax (model_error_text e))
       (callsign_parse v)"

definition decode_destination :: "string \<Rightarrow> protocol_error + destination" where
  "decode_destination v =
     map_err (\<lambda>e. protocol_error_new PE_InvalidField (model_error_text e)) (destination_parse v)"

definition direct_destination :: "string \<Rightarrow> string \<Rightarrow> protocol_error + destination" where
  "direct_destination v cmd =
     and_then (decode_destination v) (\<lambda>d.
       case d of
         To_Direct _ \<Rightarrow> Inr d
       | _ \<Rightarrow> Inl (syntax_error (cmd @ '' requires a direct callsign destination'')))"

definition direct_callsign :: "string \<Rightarrow> string \<Rightarrow> protocol_error + callsign" where
  "direct_callsign v cmd =
     and_then (direct_destination v cmd) (\<lambda>d.
       case d of
         To_Direct c \<Rightarrow> Inr c
       | _ \<Rightarrow> Inl (syntax_error (cmd @ '' requires a direct callsign destination'')))"

definition require_fields :: "raw_packet \<Rightarrow> nat \<Rightarrow> protocol_error + unit" where
  "require_fields p minimum =
     (if length (rp_fields p) < minimum
      then Inl (syntax_error (rp_command p @ '' requires at least '' @ show_nat minimum
                  @ '' payload field(s)''))
      else Inr ())"

section \<open>Login (decode/login.rs)\<close>

definition login_decode :: "raw_packet \<Rightarrow> protocol_error + command" where
  "login_decode p =
     (if rp_command p = ''AA'' then
        if length (rp_fields p) < 5 then Inl (syntax_error ''#AA requires seven fields'')
        else
          and_then (decode_callsign (rp_source p) E_InvalidCallsign) (\<lambda>c.
          and_then (get_field (rp_fields p) 0 ''real name'') (\<lambda>real_name.
          and_then (get_field (rp_fields p) 1 ''network ID'') (\<lambda>network_id.
          and_then (get_field (rp_fields p) 2 ''password'') (\<lambda>password.
          and_then (get_field (rp_fields p) 3 ''rating'') (\<lambda>r.
          and_then (parse_i32 r ''rating'') (\<lambda>rating.
          and_then (get_field (rp_fields p) 4 ''protocol revision'') (\<lambda>v.
          and_then (parse_protocol_revision v) (\<lambda>revision.
            Inr (C_Login \<lparr>lc_callsign = c, lc_client_type = Atc, lc_network_id = network_id,
                   lc_password = password, lc_requested_rating = rating,
                   lc_protocol_revision = revision, lc_real_name = real_name,
                   lc_simulator_type = None\<rparr>)))))))))
      else if rp_command p = ''AP'' then
        if length (rp_fields p) < 6 then Inl (syntax_error ''#AP requires eight fields'')
        else
          and_then (decode_callsign (rp_source p) E_InvalidCallsign) (\<lambda>c.
          and_then (get_field (rp_fields p) 0 ''network ID'') (\<lambda>network_id.
          and_then (get_field (rp_fields p) 1 ''password'') (\<lambda>password.
          and_then (get_field (rp_fields p) 2 ''rating'') (\<lambda>r.
          and_then (parse_i32 r ''rating'') (\<lambda>rating.
          and_then (get_field (rp_fields p) 3 ''protocol revision'') (\<lambda>v.
          and_then (parse_protocol_revision v) (\<lambda>revision.
          and_then (get_field (rp_fields p) 4 ''simulator type'') (\<lambda>s.
          and_then (parse_i32 s ''simulator type'') (\<lambda>sim.
          and_then (get_field (rp_fields p) 5 ''real name'') (\<lambda>real_name.
            Inr (C_Login \<lparr>lc_callsign = c, lc_client_type = Pilot, lc_network_id = network_id,
                   lc_password = password, lc_requested_rating = rating,
                   lc_protocol_revision = revision, lc_real_name = real_name,
                   lc_simulator_type = Some sim\<rparr>)))))))))))
      else Inl (syntax_error ''unsupported login command''))"

section \<open>Positions (decode/position.rs)\<close>

text \<open>
  A string of one to four octal digits always fits a \<open>u16\<close>, so the last error cannot occur.
\<close>

definition canonical_squawk :: "string \<Rightarrow> protocol_error + string" where
  "canonical_squawk v =
     (if v = [] \<or> 4 < length v \<or> \<not> list_all is_octal_digit v
      then Inl (protocol_error_new PE_InvalidField
                  ''squawk must contain between one and four octal digits'')
      else case parse_u16_str v of
        Some n \<Rightarrow> Inr (show_nat (unat n))
      | None \<Rightarrow> Inl (protocol_error_new PE_InvalidField ''number too large to fit in target type''))"

text \<open>\<open>chars().next()\<close>.\<close>

definition first_char :: "string \<Rightarrow> uchar option" where
  "first_char s = map_option fst (utf8_next s)"

definition position_decode :: "raw_packet \<Rightarrow> protocol_error + command" where
  "position_decode p =
     (let f = (\<lambda>i. rp_fields p ! i) in
      and_then (decode_callsign (rp_source p) E_InvalidSource) (\<lambda>c.
      case rp_kind p of
        K_PilotPosition \<Rightarrow>
          if length (rp_fields p) < 8 then Inl (syntax_error ''pilot position requires ten fields'')
          else
            and_then (ok_or (syntax_error ''missing mode'') (first_char (rp_command p))) (\<lambda>mode.
            and_then (canonical_squawk (f 0)) (\<lambda>squawk.
            and_then (parse_i32 (f 1) ''rating'') (\<lambda>rating.
            and_then (parse_f64 (f 2) ''latitude'') (\<lambda>latitude.
            and_then (parse_f64 (f 3) ''longitude'') (\<lambda>longitude.
            and_then (parse_i32 (f 4) ''altitude'') (\<lambda>alt.
            and_then (parse_i32 (f 5) ''groundspeed'') (\<lambda>groundspeed.
            and_then (parse_u32 (f 6) ''PBH'') (\<lambda>pbh.
            and_then (parse_i32 (f 7) ''flags'') (\<lambda>flags.
              Inr (C_Position (Position_Pilot
                \<lparr>pp_callsign = c, pp_mode = mode, pp_squawk = squawk, pp_rating = rating,
                 pp_latitude = latitude, pp_longitude = longitude, pp_altitude = alt,
                 pp_groundspeed = groundspeed, pp_pbh = pbh, pp_flags = flags\<rparr>)))))))))))
      | K_AtcPosition \<Rightarrow>
          if length (rp_fields p) < 7 then Inl (syntax_error ''ATC position requires eight fields'')
          else
            and_then (parse_i32 (f 0) ''frequency'') (\<lambda>frequency.
            and_then (parse_i32 (f 1) ''facility type'') (\<lambda>facility.
            and_then (parse_i32 (f 2) ''visual range'') (\<lambda>visual_range.
            and_then (parse_i32 (f 3) ''rating'') (\<lambda>rating.
            and_then (parse_f64 (f 4) ''latitude'') (\<lambda>latitude.
            and_then (parse_f64 (f 5) ''longitude'') (\<lambda>longitude.
            and_then (parse_i32 (f 6) ''altitude'') (\<lambda>alt.
              Inr (C_Position (Position_Atc
                \<lparr>ap_callsign = c, ap_frequency = frequency, ap_facility_type = facility,
                 ap_visual_range = visual_range, ap_rating = rating, ap_latitude = latitude,
                 ap_longitude = longitude, ap_altitude = alt\<rparr>)))))))))
      | _ \<Rightarrow> Inl (syntax_error ''not a position packet'')))"

section \<open>Routed commands (decode/routed.rs)\<close>

definition decode_text :: "raw_packet \<Rightarrow> protocol_error + command" where
  "decode_text p =
     and_then (require_fields p 1) (\<lambda>_.
     and_then (decode_callsign (rp_source p) E_InvalidSource) (\<lambda>source.
     and_then (decode_destination (rp_destination p)) (\<lambda>dest.
       Inr (C_Text source dest (join_with colon (rp_fields p))))))"

definition decode_ping_pong :: "raw_packet \<Rightarrow> protocol_error + command" where
  "decode_ping_pong p =
     and_then (decode_callsign (rp_source p) E_InvalidSource) (\<lambda>source.
     and_then (decode_destination (rp_destination p)) (\<lambda>dest.
       let payload = join_with colon (rp_fields p) in
       if rp_command p = ''PI'' then Inr (C_Ping source dest payload)
       else Inr (C_Pong source dest payload)))"

definition decode_kill :: "raw_packet \<Rightarrow> protocol_error + command" where
  "decode_kill p =
     and_then (require_fields p 1) (\<lambda>_.
     and_then (decode_callsign (rp_source p) E_InvalidSource) (\<lambda>source.
     and_then (decode_callsign (rp_destination p) E_InvalidCallsign) (\<lambda>target.
       Inr (C_Kill source target (join_with colon (rp_fields p))))))"

definition decode_flight_plan :: "raw_packet \<Rightarrow> protocol_error + command" where
  "decode_flight_plan p =
     (let f = (\<lambda>i. rp_fields p ! i) in
      if length (rp_fields p) < 15 then Inl (syntax_error ''$FP requires seventeen fields'')
      else
        and_then (decode_callsign (rp_source p) E_InvalidSource) (\<lambda>c.
        and_then (ok_or (syntax_error ''missing flight rules'') (first_char (f 0))) (\<lambda>rules.
        and_then (parse_i32 (f 2) ''cruise speed'') (\<lambda>cruise_speed.
        and_then (parse_i32 (f 4) ''estimated departure'') (\<lambda>estimated.
        and_then (parse_i32 (f 5) ''actual departure'') (\<lambda>actual.
        and_then (parse_i32 (f 8) ''hours enroute'') (\<lambda>hours_enroute.
        and_then (parse_i32 (f 9) ''minutes enroute'') (\<lambda>minutes_enroute.
        and_then (parse_i32 (f 10) ''hours fuel'') (\<lambda>hours_fuel.
        and_then (parse_i32 (f 11) ''minutes fuel'') (\<lambda>minutes_fuel.
          Inr (C_FlightPlan
            \<lparr>fp_callsign = c, fp_flight_rules = rules, fp_aircraft = f 1,
             fp_cruise_speed = cruise_speed, fp_departure = f 3,
             fp_estimated_departure = estimated, fp_actual_departure = actual,
             fp_cruise_altitude = f 6, fp_destination = f 7,
             fp_hours_enroute = hours_enroute, fp_minutes_enroute = minutes_enroute,
             fp_hours_fuel = hours_fuel, fp_minutes_fuel = minutes_fuel,
             fp_alternate = f 12, fp_remarks = f 13, fp_route = f 14\<rparr>)))))))))))"

definition decode_query_kind :: "string \<Rightarrow> query_kind" where
  "decode_query_kind v =
     (let u = to_ascii_uppercase v in
      if u = ''RN'' then Q_RealName
      else if u = ''FP'' then Q_FlightPlan
      else if u = ''CAPS'' then Q_Capabilities
      else if u = ''ATIS'' then Q_Atis
      else if u = ''INF'' then Q_SystemInfo
      else if u = ''ACC'' then Q_AircraftConfiguration
      else Q_Raw v)"

definition decode_query_response :: "raw_packet \<Rightarrow> protocol_error + command" where
  "decode_query_response p =
     (let response = (rp_command p = ''CR'') in
      and_then (require_fields p (if response then 2 else 1)) (\<lambda>_.
      and_then (decode_callsign (rp_source p) E_InvalidSource) (\<lambda>source.
      and_then (if response then direct_destination (rp_destination p) ''$CR''
                else decode_destination (rp_destination p)) (\<lambda>dest.
        case rp_fields p of
          [] \<Rightarrow> Inl (syntax_error ''query requires a kind'')
        | v # arguments \<Rightarrow>
            if response then Inr (C_Response source dest (decode_query_kind v) arguments)
            else Inr (C_Query source dest (decode_query_kind v) arguments)))))"

definition decode_weather :: "raw_packet \<Rightarrow> protocol_error + command" where
  "decode_weather p =
     and_then (require_fields p 1) (\<lambda>_.
     and_then (decode_callsign (rp_source p) E_InvalidSource) (\<lambda>source.
       case rp_fields p of
         [] \<Rightarrow> Inl (syntax_error ''weather request requires a payload'')
       | first # others \<Rightarrow>
           if rp_command p = ''WX'' then Inr (C_WeatherRequest source (to_ascii_uppercase first) True)
           else case others of
             [] \<Rightarrow> Inr (C_Noop source)
           | station # _ \<Rightarrow>
               if \<not> eq_ignore_ascii_case first ''METAR'' then Inr (C_Noop source)
               else Inr (C_WeatherRequest source (to_ascii_uppercase station) False)))"

definition decode_direct_client_command :: "raw_packet \<Rightarrow> protocol_error + command" where
  "decode_direct_client_command p =
     (if rp_command p = ''HO'' \<or> rp_command p = ''HA'' then
        and_then (require_fields p 1) (\<lambda>_.
        and_then (decode_callsign (rp_source p) E_InvalidSource) (\<lambda>source.
        and_then (direct_callsign (rp_destination p) (rp_command p)) (\<lambda>target.
          Inr (C_Handoff source target
                 (if rp_command p = ''HO'' then H_Request else H_Accept) (rp_fields p)))))
      else
        and_then (if rp_command p = ''CI'' then require_fields p 1 else Inr ()) (\<lambda>_.
        and_then
          (if rp_command p = ''SB'' then Inr SquawkBox
           else if rp_command p = ''PC'' then Inr ProController
           else if rp_command p = ''C?'' then Inr CommunicationRequest
           else if rp_command p = ''CI'' then Inr CommunicationReply
           else Inl (syntax_error ''unsupported client-data command'')) (\<lambda>kind.
        and_then (decode_callsign (rp_source p) E_InvalidSource) (\<lambda>source.
        and_then (direct_callsign (rp_destination p) (rp_command p)) (\<lambda>target.
          Inr (C_ClientData source target kind (rp_fields p)))))))"

section \<open>Frames (decode/mod.rs)\<close>

definition decode_packet :: "raw_packet \<Rightarrow> protocol_error + command" where
  "decode_packet p =
     (if rp_kind p = K_PilotPosition \<or> rp_kind p = K_AtcPosition then position_decode p
      else if rp_command p \<in> {''CQ'', ''CR''} then decode_query_response p
      else if rp_command p \<in> {''WX'', ''AX''} then decode_weather p
      else if rp_command p \<in> {''HO'', ''HA'', ''SB'', ''PC'', ''C?'', ''CI''}
      then decode_direct_client_command p
      else if rp_command p = ''AA'' \<or> rp_command p = ''AP'' then login_decode p
      else if rp_command p = ''DA'' \<or> rp_command p = ''DP''
      then and_then (decode_callsign (rp_source p) E_InvalidSource) (\<lambda>c. Inr (C_Logoff c))
      else if rp_command p = ''TM'' then decode_text p
      else if rp_command p = ''FP'' then decode_flight_plan p
      else if rp_command p = ''PI'' \<or> rp_command p = ''PO'' then decode_ping_pong p
      else if rp_command p = ''!!'' then decode_kill p
      else Inl (protocol_error_new PE_Unsupported
                  (''unsupported classic command '' @ rp_command p)))"

definition classic_decode :: "string \<Rightarrow> protocol_error + command" where
  "classic_decode frame =
     and_then (map_err (\<lambda>e. protocol_error_new PE_Syntax (codec_error_text e)) (raw_packet_parse frame))
       decode_packet"

end
