(* ===== verification/Classic_Encode.thy ===== *)
theory Classic_Encode
  imports Classic_Decode
begin

text \<open>
  The classic dialect, outbound (crate \<open>aster_fsd_protocol_classic\<close>, directory \<open>encode\<close>, and
  the backend in \<open>lib.rs\<close>): an event becomes one frame, a weather profile three.
\<close>

section \<open>Packets (encode/mod.rs)\<close>

fun destination_text :: "destination \<Rightarrow> string" where
  "destination_text To_Server = ''SERVER''"
| "destination_text (To_Direct c) = as_str c"
| "destination_text To_All = ''*''"
| "destination_text To_Atc = ''*A''"
| "destination_text To_Pilots = ''*P''"
| "destination_text (To_Range v) = v"

definition packet_frame :: "raw_packet \<Rightarrow> protocol_error + wire_frame" where
  "packet_frame p =
     and_then (map_err (\<lambda>e. protocol_error_new PE_Encoding (codec_error_text e))
                 (raw_packet_encode p CLASSIC_MAX_FRAME_BYTES))
       wire_frame_new"

definition command_frame ::
  "raw_packet_kind \<Rightarrow> string \<Rightarrow> string \<Rightarrow> string \<Rightarrow> string list \<Rightarrow> protocol_error + wire_frame" where
  "command_frame kind cmd source dest flds =
     packet_frame \<lparr>rp_kind = kind, rp_command = cmd, rp_source = source,
                    rp_destination = dest, rp_fields = flds\<rparr>"

definition event_mismatch :: "string \<Rightarrow> protocol_error" where
  "event_mismatch category =
     protocol_error_new PE_Encoding
       (''classic '' @ category @ '' encoder received an unrelated event'')"

section \<open>Status and presence (encode/presence.rs)\<close>

definition encode_status :: "event \<Rightarrow> protocol_error + wire_frame" where
  "encode_status ev =
     (case ev of
        Ev_Error c code environment desc \<Rightarrow>
          command_frame K_Request ''ER'' ''server''
            (case c of None \<Rightarrow> ''unknown'' | Some x \<Rightarrow> as_str x)
            [show_padded 3 (error_code_number code), environment, desc]
      | Ev_Welcome c message \<Rightarrow> command_frame K_Client ''TM'' ''server'' (as_str c) [message]
      | _ \<Rightarrow> Inl (event_mismatch ''status''))"

definition encode_presence :: "event \<Rightarrow> protocol_error + wire_frame" where
  "encode_presence ev =
     (case ev of
        Ev_ClientAdded client \<Rightarrow>
          let (cmd, flds) =
                (case cp_client_type client of
                   Atc \<Rightarrow>
                     (''AA'', [cp_real_name client, cp_network_id client, [],
                        show_int (cp_rating client), show_nat (unat CLASSIC_PROTOCOL_REVISION)])
                 | _ \<Rightarrow>
                     (''AP'', [cp_network_id client, [], show_int (cp_rating client),
                        show_nat (unat CLASSIC_PROTOCOL_REVISION),
                        show_int (case cp_simulator_type client of None \<Rightarrow> 0 | Some s \<Rightarrow> s)]))
          in command_frame K_Client cmd (as_str (cp_callsign client)) ''SERVER'' flds
      | Ev_ClientRemoved c client_type network_id \<Rightarrow>
          command_frame K_Client (if client_type = Atc then ''DA'' else ''DP'') (as_str c) network_id []
      | _ \<Rightarrow> Inl (event_mismatch ''presence''))"

section \<open>Positions and flight plans (encode/state.rs)\<close>

fun position_packet :: "position \<Rightarrow> raw_packet" where
  "position_packet (Position_Pilot p) =
     \<lparr>rp_kind = K_PilotPosition, rp_command = pp_mode p, rp_source = as_str (pp_callsign p),
      rp_destination = [],
      rp_fields = [pp_squawk p, show_int (pp_rating p), show_fixed 5 (pp_latitude p),
        show_fixed 5 (pp_longitude p), show_int (pp_altitude p), show_int (pp_groundspeed p),
        show_nat (unat (pp_pbh p)), show_int (pp_flags p)]\<rparr>"
| "position_packet (Position_Atc p) =
     \<lparr>rp_kind = K_AtcPosition, rp_command = [], rp_source = as_str (ap_callsign p),
      rp_destination = [],
      rp_fields = [show_int (ap_frequency p), show_int (ap_facility_type p),
        show_int (ap_visual_range p), show_int (ap_rating p), show_fixed 5 (ap_latitude p),
        show_fixed 5 (ap_longitude p), show_int (ap_altitude p)]\<rparr>"

definition encode_position :: "position \<Rightarrow> protocol_error + wire_frame" where
  "encode_position pos = packet_frame (position_packet pos)"

definition encode_flight_plan :: "flight_plan \<Rightarrow> destination \<Rightarrow> protocol_error + wire_frame" where
  "encode_flight_plan plan dest =
     command_frame K_Request ''FP'' (as_str (fp_callsign plan)) (destination_text dest)
       [fp_flight_rules plan, fp_aircraft plan, show_int (fp_cruise_speed plan),
        fp_departure plan, show_int (fp_estimated_departure plan),
        show_int (fp_actual_departure plan), fp_cruise_altitude plan, fp_destination plan,
        show_int (fp_hours_enroute plan), show_int (fp_minutes_enroute plan),
        show_int (fp_hours_fuel plan), show_int (fp_minutes_fuel plan),
        fp_alternate plan, fp_remarks plan, fp_route plan]"

section \<open>Routed events (encode/routed.rs)\<close>

fun query_kind_text :: "query_kind \<Rightarrow> string" where
  "query_kind_text Q_RealName = ''RN''"
| "query_kind_text Q_FlightPlan = ''FP''"
| "query_kind_text Q_Capabilities = ''CAPS''"
| "query_kind_text Q_Atis = ''ATIS''"
| "query_kind_text Q_SystemInfo = ''INF''"
| "query_kind_text Q_AircraftConfiguration = ''ACC''"
| "query_kind_text (Q_Raw v) = v"

definition encode_query :: "event \<Rightarrow> protocol_error + wire_frame" where
  "encode_query ev =
     (case ev of
        Ev_Query source dest kind arguments \<Rightarrow>
          command_frame K_Request ''CQ'' source (destination_text dest)
            (query_kind_text kind # arguments)
      | Ev_Response source dest kind arguments \<Rightarrow>
          command_frame K_Request ''CR'' source (destination_text dest)
            (query_kind_text kind # arguments)
      | _ \<Rightarrow> Inl (event_mismatch ''query''))"

definition encode_client_data ::
  "callsign \<Rightarrow> callsign \<Rightarrow> client_data_kind \<Rightarrow> string list \<Rightarrow> protocol_error + wire_frame" where
  "encode_client_data source target kind flds =
     (let packet_kind = (case kind of
            SquawkBox \<Rightarrow> K_Client | ProController \<Rightarrow> K_Client
          | CommunicationRequest \<Rightarrow> K_Request | CommunicationReply \<Rightarrow> K_Request);
          cmd = (case kind of
            SquawkBox \<Rightarrow> ''SB'' | ProController \<Rightarrow> ''PC''
          | CommunicationRequest \<Rightarrow> ''C?'' | CommunicationReply \<Rightarrow> ''CI'')
      in command_frame packet_kind cmd (as_str source) (as_str target) flds)"

definition encode_routed :: "event \<Rightarrow> protocol_error + wire_frame" where
  "encode_routed ev =
     (case ev of
        Ev_Text source dest message \<Rightarrow>
          command_frame K_Client ''TM'' (as_str source) (destination_text dest) [message]
      | Ev_Ping source dest payload \<Rightarrow>
          command_frame K_Request ''PI'' (as_str source) (destination_text dest) [payload]
      | Ev_Pong source dest payload \<Rightarrow>
          command_frame K_Request ''PO'' source (destination_text dest) [payload]
      | Ev_Handoff source target kind flds \<Rightarrow>
          command_frame K_Request (case kind of H_Request \<Rightarrow> ''HO'' | H_Accept \<Rightarrow> ''HA'')
            (as_str source) (as_str target) flds
      | Ev_ClientData source target kind flds \<Rightarrow> encode_client_data source target kind flds
      | Ev_WeatherReport source dest station report \<Rightarrow>
          command_frame K_Request ''AR'' source (as_str dest) [''METAR'', report]
      | Ev_WindDelta speed direction \<Rightarrow>
          command_frame K_Client ''DL'' ''SERVER'' ''*'' [show_int speed, show_int direction]
      | Ev_Disconnect target reason \<Rightarrow>
          command_frame K_Request ''!!'' ''SERVER'' (as_str target) [reason]
      | _ \<Rightarrow> Inl (event_mismatch ''routed''))"

section \<open>Weather (encode/weather.rs)\<close>

definition temperature_fields :: "weather_profile \<Rightarrow> string list" where
  "temperature_fields w =
     (case wp_temperatures w of (a, b, c, d) \<Rightarrow>
        concat (map (\<lambda>l. [show_int (tl_ceiling l), show_int (tl_temperature l)]) [a, b, c, d])
        @ [show_int (wp_barometer w)])"

definition wind_fields :: "weather_profile \<Rightarrow> string list" where
  "wind_fields w =
     (case wp_winds w of (a, b, c, d) \<Rightarrow>
        concat (map (\<lambda>l. [show_int (wl_ceiling l), show_int (wl_floor l), show_int (wl_direction l),
                          show_int (wl_speed l), show_int (wl_gusting l), show_int (wl_turbulence l)])
          [a, b, c, d]))"

definition cloud_fields :: "weather_profile \<Rightarrow> string list" where
  "cloud_fields w =
     (case wp_clouds w of (a, b) \<Rightarrow>
        concat (map (\<lambda>l. [show_int (cl_ceiling l), show_int (cl_floor l), show_int (cl_coverage l),
                          show_int (cl_icing l), show_int (cl_turbulence l)])
          [a, b, wp_thunderstorm w])
        @ [show_fixed 2 (wp_visibility w)])"

definition encode_profile :: "callsign \<Rightarrow> weather_profile \<Rightarrow> protocol_error + wire_frame list" where
  "encode_profile dest w =
     and_then (map_err (\<lambda>e. protocol_error_new PE_Encoding (model_error_text e)) (weather_validate w)) (\<lambda>_.
     and_then (command_frame K_Client ''TD'' ''server'' (as_str dest) (temperature_fields w)) (\<lambda>t.
     and_then (command_frame K_Client ''WD'' ''server'' (as_str dest) (wind_fields w)) (\<lambda>v.
     and_then (command_frame K_Client ''CD'' ''server'' (as_str dest) (cloud_fields w)) (\<lambda>c.
       Inr [t, v, c]))))"

section \<open>The backend (encode/mod.rs, lib.rs)\<close>

definition classic_encode :: "encode_context \<Rightarrow> event \<Rightarrow> protocol_error + wire_frame list" where
  "classic_encode context ev =
     (case ev of
        Ev_WeatherProfile dest station profile \<Rightarrow> encode_profile dest profile
      | _ \<Rightarrow>
          and_then
            (case ev of
               Ev_Error _ _ _ _ \<Rightarrow> encode_status ev
             | Ev_Welcome _ _ \<Rightarrow> encode_status ev
             | Ev_ClientAdded _ \<Rightarrow> encode_presence ev
             | Ev_ClientRemoved _ _ _ \<Rightarrow> encode_presence ev
             | Ev_Position pos \<Rightarrow> encode_position pos
             | Ev_FlightPlan plan dest \<Rightarrow> encode_flight_plan plan dest
             | Ev_Query _ _ _ _ \<Rightarrow> encode_query ev
             | Ev_Response _ _ _ _ \<Rightarrow> encode_query ev
             | Ev_WeatherProfile _ _ _ \<Rightarrow> Inl (event_mismatch ''weather profile'')
             | _ \<Rightarrow> encode_routed ev)
            (\<lambda>frame. Inr [frame]))"

definition classic_protocol :: backend where
  "classic_protocol =
     \<lparr>pb_dialect = Classic, pb_initial_frames = (\<lambda>_. Inr []),
      pb_decode = (\<lambda>_ frame. classic_decode frame), pb_encode = classic_encode,
      pb_recipient_specific = (\<lambda>_. False)\<rparr>"

section \<open>What the encoder emits\<close>

lemma packet_frame_Inr:
  "packet_frame p = Inr f \<longleftrightarrow>
     f = Wire_Frame (packet_bytes p) \<and> length (packet_bytes p) \<le> CLASSIC_MAX_FRAME_BYTES
     \<and> list_all (\<lambda>c. \<not> is_delim c) (packet_bytes p)"
  by (auto simp: packet_frame_def and_then_Inr_iff raw_packet_encode_ok_iff wire_frame_new_Inr)

lemma packet_bytes_ne [simp]: "packet_bytes p \<noteq> []"
  by (simp add: packet_bytes_def)

text \<open>A sendable frame within the classic limit.\<close>

definition classic_sendable :: "wire_frame \<Rightarrow> bool" where
  "classic_sendable f = (sendable f \<and> length (frame_bytes f) \<le> CLASSIC_MAX_FRAME_BYTES)"

lemma packet_frame_sendable: "packet_frame p = Inr f \<Longrightarrow> classic_sendable f"
  by (auto simp: packet_frame_Inr classic_sendable_def sendable_def)

lemma command_frame_sendable: "command_frame k cmd s d fs = Inr f \<Longrightarrow> classic_sendable f"
  by (auto simp: command_frame_def intro: packet_frame_sendable)

lemma classic_encode_sendable: "classic_encode ctx ev = Inr fs \<Longrightarrow> list_all classic_sendable fs \<and> fs \<noteq> []"
  by (cases ev)
    (auto simp: classic_encode_def encode_profile_def encode_status_def encode_presence_def
      encode_position_def encode_flight_plan_def encode_query_def encode_routed_def
      encode_client_data_def and_then_Inr_iff Let_def case_prod_unfold
      dest: command_frame_sendable packet_frame_sendable)

interpretation classic: protocol_backend classic_protocol
proof unfold_locales
  show "list_all sendable fs" if "pb_encode classic_protocol ctx ev = Inr fs" for ctx ev fs
    using classic_encode_sendable [of ctx ev fs] that
    by (auto simp: classic_protocol_def classic_sendable_def list_all_iff)
  show "list_all sendable fs" if "pb_initial_frames classic_protocol hs = Inr fs" for hs fs
    using that by (simp add: classic_protocol_def)
qed

end
