(* ===== verification/Classic_Relay.thy ===== *)
theory Classic_Relay
  imports Classic_Encode Net_Commands
begin

text \<open>
  What happens to a command on its way from one classic client to another: decoded, turned
  into an event by the core, encoded for the recipient and decoded there. \<open>wf_command\<close> is
  what the decoder guarantees of a command; a well-formed command arrives unchanged.
\<close>

section \<open>Well-formed commands\<close>

definition text_ok :: "string \<Rightarrow> bool" where
  "text_ok w = (colon \<notin> set w \<and> valid_utf8 w)"

definition dest_ok :: "destination \<Rightarrow> bool" where
  "dest_ok d = (destination_parse (destination_text d) = Inr d \<and> text_ok (destination_text d))"

definition kind_ok :: "query_kind \<Rightarrow> bool" where
  "kind_ok k = (decode_query_kind (query_kind_text k) = k \<and> text_ok (query_kind_text k))"

definition plan_wire_ok :: "flight_plan \<Rightarrow> bool" where
  "plan_wire_ok p =
     (wf_callsign (fp_callsign p) \<and> utf8_next (fp_flight_rules p) = Some (fp_flight_rules p, [])
      \<and> list_all text_ok [fp_flight_rules p, fp_aircraft p, fp_departure p, fp_cruise_altitude p,
          fp_destination p, fp_alternate p, fp_remarks p, fp_route p]
      \<and> list_all i32_range [fp_cruise_speed p, fp_estimated_departure p, fp_actual_departure p,
          fp_hours_enroute p, fp_minutes_enroute p, fp_hours_fuel p, fp_minutes_fuel p])"

fun wf_command :: "command \<Rightarrow> bool" where
  "wf_command (C_Text s d m) = (wf_callsign s \<and> dest_ok d \<and> valid_utf8 m)"
| "wf_command (C_Ping s d m) = (wf_callsign s \<and> dest_ok d \<and> valid_utf8 m)"
| "wf_command (C_Pong s d m) = (wf_callsign s \<and> dest_ok d \<and> valid_utf8 m)"
| "wf_command (C_Query s d k args) =
     (wf_callsign s \<and> dest_ok d \<and> kind_ok k \<and> list_all text_ok args)"
| "wf_command (C_Response s d k args) =
     (wf_callsign s \<and> dest_ok d \<and> (\<exists>c. d = To_Direct c) \<and> kind_ok k \<and> args \<noteq> []
      \<and> list_all text_ok args)"
| "wf_command (C_Handoff s t k fs) =
     (wf_callsign s \<and> dest_ok (To_Direct t) \<and> fs \<noteq> [] \<and> list_all text_ok fs)"
| "wf_command (C_ClientData s t k fs) =
     (wf_callsign s \<and> dest_ok (To_Direct t) \<and> (k = CommunicationReply \<longrightarrow> fs \<noteq> [])
      \<and> list_all text_ok fs)"
| "wf_command (C_FlightPlan p) = plan_wire_ok p"
| "wf_command _ = True"

text \<open>The event the core sends on for a command (commands.rs).\<close>

fun relayed :: "command \<Rightarrow> event option" where
  "relayed (C_Text s d m) = Some (Ev_Text s d m)"
| "relayed (C_Ping s d m) = Some (Ev_Ping s d m)"
| "relayed (C_Pong s d m) = Some (Ev_Pong (as_str s) d m)"
| "relayed (C_Query s d k args) = Some (Ev_Query (as_str s) d k args)"
| "relayed (C_Response s d k args) = Some (Ev_Response (as_str s) d k args)"
| "relayed (C_Handoff s t k fs) = Some (Ev_Handoff s t k fs)"
| "relayed (C_ClientData s t k fs) = Some (Ev_ClientData s t k fs)"
| "relayed (C_FlightPlan p) = Some (Ev_FlightPlan p To_Atc)"
| "relayed _ = None"

section \<open>Destinations and texts\<close>

lemma wf_callsign_ascii: "wf_callsign c \<Longrightarrow> is_ascii (as_str c)"
  by (simp add: wf_callsign_def)

lemma wf_callsign_text_ok: "wf_callsign c \<Longrightarrow> text_ok (as_str c)"
  by (simp add: text_ok_def wf_callsign_no_colon valid_utf8_ascii wf_callsign_ascii)

lemma destination_parse_Direct:
  "destination_parse v = Inr (To_Direct c) \<longleftrightarrow>
     callsign_parse v = Inr c \<and> to_ascii_uppercase v \<noteq> ''SERVER''"
proof -
  have star: "callsign_parse v = Inr c \<Longrightarrow> to_ascii_uppercase v \<noteq> ''*'' \<and> to_ascii_uppercase v \<noteq> ''*A''
      \<and> to_ascii_uppercase v \<noteq> ''*P'' \<and> v \<noteq> [] \<and> hd v \<noteq> CHR ''@''"
  proof -
    assume c: "callsign_parse v = Inr c"
    have nr: "\<not> reserved_callsign_byte b" if "b \<in> set (to_ascii_uppercase v) \<or> b \<in> set v" for b
      using c that by (auto simp: callsign_parse_def list_ex_iff to_ascii_uppercase_def split: if_splits)
    have "v \<noteq> []" using c by (auto simp: callsign_parse_def)
    moreover from this have "\<not> reserved_callsign_byte (hd v)" using nr by simp
    moreover have "CHR ''*'' \<notin> set (to_ascii_uppercase v)"
      using nr [of "CHR ''*''"] by (auto simp: reserved_callsign_byte_def)
    ultimately show ?thesis
      by (auto simp: reserved_callsign_byte_def)
  qed
  show ?thesis
    using star by (cases "callsign_parse v") (auto simp: destination_parse_def Let_def)
qed

lemma destination_text_parse:
  assumes "destination_parse v = Inr d" "text_ok v"
  shows "dest_ok d"
proof (cases d)
  case (To_Direct c)
  with assms(1) have c: "callsign_parse v = Inr c" "to_ascii_uppercase v \<noteq> ''SERVER''"
    by (simp_all add: destination_parse_Direct)
  have wf: "wf_callsign c" by (rule callsign_parse_wf [OF c(1)])
  have str: "as_str c = to_ascii_uppercase v"
    using c(1) by (auto simp: callsign_parse_def split: if_splits)
  have "to_ascii_uppercase (as_str c) = as_str c" using wf by (simp add: wf_callsign_def)
  with c(2) str have "to_ascii_uppercase (as_str c) \<noteq> ''SERVER''" by simp
  with callsign_parse_as_str [OF wf] have "destination_parse (as_str c) = Inr (To_Direct c)"
    unfolding destination_parse_Direct by simp
  with To_Direct wf show ?thesis by (simp add: dest_ok_def wf_callsign_text_ok)
next
  case (To_Range r)
  with assms show ?thesis
    by (cases "callsign_parse v") (auto simp: dest_ok_def destination_parse_def Let_def split: if_splits)
qed (code_simp | simp add: dest_ok_def destination_parse_def Let_def text_ok_def; code_simp)+

lemma dest_ok_Direct_wf: "dest_ok (To_Direct c) \<Longrightarrow> wf_callsign c"
  by (auto simp: dest_ok_def destination_parse_Direct dest: callsign_parse_wf)

lemma decode_query_kind_ok: "text_ok v \<Longrightarrow> kind_ok (decode_query_kind v)"
proof -
  assume v: "text_ok v"
  have idem: "decode_query_kind (query_kind_text (decode_query_kind v)) = decode_query_kind v"
    by (auto simp: decode_query_kind_def Let_def to_ascii_uppercase_def upper_byte_def byte_def)
  have known: "text_ok ''RN'' \<and> text_ok ''FP'' \<and> text_ok ''CAPS'' \<and> text_ok ''ATIS'' \<and> text_ok ''INF'' \<and> text_ok ''ACC''"
    by (simp add: text_ok_def byte_def)
  then have "text_ok (query_kind_text (decode_query_kind v))"
    using v by (auto simp: decode_query_kind_def Let_def)
  with idem show ?thesis by (simp add: kind_ok_def)
qed

section \<open>The decoder yields well-formed commands\<close>

lemma decode_callsign_Inr [simp]: "decode_callsign v code = Inr c \<longleftrightarrow> callsign_parse v = Inr c"
  by (simp add: decode_callsign_def)

lemma decode_destination_Inr [simp]: "decode_destination v = Inr d \<longleftrightarrow> destination_parse v = Inr d"
  by (simp add: decode_destination_def)

lemma direct_destination_Inr:
  "direct_destination v cmd = Inr d \<longleftrightarrow> destination_parse v = Inr d \<and> (\<exists>c. d = To_Direct c)"
proof (cases "destination_parse v")
  case (Inr e)
  then show ?thesis by (cases e) (auto simp: direct_destination_def and_then_Inr_iff)
qed (auto simp: direct_destination_def and_then_Inr_iff)

lemma direct_callsign_Inr:
  "direct_callsign v cmd = Inr c \<longleftrightarrow> destination_parse v = Inr (To_Direct c)"
proof (cases "destination_parse v")
  case (Inr e)
  then show ?thesis
    by (cases e) (auto simp: direct_callsign_def direct_destination_Inr and_then_Inr_iff)
qed (auto simp: direct_callsign_def direct_destination_Inr and_then_Inr_iff)

lemma require_fields_Inr [simp]: "require_fields p n = Inr u \<longleftrightarrow> n \<le> length (rp_fields p)"
  by (auto simp: require_fields_def)

lemma parse_i32_Inr: "parse_i32 v name = Inr i \<longleftrightarrow> parse_i32_str v = Some i"
  by (simp add: parse_i32_def)

lemma wf_packet_fields:
  "wf_packet p \<Longrightarrow> text_ok (rp_source p) \<and> text_ok (rp_destination p) \<and> list_all text_ok (rp_fields p)"
  by (simp add: wf_packet_def text_ok_def list_all_iff)

lemma first_char_ok:
  assumes "text_ok v" "first_char v = Some c"
  shows "utf8_next c = Some (c, []) \<and> text_ok c"
proof -
  from assms(2) obtain t where vt: "utf8_next v = Some (c, t)" by (auto simp: first_char_def)
  then have w: "utf8_width v \<noteq> 0" "c = take (utf8_width v) v" "v = c @ t"
    by (auto simp: utf8_next_Some)
  have len: "length c = utf8_width v" using w(2) utf8_width_le [of v] by simp
  have cw: "utf8_width c = length c"
    unfolding len using w(2) utf8_width_take [OF w(1)] by (simp del: utf8_width.simps)
  have "utf8_width c \<noteq> 0" using cw len w(1) by (simp del: utf8_width.simps)
  then have n: "utf8_next c = Some (c, [])"
    unfolding utf8_next_Some cw by simp
  then have "valid_utf8 c" by (simp add: valid_utf8_step)
  moreover have "colon \<notin> set c" using assms(1) w(3) by (auto simp: text_ok_def)
  ultimately show ?thesis using n by (simp add: text_ok_def)
qed

lemma valid_utf8_fields: "list_all text_ok ws \<Longrightarrow> valid_utf8 (join_with colon ws)"
  by (cases "ws = []") (auto simp: valid_utf8_join list_all_iff text_ok_def)

lemma nth_text_ok: "list_all text_ok ws \<Longrightarrow> i < length ws \<Longrightarrow> text_ok (ws ! i)"
  by (simp add: list_all_length)

lemma decode_flight_plan_wf:
  assumes "wf_packet p" "decode_flight_plan p = Inr cmd"
  shows "wf_command cmd"
proof -
  have f: "list_all text_ok (rp_fields p)" using wf_packet_fields [OF assms(1)] by blast
  have n: "15 \<le> length (rp_fields p)"
    using assms(2) by (auto simp: decode_flight_plan_def Let_def split: if_splits)
  note fi = nth_text_ok [OF f]
  have t: "text_ok (rp_fields p ! 0)" "text_ok (rp_fields p ! Suc 0)" "text_ok (rp_fields p ! 3)"
      "text_ok (rp_fields p ! 6)" "text_ok (rp_fields p ! 7)" "text_ok (rp_fields p ! 12)"
      "text_ok (rp_fields p ! 13)" "text_ok (rp_fields p ! 14)"
    using n by (auto simp: fi [where i = 0] fi intro!: fi)
  from assms(2) n t show ?thesis
    by (auto simp: decode_flight_plan_def Let_def and_then_Inr_iff plan_wire_ok_def parse_i32_Inr
        first_char_ok callsign_parse_wf parse_i32_range)
qed

lemma decode_routed_wf:
  assumes "wf_packet p"
  shows "decode_text p = Inr cmd \<Longrightarrow> wf_command cmd"
    and "decode_ping_pong p = Inr cmd \<Longrightarrow> wf_command cmd"
    and "decode_query_response p = Inr cmd \<Longrightarrow> wf_command cmd"
    and "decode_direct_client_command p = Inr cmd \<Longrightarrow> wf_command cmd"
proof -
  from wf_packet_fields [OF assms]
  have d: "text_ok (rp_destination p)" and f: "list_all text_ok (rp_fields p)" by auto
  note dest = destination_text_parse [OF _ d] and utf = valid_utf8_fields [OF f]
  show "decode_text p = Inr cmd \<Longrightarrow> wf_command cmd"
    using dest utf by (auto simp: decode_text_def and_then_Inr_iff dest: callsign_parse_wf)
  show "decode_ping_pong p = Inr cmd \<Longrightarrow> wf_command cmd"
    using dest utf by (auto simp: decode_ping_pong_def Let_def and_then_Inr_iff dest: callsign_parse_wf
        split: if_splits)
  show "decode_query_response p = Inr cmd \<Longrightarrow> wf_command cmd"
    using dest f
    by (cases "rp_fields p")
      (auto simp: decode_query_response_def Let_def and_then_Inr_iff direct_destination_Inr
        callsign_parse_wf decode_query_kind_ok split: if_splits)
  show "decode_direct_client_command p = Inr cmd \<Longrightarrow> wf_command cmd"
    using dest f
    by (auto simp: decode_direct_client_command_def and_then_Inr_iff direct_callsign_Inr
        dest: callsign_parse_wf split: if_splits)
qed

lemma classic_decode_wf: "classic_decode frame = Inr cmd \<Longrightarrow> wf_command cmd"
proof -
  assume "classic_decode frame = Inr cmd"
  then obtain p where p: "raw_packet_parse frame = Inr p" "decode_packet p = Inr cmd"
    by (auto simp: classic_decode_def and_then_Inr_iff)
  note wf = raw_packet_parse_wf [OF p(1)]
  have others: "wf_command cmd" if "position_decode p = Inr cmd \<or> decode_weather p = Inr cmd
      \<or> login_decode p = Inr cmd \<or> decode_kill p = Inr cmd
      \<or> and_then (decode_callsign (rp_source p) E_InvalidSource) (\<lambda>c. Inr (C_Logoff c)) = Inr cmd"
    using that
    by (cases "rp_kind p"; cases "rp_fields p"; cases "tl (rp_fields p)")
      (auto simp: position_decode_def decode_weather_def login_decode_def decode_kill_def
        and_then_Inr_iff Let_def split: if_splits)
  from p(2) show ?thesis
    using decode_routed_wf [OF wf] decode_flight_plan_wf [OF wf] others
    by (auto simp: decode_packet_def split: if_splits)
qed

section \<open>Encoding and decoding again\<close>

text \<open>The fields a recipient reads: a field with colons arrives as several.\<close>

definition spread :: "string list \<Rightarrow> string list" where
  "spread fs = concat (map (split_on colon) fs)"

lemma spread_plain [simp]: "list_all text_ok fs \<Longrightarrow> spread fs = fs"
  by (induction fs) (simp_all add: spread_def text_ok_def)

lemma spread_single [simp]: "spread [m] = split_on colon m"
  by (simp add: spread_def)

lemma concat_colon_split: "concat (map (\<lambda>f. colon # f) (split_on colon m)) = colon # m"
  using join_concat [of "[]" colon "split_on colon m"] by (simp add: join_Cons)

lemma concat_colon_spread:
  "concat (map (\<lambda>f. colon # f) (spread fs)) = concat (map (\<lambda>f. colon # f) fs)"
  by (induction fs) (simp_all add: spread_def concat_colon_split)

lemma spread_pieces:
  assumes "list_all valid_utf8 fs"
  shows "list_all (\<lambda>w. CHR '':'' \<notin> set w \<and> valid_utf8 w) (spread fs)"
proof -
  have "CHR '':'' \<notin> set w \<and> valid_utf8 w" if "f \<in> set fs" "w \<in> set (split_on colon f)" for f w
  proof -
    from assms that(1) have "valid_utf8 f" by (simp add: list_all_iff)
    then have "\<forall>w \<in> set (split_on colon f). valid_utf8 w" using valid_utf8_split [of colon f] by simp
    with that(2) show ?thesis using split_on_pieces [of w colon f] by blast
  qed
  then show ?thesis by (auto simp: spread_def list_all_iff)
qed

definition routed_packet :: "raw_packet_kind \<Rightarrow> string \<Rightarrow> string \<Rightarrow> string \<Rightarrow> string list \<Rightarrow> raw_packet" where
  "routed_packet k cmd s d fs =
     \<lparr>rp_kind = k, rp_command = cmd, rp_source = s, rp_destination = d, rp_fields = spread fs\<rparr>"

lemma routed_packet_sel [simp]:
  "rp_kind (routed_packet k cmd s d fs) = k" "rp_command (routed_packet k cmd s d fs) = cmd"
  "rp_source (routed_packet k cmd s d fs) = s" "rp_destination (routed_packet k cmd s d fs) = d"
  "rp_fields (routed_packet k cmd s d fs) = spread fs"
  by (simp_all add: routed_packet_def)

definition routed_command :: "string \<Rightarrow> bool" where
  "routed_command cmd =
     (cmd \<in> {''TM'', ''PI'', ''PO'', ''CQ'', ''CR'', ''FP'', ''HO'', ''HA'', ''SB'', ''PC'', ''C?'', ''CI''})"

lemma routed_command_shape:
  "routed_command cmd \<Longrightarrow> length cmd = 2 \<and> colon \<notin> set cmd \<and> is_ascii cmd \<and> cmd \<noteq> ''DI''"
  by (auto simp: routed_command_def byte_def is_ascii_def)

lemma command_frame_decode:
  assumes "command_frame k cmd s d fs = Inr f" "k = K_Client \<or> k = K_Request" "routed_command cmd"
    and "is_ascii s" "text_ok s" "text_ok d" "list_all valid_utf8 fs"
  shows "classic_decode (frame_bytes f) = decode_packet (routed_packet k cmd s d fs)"
proof -
  let ?p = "routed_packet k cmd s d fs"
  have "frame_bytes f = packet_bytes
      \<lparr>rp_kind = k, rp_command = cmd, rp_source = s, rp_destination = d, rp_fields = fs\<rparr>"
    using assms(1) by (simp add: command_frame_def packet_frame_Inr)
  also have "\<dots> = packet_bytes ?p"
    using assms(2) by (auto simp: packet_bytes_def packet_head_def routed_packet_def concat_colon_spread)
  finally have bytes: "frame_bytes f = packet_bytes ?p" .
  have "list_all (\<lambda>w. CHR '':'' \<notin> set w \<and> valid_utf8 w) (spread fs)"
    using assms(7) by (rule spread_pieces)
  with assms(2,4-6) routed_command_shape [OF assms(3)] have "wf_packet ?p"
    by (auto simp: wf_packet_def text_ok_def)
  then show ?thesis by (simp add: bytes classic_decode_def parse_packet_bytes)
qed

lemma text_ok_utf8: "text_ok w \<Longrightarrow> valid_utf8 w"
  by (simp add: text_ok_def)

lemma list_text_ok_utf8: "list_all text_ok ws \<Longrightarrow> list_all valid_utf8 ws"
  by (simp add: list_all_iff text_ok_def)

lemma dest_ok_text: "dest_ok d \<Longrightarrow> text_ok (destination_text d) \<and> destination_parse (destination_text d) = Inr d"
  by (simp add: dest_ok_def)

lemma show_int_text_ok: "text_ok (show_int i)"
proof -
  have "is_ascii (show_int i)"
    by (auto simp: is_ascii_def list_all_iff show_int_def is_ascii_digit_def byte_def dest!: show_nat_digits)
  then show ?thesis using show_int_no_colon [of i] by (simp add: text_ok_def valid_utf8_ascii)
qed

text \<open>The commands whose event carries no more than the command: each encoder is undone by its decoder.\<close>

lemmas relay_decode = routed_command_def wf_callsign_ascii wf_callsign_text_ok dest_ok_text
  decode_packet_def callsign_parse_as_str decode_callsign_def decode_destination_def
  require_fields_def list_text_ok_utf8 text_ok_utf8

lemma direct_callsign_ok: "dest_ok (To_Direct c) \<Longrightarrow> direct_callsign (as_str c) cmd = Inr c"
  by (simp add: direct_callsign_Inr dest_ok_def)

lemma direct_destination_ok:
  "dest_ok d \<Longrightarrow> d = To_Direct c \<Longrightarrow> direct_destination (as_str c) cmd = Inr d"
  by (simp add: direct_destination_Inr dest_ok_def)

lemma relay_message:
  assumes "wf_callsign s" "dest_ok d" "valid_utf8 m"
  shows "command_frame K_Client ''TM'' (as_str s) (destination_text d) [m] = Inr f
      \<Longrightarrow> classic_decode (frame_bytes f) = Inr (C_Text s d m)"
    and "command_frame K_Request ''PI'' (as_str s) (destination_text d) [m] = Inr f
      \<Longrightarrow> classic_decode (frame_bytes f) = Inr (C_Ping s d m)"
    and "command_frame K_Request ''PO'' (as_str s) (destination_text d) [m] = Inr f
      \<Longrightarrow> classic_decode (frame_bytes f) = Inr (C_Pong s d m)"
  using assms command_frame_decode [of K_Client "''TM''" "as_str s" "destination_text d" "[m]" f]
    command_frame_decode [of K_Request "''PI''" "as_str s" "destination_text d" "[m]" f]
    command_frame_decode [of K_Request "''PO''" "as_str s" "destination_text d" "[m]" f]
  by (simp_all add: relay_decode decode_text_def decode_ping_pong_def)

lemma relay_query:
  assumes "wf_callsign s" "dest_ok d" "kind_ok k" "list_all text_ok args"
    and "command_frame K_Request ''CQ'' (as_str s) (destination_text d) (query_kind_text k # args) = Inr f"
  shows "classic_decode (frame_bytes f) = Inr (C_Query s d k args)"
  using assms command_frame_decode [OF assms(5)]
  by (simp add: relay_decode decode_query_response_def kind_ok_def)

lemma relay_response:
  assumes "wf_callsign s" "dest_ok (To_Direct c)" "kind_ok k" "args \<noteq> []" "list_all text_ok args"
    and "command_frame K_Request ''CR'' (as_str s) (as_str c) (query_kind_text k # args) = Inr f"
  shows "classic_decode (frame_bytes f) = Inr (C_Response s (To_Direct c) k args)"
  using assms command_frame_decode [OF assms(6)]
  by (simp add: relay_decode decode_query_response_def kind_ok_def direct_destination_ok Suc_le_eq
      dest_ok_Direct_wf)

lemma relay_handoff:
  assumes "wf_callsign s" "dest_ok (To_Direct t)" "fs \<noteq> []" "list_all text_ok fs"
    and "command_frame K_Request (case k of H_Request \<Rightarrow> ''HO'' | H_Accept \<Rightarrow> ''HA'') (as_str s) (as_str t) fs = Inr f"
  shows "classic_decode (frame_bytes f) = Inr (C_Handoff s t k fs)"
  using assms command_frame_decode [OF assms(5)]
  by (cases k)
    (simp_all add: relay_decode decode_direct_client_command_def direct_callsign_ok dest_ok_Direct_wf)

lemma relay_client_data:
  assumes "wf_callsign s" "dest_ok (To_Direct t)" "k = CommunicationReply \<longrightarrow> fs \<noteq> []" "list_all text_ok fs"
    and "encode_client_data s t k fs = Inr f"
  shows "classic_decode (frame_bytes f) = Inr (C_ClientData s t k fs)"
  using assms command_frame_decode [OF assms(5) [unfolded encode_client_data_def Let_def]]
  by (cases k)
    (simp_all add: relay_decode decode_direct_client_command_def direct_callsign_ok dest_ok_Direct_wf)

lemma relay_flight_plan:
  assumes "plan_wire_ok p" "text_ok (destination_text d)" "encode_flight_plan p d = Inr f"
  shows "classic_decode (frame_bytes f) = Inr (C_FlightPlan p)"
  using assms command_frame_decode [OF assms(3) [unfolded encode_flight_plan_def]]
  by (simp add: relay_decode decode_flight_plan_def plan_wire_ok_def show_int_text_ok parse_show_i32
      parse_i32_def first_char_def numeral_eq_Suc)

section \<open>Relayed commands\<close>

lemma relay_wf:
  assumes wf: "wf_command cmd" and ev: "relayed cmd = Some ev" and enc: "classic_encode ctx ev = Inr fs"
  shows "\<exists>f. fs = [f] \<and> classic_decode (frame_bytes f) = Inr cmd"
proof -
  note defs = classic_encode_def encode_routed_def encode_query_def and_then_Inr_iff
  show ?thesis
  proof (cases cmd)
    case (C_Text s d m)
    with wf ev enc show ?thesis using relay_message(1) [of s d m] by (auto simp: defs)
  next
    case (C_Ping s d m)
    with wf ev enc show ?thesis using relay_message(2) [of s d m] by (auto simp: defs)
  next
    case (C_Pong s d m)
    with wf ev enc show ?thesis using relay_message(3) [of s d m] by (auto simp: defs)
  next
    case (C_Query s d k args)
    with wf ev enc show ?thesis using relay_query [of s d k args] by (auto simp: defs)
  next
    case (C_Response s d k args)
    with wf ev enc show ?thesis using relay_response [of s _ k args] by (auto simp: defs)
  next
    case (C_Handoff s t k flds)
    with wf ev enc show ?thesis using relay_handoff [of s t flds k] by (auto simp: defs)
  next
    case (C_ClientData s t k flds)
    with wf ev enc show ?thesis using relay_client_data [of s t k flds] by (auto simp: defs)
  next
    case (C_FlightPlan p)
    with wf ev enc show ?thesis
      using relay_flight_plan [of p To_Atc] by (auto simp: defs text_ok_def byte_def)
  qed (use ev in simp_all)
qed


section \<open>A relayed message always fits\<close>

text \<open>
  The encoded form has the size of the frame it came from and brings in no line delimiter, so
  a message that reached the server in one frame leaves it in one frame.
\<close>

definition plain :: "string \<Rightarrow> bool" where
  "plain w = list_all (\<lambda>c. \<not> is_delim c) w"

lemma plain_simps [simp]:
  "plain []" "plain (c # w) \<longleftrightarrow> \<not> is_delim c \<and> plain w" "plain (v @ w) \<longleftrightarrow> plain v \<and> plain w"
  by (simp_all add: plain_def)

lemma is_delim_upper [simp]: "is_delim (upper_byte c) = is_delim c"
  by (auto simp: is_delim_def cr_def lf_def upper_byte_fixed byte_def)

lemma plain_upper [simp]: "plain (to_ascii_uppercase w) = plain w"
  by (simp add: plain_def to_ascii_uppercase_def list_all_iff)

text \<open>What a decoded identifier is written as: as long as it was read, with no new delimiter.\<close>

definition written :: "string \<Rightarrow> string \<Rightarrow> bool" where
  "written v w = (length w = length v \<and> (plain v \<longrightarrow> plain w))"

lemma written_callsign: "callsign_parse v = Inr c \<Longrightarrow> written v (as_str c)"
  by (auto simp: callsign_parse_def written_def split: if_splits)

lemma written_upper: "w = to_ascii_uppercase v \<or> w = v \<Longrightarrow> written v w"
  by (auto simp: written_def)

lemma written_destination: "destination_parse v = Inr d \<Longrightarrow> written v (destination_text d)"
  by (rule written_upper, cases "callsign_parse v")
    (auto simp: destination_parse_def callsign_parse_def Let_def split: if_splits)

lemma written_query_kind: "written v (query_kind_text (decode_query_kind v))"
  by (rule written_upper) (auto simp: decode_query_kind_def Let_def)

lemma command_frame_fits:
  assumes "list_all (\<lambda>c. \<not> is_delim c) (packet_bytes p)" "length (packet_bytes p) \<le> CLASSIC_MAX_FRAME_BYTES"
    and "rp_kind p \<noteq> K_PilotPosition" "rp_kind p \<noteq> K_AtcPosition" "rp_command p = cmd" "cmd \<noteq> ''DI''"
    and "k = K_Client \<or> k = K_Request"
    and "written (rp_source p) s" "written (rp_destination p) d"
    and "written (concat (map (\<lambda>f. colon # f) (rp_fields p))) (concat (map (\<lambda>f. colon # f) fs))"
  shows "\<exists>f. command_frame k cmd s d fs = Inr f"
proof -
  let ?q = "\<lparr>rp_kind = k, rp_command = cmd, rp_source = s, rp_destination = d, rp_fields = fs\<rparr>"
  have body: "packet_bytes r = kind_prefix (rp_kind r) # rp_command r @ rp_source r @ colon #
      rp_destination r @ concat (map (\<lambda>f. colon # f) (rp_fields r))"
    if "rp_kind r \<noteq> K_PilotPosition" "rp_kind r \<noteq> K_AtcPosition" "rp_command r \<noteq> ''DI''" for r
    using that by (cases "rp_kind r") (simp_all add: packet_bytes_def packet_head_def)
  have p: "packet_bytes p = kind_prefix (rp_kind p) # cmd @ rp_source p @ colon #
      rp_destination p @ concat (map (\<lambda>f. colon # f) (rp_fields p))"
    using body [of p] assms(3-6) by simp
  have q: "packet_bytes ?q = kind_prefix k # cmd @ s @ colon # d @ concat (map (\<lambda>f. colon # f) fs)"
    using body [of ?q] assms(6,7) by auto
  have "length (packet_bytes ?q) = length (packet_bytes p)"
    using assms(8-10) unfolding p q by (simp add: written_def)
  moreover have "\<not> is_delim (kind_prefix k)"
    using assms(7) by (auto simp: is_delim_def cr_def lf_def)
  then have "plain (packet_bytes ?q)"
    using assms(1,8-10) unfolding p q plain_def [symmetric] by (simp add: written_def)
  ultimately show ?thesis
    using assms(2) by (simp add: command_frame_def packet_frame_Inr plain_def)
qed

lemma written_refl [simp]: "written w w"
  by (simp add: written_def)

lemma written_prefix: "written v w \<Longrightarrow> written (colon # v @ u) (colon # w @ u)"
  by (auto simp: written_def)

lemma joined_fields: "fs \<noteq> [] \<Longrightarrow> concat (map (\<lambda>f. colon # f) fs) = colon # join_with colon fs"
  using join_concat [of "[]" colon fs] by (simp add: join_Cons)

text \<open>
  Excluded are flight plans and pings without payload fields: their encoded form may be longer
  than what was read (the destination becomes \<open>*A\<close>, an empty payload becomes a field).
\<close>

definition message_command :: "command \<Rightarrow> bool" where
  "message_command cmd =
     (case cmd of
        C_Text _ _ _ \<Rightarrow> True | C_Ping _ _ m \<Rightarrow> m \<noteq> [] | C_Pong _ _ m \<Rightarrow> m \<noteq> []
      | C_Query _ _ _ _ \<Rightarrow> True | C_Response _ _ _ _ \<Rightarrow> True | C_Handoff _ _ _ _ \<Rightarrow> True
      | C_ClientData _ _ _ _ \<Rightarrow> True | _ \<Rightarrow> False)"

lemma decode_packet_message:
  assumes "decode_packet p = Inr cmd" "message_command cmd"
  shows "rp_kind p \<noteq> K_PilotPosition \<and> rp_kind p \<noteq> K_AtcPosition \<and>
    (decode_query_response p = Inr cmd \<and> (rp_command p = ''CQ'' \<or> rp_command p = ''CR'')
     \<or> decode_direct_client_command p = Inr cmd
     \<or> decode_text p = Inr cmd \<and> rp_command p = ''TM''
     \<or> decode_ping_pong p = Inr cmd \<and> (rp_command p = ''PI'' \<or> rp_command p = ''PO''))"
proof -
  have no: "\<not> message_command cmd" if "position_decode p = Inr cmd \<or> decode_weather p = Inr cmd
      \<or> login_decode p = Inr cmd \<or> decode_kill p = Inr cmd \<or> decode_flight_plan p = Inr cmd
      \<or> and_then (decode_callsign (rp_source p) E_InvalidSource) (\<lambda>c. Inr (C_Logoff c)) = Inr cmd"
    using that
    by (cases "rp_kind p"; cases "rp_fields p"; cases "tl (rp_fields p)")
      (auto simp: position_decode_def decode_weather_def login_decode_def decode_kill_def
        decode_flight_plan_def message_command_def and_then_Inr_iff Let_def split: if_splits)
  with assms show ?thesis
    by (auto simp: decode_packet_def split: if_splits)
qed

lemma relay_fits:
  assumes dec: "decode_packet p = Inr cmd" and msg: "message_command cmd" and ev: "relayed cmd = Some ev"
      and fit: "list_all (\<lambda>c. \<not> is_delim c) (packet_bytes p)" "length (packet_bytes p) \<le> CLASSIC_MAX_FRAME_BYTES"
  shows "\<exists>fs. classic_encode ctx ev = Inr fs"
proof -
  note pos = decode_packet_message [OF dec msg]
  note fits = command_frame_fits [OF fit conjunct1 [OF pos] conjunct1 [OF conjunct2 [OF pos]]]
  note w = written_callsign written_destination written_prefix [OF written_query_kind]
  from pos consider
      (query) "decode_query_response p = Inr cmd" "rp_command p = ''CQ'' \<or> rp_command p = ''CR''"
    | (direct) "decode_direct_client_command p = Inr cmd"
    | (message) "decode_text p = Inr cmd" "rp_command p = ''TM''"
    | (ping) "decode_ping_pong p = Inr cmd" "rp_command p = ''PI'' \<or> rp_command p = ''PO''"
    by blast
  then show ?thesis
  proof cases
    case message
    then obtain s d where p: "callsign_parse (rp_source p) = Inr s" "destination_parse (rp_destination p) = Inr d"
        "rp_fields p \<noteq> []" "cmd = C_Text s d (join_with colon (rp_fields p))"
      by (auto simp: decode_text_def and_then_Inr_iff Suc_le_eq)
    have "\<exists>f. command_frame K_Client ''TM'' (as_str s) (destination_text d) [join_with colon (rp_fields p)] = Inr f"
      using p message by (intro fits) (auto simp: w joined_fields)
    with p ev show ?thesis by (auto simp: classic_encode_def encode_routed_def)
  next
    case ping
    then obtain s d where p: "callsign_parse (rp_source p) = Inr s" "destination_parse (rp_destination p) = Inr d"
        "cmd = (if rp_command p = ''PI'' then C_Ping else C_Pong) s d (join_with colon (rp_fields p))"
      by (auto simp: decode_ping_pong_def and_then_Inr_iff Let_def split: if_splits)
    with msg have ne: "rp_fields p \<noteq> []" by (auto simp: message_command_def split: if_splits)
    have "\<exists>f. command_frame K_Request (rp_command p) (as_str s) (destination_text d) [join_with colon (rp_fields p)] = Inr f"
      using p ne ping by (intro fits) (auto simp: w joined_fields)
    with p ev ping show ?thesis by (auto simp: classic_encode_def encode_routed_def split: if_splits)
  next
    case query
    then obtain s d v args where p: "callsign_parse (rp_source p) = Inr s" "destination_parse (rp_destination p) = Inr d"
        "rp_fields p = v # args"
        "cmd = (if rp_command p = ''CR'' then C_Response else C_Query) s d (decode_query_kind v) args"
      by (cases "rp_fields p")
        (auto simp: decode_query_response_def and_then_Inr_iff Let_def direct_destination_Inr split: if_splits)
    have "\<exists>f. command_frame K_Request (rp_command p) (as_str s) (destination_text d)
        (query_kind_text (decode_query_kind v) # args) = Inr f"
      using p query by (intro fits) (auto simp: w)
    with p ev query show ?thesis by (auto simp: classic_encode_def encode_query_def split: if_splits)
  next
    case direct
    then obtain s t where p: "callsign_parse (rp_source p) = Inr s" "destination_parse (rp_destination p) = Inr (To_Direct t)"
      and c: "(\<exists>k. cmd = C_Handoff s t k (rp_fields p) \<and> rp_command p = (case k of H_Request \<Rightarrow> ''HO'' | H_Accept \<Rightarrow> ''HA''))
        \<or> (\<exists>k. cmd = C_ClientData s t k (rp_fields p) \<and> rp_command p = (case k of SquawkBox \<Rightarrow> ''SB''
             | ProController \<Rightarrow> ''PC'' | CommunicationRequest \<Rightarrow> ''C?'' | CommunicationReply \<Rightarrow> ''CI''))"
      by (auto simp: decode_direct_client_command_def and_then_Inr_iff direct_callsign_Inr split: if_splits)
    from c have "rp_command p \<noteq> ''DI''"
      by (elim disjE exE conjE) (simp_all split: handoff_kind.split client_data_kind.split)
    then have "\<exists>f. command_frame k (rp_command p) (as_str s) (as_str t) (rp_fields p) = Inr f"
      if "k = K_Client \<or> k = K_Request" for k
      using p w(2) [OF p(2)] that by (intro fits) (auto simp: w)
    note fr = this [of K_Client] this [of K_Request]
    from c show ?thesis
    proof (elim disjE exE conjE)
      fix k
      assume "cmd = C_Handoff s t k (rp_fields p)" "rp_command p = (case k of H_Request \<Rightarrow> ''HO'' | H_Accept \<Rightarrow> ''HA'')"
      with fr ev show ?thesis by (cases k) (auto simp: classic_encode_def encode_routed_def)
    next
      fix k
      assume "cmd = C_ClientData s t k (rp_fields p)" "rp_command p = (case k of SquawkBox \<Rightarrow> ''SB''
             | ProController \<Rightarrow> ''PC'' | CommunicationRequest \<Rightarrow> ''C?'' | CommunicationReply \<Rightarrow> ''CI'')"
      with fr ev show ?thesis
        by (cases k) (auto simp: classic_encode_def encode_routed_def encode_client_data_def)
    qed
  qed
qed

end
