(* ===== verification/Classic_Properties.thy ===== *)
theory Classic_Properties
  imports Classic_Relay Net_Answers
begin

text \<open>
  The properties of the classic dialect, alone and together with the core: what the frame of
  one client becomes for another, whom a frame can speak for, and what leaves the encoder.
\<close>

section \<open>What the core sends on\<close>

lemma in_send_iff: "dl \<in> set (ef_deliveries (send rs ev)) \<longleftrightarrow> rs \<noteq> [] \<and> dl = \<lparr>dl_recipients = rs, dl_event = ev\<rparr>"
  by (auto simp: send_def effects_default_def)

lemma error_effect_self:
  "dl \<in> set (ef_deliveries (error_effect i c code env)) \<Longrightarrow> dl_recipients dl = [i]"
  by (simp add: error_effect_def in_send_iff)

lemma default_no_delivery [simp]: "ef_deliveries effects_default = []"
  by (simp add: effects_default_def)

text \<open>Whatever another session is sent because of such a command is the event of the command.\<close>

lemma query_relayed:
  assumes "dl \<in> set (ef_deliveries (handle_query lm st i s d k args))" "r \<in> set (dl_recipients dl)" "r \<noteq> i"
  shows "dl_event dl = Ev_Query (as_str s) d k args"
  using assms
  by (auto simp: handle_query_def error_effect_def in_send_iff
      split: if_splits query_kind.splits option.splits list.splits sum.splits)

lemma event_relayed:
  assumes "relayed cmd = Some ev" "dl \<in> set (ef_deliveries (fst (execute nw i cmd st)))"
    and "r \<in> set (dl_recipients dl)" "r \<noteq> i"
  shows "dl_event dl = ev"
proof -
  have *: "execute nw i cmd st = execute_active (nw_libm nw) i cmd st"
    using assms(1) by (cases cmd) (simp_all add: execute_def)
  from assms(2) * obtain x p where x: "session_of st i = Some x" "s_phase x = Active" "s_presence x = Some p"
      "command_source cmd = Some (cp_callsign p)"
    using assms(3,4) by (auto simp: execute_active_def Let_def dest: error_effect_self split: option.splits if_splits)
  from assms x show ?thesis unfolding *
    by (cases cmd)
      (auto simp: execute_active_def Let_def handle_routed_command_def handle_ping_def
        handle_state_command_def in_send_iff query_relayed split: if_splits)
qed

lemma message_encoded:
  assumes "classic_decode frame = Inr cmd" "message_command cmd" "relayed cmd = Some ev"
    and "list_all (\<lambda>c. \<not> is_delim c) frame" "length frame \<le> CLASSIC_MAX_FRAME_BYTES"
  shows "\<exists>f. classic_encode ctx ev = Inr [f] \<and> classic_decode (frame_bytes f) = Inr cmd"
proof -
  from assms(1) obtain p where p: "raw_packet_parse frame = Inr p" "decode_packet p = Inr cmd"
    by (auto simp: classic_decode_def and_then_Inr_iff)
  have np: "rp_kind p \<noteq> K_PilotPosition" using decode_packet_message [OF p(2) assms(2)] by blast
  from p(1) obtain k body where k: "frame = kind_prefix k # body" "k \<noteq> K_PilotPosition"
    using parse_kind(1) np by (elim raw_packet_parse_InrE) blast
  then have "\<not> compact_pilot_frame frame" by (cases k) (auto simp: compact_pilot_frame_def)
  with p(1) have "packet_bytes p = frame" by (rule packet_bytes_parse)
  with relay_fits [OF p(2) assms(2,3), of ctx] assms(4,5) obtain fs where fs: "classic_encode ctx ev = Inr fs"
    by auto
  with relay_wf [OF classic_decode_wf [OF assms(1)] assms(3) fs] show ?thesis by auto
qed

section \<open>The properties\<close>

text \<open>
  C13: What one classic client says, the others read. When the frame of a classic client (within
  the frame limit, without delimiters: what its codec yields) is a text, a ping or pong with a
  payload, a query, a response, a handoff or client data, then every event it makes the core
  deliver to another session is encoded for classic recipients as exactly one frame, and that
  frame decodes to the very command the sender's frame decoded to.
\<close>

theorem classic_relay:
  assumes "classic_decode frame = Inr cmd" and "message_command cmd"
    and "list_all (\<lambda>c. \<not> is_delim c) frame" and "length frame \<le> CLASSIC_MAX_FRAME_BYTES"
    and "dl \<in> set (ef_deliveries (fst (execute nw i cmd st)))"
    and "r \<in> set (dl_recipients dl)" and "r \<noteq> i"
  shows "\<exists>f. classic_encode ctx (dl_event dl) = Inr [f] \<and> classic_decode (frame_bytes f) = Inr cmd"
proof -
  from assms(2) obtain ev where ev: "relayed cmd = Some ev"
    by (cases cmd) (auto simp: message_command_def)
  from message_encoded [OF assms(1,2) ev assms(3,4)] event_relayed [OF ev assms(5-7)]
  show ?thesis by simp
qed

definition demo_context :: encode_context where
  "demo_context = \<lparr>ec_connection_id = 2, ec_recipient = None, ec_server_name = ''AsterFSD''\<rparr>"

definition demo_frame :: string where
  "demo_frame = ''#TMafr1:lfpg:hi:there''"

lemma demo_frame_decode: "classic_decode demo_frame = Inr (C_Text demo_pilot (To_Direct demo_tower) ''hi:there'')"
  unfolding demo_frame_def by code_simp

theorem classic_relay_witness:
  "\<exists>f. classic_encode demo_context (Ev_Text demo_pilot (To_Direct demo_tower) ''hi:there'') = Inr [f]
     \<and> classic_decode (frame_bytes f) = Inr (C_Text demo_pilot (To_Direct demo_tower) ''hi:there'')"
proof -
  let ?cmd = "C_Text demo_pilot (To_Direct demo_tower) ''hi:there''"
  let ?dl = "\<lparr>dl_recipients = [2], dl_event = Ev_Text demo_pilot (To_Direct demo_tower) ''hi:there''\<rparr>"
  have "?dl \<in> set (ef_deliveries (fst (execute demo_network 1 ?cmd demo_net)))"
    by (simp add: execute_def execute_active_def handle_routed_command_def resolve_destination_def
        demo_lookup demo_pilot_session_def demo_tower_session_def presence_of_login_def demo_pilot_login_def
        in_send_iff demo_network_def Let_def)
  moreover have "list_all (\<lambda>c. \<not> is_delim c) demo_frame \<and> length demo_frame \<le> CLASSIC_MAX_FRAME_BYTES"
    by (simp add: demo_frame_def is_delim_def cr_def lf_def CLASSIC_MAX_FRAME_BYTES_def)
  ultimately show ?thesis
    using classic_relay [OF demo_frame_decode, of ?dl demo_network 1 demo_net 2 demo_context]
    by (simp add: message_command_def)
qed

text \<open>
  A relayed flight plan is not altered either: whenever a classic recipient is sent a frame
  for a plan a classic client filed, the frame decodes to the plan that was filed.
\<close>

theorem classic_plan_relay:
  assumes "classic_decode frame = Inr (C_FlightPlan plan)"
    and "dl \<in> set (ef_deliveries (fst (execute nw i (C_FlightPlan plan) st)))"
    and "r \<in> set (dl_recipients dl)" and "r \<noteq> i"
    and "classic_encode ctx (dl_event dl) = Inr fs"
  shows "\<exists>f. fs = [f] \<and> classic_decode (frame_bytes f) = Inr (C_FlightPlan plan)"
  using relay_wf [OF classic_decode_wf [OF assms(1)], of "dl_event dl" ctx fs]
    event_relayed [OF _ assms(2-4), of "Ev_FlightPlan plan To_Atc"] assms(5)
  by simp

section \<open>Whom a frame speaks for\<close>

lemma decode_source:
  assumes "decode_packet p = Inr cmd"
  shows "\<exists>c. callsign_parse (rp_source p) = Inr c \<and> command_source cmd = Some c"
  using assms
  by (cases "rp_kind p"; cases "rp_fields p"; cases "tl (rp_fields p)")
    (auto simp: decode_packet_def position_decode_def decode_query_response_def decode_weather_def
      decode_direct_client_command_def login_decode_def decode_text_def decode_flight_plan_def
      decode_ping_pong_def decode_kill_def and_then_Inr_iff Let_def split: if_splits)

lemma foreign_source_harmless:
  assumes "session_of st i = Some x" "s_phase x = Active" "session_callsign x = Some c"
    and "command_source cmd \<noteq> Some c"
  shows "snd (execute nw i cmd st) = st \<and> ef_close (fst (execute nw i cmd st)) = None
    \<and> (\<forall>dl \<in> set (ef_deliveries (fst (execute nw i cmd st))). dl_recipients dl = [i])"
  using assms
  by (cases cmd)
    (auto simp: execute_def execute_active_def session_callsign_def Let_def identify_def login_def
      identify_begin_def login_generation_def weather_request_def weather_request_coordinates_def
      error_effect_def send_def effects_default_def split: option.splits)

text \<open>
  C15: No frame acts in another client's name. Once a session is active under a callsign, a
  classic frame it sends whose source field is not that callsign (whatever the command, login
  and weather requests included) leaves the state as it is, closes nothing, and is answered to
  the sender alone.
\<close>

theorem no_impersonation:
  assumes "session_of st i = Some x" and "s_phase x = Active" and "session_callsign x = Some c"
    and "raw_packet_parse frame = Inr p" and "callsign_parse (rp_source p) \<noteq> Inr c"
    and "classic_decode frame = Inr cmd"
  shows "snd (execute nw i cmd st) = st \<and> ef_close (fst (execute nw i cmd st)) = None
    \<and> (\<forall>dl \<in> set (ef_deliveries (fst (execute nw i cmd st))). dl_recipients dl = [i])"
proof -
  from assms(4,6) have "decode_packet p = Inr cmd" by (simp add: classic_decode_def)
  from decode_source [OF this] assms(5) have "command_source cmd \<noteq> Some c" by auto
  with assms(1-3) show ?thesis by (rule foreign_source_harmless)
qed

theorem no_impersonation_witness:
  "snd (execute demo_network 1 (C_Kill demo_tower demo_pilot ''x'') demo_net) = demo_net"
proof -
  have "raw_packet_parse ''$!!LFPG:AFR1:x'' = Inr \<lparr>rp_kind = K_Request, rp_command = ''!!'',
      rp_source = ''LFPG'', rp_destination = ''AFR1'', rp_fields = [''x'']\<rparr>"
    by code_simp
  moreover have "classic_decode ''$!!LFPG:AFR1:x'' = Inr (C_Kill demo_tower demo_pilot ''x'')"
    by code_simp
  moreover have "callsign_parse ''LFPG'' \<noteq> Inr demo_pilot" by code_simp
  ultimately show ?thesis
    using no_impersonation [OF demo_lookup(1), of demo_pilot "''$!!LFPG:AFR1:x''" _ _ demo_network]
    by (simp add: demo_pilot_session_def session_callsign_def presence_of_login_def demo_pilot_login_def)
qed

section \<open>What leaves the encoder\<close>

text \<open>
  Whatever event is encoded for a classic recipient, the frames arrive: sent one after the
  other, each closed by CR LF, they are split by a codec with the classic limit into exactly
  the frames that were encoded, with nothing left over and no error.
\<close>

theorem classic_frames_arrive:
  assumes "classic_encode ctx ev = Inr fs" and "CLASSIC_MAX_FRAME_BYTES \<le> fc_max_frame_bytes codec"
  shows "drain codec (concat (map (\<lambda>f. frame_bytes f @ [cr, lf]) fs)) = (map frame_bytes fs, Inr [])"
proof -
  from classic_encode_sendable [OF assms(1)] assms(2)
  have "\<forall>f \<in> set fs. length (frame_bytes f) \<le> fc_max_frame_bytes codec"
    by (auto simp: list_all_iff classic_sendable_def)
  moreover from assms(1) have "pb_encode classic_protocol ctx ev = Inr fs"
    by (simp add: classic_protocol_def)
  ultimately show ?thesis by (intro classic.encode_arrives)
qed

theorem classic_frames_arrive_witness:
  "drain \<lparr>fc_max_frame_bytes = 511\<rparr> (''#TMAFR1:*:hi'' @ [cr, lf]) = ([''#TMAFR1:*:hi''], Inr [])"
proof -
  have "classic_encode \<lparr>ec_connection_id = 1, ec_recipient = None, ec_server_name = []\<rparr>
      (Ev_Text demo_pilot To_All ''hi'') = Inr [Wire_Frame ''#TMAFR1:*:hi'']"
    by code_simp
  from classic_frames_arrive [OF this, of "\<lparr>fc_max_frame_bytes = 511\<rparr>"] show ?thesis
    by (simp add: CLASSIC_MAX_FRAME_BYTES_def)
qed

definition demo_plan_frame :: string where
  "demo_plan_frame = ''$FPAFR1:*A:IFR:A320:450:LFPG:1200:1210:FL350:EGLL:1:15:4:30:EGKK:none:DCT''"

definition demo_plan :: flight_plan where
  "demo_plan = \<lparr>fp_callsign = demo_pilot, fp_flight_rules = ''I'', fp_aircraft = ''A320'',
     fp_cruise_speed = 450, fp_departure = ''LFPG'', fp_estimated_departure = 1200,
     fp_actual_departure = 1210, fp_cruise_altitude = ''FL350'', fp_destination = ''EGLL'',
     fp_hours_enroute = 1, fp_minutes_enroute = 15, fp_hours_fuel = 4, fp_minutes_fuel = 30,
     fp_alternate = ''EGKK'', fp_remarks = ''none'', fp_route = ''DCT''\<rparr>"

lemma demo_plan_decode: "classic_decode demo_plan_frame = Inr (C_FlightPlan demo_plan)"
  unfolding demo_plan_frame_def demo_plan_def by code_simp

text \<open>The diameter of the earth in nautical miles, as the code computes it.\<close>

lemma earth_radius: "f64_lit (3440065 / 1000) = F64_Fin False (7564782935610491 / 2199023255552)"
proof -
  have "(688013 / 200 :: rat) = Fract 688013 200" by (simp add: Fract_of_int_quotient)
  moreover have "coprime (688013::int) 200" by (simp add: coprime_iff_gcd_eq_1 gcd_non_0_int)
  ultimately have "quotient_of (688013 / 200) = (688013, 200)"
    by (simp only: quotient_of_Fract normalize_stable)
  moreover have "ilog2 688013 = 19" "ilog2 200 = 7" by (simp_all add: ilog2.simps)
  ultimately have "rat_exponent (688013 / 200) = 11" by (simp add: rat_exponent_def pow2_def)
  moreover have "\<lfloor>189119573390262272 / 25 :: rat\<rfloor> = 7564782935610490"
    by (rule floor_unique) simp_all
  ultimately show ?thesis
    by (simp add: f64_lit_def f64_round_def Let_def ulp_exponent_def pow2_def round_half_even_def)
qed

lemma earth_diameter:
  "f64_mul (f64_lit (3440065 / 1000)) (f64_lit 2) = F64_Fin False (7564782935610491 / 1099511627776)"
proof -
  have "(7564782935610491 / 1099511627776 :: rat) = Fract 7564782935610491 1099511627776"
    by (simp add: Fract_of_int_quotient)
  moreover have "coprime (7564782935610491::int) 1099511627776"
    by (simp add: coprime_iff_gcd_eq_1 gcd_non_0_int)
  ultimately have "quotient_of (7564782935610491 / 1099511627776) = (7564782935610491, 1099511627776)"
    by (simp only: quotient_of_Fract normalize_stable)
  moreover have "ilog2 7564782935610491 = 52" "ilog2 1099511627776 = 40" by (simp_all add: ilog2.simps)
  ultimately have "rat_exponent (7564782935610491 / 1099511627776) = 12"
    by (simp add: rat_exponent_def pow2_def)
  then show ?thesis
    by (simp add: earth_radius [simplified] f64_round_def Let_def ulp_exponent_def pow2_def round_half_even_def)
qed

definition demo_near_net :: net_state where
  "demo_near_net = put_session 2 (demo_tower_session\<lparr>s_position := Some (Position_Pilot demo_position)\<rparr>) demo_net"

theorem classic_plan_relay_witness:
  "\<exists>f. classic_encode demo_context (Ev_FlightPlan demo_plan To_Atc) = Inr [f]
     \<and> classic_decode (frame_bytes f) = Inr (C_FlightPlan demo_plan)"
proof -
  let ?dl = "\<lparr>dl_recipients = [2], dl_event = Ev_FlightPlan demo_plan To_Atc\<rparr>"
  let ?net = "put_session 1 (demo_pilot_session\<lparr>s_flight_plan := Some demo_plan\<rparr>) demo_near_net"
  have sess: "session_of demo_near_net 1 = Some demo_pilot_session"
    by (simp add: demo_near_net_def put_session_def hm.get_insert demo_lookup)
  have "flight_plan_recipients demo_libm ?net 1 (f64_lit 400) = [2]"
    by (simp add: flight_plan_recipients_def demo_near_net_def put_session_def demo_net_def hm_values_def
        hm_insert_def hm_get_def distance_between_def earth_diameter [simplified] demo_libm_def Let_def
        demo_pilot_session_def demo_tower_session_def fresh_session_def is_atc_def presence_of_login_def
        demo_tower_login_def demo_pilot_login_def f64_round_def split: prod.split)
  then have "?dl \<in> set (ef_deliveries (fst (execute demo_network 1 (C_FlightPlan demo_plan) demo_near_net)))"
    by (simp add: execute_def execute_active_def handle_state_command_def sess in_send_iff
        demo_network_def Let_def demo_pilot_session_def presence_of_login_def demo_pilot_login_def demo_plan_def)
  moreover have "\<exists>fs. classic_encode demo_context (Ev_FlightPlan demo_plan To_Atc) = Inr fs"
  proof -
    have "is_ok (encode_flight_plan demo_plan To_Atc)" unfolding demo_plan_def by code_simp
    then show ?thesis
      by (cases "encode_flight_plan demo_plan To_Atc") (auto simp: classic_encode_def)
  qed
  ultimately show ?thesis
    using classic_plan_relay [OF demo_plan_decode, of ?dl demo_network 1 demo_near_net 2 demo_context] by auto
qed

end
