(* ===== verification/Float_Accuracy.thy ===== *)
theory Float_Accuracy
  imports Float_Text
begin

text \<open>
  How exact the conversions of \<open>Float_Text\<close> are. A magnitude below 256 is rounded to binary64
  with an error of at most \<open>1 / 2 ^ 46\<close>; a value printed with five decimals is off by at most
  half a unit of the last decimal, and printing what was parsed gives the same text again.
\<close>

section \<open>The binary exponent\<close>

lemma ilog2_less: "n < 2 ^ Suc (ilog2 n)"
proof (induction n rule: ilog2.induct)
  case (1 n)
  show ?case
  proof (cases "n < 2")
    case True
    then show ?thesis by (simp add: ilog2.simps [of n])
  next
    case False
    with 1 have "n div 2 < 2 ^ Suc (ilog2 (n div 2))" by simp
    with False show ?thesis by (simp add: ilog2.simps [of n])
  qed
qed

lemma pow2_Suc: "pow2 (e + 1) = 2 * pow2 e"
proof (cases "0 \<le> e")
  case True
  then show ?thesis by (simp add: pow2_def nat_add_distrib)
next
  case False
  then have "nat (- e) = Suc (nat (- e - 1))" by simp
  with False show ?thesis by (auto simp: pow2_def)
qed

lemma pow2_pos [simp]: "0 < pow2 e" "pow2 e \<noteq> 0" "0 \<le> pow2 e"
  by (auto simp: pow2_def)

lemma pow2_mono: "d \<le> e \<Longrightarrow> pow2 d \<le> pow2 e"
proof (induction e rule: int_ge_induct)
  case (step e)
  have "pow2 e < 2 * pow2 e" using pow2_pos(1) [of e] by linarith
  with step show ?case unfolding pow2_Suc by linarith
qed simp

lemma pow2_diff: "pow2 (int a - int b) = 2 ^ a / 2 ^ b"
proof (cases "b \<le> a")
  case True
  then show ?thesis by (simp add: pow2_def nat_diff_distrib power_diff)
next
  case False
  then have "nat (int b - int a) = b - a" by simp
  with False show ?thesis by (simp add: pow2_def power_diff)
qed

lemma rat_exponent_le: "0 < q \<Longrightarrow> pow2 (rat_exponent q) \<le> q"
proof -
  assume q: "0 < q"
  obtain n d where nd: "quotient_of q = (n, d)" by (cases "quotient_of q")
  have d: "0 < d" by (rule quotient_of_denom_pos [OF nd])
  have qe: "q = of_int n / of_int d" by (rule quotient_of_div [OF nd])
  with q d have n: "0 < n" by (simp add: zero_less_divide_iff)
  let ?a = "ilog2 (nat n)" and ?b = "ilog2 (nat d)"
  have "int (2 ^ ?a) \<le> n" using ilog2_le [of "nat n"] n by linarith
  then have lo: "2 ^ ?a \<le> (of_int n :: rat)" by (metis of_int_le_iff of_int_of_nat_eq of_nat_numeral of_nat_power)
  have "d < int (2 ^ Suc ?b)" using ilog2_less [of "nat d"] d by linarith
  then have hi: "(of_int d :: rat) < 2 ^ Suc ?b" by (metis of_int_less_iff of_int_of_nat_eq of_nat_numeral of_nat_power)
  let ?e = "int ?a - int ?b"
  have "pow2 (?e - 1) = 2 ^ ?a / 2 ^ Suc ?b"
    using pow2_Suc [of "?e - 1"] by (simp add: pow2_diff)
  also have "\<dots> \<le> q" unfolding qe
  proof (rule frac_le)
    show "0 \<le> (of_int n :: rat)" "(0 :: rat) < of_int d" using n d by simp_all
  qed (use lo hi in linarith)+
  finally show ?thesis by (simp add: rat_exponent_def nd Let_def)
qed

section \<open>Rounding\<close>

lemma round_half_even_error: "\<bar>of_int (round_half_even q) - q\<bar> \<le> 1 / 2"
proof -
  define r where "r = q - of_int \<lfloor>q\<rfloor>"
  have r: "0 \<le> r" "r < 1" using floor_correct [of q] unfolding r_def by linarith+
  have "of_int (round_half_even q) - q = (if r < 1 / 2 \<or> r = 1 / 2 \<and> even \<lfloor>q\<rfloor> then - r else 1 - r)"
    by (auto simp: round_half_even_def Let_def r_def)
  then show ?thesis using r by (auto simp: abs_le_iff)
qed

lemma round_half_even_unique:
  assumes "\<bar>q - of_int n\<bar> < 1 / 2"
  shows "round_half_even q = n"
proof -
  have "\<bar>of_int (round_half_even q) - (of_int n :: rat)\<bar> < 1"
    using round_half_even_error [of q] assms unfolding abs_less_iff abs_le_iff by linarith
  then have "\<bar>round_half_even q - n\<bar> < 1" by (metis of_int_abs of_int_diff of_int_less_1_iff)
  then show ?thesis by simp
qed

lemma round_half_even_nonneg: "0 \<le> q \<Longrightarrow> 0 \<le> round_half_even q"
  by (auto simp: round_half_even_def Let_def)

lemma rat_exponent_greater: "0 < q \<Longrightarrow> q < pow2 (rat_exponent q + 1)"
proof -
  assume q: "0 < q"
  obtain n d where nd: "quotient_of q = (n, d)" by (cases "quotient_of q")
  have d: "0 < d" by (rule quotient_of_denom_pos [OF nd])
  have qe: "q = of_int n / of_int d" by (rule quotient_of_div [OF nd])
  with q d have n: "0 < n" by (simp add: zero_less_divide_iff)
  let ?a = "ilog2 (nat n)" and ?b = "ilog2 (nat d)"
  have "n < int (2 ^ Suc ?a)" using ilog2_less [of "nat n"] n by linarith
  then have hi: "(of_int n :: rat) < 2 ^ Suc ?a" by (metis of_int_less_iff of_int_of_nat_eq of_nat_numeral of_nat_power)
  have "int (2 ^ ?b) \<le> d" using ilog2_le [of "nat d"] d by linarith
  then have lo: "2 ^ ?b \<le> (of_int d :: rat)" by (metis of_int_le_iff of_int_of_nat_eq of_nat_numeral of_nat_power)
  have "q < 2 ^ Suc ?a / 2 ^ ?b" unfolding qe
    by (rule frac_less) (use lo hi n in simp_all)
  also have "\<dots> = pow2 (int ?a - int ?b + 1)" using pow2_diff [of "Suc ?a" ?b] by (simp add: add.commute add_diff_eq)
  finally show ?thesis by (simp add: rat_exponent_def nd Let_def)
qed

lemma rat_exponent_eqI:
  assumes "pow2 e \<le> q" "q < pow2 (e + 1)"
  shows "rat_exponent q = e"
proof -
  have q: "0 < q" using assms(1) pow2_pos(1) [of e] by linarith
  have "pow2 (rat_exponent q) < pow2 (e + 1)" "pow2 e < pow2 (rat_exponent q + 1)"
    using rat_exponent_le [OF q] rat_exponent_greater [OF q] assms by linarith+
  then have "rat_exponent q < e + 1" "e < rat_exponent q + 1"
    using pow2_mono [of "e + 1" "rat_exponent q"] pow2_mono [of "rat_exponent q + 1" e] by linarith+
  then show ?thesis by simp
qed

text \<open>The value nearest to \<open>q\<close>, given its exponent and its significand.\<close>

lemma f64_round_nearest:
  assumes "pow2 e \<le> q" "q < pow2 (e + 1)" "- 1022 \<le> e" "e < 1023"
    and "\<bar>q / pow2 (e - 52) - of_int m\<bar> < 1 / 2"
  shows "f64_round s q = F64_Fin s (of_int m * pow2 (e - 52))"
proof -
  have q: "0 < q" using assms(1) pow2_pos(1) [of e] by linarith
  have u: "ulp_exponent (rat_exponent q) = e - 52"
    using rat_exponent_eqI [OF assms(1,2)] assms(3) by (simp add: ulp_exponent_def)
  have m: "round_half_even (q / pow2 (e - 52)) = m" by (rule round_half_even_unique [OF assms(5)])
  have "of_int m < q / pow2 (e - 52) + 1" using assms(5) unfolding abs_less_iff by linarith
  then have "of_int m * pow2 (e - 52) < (q / pow2 (e - 52) + 1) * pow2 (e - 52)"
    by (rule mult_strict_right_mono) simp
  also have "\<dots> = q + pow2 (e - 52)" by (simp add: distrib_right)
  also have "\<dots> < pow2 (e + 1) + pow2 (e + 1)"
    using assms(2) pow2_mono [of "e - 52" "e + 1"] by linarith
  also have "\<dots> = pow2 (e + 2)" using pow2_Suc [of "e + 1"] by (simp add: add.assoc)
  also have "\<dots> \<le> pow2 1024" using assms(4) by (intro pow2_mono) simp
  also have "\<dots> = 2 ^ 1024" by (simp add: pow2_def)
  finally show ?thesis using q by (simp add: f64_round_def u m Let_def)
qed

text \<open>Far below the largest value nothing overflows, so evaluation need not compare with \<open>2 ^ 1024\<close>.\<close>

lemma f64_round_code [code]:
  "f64_round s q =
     (if q \<le> 0 then (if q = 0 then F64_Fin s 0 else
        (let u = pow2 (ulp_exponent (rat_exponent q)); m = of_int (round_half_even (q / u)) * u
           in if 2 ^ 1024 \<le> m then F64_Inf s else F64_Fin s m))
      else let e = rat_exponent q; u = pow2 (ulp_exponent e); m = of_int (round_half_even (q / u)) * u
           in if e < 1023 then F64_Fin s m else if 2 ^ 1024 \<le> m then F64_Inf s else F64_Fin s m)"
proof (cases "0 < q \<and> rat_exponent q < 1023")
  case True
  let ?u = "pow2 (ulp_exponent (rat_exponent q))"
  have "of_int (round_half_even (q / ?u)) \<le> q / ?u + 1"
    using round_half_even_error [of "q / ?u"] unfolding abs_le_iff by linarith
  then have "of_int (round_half_even (q / ?u)) * ?u \<le> (q / ?u + 1) * ?u"
    by (rule mult_right_mono) simp
  also have "\<dots> = q + ?u" by (simp add: distrib_right)
  also have "\<dots> < pow2 1023 + pow2 1023"
    using True rat_exponent_greater [of q] pow2_mono [of "rat_exponent q + 1" 1023]
      pow2_mono [of "ulp_exponent (rat_exponent q)" 1023] by (simp add: ulp_exponent_def)
  also have "\<dots> = pow2 1024" using pow2_Suc [of 1023] by simp
  also have "\<dots> = 2 ^ 1024" by (simp add: pow2_def)
  finally show ?thesis using True by (simp add: f64_round_def Let_def not_le)
qed (auto simp: f64_round_def Let_def not_less)

definition rounded_mag :: "rat \<Rightarrow> rat" where
  "rounded_mag q =
     (if q = 0 then 0
      else of_int (round_half_even (q / pow2 (ulp_exponent (rat_exponent q)))) * pow2 (ulp_exponent (rat_exponent q)))"

lemma rounded_mag_error:
  assumes "0 \<le> q" "q < 256"
  shows "\<bar>rounded_mag q - q\<bar> \<le> 1 / 2 ^ 46" and "0 \<le> rounded_mag q"
proof -
  let ?u = "pow2 (ulp_exponent (rat_exponent q))"
  show "\<bar>rounded_mag q - q\<bar> \<le> 1 / 2 ^ 46"
  proof (cases "q = 0")
    case False
    with assms have "pow2 (rat_exponent q) < 256" using rat_exponent_le [of q] by simp
    moreover have "pow2 8 = 256" by (simp add: pow2_def)
    ultimately have "rat_exponent q < 8" using pow2_mono [of 8 "rat_exponent q"] by (cases "rat_exponent q < 8") auto
    then have "?u \<le> pow2 (- 45)" by (intro pow2_mono) (simp add: ulp_exponent_def)
    also have "\<dots> = 2 / 2 ^ 46" by (simp add: pow2_def)
    finally have u: "?u \<le> 2 / 2 ^ 46" .
    have "rounded_mag q - q = (of_int (round_half_even (q / ?u)) - q / ?u) * ?u"
      using False by (simp add: rounded_mag_def left_diff_distrib)
    then have "\<bar>rounded_mag q - q\<bar> = \<bar>of_int (round_half_even (q / ?u)) - q / ?u\<bar> * ?u"
      by (simp only: abs_mult abs_of_pos [OF pow2_pos(1)])
    also have "\<dots> \<le> 1 / 2 * ?u" by (intro mult_right_mono round_half_even_error) simp
    finally show ?thesis using u by simp
  qed (simp add: rounded_mag_def)
  have u: "0 \<le> ?u" by simp
  with assms(1) have "0 \<le> round_half_even (q / ?u)" by (simp add: round_half_even_nonneg)
  with u show "0 \<le> rounded_mag q" by (simp add: rounded_mag_def)
qed

lemma f64_round_small:
  assumes "0 \<le> q" "q < 256"
  shows "f64_round s q = F64_Fin s (rounded_mag q)"
proof -
  have "rounded_mag q \<le> q + 1 / 2 ^ 46" using rounded_mag_error(1) [OF assms] by (simp add: abs_if split: if_splits)
  also have "\<dots> < 2 ^ 9" using assms(2) by simp
  also have "(2 ^ 9 :: rat) \<le> 2 ^ 1024" by (rule power_increasing) simp_all
  finally have "rounded_mag q < 2 ^ 1024" .
  then show ?thesis
    by (cases "q = 0") (simp_all add: f64_round_def rounded_mag_def Let_def)
qed

lemma rounded_mag_int: "0 \<le> n \<Longrightarrow> n < 256 \<Longrightarrow> rounded_mag (of_int n) = of_int n"
  using f64_round_int [of n False] f64_round_small [of "of_int n" False] by simp

section \<open>Decimal digits\<close>

lemma digits_value_append: "digits_value (s @ t) = digits_value s * 10 ^ length t + digits_value t"
proof -
  have step: "foldl (\<lambda>n c. 10 * n + digit_value c) a t = a * 10 ^ length t + digits_value t" for a
    unfolding digits_value_def
  proof (induction t rule: rev_induct)
    case (snoc c t)
    then show ?case by (simp add: distrib_left)
  qed simp
  show ?thesis
    unfolding digits_value_def [of "s @ t"] foldl_append step by (simp add: digits_value_def)
qed

lemma digits_value_zeros: "digits_value (replicate k (CHR ''0'')) = 0"
  by (induction k) (simp_all add: digits_value_def digit_value_def byte_def)

lemma digits_value_show_nat: "digits_value (show_nat n) = n"
proof (induction n rule: show_nat.induct)
  case (1 n)
  show ?case
  proof (cases "n < 10")
    case True
    then show ?thesis by (simp add: show_nat.simps [of n] digits_value_def)
  next
    case False
    have "digits_value [digit_char (n mod 10)] = n mod 10" by (simp add: digits_value_def)
    with False 1 show ?thesis by (simp add: show_nat.simps [of n] digits_value_append)
  qed
qed

lemma length_show_nat: "n < 10 ^ Suc k \<Longrightarrow> length (show_nat n) \<le> Suc k"
proof (induction k arbitrary: n)
  case 0
  then show ?case by (simp add: show_nat.simps [of n])
next
  case (Suc k)
  then have "n div 10 < 10 ^ Suc k" by auto
  from Suc.IH [OF this] show ?case by (simp add: show_nat.simps [of n])
qed

lemma show_padded_fits:
  assumes "n < 10 ^ Suc k"
  shows "length (show_padded (Suc k) n) = Suc k" "digits_value (show_padded (Suc k) n) = n"
  using length_show_nat [OF assms]
  by (simp_all add: show_padded_def Let_def digits_value_append digits_value_zeros digits_value_show_nat)

lemma takeWhile_digits: "list_all is_ascii_digit ds \<Longrightarrow> \<not> is_ascii_digit c \<Longrightarrow>
    takeWhile is_ascii_digit (ds @ c # t) = ds \<and> dropWhile is_ascii_digit (ds @ c # t) = c # t"
  by (induction ds) auto

lemma takeWhile_all_digits: "list_all is_ascii_digit ds \<Longrightarrow>
    takeWhile is_ascii_digit ds = ds \<and> dropWhile is_ascii_digit ds = []"
  by (induction ds) auto

lemma dot_not_digit [simp]: "\<not> is_ascii_digit (CHR ''.'')"
  by (simp add: is_ascii_digit_def byte_def)

lemma digit_start_no_word:
  assumes "is_ascii_digit c"
  shows "\<not> eq_ignore_ascii_case (c # t) ''inf'' \<and> \<not> eq_ignore_ascii_case (c # t) ''infinity''
    \<and> \<not> eq_ignore_ascii_case (c # t) ''nan''"
proof -
  have "byte (upper_byte c) < 65" using assms by (auto simp: byte_upper_byte is_ascii_digit_def)
  then have "upper_byte c \<noteq> CHR ''I'' \<and> upper_byte c \<noteq> CHR ''N''" by (auto simp: byte_def)
  moreover have "to_ascii_uppercase ''inf'' = ''INF''" "to_ascii_uppercase ''infinity'' = ''INFINITY''"
      "to_ascii_uppercase ''nan'' = ''NAN''" by code_simp+
  moreover have "to_ascii_uppercase (c # t) = upper_byte c # to_ascii_uppercase t"
    by (simp add: to_ascii_uppercase_def)
  ultimately show ?thesis by (simp add: eq_ignore_ascii_case_def)
qed

lemma parse_decimal:
  assumes "ws \<noteq> []" "list_all is_ascii_digit ws" "list_all is_ascii_digit fs"
  shows "parse_f64_str ((if s then ''-'' else []) @ ws @ CHR ''.'' # fs)
    = Some (f64_round s (of_nat (digits_value (ws @ fs)) / 10 ^ length fs))"
proof -
  obtain c t where ws: "ws = c # t" using assms(1) by (cases ws) auto
  with assms(2) have c: "is_ascii_digit c" by simp
  then have "c \<noteq> CHR ''-''" "c \<noteq> CHR ''+''" by auto
  moreover have "parse_f64_magnitude b (ws @ CHR ''.'' # fs)
      = Some (f64_round b (of_nat (digits_value (ws @ fs)) / 10 ^ length fs))" for b
  proof -
    have sp: "span_digits (ws @ CHR ''.'' # fs) = (ws, CHR ''.'' # fs)"
      using takeWhile_digits [OF assms(2), of "CHR ''.''" fs] by (simp add: span_digits_def)
    have sf: "span_digits fs = (fs, [])"
      using takeWhile_all_digits [OF assms(3)] by (simp add: span_digits_def)
    have p: "of_nat n * pow10 (- int k) = of_nat n / 10 ^ k" for n k
      by (cases "k = 0") (simp_all add: pow10_def)
    show ?thesis
      using digit_start_no_word [OF c, of "t @ CHR ''.'' # fs"] assms(1) sp
      by (simp add: parse_f64_magnitude_def ws Let_def sf parse_exponent_def p)
  qed
  ultimately show ?thesis using ws by (simp add: parse_f64_str_def)
qed

section \<open>Five decimals\<close>

text \<open>A value in units of the fifth decimal.\<close>

definition units5 :: "rat \<Rightarrow> int" where
  "units5 q = round_half_even (q * 10 ^ 5)"

lemma show_fixed5_parse:
  assumes "0 \<le> q"
  shows "parse_f64_str (show_fixed 5 (F64_Fin s q)) = Some (f64_round s (of_int (units5 q) / 10 ^ 5))"
proof -
  define m where "m = nat (units5 q)"
  have u: "0 \<le> units5 q" using assms by (simp add: units5_def round_half_even_nonneg)
  have "m mod 10 ^ 5 < 10 ^ Suc 4" by simp
  note fits = show_padded_fits [OF this]
  have five: "Suc 4 = 5" by simp
  have eq: "show_fixed 5 (F64_Fin s q)
      = (if s then ''-'' else []) @ show_nat (m div 10 ^ 5) @ CHR ''.'' # show_padded 5 (m mod 10 ^ 5)"
    by (simp add: m_def units5_def Let_def)
  have "list_all is_ascii_digit (show_nat (m div 10 ^ 5))" "list_all is_ascii_digit (show_padded 5 (m mod 10 ^ 5))"
    by (auto simp: list_all_iff dest: show_nat_digits show_padded_digits)
  from parse_decimal [OF show_nat_ne this, of s]
  have "parse_f64_str (show_fixed 5 (F64_Fin s q)) = Some (f64_round s
      (of_nat (m div 10 ^ 5 * 10 ^ 5 + m mod 10 ^ 5) / 10 ^ 5))"
    unfolding eq digits_value_append digits_value_show_nat fits [unfolded five] .
  then have "parse_f64_str (show_fixed 5 (F64_Fin s q)) = Some (f64_round s (of_nat m / 10 ^ 5))"
    by (simp only: div_mult_mod_eq)
  moreover have "(of_nat m :: rat) = of_int (units5 q)" using u by (simp add: m_def of_nat_nat)
  ultimately show ?thesis by simp
qed

text \<open>Up to the range of a coordinate, what is read back is within half a unit, and prints alike.\<close>

lemma units5_bounds: "\<bar>of_int (units5 q) / 10 ^ 5 - q\<bar> \<le> 1 / (2 * 10 ^ 5)"
  using round_half_even_error [of "q * 10 ^ 5"] by (simp add: units5_def abs_le_iff field_simps)

lemma units5_rounded:
  assumes "0 \<le> n" "n \<le> 18000000"
  shows "units5 (rounded_mag (of_int n / 10 ^ 5)) = n"
proof -
  let ?q = "of_int n / 10 ^ 5 :: rat"
  have "of_int n \<le> (18000000 :: rat)" using assms(2) by simp
  then have q: "0 \<le> ?q" "?q < 256" using assms(1) by (simp_all add: field_simps)
  have "\<bar>rounded_mag ?q * 10 ^ 5 - of_int n\<bar> = \<bar>rounded_mag ?q - ?q\<bar> * 10 ^ 5"
    by (simp add: abs_if field_simps)
  also have "\<dots> \<le> 1 / 2 ^ 46 * 10 ^ 5" using rounded_mag_error(1) [OF q] by (intro mult_right_mono) simp_all
  also have "\<dots> < 1 / 2" by simp
  finally show ?thesis unfolding units5_def by (intro round_half_even_unique)
qed

lemma units5_le:
  assumes "0 \<le> q" "q \<le> of_int b" "0 \<le> b"
  shows "units5 q \<le> b * 10 ^ 5"
proof (rule ccontr)
  assume "\<not> units5 q \<le> b * 10 ^ 5"
  then have "b * 10 ^ 5 + 1 \<le> units5 q" by simp
  then have "of_int (b * 10 ^ 5 + 1) \<le> (of_int (units5 q) :: rat)" by (simp only: of_int_le_iff)
  moreover have "q * 10 ^ 5 \<le> of_int b * 10 ^ 5" using assms(2) by simp
  moreover have "of_int (units5 q) - q * 10 ^ 5 \<le> 1 / 2"
    using round_half_even_error [of "q * 10 ^ 5"] unfolding units5_def abs_le_iff by linarith
  ultimately show False by simp
qed

lemma rounded_units5_le:
  assumes "0 \<le> q" "q \<le> of_int b" "0 \<le> b" "b \<le> 180"
  shows "rounded_mag (of_int (units5 q) / 10 ^ 5) \<le> of_int b"
proof (cases "units5 q = b * 10 ^ 5")
  case True
  then have "of_int (units5 q) / 10 ^ 5 = (of_int b :: rat)" by simp
  with rounded_mag_int [of b] assms show ?thesis by simp
next
  case False
  with units5_le [OF assms(1-3)] have "units5 q + 1 \<le> b * 10 ^ 5" by simp
  then have "of_int (units5 q + 1) \<le> (of_int (b * 10 ^ 5) :: rat)" by (simp only: of_int_le_iff)
  then have le: "of_int (units5 q) / 10 ^ 5 \<le> (of_int b :: rat) - 1 / 10 ^ 5" by (simp add: field_simps)
  have "(of_int b :: rat) \<le> of_int 180" using assms(4) by (simp only: of_int_le_iff)
  with le have lt: "of_int (units5 q) / 10 ^ 5 < (256 :: rat)" by simp
  have "0 \<le> (of_int (units5 q) / 10 ^ 5 :: rat)" using assms(1) by (simp add: units5_def round_half_even_nonneg)
  from rounded_mag_error(1) [OF this lt] le show ?thesis unfolding abs_le_iff by simp
qed

end
