(* ===== verification/Position_Relay.thy ===== *)
theory Position_Relay
  imports Classic_Properties Float_Accuracy
begin

text \<open>
  The way of a position report: decoded from the frame of a classic client, validated and sent
  on by the core, encoded with coordinates of five decimals, decoded by the recipient. What the
  recipient reads is the report that was sent, with each coordinate off by at most half a unit
  of the fifth decimal and one rounding, and it is a fixed point: relayed once more, the report
  gives the same frame.
\<close>

section \<open>Coordinates on the wire\<close>

text \<open>What a coordinate becomes when it is printed with five decimals and parsed again.\<close>

fun wire_f64 :: "f64 \<Rightarrow> f64" where
  "wire_f64 (F64_Fin s q) = F64_Fin s (rounded_mag (of_int (units5 q) / 10 ^ 5))"
| "wire_f64 x = x"

text \<open>Two coordinates of the same sign whose magnitudes differ by at most \<open>e\<close>.\<close>

fun f64_near :: "rat \<Rightarrow> f64 \<Rightarrow> f64 \<Rightarrow> bool" where
  "f64_near e (F64_Fin s p) (F64_Fin t q) = (s = t \<and> \<bar>p - q\<bar> \<le> e)"
| "f64_near e _ _ = False"

text \<open>A finite number with magnitude at most \<open>b\<close>.\<close>

fun f64_within :: "int \<Rightarrow> f64 \<Rightarrow> bool" where
  "f64_within b (F64_Fin s q) = (0 \<le> q \<and> q \<le> of_int b)"
| "f64_within b _ = False"

fun mag_ok :: "f64 \<Rightarrow> bool" where
  "mag_ok (F64_Fin s q) = (0 \<le> q)"
| "mag_ok _ = True"

lemma f64_within_range:
  assumes "mag_ok x" "f64_lit (of_int b) = F64_Fin False (of_int b)" "f64_lit (- of_int b) = F64_Fin True (of_int b)"
    and "0 < b"
  shows "f64_is_finite x \<and> f64_in_range (f64_lit (- of_int b)) (f64_lit (of_int b)) x \<longleftrightarrow> f64_within b x"
proof (cases x)
  case (F64_Fin s q)
  have "(0 :: rat) < of_int b" using assms(4) by simp
  with assms F64_Fin show ?thesis by (cases s) (auto simp: f64_in_range_def)
qed simp_all

lemma f64_within_lat_lon:
  assumes "mag_ok x"
  shows "f64_is_finite x \<and> f64_in_range (f64_lit (- 90)) (f64_lit 90) x \<longleftrightarrow> f64_within 90 x"
    and "f64_is_finite x \<and> f64_in_range (f64_lit (- 180)) (f64_lit 180) x \<longleftrightarrow> f64_within 180 x"
  using f64_within_range [of x 90, OF assms] f64_within_range [of x 180, OF assms] by simp_all

lemma parse_wire_f64:
  assumes "f64_within b x" "0 \<le> b" "b \<le> 180"
  shows "parse_f64_str (show_fixed 5 x) = Some (wire_f64 x)"
    and "f64_within b (wire_f64 x)" and "f64_near (1 / (2 * 10 ^ 5) + 1 / 2 ^ 46) x (wire_f64 x)"
    and "show_fixed 5 (wire_f64 x) = show_fixed 5 x"
proof -
  from assms(1) obtain s q where x: "x = F64_Fin s q" and q: "0 \<le> q" "q \<le> of_int b" by (cases x) auto
  let ?w = "of_int (units5 q) / 10 ^ 5 :: rat"
  have n: "0 \<le> units5 q" using q(1) by (simp add: units5_def round_half_even_nonneg)
  have m: "units5 q \<le> 18000000" using units5_le [OF q assms(2)] assms(3) by simp
  then have "of_int (units5 q) \<le> (18000000 :: rat)" by simp
  with n have w: "0 \<le> ?w" "?w < 256" by (simp_all add: field_simps)
  show "parse_f64_str (show_fixed 5 x) = Some (wire_f64 x)"
    unfolding x show_fixed5_parse [OF q(1)] f64_round_small [OF w] by simp
  show "f64_within b (wire_f64 x)"
    unfolding x using rounded_mag_error(2) [OF w] rounded_units5_le [OF q assms(2,3)] by simp
  have "\<bar>q - rounded_mag ?w\<bar> \<le> 1 / (2 * 10 ^ 5) + 1 / 2 ^ 46"
    using rounded_mag_error(1) [OF w] units5_bounds [of q] unfolding abs_le_iff by linarith
  then show "f64_near (1 / (2 * 10 ^ 5) + 1 / 2 ^ 46) x (wire_f64 x)" unfolding x by simp
  show "show_fixed 5 (wire_f64 x) = show_fixed 5 x"
    using units5_rounded [OF n m] by (simp add: x units5_def del: of_int_power)
qed

text \<open>What the parser yields is a number with a magnitude; what is printed is plain and short.\<close>

lemma f64_round_mag_ok: "0 \<le> q \<Longrightarrow> mag_ok (f64_round s q)"
  by (auto simp: f64_round_def Let_def intro!: mult_nonneg_nonneg round_half_even_nonneg)

lemma parse_f64_mag_ok: "parse_f64_str v = Some x \<Longrightarrow> mag_ok x"
  by (auto simp: parse_f64_str_def parse_f64_magnitude_def pow10_def intro!: f64_round_mag_ok
      split: list.splits if_splits prod.splits)

lemma length_show_fixed5:
  assumes "f64_within b x" "0 \<le> b" "b \<le> 180"
  shows "length (show_fixed 5 x) \<le> 10"
proof -
  from assms(1) obtain s q where x: "x = F64_Fin s q" and q: "0 \<le> q" "q \<le> of_int b" by (cases x) auto
  define m where "m = nat (round_half_even (q * 10 ^ 5))"
  have "units5 q \<le> 18000000" using units5_le [OF q assms(2)] assms(3) by simp
  then have "m \<le> 18000000" unfolding m_def units5_def by simp
  then have "m div 10 ^ 5 < 10 ^ Suc 2" by simp
  from length_show_nat [OF this] have "length (show_nat (m div 10 ^ 5)) \<le> 3" by simp
  moreover have "length (show_padded (Suc 4) (m mod 10 ^ 5)) = Suc 4" by (rule show_padded_fits) simp
  then have "length (show_padded 5 (m mod 10 ^ 5)) = 5" by simp
  ultimately show ?thesis by (simp add: x m_def Let_def)
qed

lemma length_show_int:
  assumes "i32_range i" shows "length (show_int i) \<le> 11"
proof -
  have "nat (- i) \<le> 2 ^ 31" "nat i \<le> 2 ^ 31" using assms by (simp_all add: i32_range_def nat_le_iff)
  then have "nat (- i) < 10 ^ Suc 9" "nat i < 10 ^ Suc 9" by simp_all
  from this [THEN length_show_nat] show ?thesis by (simp add: show_int_def)
qed

lemma length_show_u32: "length (show_nat (unat (w :: u32))) \<le> 10"
proof -
  have "unat w < 2 ^ 32" using unsigned_less [of w, where ?'a = nat] by simp
  then have "unat w < 10 ^ Suc 9" by simp
  from length_show_nat [OF this] show ?thesis by simp
qed

lemma parse_show_u32: "parse_u32_str (show_nat (unat w)) = Some w"
proof -
  have "unat w < 2 ^ 32" using unsigned_less [of w, where ?'a = nat] by simp
  from parse_show_unsigned [OF this] show ?thesis by (simp add: parse_u32_str_def)
qed

lemma show_fixed_text_ok: "text_ok (show_fixed n x)"
proof -
  have "colon \<notin> set (show_fixed n x)" "is_ascii (show_fixed n x)"
    using show_fixed_bytes [of _ n x] by (auto simp: is_ascii_def list_all_iff)
  then show ?thesis by (simp add: text_ok_def valid_utf8_ascii)
qed

section \<open>Reports on the wire\<close>

fun wire_position :: "position \<Rightarrow> position" where
  "wire_position (Position_Pilot p) =
     Position_Pilot (p\<lparr>pp_latitude := wire_f64 (pp_latitude p), pp_longitude := wire_f64 (pp_longitude p)\<rparr>)"
| "wire_position (Position_Atc p) =
     Position_Atc (p\<lparr>ap_latitude := wire_f64 (ap_latitude p), ap_longitude := wire_f64 (ap_longitude p)\<rparr>)"

text \<open>Two reports that agree in everything but the coordinates, and nearly in those.\<close>

definition position_near :: "rat \<Rightarrow> position \<Rightarrow> position \<Rightarrow> bool" where
  "position_near e a b =
     (f64_near e (fst (coordinates a)) (fst (coordinates b))
      \<and> f64_near e (snd (coordinates a)) (snd (coordinates b))
      \<and> (case (a, b) of
            (Position_Pilot p, Position_Pilot q) \<Rightarrow>
              q\<lparr>pp_latitude := pp_latitude p, pp_longitude := pp_longitude p\<rparr> = p
          | (Position_Atc p, Position_Atc q) \<Rightarrow>
              q\<lparr>ap_latitude := ap_latitude p, ap_longitude := ap_longitude p\<rparr> = p
          | _ \<Rightarrow> False))"

text \<open>What the classic decoder guarantees of a report, apart from what validation checks.\<close>

fun report_ok :: "position \<Rightarrow> bool" where
  "report_ok (Position_Pilot p) =
     (wf_callsign (pp_callsign p) \<and> list_all (\<lambda>c. \<not> is_delim c) (as_str (pp_callsign p))
      \<and> canonical_squawk (pp_squawk p) = Inr (pp_squawk p)
      \<and> list_all i32_range [pp_rating p, pp_altitude p, pp_groundspeed p, pp_flags p])"
| "report_ok (Position_Atc p) =
     (wf_callsign (ap_callsign p) \<and> list_all (\<lambda>c. \<not> is_delim c) (as_str (ap_callsign p))
      \<and> list_all i32_range [ap_frequency p, ap_facility_type p, ap_visual_range p, ap_rating p, ap_altitude p])"

definition report_within :: "position \<Rightarrow> bool" where
  "report_within pos = (f64_within 90 (fst (coordinates pos)) \<and> f64_within 180 (snd (coordinates pos)))"

definition report_mags :: "position \<Rightarrow> bool" where
  "report_mags pos = (mag_ok (fst (coordinates pos)) \<and> mag_ok (snd (coordinates pos)))"

lemma f64_within_mag: "f64_within b x \<Longrightarrow> mag_ok x"
  by (cases x) simp_all

lemma validate_within:
  assumes "report_mags pos"
  shows "position_validate pos = Inr () \<longleftrightarrow> report_within pos \<and> (case pos of
      Position_Pilot p \<Rightarrow> pp_mode p \<in> {''N'', ''S'', ''Y''} \<and> pp_squawk p \<noteq> [] \<and> length (pp_squawk p) \<le> 4
        \<and> list_all is_octal_digit (pp_squawk p)
    | Position_Atc p \<Rightarrow> 0 \<le> ap_visual_range p)"
  using assms f64_within_lat_lon(1) [of "fst (coordinates pos)"] f64_within_lat_lon(2) [of "snd (coordinates pos)"]
  by (cases pos) (auto simp: position_validate_def report_mags_def report_within_def simp del: f64_lit_numeral)

lemma wire_position_ok:
  assumes "position_validate pos = Inr ()" "report_mags pos"
  shows "position_validate (wire_position pos) = Inr ()" "report_mags (wire_position pos)"
    and "position_near (1 / (2 * 10 ^ 5) + 1 / 2 ^ 46) pos (wire_position pos)"
    and "position_packet (wire_position pos) = position_packet pos"
proof -
  from assms have w: "report_within pos" by (simp add: validate_within)
  note lat = parse_wire_f64 [of 90 "fst (coordinates pos)"]
    and lon = parse_wire_f64 [of 180 "snd (coordinates pos)"]
  have r: "report_within (wire_position pos)"
    using w lat(2) lon(2) by (cases pos) (simp_all add: report_within_def)
  then show m: "report_mags (wire_position pos)"
    by (auto simp: report_within_def report_mags_def intro: f64_within_mag)
  show "position_validate (wire_position pos) = Inr ()"
    using assms r unfolding validate_within [OF m] by (cases pos) (simp_all add: validate_within)
  show "position_near (1 / (2 * 10 ^ 5) + 1 / 2 ^ 46) pos (wire_position pos)"
    using w lat(3) lon(3) by (cases pos) (simp_all add: report_within_def position_near_def)
  show "position_packet (wire_position pos) = position_packet pos"
    using w lat(4) lon(4) by (cases pos) (simp_all add: report_within_def)
qed

section \<open>The decoder\<close>

lemma canonical_squawk_idem: "canonical_squawk v = Inr w \<Longrightarrow> w \<noteq> [] \<and> length w \<le> 4 \<and> list_all is_octal_digit w
    \<Longrightarrow> canonical_squawk w = Inr w"
proof -
  assume w: "w \<noteq> [] \<and> length w \<le> 4 \<and> list_all is_octal_digit w" and "canonical_squawk v = Inr w"
  then obtain n where n: "w = show_nat (unat (n :: u16))"
    by (auto simp: canonical_squawk_def split: if_splits option.splits)
  have "unat n < 2 ^ 16" using unsigned_less [of n, where ?'a = nat] by simp
  from parse_show_unsigned [OF this] have "parse_u16_str w = Some n" by (simp add: parse_u16_str_def n)
  with w n show ?thesis by (auto simp: canonical_squawk_def)
qed

lemma callsign_parse_delims:
  assumes "callsign_parse v = Inr c" "list_all (\<lambda>b. \<not> is_delim b) v"
  shows "list_all (\<lambda>b. \<not> is_delim b) (as_str c)"
proof -
  have up: "is_delim (upper_byte b) \<longleftrightarrow> is_delim b" for b
    by (auto simp: is_delim_def cr_def lf_def upper_byte_fixed byte_def)
  from assms(1) have "as_str c = to_ascii_uppercase v" by (auto simp: callsign_parse_def split: if_splits)
  with assms(2) show ?thesis by (simp add: to_ascii_uppercase_def list_all_iff up)
qed

lemma raw_packet_source_bytes:
  assumes "raw_packet_parse frame = Inr p" "list_all (\<lambda>b. \<not> is_delim b) frame"
    and "rp_kind p = K_PilotPosition \<or> rp_kind p = K_AtcPosition"
  shows "list_all (\<lambda>b. \<not> is_delim b) (rp_source p)"
proof -
  have src: "set (rp_source p) \<subseteq> set (packet_bytes p)"
    using assms(3) by (auto simp: packet_bytes_def packet_head_def)
  have "set (packet_bytes p) \<subseteq> insert colon (set frame)"
  proof (cases "compact_pilot_frame frame")
    case True
    then obtain m t where f: "frame = CHR ''@'' # m # t" "t \<noteq> []" "hd t \<noteq> colon"
      by (cases frame; cases "tl frame"; cases "tl (tl frame)") (auto simp: compact_pilot_frame_def)
    from compact_packet_bytes [OF assms(1) [unfolded f(1)] f(2,3)] show ?thesis unfolding f(1) by auto
  next
    case False
    from packet_bytes_parse [OF assms(1) this] show ?thesis by auto
  qed
  moreover have "\<not> is_delim colon" by (simp add: is_delim_def cr_def lf_def)
  ultimately show ?thesis using src assms(2) by (auto simp: list_all_iff)
qed

lemma decoded_report:
  assumes "classic_decode frame = Inr (C_Position pos)" "list_all (\<lambda>b. \<not> is_delim b) frame"
    and "position_validate pos = Inr ()"
  shows "report_ok pos" "report_mags pos"
proof -
  from assms(1) obtain p where p: "raw_packet_parse frame = Inr p" "decode_packet p = Inr (C_Position pos)"
    by (auto simp: classic_decode_def and_then_Inr_iff)
  then have k: "rp_kind p = K_PilotPosition \<or> rp_kind p = K_AtcPosition"
    by (cases "rp_kind p"; cases "rp_fields p"; cases "tl (rp_fields p)")
      (auto simp: decode_packet_def decode_query_response_def decode_weather_def
        decode_direct_client_command_def login_decode_def decode_text_def decode_flight_plan_def
        decode_ping_pong_def decode_kill_def and_then_Inr_iff Let_def split: if_splits)
  with p(2) have d: "position_decode p = Inr (C_Position pos)" by (auto simp: decode_packet_def)
  note src = callsign_parse_delims [OF _ raw_packet_source_bytes [OF p(1) assms(2) k]]
  from d k show "report_mags pos"
    by (auto simp: position_decode_def and_then_Inr_iff Let_def report_mags_def parse_f64_def
        dest!: parse_f64_mag_ok split: if_splits)
  then have "case pos of Position_Pilot q \<Rightarrow> pp_squawk q \<noteq> [] \<and> length (pp_squawk q) \<le> 4
        \<and> list_all is_octal_digit (pp_squawk q) | Position_Atc q \<Rightarrow> True"
    using assms(3) by (auto simp: validate_within split: position.splits)
  with d k src show "report_ok pos"
    by (auto simp: position_decode_def and_then_Inr_iff Let_def parse_i32_Inr callsign_parse_wf
        parse_i32_range canonical_squawk_idem split: if_splits)
qed

section \<open>The encoder\<close>

lemma canonical_squawk_Inr: "canonical_squawk v = Inr w \<Longrightarrow> v \<noteq> [] \<and> length v \<le> 4 \<and> list_all is_octal_digit v"
  by (auto simp: canonical_squawk_def split: if_splits)

lemma octal_plain:
  assumes "list_all is_octal_digit v"
  shows "text_ok v \<and> list_all (\<lambda>b. \<not> is_delim b) v"
proof -
  have "b \<noteq> colon \<and> byte b < 128 \<and> \<not> is_delim b" if "b \<in> set v" for b
    using that assms by (auto simp: list_all_iff is_octal_digit_def is_delim_def cr_def lf_def byte_def)
  then have "colon \<notin> set v" "is_ascii v" "list_all (\<lambda>b. \<not> is_delim b) v"
    by (auto simp: is_ascii_def list_all_iff)
  then show ?thesis by (simp add: text_ok_def valid_utf8_ascii)
qed

lemma show_plain:
  "list_all (\<lambda>b. \<not> is_delim b) (show_int i)" "list_all (\<lambda>b. \<not> is_delim b) (show_nat n)"
  "list_all (\<lambda>b. \<not> is_delim b) (show_fixed k x)" "text_ok (show_nat n)"
proof -
  have "is_ascii (show_nat n)"
    by (auto simp: is_ascii_def list_all_iff is_ascii_digit_def dest!: show_nat_digits)
  then show "text_ok (show_nat n)" using show_nat_no_colon [of n] by (simp add: text_ok_def valid_utf8_ascii)
qed (use show_int_no_delim show_nat_no_delim show_fixed_bytes in \<open>auto simp: list_all_iff\<close>)

lemma packet_frame_fits:
  assumes "length (packet_bytes p) \<le> CLASSIC_MAX_FRAME_BYTES" "list_all (\<lambda>b. \<not> is_delim b) (packet_bytes p)"
    and "wf_packet p"
  shows "\<exists>f. packet_frame p = Inr f \<and> classic_decode (frame_bytes f) = decode_packet p"
  using assms by (simp add: packet_frame_Inr classic_decode_def parse_packet_bytes)

lemma encode_report:
  assumes "report_ok pos" "report_mags pos" "position_validate pos = Inr ()"
  shows "\<exists>f. encode_position pos = Inr f
    \<and> classic_decode (frame_bytes f) = Inr (C_Position (wire_position pos))"
proof -
  let ?p = "position_packet pos"
  from assms(2,3) have w: "report_within pos" by (simp add: validate_within)
  then have lat: "f64_within 90 (fst (coordinates pos))" and lon: "f64_within 180 (snd (coordinates pos))"
    by (simp_all add: report_within_def)
  note len = length_show_fixed5 [OF lat] length_show_fixed5 [OF lon] length_show_u32 length_show_int
  note mode = validate_within [OF assms(2), THEN iffD1, OF assms(3)]
  have plain: "\<not> is_delim colon" "\<not> is_delim (CHR ''@'')" "\<not> is_delim (CHR ''%'')"
      "\<not> is_delim (CHR ''N'')" "\<not> is_delim (CHR ''S'')" "\<not> is_delim (CHR ''Y'')"
    by (simp_all add: is_delim_def cr_def lf_def)
  have "length (packet_bytes ?p) \<le> CLASSIC_MAX_FRAME_BYTES"
  proof (cases pos)
    case (Position_Pilot p)
    have "length (as_str (pp_callsign p)) \<le> 12" "length (pp_squawk p) \<le> 4" "length (pp_mode p) = 1"
      using assms(1) mode Position_Pilot by (auto simp: wf_callsign_def)
    moreover have "length (show_int (pp_rating p)) \<le> 11" "length (show_int (pp_altitude p)) \<le> 11"
        "length (show_int (pp_groundspeed p)) \<le> 11" "length (show_int (pp_flags p)) \<le> 11"
      using assms(1) Position_Pilot by (auto intro: length_show_int)
    ultimately show ?thesis
      using len(1,2) len(3) [of "pp_pbh p"] Position_Pilot
      by (simp add: packet_bytes_def packet_head_def CLASSIC_MAX_FRAME_BYTES_def)
  next
    case (Position_Atc p)
    have "length (as_str (ap_callsign p)) \<le> 12"
      using assms(1) Position_Atc by (auto simp: wf_callsign_def)
    moreover have "length (show_int (ap_frequency p)) \<le> 11" "length (show_int (ap_facility_type p)) \<le> 11"
        "length (show_int (ap_visual_range p)) \<le> 11" "length (show_int (ap_rating p)) \<le> 11"
        "length (show_int (ap_altitude p)) \<le> 11"
      using assms(1) Position_Atc by (auto intro: length_show_int)
    ultimately show ?thesis
      using len(1,2) Position_Atc by (simp add: packet_bytes_def packet_head_def CLASSIC_MAX_FRAME_BYTES_def)
  qed
  moreover have "list_all (\<lambda>b. \<not> is_delim b) (packet_bytes ?p)"
    using assms(1) mode plain by (cases pos) (auto simp: packet_bytes_def packet_head_def show_plain
        dest: canonical_squawk_Inr octal_plain)
  moreover have "wf_packet ?p"
    using assms(1) mode show_fixed_text_ok show_int_text_ok show_plain(4)
    by (cases pos) (auto simp: wf_packet_def wf_callsign_no_colon valid_utf8_ascii wf_callsign_ascii
        text_ok_def wf_callsign_def dest: octal_plain)
  ultimately obtain f where f: "packet_frame ?p = Inr f" "classic_decode (frame_bytes f) = decode_packet ?p"
    using packet_frame_fits by blast
  have "decode_packet ?p = Inr (C_Position (wire_position pos))"
    using assms(1) mode lat lon parse_wire_f64(1) [OF lat] parse_wire_f64(1) [OF lon]
    by (cases pos)
      (auto simp: decode_packet_def position_decode_def decode_callsign_def callsign_parse_as_str first_char_def
        utf8_next_mode [where s = "[]", simplified] parse_i32_def parse_show_i32 parse_u32_def parse_show_u32
        parse_f64_def numeral_eq_Suc)
  with f show ?thesis by (simp add: encode_position_def)
qed

section \<open>The property\<close>

lemma position_relayed:
  assumes "dl \<in> set (ef_deliveries (fst (execute nw i (C_Position pos) st)))"
    and "r \<in> set (dl_recipients dl)" and "r \<noteq> i"
  shows "dl_event dl = Ev_Position pos \<and> position_validate pos = Inr ()"
  using assms
  by (auto simp: execute_def execute_active_def handle_state_command_def Let_def in_send_iff
      dest: error_effect_self split: option.splits sum.splits if_splits)

text \<open>
  C14: A position report reaches the others intact. Whenever the report in the frame of a classic
  client (without delimiters: what its codec yields) makes the core deliver an event to another
  session, the event is encoded for classic recipients as exactly one frame, and that frame
  decodes to a valid report that agrees with the sender's in every field but the coordinates;
  each coordinate has its sign and is off by at most half a unit of the fifth decimal and the
  rounding to binary64. Relayed once more, the report gives the very same frame.
\<close>

theorem position_relay:
  assumes "classic_decode frame = Inr (C_Position pos)" and "list_all (\<lambda>c. \<not> is_delim c) frame"
    and "dl \<in> set (ef_deliveries (fst (execute nw i (C_Position pos) st)))"
    and "r \<in> set (dl_recipients dl)" and "r \<noteq> i"
  shows "\<exists>f pos'. classic_encode ctx (dl_event dl) = Inr [f]
    \<and> classic_decode (frame_bytes f) = Inr (C_Position pos')
    \<and> position_near (1 / (2 * 10 ^ 5) + 1 / 2 ^ 46) pos pos' \<and> position_validate pos' = Inr ()
    \<and> classic_encode ctx (Ev_Position pos') = Inr [f]"
proof -
  from position_relayed [OF assms(3-5)] have ev: "dl_event dl = Ev_Position pos"
    and v: "position_validate pos = Inr ()" by auto
  note ok = decoded_report [OF assms(1,2) v]
  from encode_report [OF ok v] obtain f where f: "encode_position pos = Inr f"
    "classic_decode (frame_bytes f) = Inr (C_Position (wire_position pos))" by blast
  moreover from f(1) have "encode_position (wire_position pos) = Inr f"
    by (simp add: encode_position_def wire_position_ok(4) [OF v ok(2)])
  ultimately show ?thesis using wire_position_ok(1,3) [OF v ok(2)]
    by (intro exI [of _ f] exI [of _ "wire_position pos"]) (simp add: ev classic_encode_def)
qed

definition demo_tower_position :: atc_position where
  "demo_tower_position = \<lparr>ap_callsign = demo_tower, ap_frequency = 18500, ap_facility_type = 4,
     ap_visual_range = 50, ap_rating = 5, ap_latitude = f64_lit 49, ap_longitude = f64_lit 2, ap_altitude = 300\<rparr>"

definition demo_radar_net :: net_state where
  "demo_radar_net = put_session 2 (demo_tower_session\<lparr>s_position := Some (Position_Atc demo_tower_position)\<rparr>) demo_net"

lemma demo_position_decode:
  "classic_decode ''@N:AFR1:7000:1:49.00000:2.00000:0:0:0:0'' = Inr (C_Position (Position_Pilot demo_position))"
proof -
  have packet: "raw_packet_parse ''@N:AFR1:7000:1:49.00000:2.00000:0:0:0:0'' = Inr
      \<lparr>rp_kind = K_PilotPosition, rp_command = ''N'', rp_source = ''AFR1'', rp_destination = [],
       rp_fields = [''7000'', ''1'', ''49.00000'', ''2.00000'', ''0'', ''0'', ''0'', ''0'']\<rparr>"
    by code_simp
  have digits: "digits_value ''4900000'' = 4900000" "digits_value ''200000'' = 200000" by code_simp+
  have "list_all is_ascii_digit ''49''" "list_all is_ascii_digit ''2''" "list_all is_ascii_digit ''00000''"
    by code_simp+
  with parse_decimal [of "''49''" "''00000''" False] parse_decimal [of "''2''" "''00000''" False]
    f64_round_int [of 49 False] f64_round_int [of 2 False]
  have "parse_f64_str ''49.00000'' = Some (F64_Fin False 49)" "parse_f64_str ''2.00000'' = Some (F64_Fin False 2)"
    by (simp_all add: digits)
  moreover have "decode_callsign ''AFR1'' E_InvalidSource = Inr demo_pilot" "first_char ''N'' = Some ''N''"
      "canonical_squawk ''7000'' = Inr ''7000''" "parse_i32_str ''1'' = Some 1" "parse_i32_str ''0'' = Some 0"
      "parse_u32_str ''0'' = Some 0"
    by code_simp+
  ultimately show ?thesis
    by (simp add: classic_decode_def packet decode_packet_def position_decode_def parse_i32_def parse_f64_def
        parse_u32_def demo_position_def decode_callsign_def)
qed

lemma demo_radar_recipients: "position_recipients demo_libm demo_radar_net 1 = [2]"
  by (simp add: position_recipients_def within_position_range_def demo_radar_net_def put_session_def demo_net_def
      hm_values_def hm_insert_def hm_get_def distance_between_def earth_diameter [simplified] demo_libm_def Let_def
      demo_pilot_session_def demo_tower_session_def demo_tower_position_def fresh_session_def permitted_range_def
      is_atc_def presence_of_login_def demo_tower_login_def demo_pilot_login_def f64_round_def f64_of_i32_def
      split: prod.split)

theorem position_relay_witness:
  "\<exists>f pos'. classic_encode demo_context (Ev_Position (Position_Pilot demo_position)) = Inr [f]
     \<and> classic_decode (frame_bytes f) = Inr (C_Position pos')
     \<and> position_near (1 / (2 * 10 ^ 5) + 1 / 2 ^ 46) (Position_Pilot demo_position) pos'"
proof -
  let ?dl = "\<lparr>dl_recipients = [2], dl_event = Ev_Position (Position_Pilot demo_position)\<rparr>"
  let ?frame = "''@N:AFR1:7000:1:49.00000:2.00000:0:0:0:0''"
  have same: "put_session 1 (demo_pilot_session\<lparr>s_position := Some (Position_Pilot demo_position)\<rparr>) demo_radar_net
      = demo_radar_net"
    by (simp add: demo_radar_net_def put_session_def demo_net_def hm_insert_def demo_pilot_session_def)
  have "session_of demo_radar_net 1 = Some demo_pilot_session"
    by (simp add: demo_radar_net_def put_session_def hm.get_insert demo_lookup)
  moreover have "position_validate (Position_Pilot demo_position) = Inr ()"
    by (simp add: position_validate_def demo_position_def f64_in_range_def is_octal_digit_def byte_def)
  ultimately have "?dl \<in> set (ef_deliveries (fst (execute demo_network 1 (C_Position (Position_Pilot demo_position))
      demo_radar_net)))"
    using same demo_radar_recipients
    by (simp add: execute_def execute_active_def handle_state_command_def in_send_iff demo_network_def Let_def
        demo_pilot_session_def presence_of_login_def demo_pilot_login_def demo_position_def)
  moreover have "list_all (\<lambda>c. \<not> is_delim c) ?frame" by code_simp
  ultimately show ?thesis
    using position_relay [OF demo_position_decode, of ?dl demo_network 1 demo_radar_net 2 demo_context] by auto
qed

end
