(* ===== verification/Server.thy ===== *)
theory Server
  imports Protocol Net_Commands
begin

text \<open>
  The transport runtime (crate \<open>aster_fsd_server\<close>): configuration checks, the backend
  registry, the connection table with one mailbox per connection, the dispatch of effects,
  the reader and the writer of a connection, and its whole life from registration to cleanup.

  The bounded mailbox (\<open>tokio::sync::mpsc\<close>) is not part of the repository: its state is the
  type parameter \<open>'ch\<close> and its operations are the parameter \<open>mpsc\<close>. Cancelling a token
  (\<open>tokio_util::sync::CancellationToken\<close>) sets a flag for good. The functions below are the
  sequential code of one task; where a task awaits, other tasks may act in between.
\<close>

section \<open>Configuration and errors (config.rs, error.rs)\<close>

record listener_config =
  li_name :: string
  li_address :: string
  li_port :: u16
  li_protocol :: protocol_dialect
  li_max_frame_bytes :: nat
  li_idle_timeout_seconds :: u64

record server_config =
  sc_server_name :: string
  sc_server_version :: string
  sc_mailbox_capacity :: nat
  sc_wind_delta_interval_seconds :: u64
  sc_listeners :: "listener_config list"

datatype server_error =
    MissingBackend string
  | ListenerIo string string
  | ListenerTask string
  | InvalidMailboxCapacity
  | InvalidInterval
  | NoListeners

fun server_error_text :: "server_error \<Rightarrow> string" where
  "server_error_text (MissingBackend listener) =
     ''listener '' @ listener @ '' has no registered protocol backend''"
| "server_error_text (ListenerIo listener source) =
     ''listener '' @ listener @ '' failed: '' @ source"
| "server_error_text (ListenerTask e) = ''listener task failed: '' @ e"
| "server_error_text InvalidMailboxCapacity = ''mailbox capacity must be greater than zero''"
| "server_error_text InvalidInterval =
     ''listener and maintenance intervals must be greater than zero''"
| "server_error_text NoListeners = ''at least one listener is required''"

section \<open>Challenges (challenge.rs)\<close>

definition hex_char :: "nat \<Rightarrow> char" where
  "hex_char n = ''0123456789abcdef'' ! n"

text \<open>The eleven random bytes are the argument.\<close>

definition challenge :: "u8 list \<Rightarrow> string" where
  "challenge bytes =
     concat (map (\<lambda>b. [hex_char (unat (drop_bit 4 b)), hex_char (unat (and b 15))]) bytes)"

section \<open>The backend registry (backend\_registry.rs)\<close>

type_synonym backend_registry = "(protocol_dialect, backend) hash_map"

definition registry_register :: "backend \<Rightarrow> backend_registry \<Rightarrow> backend_registry" where
  "registry_register b registry = hm_insert (pb_dialect b) b registry"

definition registry_get :: "backend_registry \<Rightarrow> protocol_dialect \<Rightarrow> backend option" where
  "registry_get registry dialect = hm_get registry dialect"

section \<open>Runtime state (runtime.rs)\<close>

datatype outbound = Out_Frames "wire_frame list" | Out_Close

datatype send_outcome = Sent | Send_Full | Send_Closed

record 'ch mpsc =
  mp_channel :: "nat \<Rightarrow> 'ch"
  mp_try_send :: "outbound \<Rightarrow> 'ch \<Rightarrow> send_outcome \<times> 'ch"

record 'ch connection_handle =
  ch_backend :: backend
  ch_outbound :: 'ch
  ch_cancel :: bool

type_synonym 'ch connections = "(connection_id, 'ch connection_handle) hash_map"

text \<open>The fields of \<open>Runtime\<close> that never change, and those that do.\<close>

record 'ch runtime =
  ru_config :: server_config
  ru_network :: network
  ru_mpsc :: "'ch mpsc"

record 'ch runtime_state =
  rs_net :: net_state
  rs_connections :: "'ch connections"
  rs_next_connection_id :: u64

section \<open>Dispatch (runtime.rs)\<close>

type_synonym frame_cache = "(protocol_dialect, wire_frame list) hash_map"

definition encode_context_for :: "'ch runtime \<Rightarrow> net_state \<Rightarrow> connection_id \<Rightarrow> encode_context" where
  "encode_context_for rt net connection_id =
     \<lparr>ec_connection_id = connection_id,
      ec_recipient = Option.bind (snapshot net connection_id) ss_presence,
      ec_server_name = sc_server_name (ru_config rt)\<rparr>"

text \<open>The frames for one recipient: encoded for it alone, taken from the cache, or encoded and cached.\<close>

definition frames_for ::
  "backend \<Rightarrow> encode_context \<Rightarrow> event \<Rightarrow> frame_cache
   \<Rightarrow> (protocol_error + wire_frame list) \<times> frame_cache" where
  "frames_for b context ev cache =
     (if pb_recipient_specific b ev then (pb_encode b context ev, cache)
      else case hm_get cache (pb_dialect b) of
        Some frames \<Rightarrow> (Inr frames, cache)
      | None \<Rightarrow>
          (case pb_encode b context ev of
             Inl e \<Rightarrow> (Inl e, cache)
           | Inr frames \<Rightarrow> (Inr frames, hm_insert (pb_dialect b) frames cache)))"

definition enqueue ::
  "'ch mpsc \<Rightarrow> protocol_error + wire_frame list \<Rightarrow> 'ch connection_handle \<Rightarrow> 'ch connection_handle" where
  "enqueue ms frames handle =
     (case frames of
        Inr fs \<Rightarrow>
          (case mp_try_send ms (Out_Frames fs) (ch_outbound handle) of
             (Sent, c) \<Rightarrow> handle\<lparr>ch_outbound := c\<rparr>
           | (_, c) \<Rightarrow> handle\<lparr>ch_outbound := c, ch_cancel := True\<rparr>)
      | Inl _ \<Rightarrow> handle\<lparr>ch_cancel := True\<rparr>)"

definition dispatch_one ::
  "'ch runtime \<Rightarrow> net_state \<Rightarrow> event \<Rightarrow> connection_id \<Rightarrow> frame_cache \<times> 'ch connections
   \<Rightarrow> frame_cache \<times> 'ch connections" where
  "dispatch_one rt net ev connection_id acc =
     (case acc of (cache, connections) \<Rightarrow>
        case hm_get connections connection_id of
          None \<Rightarrow> (cache, connections)
        | Some handle \<Rightarrow>
            (case frames_for (ch_backend handle) (encode_context_for rt net connection_id) ev cache of
               (frames, cache') \<Rightarrow>
                 (cache', hm_insert connection_id (enqueue (ru_mpsc rt) frames handle) connections)))"

definition dispatch_delivery ::
  "'ch runtime \<Rightarrow> net_state \<Rightarrow> delivery \<Rightarrow> 'ch connections \<Rightarrow> 'ch connections" where
  "dispatch_delivery rt net d connections =
     snd (fold (dispatch_one rt net (dl_event d)) (dl_recipients d) ([], connections))"

definition dispatch_close ::
  "'ch runtime \<Rightarrow> close_connection option \<Rightarrow> 'ch connections \<Rightarrow> 'ch connections" where
  "dispatch_close rt close connections =
     (case close of
        None \<Rightarrow> connections
      | Some cc \<Rightarrow>
          (case hm_get connections (cc_connection_id cc) of
             None \<Rightarrow> connections
           | Some handle \<Rightarrow>
               hm_insert (cc_connection_id cc)
                 (case mp_try_send (ru_mpsc rt) Out_Close (ch_outbound handle) of
                    (Sent, c) \<Rightarrow> handle\<lparr>ch_outbound := c\<rparr>
                  | (_, c) \<Rightarrow> handle\<lparr>ch_outbound := c, ch_cancel := True\<rparr>)
                 connections))"

definition dispatch ::
  "'ch runtime \<Rightarrow> net_state \<Rightarrow> effects \<Rightarrow> 'ch connections \<Rightarrow> 'ch connections" where
  "dispatch rt net eff connections =
     dispatch_close rt (ef_close eff) (fold (dispatch_delivery rt net) (ef_deliveries eff) connections)"

definition dispatch_state :: "'ch runtime \<Rightarrow> effects \<Rightarrow> 'ch runtime_state \<Rightarrow> 'ch runtime_state" where
  "dispatch_state rt eff s = s\<lparr>rs_connections := dispatch rt (rs_net s) eff (rs_connections s)\<rparr>"

text \<open>One tick of \<open>run_maintenance\<close>; its two random bytes are arguments.\<close>

definition maintenance_tick ::
  "'ch runtime \<Rightarrow> u8 \<Rightarrow> u8 \<Rightarrow> 'ch runtime_state \<Rightarrow> 'ch runtime_state" where
  "maintenance_tick rt b1 b2 s =
     (let speed = uint b1 mod 11 - 5; direction = uint b2 mod 21 - 10
      in dispatch_state rt (broadcast (rs_net s) (Ev_WindDelta speed direction)) s)"

section \<open>Writing (connection/writer.rs)\<close>

text \<open>
  The sink is the framed socket: sending a frame appends its encoding to the bytes written so
  far and flushes. Whether the socket takes the bytes is decided by \<open>flush\<close>.
\<close>

definition sink_send :: "frame_codec \<Rightarrow> (string \<Rightarrow> bool) \<Rightarrow> wire_frame \<Rightarrow> string \<Rightarrow> string \<times> bool" where
  "sink_send codec flush f written =
     (case frame_encode_bytes codec (frame_bytes f) written of
        (w, Inl _) \<Rightarrow> (w, False)
      | (w, Inr _) \<Rightarrow> (w, flush w))"

fun send_all :: "frame_codec \<Rightarrow> (string \<Rightarrow> bool) \<Rightarrow> wire_frame list \<Rightarrow> string \<Rightarrow> string \<times> bool" where
  "send_all codec flush [] written = (written, True)"
| "send_all codec flush (f # fs) written =
     (case sink_send codec flush f written of
        (w, False) \<Rightarrow> (w, False)
      | (w, True) \<Rightarrow> send_all codec flush fs w)"

datatype writer_end = W_Write_Failed | W_Close_Requested | W_Senders_Gone

text \<open>
  \<open>run_writer\<close> on the messages its receiver yields, until the channel is closed. On every
  path it cancels its connection at the end; the result says why.
\<close>

fun run_writer ::
  "frame_codec \<Rightarrow> (string \<Rightarrow> bool) \<Rightarrow> outbound list \<Rightarrow> string \<Rightarrow> string \<times> writer_end" where
  "run_writer codec flush [] written = (written, W_Senders_Gone)"
| "run_writer codec flush (Out_Close # ms) written = (written, W_Close_Requested)"
| "run_writer codec flush (Out_Frames fs # ms) written =
     (case send_all codec flush fs written of
        (w, False) \<Rightarrow> (w, W_Write_Failed)
      | (w, True) \<Rightarrow> run_writer codec flush ms w)"

section \<open>Reading (connection/reader.rs)\<close>

definition closes_connection :: "session_phase \<Rightarrow> protocol_error \<Rightarrow> bool" where
  "closes_connection phase e =
     (let code = (case pe_error_code e of None \<Rightarrow> E_Syntax | Some c \<Rightarrow> c) in
      pe_kind e \<in> {PE_Framing, PE_Version}
      \<or> phase \<noteq> Active \<and> code \<in> {E_InvalidCallsign, E_InvalidProtocolRevision})"

definition decode_error_effects ::
  "connection_id \<Rightarrow> callsign option \<Rightarrow> protocol_error \<Rightarrow> effects" where
  "decode_error_effects connection_id c e =
     (let code = (case pe_error_code e of None \<Rightarrow> E_Syntax | Some c \<Rightarrow> c) in
      \<lparr>ef_deliveries = [\<lparr>dl_recipients = [connection_id],
                         dl_event = Ev_Error c code [] (description code)\<rparr>],
       ef_close = None\<rparr>)"

definition decode_context_for :: "net_state \<Rightarrow> connection_id \<Rightarrow> string \<Rightarrow> decode_context" where
  "decode_context_for net connection_id chal =
     (let snap = snapshot net connection_id in
      \<lparr>dc_connection_id = connection_id,
       dc_phase = (case snap of None \<Rightarrow> Closed | Some session \<Rightarrow> ss_phase session),
       dc_callsign = Option.bind snap ss_callsign, dc_challenge = chal\<rparr>)"

text \<open>The result says whether the connection goes on.\<close>

definition process_frame ::
  "'ch runtime \<Rightarrow> backend \<Rightarrow> connection_id \<Rightarrow> string \<Rightarrow> string \<Rightarrow> 'ch runtime_state
   \<Rightarrow> bool \<times> 'ch runtime_state" where
  "process_frame rt b connection_id chal frame s =
     (let context = decode_context_for (rs_net s) connection_id chal in
      case pb_decode b context frame of
        Inr command \<Rightarrow>
          (case execute (ru_network rt) connection_id command (rs_net s) of
             (eff, net) \<Rightarrow> (True, dispatch_state rt eff (s\<lparr>rs_net := net\<rparr>)))
      | Inl e \<Rightarrow>
          (\<not> closes_connection (dc_phase context) e,
           dispatch_state rt (decode_error_effects connection_id (dc_callsign context) e) s))"

text \<open>What \<open>select!\<close> may yield in one turn of the reading loop.\<close>

datatype read_event =
    Read_Shutdown | Read_Cancelled | Read_Idle | Read_End | Read_Broken io_error | Read_Frame string

fun read_connection ::
  "'ch runtime \<Rightarrow> backend \<Rightarrow> connection_id \<Rightarrow> string \<Rightarrow> read_event list \<Rightarrow> 'ch runtime_state
   \<Rightarrow> 'ch runtime_state" where
  "read_connection rt b connection_id chal [] s = s"
| "read_connection rt b connection_id chal (e # es) s =
     (case e of
        Read_Frame frame \<Rightarrow>
          (case process_frame rt b connection_id chal frame s of
             (True, s') \<Rightarrow> read_connection rt b connection_id chal es s'
           | (False, s') \<Rightarrow> s')
      | _ \<Rightarrow> s)"

section \<open>The life of a connection (connection/handshake.rs, connection/mod.rs)\<close>

definition server_full_event :: event where
  "server_full_event = Ev_Error None E_ServerFull [] (description E_ServerFull)"

text \<open>The frames of a refusal are sent one by one, whatever becomes of each.\<close>

definition send_each :: "frame_codec \<Rightarrow> (string \<Rightarrow> bool) \<Rightarrow> wire_frame list \<Rightarrow> string \<Rightarrow> string" where
  "send_each codec flush fs written = fold (\<lambda>f w. fst (sink_send codec flush f w)) fs written"

definition register_connection ::
  "'ch runtime \<Rightarrow> frame_codec \<Rightarrow> (string \<Rightarrow> bool) \<Rightarrow> backend \<Rightarrow> connection_id \<Rightarrow> socket_addr
   \<Rightarrow> protocol_dialect \<Rightarrow> 'ch runtime_state \<Rightarrow> bool \<times> string \<times> 'ch runtime_state" where
  "register_connection rt codec flush b connection_id peer dialect s =
     (case register (nw_config (ru_network rt)) connection_id peer dialect (rs_net s) of
        (Inr _, net) \<Rightarrow> (True, [], s\<lparr>rs_net := net\<rparr>)
      | (Inl ServerFull, net) \<Rightarrow>
          (False,
           (case pb_encode b \<lparr>ec_connection_id = connection_id, ec_recipient = None,
                              ec_server_name = sc_server_name (ru_config rt)\<rparr> server_full_event of
              Inl _ \<Rightarrow> []
            | Inr fs \<Rightarrow> send_each codec flush fs []),
           s\<lparr>rs_net := net\<rparr>)
      | (Inl DuplicateConnection, net) \<Rightarrow> (False, [], s\<lparr>rs_net := net\<rparr>))"

definition drop_session ::
  "'ch runtime \<Rightarrow> connection_id \<Rightarrow> string \<Rightarrow> 'ch runtime_state \<Rightarrow> 'ch runtime_state" where
  "drop_session rt connection_id reason s =
     (case disconnect connection_id reason (rs_net s) of
        (eff, net) \<Rightarrow> dispatch_state rt eff (s\<lparr>rs_net := net\<rparr>))"

definition send_handshake ::
  "'ch runtime \<Rightarrow> frame_codec \<Rightarrow> (string \<Rightarrow> bool) \<Rightarrow> backend \<Rightarrow> handshake_context
   \<Rightarrow> 'ch runtime_state \<Rightarrow> bool \<times> string \<times> 'ch runtime_state" where
  "send_handshake rt codec flush b context s =
     (case pb_initial_frames b context of
        Inl e \<Rightarrow> (False, [], drop_session rt (hc_connection_id context) ''handshake encoding failed'' s)
      | Inr fs \<Rightarrow>
          (case send_all codec flush fs [] of
             (w, True) \<Rightarrow> (True, w, s)
           | (w, False) \<Rightarrow>
               (False, w, drop_session rt (hc_connection_id context) ''handshake write failed'' s)))"

text \<open>From the accepted socket to the entry in the connection table: \<open>Some\<close> when the reader starts.\<close>

definition open_connection ::
  "'ch runtime \<Rightarrow> listener_config \<Rightarrow> (string \<Rightarrow> bool) \<Rightarrow> socket_addr \<Rightarrow> backend \<Rightarrow> string
   \<Rightarrow> 'ch runtime_state \<Rightarrow> connection_id option \<times> string \<times> 'ch runtime_state" where
  "open_connection rt listener flush peer b chal s0 =
     (let connection_id = rs_next_connection_id s0;
          s = s0\<lparr>rs_next_connection_id := connection_id + 1\<rparr>
      in case codec_new (li_max_frame_bytes listener) of
        Inl _ \<Rightarrow> (None, [], s)
      | Inr codec \<Rightarrow>
          (case register_connection rt codec flush b connection_id peer (li_protocol listener) s of
             (False, w, s1) \<Rightarrow> (None, w, s1)
           | (True, _, s1) \<Rightarrow>
               (case send_handshake rt codec flush b
                       \<lparr>hc_connection_id = connection_id, hc_peer = peer,
                        hc_server_name = sc_server_name (ru_config rt),
                        hc_server_version = sc_server_version (ru_config rt),
                        hc_challenge = chal\<rparr> s1 of
                  (False, w, s2) \<Rightarrow> (None, w, s2)
                | (True, w, s2) \<Rightarrow>
                    (Some connection_id, w,
                     s2\<lparr>rs_connections :=
                       hm_insert connection_id
                         \<lparr>ch_backend = b,
                          ch_outbound = mp_channel (ru_mpsc rt) (sc_mailbox_capacity (ru_config rt)),
                          ch_cancel = False\<rparr>
                         (rs_connections s2)\<rparr>))))"

definition close_connection_task ::
  "'ch runtime \<Rightarrow> connection_id \<Rightarrow> 'ch runtime_state \<Rightarrow> 'ch runtime_state" where
  "close_connection_task rt connection_id s =
     drop_session rt connection_id ''connection closed''
       (s\<lparr>rs_connections := hm_remove connection_id (rs_connections s)\<rparr>)"

definition handle_connection ::
  "'ch runtime \<Rightarrow> listener_config \<Rightarrow> (string \<Rightarrow> bool) \<Rightarrow> socket_addr \<Rightarrow> backend \<Rightarrow> string
   \<Rightarrow> read_event list \<Rightarrow> 'ch runtime_state \<Rightarrow> 'ch runtime_state" where
  "handle_connection rt listener flush peer b chal inputs s =
     (case open_connection rt listener flush peer b chal s of
        (None, _, s1) \<Rightarrow> s1
      | (Some connection_id, _, s1) \<Rightarrow>
          close_connection_task rt connection_id
            (read_connection rt b connection_id chal inputs s1))"

section \<open>Construction (server.rs)\<close>

record 'ch server =
  sv_runtime :: "'ch runtime"
  sv_state :: "'ch runtime_state"
  sv_registry :: backend_registry

definition server_new ::
  "'ch mpsc \<Rightarrow> server_config \<Rightarrow> network \<Rightarrow> net_state \<Rightarrow> backend_registry \<Rightarrow> server_error + 'ch server" where
  "server_new ms config nw net registry =
     (if sc_mailbox_capacity config = 0 then Inl InvalidMailboxCapacity
      else if sc_listeners config = [] then Inl NoListeners
      else if sc_wind_delta_interval_seconds config = 0
              \<or> list_ex (\<lambda>l. li_idle_timeout_seconds l = 0) (sc_listeners config)
      then Inl InvalidInterval
      else Inr \<lparr>sv_runtime = \<lparr>ru_config = config, ru_network = nw, ru_mpsc = ms\<rparr>,
                sv_state = \<lparr>rs_net = net, rs_connections = [], rs_next_connection_id = 1\<rparr>,
                sv_registry = registry\<rparr>)"

text \<open>
  \<open>Server::bind\<close>: every listener needs a backend and a socket. Opening the socket is the
  parameter \<open>listen\<close>, which gives the bound address or the text of the failure.
\<close>

fun bind_listeners ::
  "(listener_config \<Rightarrow> string + socket_addr) \<Rightarrow> backend_registry \<Rightarrow> listener_config list
   \<Rightarrow> server_error + (listener_config \<times> socket_addr \<times> backend) list" where
  "bind_listeners listen registry [] = Inr []"
| "bind_listeners listen registry (l # ls) =
     and_then (ok_or (MissingBackend (li_name l)) (registry_get registry (li_protocol l))) (\<lambda>b.
     and_then (map_err (ListenerIo (li_name l)) (listen l)) (\<lambda>address.
     and_then (bind_listeners listen registry ls) (\<lambda>bound.
       Inr ((l, address, b) # bound))))"

section \<open>What sharing encoded frames relies on\<close>

text \<open>
  \<open>dispatch\<close> encodes an event once per dialect and hands the same frames to every recipient.
  That is right if the encoding of an event does not depend on the recipient unless the backend
  says so.
\<close>

locale shareable_backend =
  fixes b :: backend
  assumes uniform: "\<not> pb_recipient_specific b ev \<Longrightarrow> pb_encode b ctx ev = pb_encode b ctx' ev"
begin

lemma frames_for_result:
  assumes "\<And>fs. hm_get cache (pb_dialect b) = Some fs \<Longrightarrow> pb_encode b ctx ev = Inr fs"
  shows "fst (frames_for b ctx ev cache) = pb_encode b ctx ev"
  using assms by (auto simp: frames_for_def split: option.splits sum.splits)

lemma frames_for_cache:
  assumes "hm_get (snd (frames_for b ctx ev cache)) d = Some fs" "hm_get cache d \<noteq> Some fs"
  shows "d = pb_dialect b \<and> pb_encode b ctx' ev = Inr fs"
  using assms uniform [of ev ctx' ctx]
  by (auto simp: frames_for_def hm.get_insert split: option.splits sum.splits if_splits)

end

end
