(* ===== verification/Vatsim.thy ===== *)
theory Vatsim
  imports Classic_Encode
begin

text \<open>
  The VATSIM dialect (crate \<open>aster_fsd_protocol_vatsim\<close>): the server speaks first with a
  \<open>$DI\<close> challenge, the client answers with \<open>$ID\<close>, everything else is the classic dialect
  with protocol revision 100 in presence frames.
\<close>

section \<open>Frames and fields\<close>

definition VATSIM_FRAME_LIMIT :: nat where
  "VATSIM_FRAME_LIMIT = 4096"

definition vatsim_frame :: "raw_packet \<Rightarrow> protocol_error + wire_frame" where
  "vatsim_frame p =
     and_then (map_err (\<lambda>e. protocol_error_new PE_Encoding (codec_error_text e))
                 (raw_packet_encode p VATSIM_FRAME_LIMIT))
       wire_frame_new"

definition invalid_identification :: "string \<Rightarrow> string \<Rightarrow> protocol_error" where
  "invalid_identification fld reason =
     protocol_error_new PE_InvalidField (''VATSIM identification field '' @ fld @ '' '' @ reason)"

text \<open>One leading sign is dropped.\<close>

definition valid_unique_number :: "string \<Rightarrow> bool" where
  "valid_unique_number v =
     (let digits = (case v of
            [] \<Rightarrow> v
          | c # t \<Rightarrow> if c = CHR ''+'' \<or> c = CHR ''-'' then t else v)
      in length digits = 9 \<and> list_all is_ascii_digit digits)"

section \<open>The backend\<close>

definition vatsim_presence_packet :: "client_presence \<Rightarrow> raw_packet" where
  "vatsim_presence_packet client =
     (let (cmd, flds) =
            (case cp_client_type client of
               Atc \<Rightarrow>
                 (''AA'', [cp_real_name client, cp_network_id client, [],
                    show_int (cp_rating client), show_nat (unat VATSIM_PROTOCOL_REVISION)])
             | _ \<Rightarrow>
                 (''AP'', [cp_network_id client, [], show_int (cp_rating client),
                    show_nat (unat VATSIM_PROTOCOL_REVISION),
                    show_int (case cp_simulator_type client of None \<Rightarrow> 0 | Some s \<Rightarrow> s),
                    cp_real_name client]))
      in \<lparr>rp_kind = K_Client, rp_command = cmd, rp_source = as_str (cp_callsign client),
          rp_destination = ''SERVER'', rp_fields = flds\<rparr>)"

definition vatsim_encode_presence :: "event \<Rightarrow> protocol_error + wire_frame" where
  "vatsim_encode_presence ev =
     (case ev of
        Ev_ClientAdded client \<Rightarrow> vatsim_frame (vatsim_presence_packet client)
      | _ \<Rightarrow> Inl (protocol_error_new PE_Encoding
                  ''VATSIM presence encoder received an unrelated event''))"

definition vatsim_initial_frames :: "handshake_context \<Rightarrow> protocol_error + wire_frame list" where
  "vatsim_initial_frames context =
     and_then
       (vatsim_frame
          \<lparr>rp_kind = K_Request, rp_command = ''DI'', rp_source = ''CLIENT'',
           rp_destination = ''SERVER'',
           rp_fields = [''VATSIM FSD V3.13'', hc_challenge context]\<rparr>)
       (\<lambda>f. Inr [f])"

definition vatsim_decode :: "decode_context \<Rightarrow> string \<Rightarrow> protocol_error + command" where
  "vatsim_decode context frame =
     and_then (map_err (\<lambda>e. protocol_error_new PE_Syntax (codec_error_text e)) (raw_packet_parse frame))
       (\<lambda>p.
         if rp_command p \<noteq> ''ID'' then classic_decode frame
         else if \<not> eq_ignore_ascii_case (rp_destination p) ''SERVER''
         then Inl (invalid_identification ''destination'' ''must be SERVER'')
         else case rp_fields p of
           [client_id, client_name, major, minor, network_id, unique_number] \<Rightarrow>
             if length client_id \<noteq> 4 \<or> \<not> list_all is_ascii_hexdigit client_id
             then Inl (invalid_identification ''client id'' ''must be four hexadecimal characters'')
             else if major \<noteq> ''3'' \<or> minor \<noteq> ''2''
             then Inl (invalid_identification ''version'' ''must be 3:2'')
             else if network_id = []
             then Inl (invalid_identification ''network id'' ''must not be empty'')
             else if \<not> valid_unique_number unique_number
             then Inl (invalid_identification ''unique number'' ''must be a signed nine-digit number'')
             else
               and_then
                 (map_err (\<lambda>e. with_error_code E_InvalidCallsign
                              (protocol_error_new PE_InvalidField (model_error_text e)))
                    (callsign_parse (rp_source p)))
                 (\<lambda>c. Inr (C_Identify \<lparr>id_callsign = c, id_client_id = client_id,
                              id_client_name = client_name, id_network_id = Some network_id\<rparr>))
         | _ \<Rightarrow> Inl (protocol_error_new PE_Syntax ''$ID requires eight fields''))"

definition vatsim_encode :: "encode_context \<Rightarrow> event \<Rightarrow> protocol_error + wire_frame list" where
  "vatsim_encode context ev =
     (case ev of
        Ev_ClientAdded _ \<Rightarrow> and_then (vatsim_encode_presence ev) (\<lambda>f. Inr [f])
      | _ \<Rightarrow> classic_encode context ev)"

definition vatsim_protocol :: backend where
  "vatsim_protocol =
     \<lparr>pb_dialect = Vatsim, pb_initial_frames = vatsim_initial_frames, pb_decode = vatsim_decode,
      pb_encode = vatsim_encode, pb_recipient_specific = (\<lambda>_. False)\<rparr>"

section \<open>What the backend emits\<close>

lemma vatsim_frame_Inr:
  "vatsim_frame p = Inr f \<longleftrightarrow>
     f = Wire_Frame (packet_bytes p) \<and> length (packet_bytes p) \<le> VATSIM_FRAME_LIMIT
     \<and> list_all (\<lambda>c. \<not> is_delim c) (packet_bytes p)"
  by (auto simp: vatsim_frame_def and_then_Inr_iff raw_packet_encode_ok_iff wire_frame_new_Inr)

lemma vatsim_frame_sendable: "vatsim_frame p = Inr f \<Longrightarrow> sendable f"
  by (auto simp: vatsim_frame_Inr sendable_def)

lemma vatsim_encode_sendable: "vatsim_encode ctx ev = Inr fs \<Longrightarrow> list_all sendable fs \<and> fs \<noteq> []"
  using classic_encode_sendable [of ctx ev fs]
  by (cases ev)
    (auto simp: vatsim_encode_def vatsim_encode_presence_def and_then_Inr_iff list_all_iff
      classic_sendable_def dest: vatsim_frame_sendable)

interpretation vatsim: protocol_backend vatsim_protocol
proof unfold_locales
  show "list_all sendable fs" if "pb_encode vatsim_protocol ctx ev = Inr fs" for ctx ev fs
    using vatsim_encode_sendable [of ctx ev fs] that by (simp add: vatsim_protocol_def)
  show "list_all sendable fs" if "pb_initial_frames vatsim_protocol hs = Inr fs" for hs fs
    using that by (auto simp: vatsim_protocol_def vatsim_initial_frames_def and_then_Inr_iff
        dest: vatsim_frame_sendable)
qed

section \<open>Identification\<close>

text \<open>What an accepted \<open>$ID\<close> frame looks like.\<close>

definition identification_frame :: "string \<Rightarrow> identification \<Rightarrow> bool" where
  "identification_frame frame c =
     (case raw_packet_parse frame of
        Inl _ \<Rightarrow> False
      | Inr p \<Rightarrow>
          rp_command p = ''ID'' \<and> to_ascii_uppercase (rp_destination p) = ''SERVER''
          \<and> callsign_parse (rp_source p) = Inr (id_callsign c)
          \<and> length (rp_fields p) = 6 \<and> rp_fields p ! 0 = id_client_id c \<and> length (id_client_id c) = 4
          \<and> list_all is_ascii_hexdigit (id_client_id c)
          \<and> rp_fields p ! 1 = id_client_name c \<and> rp_fields p ! 2 = ''3'' \<and> rp_fields p ! 3 = ''2''
          \<and> id_network_id c = Some (rp_fields p ! 4) \<and> rp_fields p ! 4 \<noteq> []
          \<and> valid_unique_number (rp_fields p ! 5))"

lemma classic_never_identifies: "classic_decode frame \<noteq> Inr (C_Identify c)"
proof
  assume "classic_decode frame = Inr (C_Identify c)"
  then obtain p where "decode_packet p = Inr (C_Identify c)"
    by (auto simp: classic_decode_def and_then_Inr_iff)
  then show False
    by (cases "rp_kind p"; cases "rp_fields p"; cases "tl (rp_fields p)")
      (auto simp: decode_packet_def position_decode_def decode_query_response_def decode_weather_def
        decode_direct_client_command_def login_decode_def decode_text_def decode_flight_plan_def
        decode_ping_pong_def decode_kill_def and_then_Inr_iff Let_def split: if_splits)
qed

lemma upper_SERVER [simp]: "to_ascii_uppercase ''SERVER'' = ''SERVER''"
  by code_simp

lemma vatsim_identify_iff:
  "vatsim_decode ctx frame = Inr (C_Identify c) \<longleftrightarrow> identification_frame frame c"
proof (cases "raw_packet_parse frame")
  case (Inr p)
  show ?thesis
  proof (cases "length (rp_fields p) = 6")
    case True
    then obtain a b d e f g where flds: "rp_fields p = [a, b, d, e, f, g]"
      by (auto simp: length_Suc_conv numeral_eq_Suc)
    show ?thesis
      by (cases c) (auto simp: vatsim_decode_def identification_frame_def Inr flds and_then_Inr_iff
          classic_never_identifies eq_ignore_ascii_case_def)
  next
    case False
    then show ?thesis
      by (auto simp: vatsim_decode_def identification_frame_def Inr classic_never_identifies
          split: list.splits)
  qed
qed (simp add: vatsim_decode_def identification_frame_def)

end
