(* ===== verification/Aster.thy ===== *)
theory Aster
  imports Protocol
begin

text \<open>
  The Aster dialect (crate \<open>aster_fsd_protocol_aster\<close>): one JSON object per frame, with an
  explicit schema version. The JSON library \<open>serde_json\<close> and the derived (de)serializers are
  not part of the repository: they are the parameter \<open>serde\<close>, and \<open>json_compact\<close> names what
  the backend relies on.
\<close>

section \<open>The JSON library\<close>

text \<open>\<open>serde_json::Value\<close>, with an object as the map from its member names.\<close>

datatype json_value =
    J_Null | J_Bool bool | J_Int int | J_Float f64 | J_String string | J_Array "json_value list"
  | J_Object "(string, json_value) hash_map"

section \<open>Incoming messages\<close>

definition ASTER_VERSION :: u16 where
  "ASTER_VERSION = 1"

text \<open>The first argument of every message is its schema version.\<close>

datatype incoming =
    In_Identify u16 string string string "string option"
  | In_Login u16 string client_type string string i32 string "i32 option"
  | In_Logoff u16 string
  | In_Position u16 position
  | In_Text u16 string destination string
  | In_FlightPlan u16 flight_plan
  | In_Query u16 string destination query_kind "string list"
  | In_Response u16 string destination query_kind "string list"
  | In_Ping u16 string destination string
  | In_Handoff u16 string string handoff_kind "string list"
  | In_ClientData u16 string string client_data_kind "string list"
  | In_WeatherRequest u16 string string bool
  | In_Kill u16 string string string

record serde =
  sj_from_slice :: "string \<Rightarrow> string + incoming"
  sj_to_value :: "event \<Rightarrow> string + json_value"
  sj_to_vec :: "json_value \<Rightarrow> string + string"

fun incoming_version :: "incoming \<Rightarrow> u16" where
  "incoming_version (In_Identify v _ _ _ _) = v"
| "incoming_version (In_Login v _ _ _ _ _ _ _) = v"
| "incoming_version (In_Logoff v _) = v"
| "incoming_version (In_Position v _) = v"
| "incoming_version (In_Text v _ _ _) = v"
| "incoming_version (In_FlightPlan v _) = v"
| "incoming_version (In_Query v _ _ _ _) = v"
| "incoming_version (In_Response v _ _ _ _) = v"
| "incoming_version (In_Ping v _ _ _) = v"
| "incoming_version (In_Handoff v _ _ _ _) = v"
| "incoming_version (In_ClientData v _ _ _ _) = v"
| "incoming_version (In_WeatherRequest v _ _ _) = v"
| "incoming_version (In_Kill v _ _ _) = v"

definition incoming_callsign :: "string \<Rightarrow> protocol_error + callsign" where
  "incoming_callsign v =
     map_err (\<lambda>e. protocol_error_new PE_InvalidField (model_error_text e)) (callsign_parse v)"

definition into_routed_command :: "incoming \<Rightarrow> protocol_error + command" where
  "into_routed_command m =
     (case m of
        In_Query _ source dest kind arguments \<Rightarrow>
          and_then (incoming_callsign source) (\<lambda>s. Inr (C_Query s dest kind arguments))
      | In_Response _ source dest kind arguments \<Rightarrow>
          and_then (incoming_callsign source) (\<lambda>s. Inr (C_Response s dest kind arguments))
      | In_Ping _ source dest payload \<Rightarrow>
          and_then (incoming_callsign source) (\<lambda>s. Inr (C_Ping s dest payload))
      | In_Handoff _ source target kind flds \<Rightarrow>
          and_then (incoming_callsign source) (\<lambda>s.
          and_then (incoming_callsign target) (\<lambda>t. Inr (C_Handoff s t kind flds)))
      | In_ClientData _ source target kind flds \<Rightarrow>
          and_then (incoming_callsign source) (\<lambda>s.
          and_then (incoming_callsign target) (\<lambda>t. Inr (C_ClientData s t kind flds)))
      | _ \<Rightarrow> Inl (protocol_error_new PE_Syntax ''internal Aster command classification mismatch''))"

definition into_command :: "incoming \<Rightarrow> protocol_error + command" where
  "into_command m =
     (if incoming_version m \<noteq> ASTER_VERSION
      then Inl (protocol_error_new PE_Version ''unsupported Aster protocol version'')
      else case m of
        In_Identify _ c client_id client_name network_id \<Rightarrow>
          and_then (incoming_callsign c) (\<lambda>c.
            Inr (C_Identify \<lparr>id_callsign = c, id_client_id = client_id,
                   id_client_name = client_name, id_network_id = network_id\<rparr>))
      | In_Login _ c client_type network_id password requested_rating real_name simulator_type \<Rightarrow>
          and_then (incoming_callsign c) (\<lambda>c.
            Inr (C_Login \<lparr>lc_callsign = c, lc_client_type = client_type, lc_network_id = network_id,
                   lc_password = password, lc_requested_rating = requested_rating,
                   lc_protocol_revision = ASTER_VERSION, lc_real_name = real_name,
                   lc_simulator_type = simulator_type\<rparr>))
      | In_Logoff _ source \<Rightarrow> and_then (incoming_callsign source) (\<lambda>s. Inr (C_Logoff s))
      | In_Position _ pos \<Rightarrow> Inr (C_Position pos)
      | In_Text _ source dest message \<Rightarrow>
          and_then (incoming_callsign source) (\<lambda>s. Inr (C_Text s dest message))
      | In_FlightPlan _ plan \<Rightarrow> Inr (C_FlightPlan plan)
      | In_Query _ _ _ _ _ \<Rightarrow> into_routed_command m
      | In_Response _ _ _ _ _ \<Rightarrow> into_routed_command m
      | In_Ping _ _ _ _ \<Rightarrow> into_routed_command m
      | In_Handoff _ _ _ _ _ \<Rightarrow> into_routed_command m
      | In_ClientData _ _ _ _ _ \<Rightarrow> into_routed_command m
      | In_WeatherRequest _ source station parsed \<Rightarrow>
          and_then (incoming_callsign source) (\<lambda>s. Inr (C_WeatherRequest s station parsed))
      | In_Kill _ source target reason \<Rightarrow>
          and_then (incoming_callsign source) (\<lambda>s.
          and_then (incoming_callsign target) (\<lambda>t. Inr (C_Kill s t reason))))"

section \<open>The backend\<close>

definition encoding_error :: "string \<Rightarrow> protocol_error" where
  "encoding_error message = protocol_error_new PE_Encoding message"

definition hello_value :: "handshake_context \<Rightarrow> json_value" where
  "hello_value context =
     J_Object
       [(''v'', J_Int (uint ASTER_VERSION)), (''type'', J_String ''hello''),
        (''server'', J_String (hc_server_name context)),
        (''server_version'', J_String (hc_server_version context)),
        (''connection_id'', J_Int (uint (hc_connection_id context)))]"

definition aster_initial_frames ::
  "serde \<Rightarrow> handshake_context \<Rightarrow> protocol_error + wire_frame list" where
  "aster_initial_frames sj context =
     and_then
       (and_then (map_err encoding_error (sj_to_vec sj (hello_value context))) wire_frame_new)
       (\<lambda>f. Inr [f])"

definition aster_decode :: "serde \<Rightarrow> decode_context \<Rightarrow> string \<Rightarrow> protocol_error + command" where
  "aster_decode sj context frame =
     and_then (map_err (\<lambda>e. protocol_error_new PE_Syntax e) (sj_from_slice sj frame)) into_command"

definition aster_encode :: "serde \<Rightarrow> encode_context \<Rightarrow> event \<Rightarrow> protocol_error + wire_frame list" where
  "aster_encode sj context ev =
     and_then (map_err encoding_error (sj_to_value sj ev)) (\<lambda>v.
       case v of
         J_Object members \<Rightarrow>
           and_then
             (map_err encoding_error
               (sj_to_vec sj (J_Object (hm_insert ''v'' (J_Int (uint ASTER_VERSION)) members))))
             (\<lambda>b. and_then (wire_frame_new b) (\<lambda>f. Inr [f]))
       | _ \<Rightarrow> Inl (encoding_error ''event did not serialize as an object''))"

definition aster_protocol :: "serde \<Rightarrow> backend" where
  "aster_protocol sj =
     \<lparr>pb_dialect = AsterV1, pb_initial_frames = aster_initial_frames sj,
      pb_decode = aster_decode sj, pb_encode = aster_encode sj,
      pb_recipient_specific = (\<lambda>_. False)\<rparr>"

section \<open>What is relied on\<close>

text \<open>
  JSON text is never empty, and the compact writer escapes control characters, so its output
  holds no line delimiter (documentation of \<open>serde_json::to_vec\<close>).
\<close>

definition json_compact :: "serde \<Rightarrow> bool" where
  "json_compact sj =
     (\<forall>v b. sj_to_vec sj v = Inr b \<longrightarrow> b \<noteq> [] \<and> list_all (\<lambda>c. \<not> is_delim c) b)"

text \<open>An event survives encoding exactly if the library serializes it to an object.\<close>

lemma aster_encode_Inr:
  "aster_encode sj ctx ev = Inr fs \<longleftrightarrow>
     (\<exists>members b. sj_to_value sj ev = Inr (J_Object members)
        \<and> sj_to_vec sj (J_Object (hm_insert ''v'' (J_Int 1) members)) = Inr b
        \<and> list_all (\<lambda>c. \<not> is_delim c) b \<and> fs = [Wire_Frame b])"
  by (cases "sj_to_value sj ev")
    (auto simp: aster_encode_def and_then_Inr_iff wire_frame_new_Inr ASTER_VERSION_def split: json_value.splits)

lemma aster_backend:
  assumes "json_compact sj"
  shows "protocol_backend (aster_protocol sj)"
proof
  show "list_all sendable fs" if "pb_encode (aster_protocol sj) ctx ev = Inr fs" for ctx ev fs
    using that assms
    by (auto simp: aster_protocol_def aster_encode_Inr sendable_def json_compact_def)
  show "list_all sendable fs" if "pb_initial_frames (aster_protocol sj) hs = Inr fs" for hs fs
    using that assms
    by (auto simp: aster_protocol_def aster_initial_frames_def and_then_Inr_iff wire_frame_new_Inr
        sendable_def json_compact_def)
qed

section \<open>What is decoded\<close>

lemma incoming_callsign_Inr [simp]: "incoming_callsign v = Inr c \<longleftrightarrow> callsign_parse v = Inr c"
  by (simp add: incoming_callsign_def)

lemma into_command_version: "into_command m = Inr cmd \<Longrightarrow> incoming_version m = ASTER_VERSION"
  by (simp add: into_command_def split: if_splits)

lemma into_command_login: "into_command m = Inr (C_Login c) \<Longrightarrow> lc_protocol_revision c = ASTER_VERSION"
  by (cases m) (auto simp: into_command_def into_routed_command_def and_then_Inr_iff split: if_splits)

lemma into_command_classified:
  "into_command m \<noteq> Inl (protocol_error_new PE_Syntax ''internal Aster command classification mismatch'')"
proof -
  have kinds: "protocol_error_new k s = protocol_error_new l t \<longleftrightarrow> k = l \<and> s = t" for k l s t
    by (simp add: protocol_error_new_def)
  have cs: "incoming_callsign v \<noteq> Inl (protocol_error_new PE_Syntax s)" for v s
    by (cases "callsign_parse v") (auto simp: incoming_callsign_def kinds)
  have step: "and_then (incoming_callsign v) f = Inl (protocol_error_new PE_Syntax s) \<longleftrightarrow>
      (\<exists>c. callsign_parse v = Inr c \<and> f c = Inl (protocol_error_new PE_Syntax s))" for v f s
    using cs [of v s] by (cases "callsign_parse v") (auto simp: incoming_callsign_def)
  show ?thesis
    by (cases m) (auto simp: into_command_def into_routed_command_def kinds step)
qed

end
