(* ===== verification/Backends.thy ===== *)
theory Backends
  imports Server Vatsim Aster
begin

text \<open>
  The composition of \<open>src/main.rs\<close>: the three backends the server is started with, and that
  each of them meets what dispatching relies on.
\<close>

definition service_registry :: "serde \<Rightarrow> backend_registry" where
  "service_registry sj =
     registry_register (aster_protocol sj)
       (registry_register vatsim_protocol (registry_register classic_protocol []))"

definition deployed :: "serde \<Rightarrow> backend set" where
  "deployed sj = {classic_protocol, vatsim_protocol, aster_protocol sj}"

lemma dialects [simp]:
  "pb_dialect classic_protocol = Classic" "pb_dialect vatsim_protocol = Vatsim"
  "pb_dialect (aster_protocol sj) = AsterV1"
  by (simp_all add: classic_protocol_def vatsim_protocol_def aster_protocol_def)

lemma registry_total: "\<exists>b. registry_get (service_registry sj) d = Some b \<and> b \<in> deployed sj \<and> pb_dialect b = d"
  by (cases d) (simp_all add: service_registry_def registry_register_def registry_get_def hm.get_insert deployed_def)

lemma deployed_dialect_inj: "b \<in> deployed sj \<Longrightarrow> b' \<in> deployed sj \<Longrightarrow> pb_dialect b = pb_dialect b' \<Longrightarrow> b = b'"
  by (auto simp: deployed_def)

lemma classic_encode_context: "classic_encode ctx ev = classic_encode ctx' ev"
  by (cases ev) (simp_all add: classic_encode_def)

interpretation classic_shared: shareable_backend classic_protocol
  by unfold_locales (simp add: classic_protocol_def classic_encode_context)

interpretation vatsim_shared: shareable_backend vatsim_protocol
proof unfold_locales
  show "pb_encode vatsim_protocol ctx ev = pb_encode vatsim_protocol ctx' ev" for ctx ctx' ev
    using classic_encode_context [of ctx ev ctx']
    by (cases ev) (simp_all add: vatsim_protocol_def vatsim_encode_def)
qed

interpretation aster_shared: shareable_backend "aster_protocol sj" for sj
  by unfold_locales (simp add: aster_protocol_def aster_encode_def)

lemma deployed_shareable: "b \<in> deployed sj \<Longrightarrow> shareable_backend b"
  by (auto simp: deployed_def intro: classic_shared.shareable_backend_axioms
      vatsim_shared.shareable_backend_axioms aster_shared.shareable_backend_axioms)

lemma deployed_backend: "json_compact sj \<Longrightarrow> b \<in> deployed sj \<Longrightarrow> protocol_backend b"
  by (auto simp: deployed_def intro: classic.protocol_backend_axioms vatsim.protocol_backend_axioms aster_backend)

section \<open>The connection table\<close>

text \<open>Every connection uses the registered backend of its dialect.\<close>

definition table_ok :: "serde \<Rightarrow> 'ch connections \<Rightarrow> bool" where
  "table_ok sj connections =
     (hm_wf connections \<and> (\<forall>i h. hm_get connections i = Some h \<longrightarrow> ch_backend h \<in> deployed sj))"

lemma enqueue_backend [simp]: "ch_backend (enqueue ms r h) = ch_backend h"
  by (auto simp: enqueue_def split: sum.splits prod.splits send_outcome.splits)

lemma table_ok_insert:
  "table_ok sj connections \<Longrightarrow> ch_backend h \<in> deployed sj \<Longrightarrow> table_ok sj (hm_insert i h connections)"
  by (auto simp: table_ok_def hm.wf_insert hm.get_insert)

lemma table_ok_remove: "table_ok sj connections \<Longrightarrow> table_ok sj (hm_remove i connections)"
  by (auto simp: table_ok_def hm.wf_remove hm.get_remove)

section \<open>Dispatch without the cache\<close>

definition plain_one ::
  "'ch runtime \<Rightarrow> net_state \<Rightarrow> event \<Rightarrow> connection_id \<Rightarrow> 'ch connections \<Rightarrow> 'ch connections" where
  "plain_one rt net ev i connections =
     (case hm_get connections i of
        None \<Rightarrow> connections
      | Some h \<Rightarrow>
          hm_insert i
            (enqueue (ru_mpsc rt) (pb_encode (ch_backend h) (encode_context_for rt net i) ev) h)
            connections)"

definition plain_dispatch ::
  "'ch runtime \<Rightarrow> net_state \<Rightarrow> effects \<Rightarrow> 'ch connections \<Rightarrow> 'ch connections" where
  "plain_dispatch rt net eff connections =
     dispatch_close rt (ef_close eff)
       (fold (\<lambda>d. fold (plain_one rt net (dl_event d)) (dl_recipients d)) (ef_deliveries eff) connections)"

definition cache_sound :: "serde \<Rightarrow> event \<Rightarrow> frame_cache \<Rightarrow> bool" where
  "cache_sound sj ev cache =
     (\<forall>d fs b ctx. hm_get cache d = Some fs \<and> b \<in> deployed sj \<and> pb_dialect b = d
        \<longrightarrow> pb_encode b ctx ev = Inr fs)"

lemma frames_for_sound:
  assumes "cache_sound sj ev cache" "b \<in> deployed sj"
  shows "fst (frames_for b ctx ev cache) = pb_encode b ctx ev"
    and "cache_sound sj ev (snd (frames_for b ctx ev cache))"
proof -
  note sh = deployed_shareable [OF assms(2)]
  show "fst (frames_for b ctx ev cache) = pb_encode b ctx ev"
    using assms by (intro shareable_backend.frames_for_result [OF sh]) (auto simp: cache_sound_def)
  show "cache_sound sj ev (snd (frames_for b ctx ev cache))"
    unfolding cache_sound_def
    using assms shareable_backend.frames_for_cache [OF sh] deployed_dialect_inj
    unfolding cache_sound_def by metis
qed

lemma plain_one_table: "table_ok sj connections \<Longrightarrow> table_ok sj (plain_one rt net ev i connections)"
  by (auto simp: plain_one_def table_ok_def hm.wf_insert hm.get_insert split: option.splits)

lemma dispatch_one_plain:
  assumes "cache_sound sj ev cache" "table_ok sj connections"
  shows "\<exists>cache'. dispatch_one rt net ev i (cache, connections) = (cache', plain_one rt net ev i connections)
    \<and> cache_sound sj ev cache'"
proof (cases "hm_get connections i")
  case (Some h)
  with assms(2) have b: "ch_backend h \<in> deployed sj" by (auto simp: table_ok_def)
  let ?r = "frames_for (ch_backend h) (encode_context_for rt net i) ev cache"
  have "?r = (pb_encode (ch_backend h) (encode_context_for rt net i) ev, snd ?r)"
    using frames_for_sound(1) [OF assms(1) b, of "encode_context_for rt net i"] by (metis prod.collapse)
  moreover have "cache_sound sj ev (snd ?r)" by (rule frames_for_sound(2) [OF assms(1) b])
  ultimately show ?thesis
    using Some by (auto simp: dispatch_one_def plain_one_def split: prod.split)
qed (use assms in \<open>simp add: dispatch_one_def plain_one_def\<close>)

lemma dispatch_fold_plain:
  assumes "cache_sound sj ev cache" "table_ok sj connections"
  shows "snd (fold (dispatch_one rt net ev) is (cache, connections)) = fold (plain_one rt net ev) is connections
    \<and> table_ok sj (fold (plain_one rt net ev) is connections)"
  using assms
proof (induction "is" arbitrary: cache connections)
  case (Cons i "is")
  from dispatch_one_plain [OF Cons.prems, of rt net i] obtain cache' where
    "dispatch_one rt net ev i (cache, connections) = (cache', plain_one rt net ev i connections)"
    "cache_sound sj ev cache'" by blast
  with Cons.IH plain_one_table [OF Cons.prems(2)] show ?case by simp
qed simp

lemma dispatch_delivery_plain:
  "table_ok sj connections \<Longrightarrow>
     dispatch_delivery rt net d connections = fold (plain_one rt net (dl_event d)) (dl_recipients d) connections
     \<and> table_ok sj (fold (plain_one rt net (dl_event d)) (dl_recipients d) connections)"
  using dispatch_fold_plain [of sj "dl_event d" "[]" connections rt net "dl_recipients d"]
  by (simp add: dispatch_delivery_def cache_sound_def)

lemma dispatch_plain: "table_ok sj connections \<Longrightarrow> dispatch rt net eff connections = plain_dispatch rt net eff connections"
proof -
  assume t: "table_ok sj connections"
  have "fold (dispatch_delivery rt net) ds connections =
      fold (\<lambda>d. fold (plain_one rt net (dl_event d)) (dl_recipients d)) ds connections" for ds
    using t
  proof (induction ds arbitrary: connections)
    case (Cons d ds)
    from dispatch_delivery_plain [OF Cons.prems, of rt net d] Cons.IH show ?case by simp
  qed simp
  then show ?thesis by (simp add: dispatch_def plain_dispatch_def)
qed

section \<open>What a dispatch does to one connection\<close>

lemma plain_one_get:
  "hm_get (plain_one rt net ev i connections) j =
     (if j = i
      then map_option (\<lambda>h. enqueue (ru_mpsc rt) (pb_encode (ch_backend h) (encode_context_for rt net i) ev) h)
             (hm_get connections i)
      else hm_get connections j)"
  by (auto simp: plain_one_def hm.get_insert split: option.split)

lemma plain_fold_get:
  "distinct is \<Longrightarrow> hm_get (fold (plain_one rt net ev) is connections) j =
     (if j \<in> set is
      then map_option (\<lambda>h. enqueue (ru_mpsc rt) (pb_encode (ch_backend h) (encode_context_for rt net j) ev) h)
             (hm_get connections j)
      else hm_get connections j)"
  by (induction "is" arbitrary: connections) (auto simp: plain_one_get)

lemma plain_fold_other: "j \<notin> set is \<Longrightarrow> hm_get (fold (plain_one rt net ev) is connections) j = hm_get connections j"
  by (induction "is" arbitrary: connections) (auto simp: plain_one_get)

lemma dispatch_delivery_get:
  assumes "table_ok sj connections" "distinct (dl_recipients d)"
  shows "hm_get (dispatch_delivery rt net d connections) j =
    (if j \<in> set (dl_recipients d)
     then map_option (\<lambda>h. enqueue (ru_mpsc rt)
            (pb_encode (ch_backend h) (encode_context_for rt net j) (dl_event d)) h) (hm_get connections j)
     else hm_get connections j)"
  using dispatch_delivery_plain [OF assms(1), of rt net d] by (simp add: plain_fold_get [OF assms(2)])

lemma plain_deliveries_other:
  "\<forall>d \<in> set ds. j \<notin> set (dl_recipients d) \<Longrightarrow>
     hm_get (fold (\<lambda>d. fold (plain_one rt net (dl_event d)) (dl_recipients d)) ds connections) j = hm_get connections j"
  by (induction ds arbitrary: connections) (simp_all add: plain_fold_other)

lemma dispatch_close_other:
  "(\<And>cc. close = Some cc \<Longrightarrow> cc_connection_id cc \<noteq> j) \<Longrightarrow>
     hm_get (dispatch_close rt close connections) j = hm_get connections j"
  by (auto simp: dispatch_close_def hm.get_insert split: option.split)

text \<open>Cancelling is for good, and no handle disappears or changes its backend.\<close>

definition handle_kept :: "'ch connections \<Rightarrow> 'ch connections \<Rightarrow> connection_id \<Rightarrow> bool" where
  "handle_kept old new j =
     (case hm_get old j of
        None \<Rightarrow> hm_get new j = None
      | Some h \<Rightarrow> (\<exists>h'. hm_get new j = Some h' \<and> ch_backend h' = ch_backend h \<and> (ch_cancel h \<longrightarrow> ch_cancel h')))"

lemma handle_kept_refl: "handle_kept c c j"
  by (simp add: handle_kept_def split: option.split)

lemma handle_kept_trans: "handle_kept a b j \<Longrightarrow> handle_kept b c j \<Longrightarrow> handle_kept a c j"
  by (auto simp: handle_kept_def split: option.splits)

lemma enqueue_cancel: "ch_cancel h \<Longrightarrow> ch_cancel (enqueue ms r h)"
  by (auto simp: enqueue_def split: sum.splits prod.splits send_outcome.splits)

lemma plain_one_kept: "handle_kept c (plain_one rt net ev i c) j"
  by (auto simp: handle_kept_def plain_one_get enqueue_cancel split: option.split)

lemma plain_fold_kept: "handle_kept c (fold (plain_one rt net ev) is c) j"
  by (induction "is" arbitrary: c) (auto intro: handle_kept_refl handle_kept_trans plain_one_kept)

lemma plain_deliveries_kept:
  "handle_kept c (fold (\<lambda>d. fold (plain_one rt net (dl_event d)) (dl_recipients d)) ds c) j"
  by (induction ds arbitrary: c) (auto intro: handle_kept_refl handle_kept_trans plain_fold_kept)

lemma dispatch_close_kept: "handle_kept c (dispatch_close rt close c) j"
  by (auto simp: handle_kept_def dispatch_close_def hm.get_insert
      split: option.split prod.split send_outcome.split)

lemma plain_dispatch_kept: "handle_kept c (plain_dispatch rt net eff c) j"
  unfolding plain_dispatch_def
  by (rule handle_kept_trans [OF plain_deliveries_kept dispatch_close_kept])

end
