(* ===== verification/Decode_Errors.thy ===== *)
theory Decode_Errors
  imports Vatsim
begin

text \<open>
  Which errors the classic and VATSIM decoders can raise: syntax errors, invalid fields and
  unsupported commands only, never a framing or a version error (the two kinds that close a
  connection).
\<close>

section \<open>Errors of a computation\<close>

definition fails_with :: "('e \<Rightarrow> bool) \<Rightarrow> 'e + 'a \<Rightarrow> bool" where
  "fails_with P r = (case r of Inl e \<Rightarrow> P e | Inr _ \<Rightarrow> True)"

named_theorems fails_intros "rules that walk through a computation that may fail"

lemma fails_withD: "fails_with P r \<Longrightarrow> r = Inl e \<Longrightarrow> P e"
  by (simp add: fails_with_def)

lemma fails_Inr [fails_intros]: "fails_with P (Inr x)"
  by (simp add: fails_with_def)

lemma fails_Inl [fails_intros]: "P e \<Longrightarrow> fails_with P (Inl e)"
  by (simp add: fails_with_def)

lemma fails_and_then [fails_intros]:
  "fails_with P r \<Longrightarrow> (\<And>x. fails_with P (f x)) \<Longrightarrow> fails_with P (and_then r f)"
  by (cases r) (simp_all add: fails_with_def)

lemma fails_map_err [fails_intros]: "(\<And>e. P (g e)) \<Longrightarrow> fails_with P (map_err g r)"
  by (cases r) (simp_all add: fails_with_def)

lemma fails_ok_or [fails_intros]: "P e \<Longrightarrow> fails_with P (ok_or e r)"
  by (cases r) (simp_all add: fails_with_def)

lemma fails_if [fails_intros]: "fails_with P r \<Longrightarrow> fails_with P s \<Longrightarrow> fails_with P (if b then r else s)"
  by simp

lemma fails_list [fails_intros]:
  "fails_with P r \<Longrightarrow> (\<And>x xs. fails_with P (f x xs)) \<Longrightarrow> fails_with P (case ws of [] \<Rightarrow> r | x # xs \<Rightarrow> f x xs)"
  by (cases ws) simp_all

lemma fails_option [fails_intros]:
  "fails_with P r \<Longrightarrow> (\<And>x. fails_with P (f x)) \<Longrightarrow> fails_with P (case v of None \<Rightarrow> r | Some x \<Rightarrow> f x)"
  by (cases v) simp_all

section \<open>Field errors\<close>

definition field_error :: "protocol_error \<Rightarrow> bool" where
  "field_error e = (pe_kind e \<in> {PE_Syntax, PE_InvalidField, PE_Unsupported})"

lemma field_error_new [fails_intros]:
  "field_error (protocol_error_new PE_Syntax m)" "field_error (protocol_error_new PE_InvalidField m)"
  "field_error (protocol_error_new PE_Unsupported m)" "field_error (syntax_error m)"
  "field_error e \<Longrightarrow> field_error (with_error_code c e)"
  "field_error (invalid_identification f m)"
  by (simp_all add: field_error_def protocol_error_new_def with_error_code_def syntax_error_def
      invalid_identification_def)

lemma fails_callsign [fails_intros]: "fails_with field_error (decode_callsign v c)"
  unfolding decode_callsign_def by (rule fails_map_err) (auto split: model_error.split intro: fails_intros)

lemma fails_destination [fails_intros]: "fails_with field_error (decode_destination v)"
  unfolding decode_destination_def by (intro fails_intros)

lemma fails_direct_destination [fails_intros]: "fails_with field_error (direct_destination v cmd)"
  unfolding direct_destination_def
  by (intro fails_intros) (auto split: destination.split intro: fails_intros)

lemma fails_direct_callsign [fails_intros]: "fails_with field_error (direct_callsign v cmd)"
  unfolding direct_callsign_def
  by (intro fails_intros) (auto split: destination.split intro: fails_intros)

lemma fails_fields [fails_intros]:
  "fails_with field_error (require_fields p n)" "fails_with field_error (get_field fs i m)"
  "fails_with field_error (parse_i32 v m)" "fails_with field_error (parse_u32 v m)"
  "fails_with field_error (parse_f64 v m)" "fails_with field_error (parse_protocol_revision v)"
  "fails_with field_error (canonical_squawk v)"
  unfolding require_fields_def get_field_def parse_i32_def parse_u32_def parse_f64_def
    parse_protocol_revision_def canonical_squawk_def
  by (intro fails_intros)+

lemma fails_login: "fails_with field_error (login_decode p)"
  unfolding login_decode_def by (intro fails_intros)

lemma fails_position: "fails_with field_error (position_decode p)"
  unfolding position_decode_def Let_def
  by (cases "rp_kind p"; simp only: raw_packet_kind.case; intro fails_intros)

lemma fails_routed [fails_intros]:
  "fails_with field_error (decode_text p)" "fails_with field_error (decode_ping_pong p)"
  "fails_with field_error (decode_kill p)" "fails_with field_error (decode_flight_plan p)"
  "fails_with field_error (decode_query_response p)" "fails_with field_error (decode_weather p)"
  "fails_with field_error (decode_direct_client_command p)"
  unfolding decode_text_def decode_ping_pong_def decode_kill_def decode_flight_plan_def
    decode_query_response_def decode_weather_def decode_direct_client_command_def Let_def
  by (intro fails_intros)+

lemma classic_field_error: "fails_with field_error (classic_decode frame)"
  unfolding classic_decode_def decode_packet_def
  by (intro fails_intros fails_login fails_position)

lemma vatsim_field_error: "fails_with field_error (vatsim_decode ctx frame)"
  unfolding vatsim_decode_def by (intro fails_intros classic_field_error)

end
