(* ===== verification/Server_Properties.thy ===== *)
theory Server_Properties
  imports Backends Decode_Errors Classic_Properties
begin

text \<open>
  The properties of the runtime: what dispatching does to each connection, what a frame that
  cannot be decoded or encoded leads to, that a connection leaves nothing behind, and that what
  is queued for a client is what it reads.
\<close>

section \<open>A mailbox\<close>

text \<open>A bounded queue whose receiver is alive: an instance of the parameter \<open>mpsc\<close>.\<close>

definition queue_mpsc :: "(nat \<times> outbound list) mpsc" where
  "queue_mpsc =
     \<lparr>mp_channel = (\<lambda>capacity. (capacity, [])),
      mp_try_send = (\<lambda>m (capacity, ms).
        if length ms < capacity then (Sent, capacity, ms @ [m]) else (Send_Full, capacity, ms))\<rparr>"

definition demo_listener :: listener_config where
  "demo_listener =
     \<lparr>li_name = ''classic'', li_address = ''127.0.0.1'', li_port = 6809, li_protocol = Classic,
      li_max_frame_bytes = 511, li_idle_timeout_seconds = 500\<rparr>"

definition demo_server_config :: server_config where
  "demo_server_config =
     \<lparr>sc_server_name = ''AsterFSD'', sc_server_version = ''0.2.0'', sc_mailbox_capacity = 1,
      sc_wind_delta_interval_seconds = 70, sc_listeners = [demo_listener]\<rparr>"

definition demo_runtime :: "(nat \<times> outbound list) runtime" where
  "demo_runtime = \<lparr>ru_config = demo_server_config, ru_network = demo_network, ru_mpsc = queue_mpsc\<rparr>"

definition demo_handle :: "backend \<Rightarrow> (nat \<times> outbound list) connection_handle" where
  "demo_handle b = \<lparr>ch_backend = b, ch_outbound = (1, []), ch_cancel = False\<rparr>"

definition demo_table :: "(nat \<times> outbound list) connections" where
  "demo_table = [(1, demo_handle classic_protocol), (2, demo_handle vatsim_protocol)]"

definition demo_serde :: serde where
  "demo_serde = \<lparr>sj_from_slice = (\<lambda>_. Inl ''unsupported''), sj_to_value = (\<lambda>_. Inr (J_Object [])),
     sj_to_vec = (\<lambda>_. Inr ''{}'')\<rparr>"

lemma demo_table_ok: "table_ok demo_serde demo_table"
  by (auto simp: table_ok_def demo_table_def hm_wf_def hm_get_def demo_handle_def deployed_def split: if_splits)

lemma demo_table_get:
  "hm_get demo_table 1 = Some (demo_handle classic_protocol)"
  "hm_get demo_table 2 = Some (demo_handle vatsim_protocol)"
  by (simp_all add: demo_table_def hm_get_def)

section \<open>Dispatch\<close>

text \<open>
  C17: Encoding an event once per dialect and reusing the frames changes nothing: with the
  registered backends, \<open>dispatch\<close> has the effect of encoding every event for every recipient
  on its own.
\<close>

theorem dispatch_cache_transparent:
  assumes "table_ok sj connections"
  shows "dispatch rt net eff connections = plain_dispatch rt net eff connections"
  using assms by (rule dispatch_plain)

theorem dispatch_cache_transparent_witness:
  "dispatch demo_runtime demo_net (broadcast demo_net (Ev_WindDelta 1 2)) demo_table
   = plain_dispatch demo_runtime demo_net (broadcast demo_net (Ev_WindDelta 1 2)) demo_table"
  using demo_table_ok by (rule dispatch_cache_transparent)

text \<open>
  C22: A delivery treats each connection on its own. A recipient in the table gets the frames
  encoded for it put into its mailbox; it is cancelled exactly if the encoding fails or its own
  mailbox does not take the frames. A full or closed mailbox of one client has no effect on
  any other, and connections that are not recipients are untouched.
\<close>

theorem delivery_isolated:
  assumes "table_ok sj connections" and "distinct (dl_recipients d)"
  shows "hm_get (dispatch_delivery rt net d connections) j =
    (if j \<in> set (dl_recipients d)
     then map_option (\<lambda>h.
            case pb_encode (ch_backend h) (encode_context_for rt net j) (dl_event d) of
              Inl _ \<Rightarrow> h\<lparr>ch_cancel := True\<rparr>
            | Inr fs \<Rightarrow>
                (case mp_try_send (ru_mpsc rt) (Out_Frames fs) (ch_outbound h) of (r, c) \<Rightarrow>
                   h\<lparr>ch_outbound := c, ch_cancel := (ch_cancel h \<or> r \<noteq> Sent)\<rparr>))
          (hm_get connections j)
     else hm_get connections j)"
proof -
  have eq: "enqueue ms r h = (case r of Inl _ \<Rightarrow> h\<lparr>ch_cancel := True\<rparr>
      | Inr fs \<Rightarrow> (case mp_try_send ms (Out_Frames fs) (ch_outbound h) of (r, c) \<Rightarrow>
          h\<lparr>ch_outbound := c, ch_cancel := (ch_cancel h \<or> r \<noteq> Sent)\<rparr>))"
    for ms :: "'a mpsc" and r h
    by (cases h) (auto simp: enqueue_def split: sum.split prod.split send_outcome.split)
  show ?thesis
    using dispatch_delivery_get [OF assms, of rt net j] by (simp add: eq)
qed

theorem delivery_isolated_witness:
  "hm_get (dispatch_delivery demo_runtime demo_net
     \<lparr>dl_recipients = [1], dl_event = Ev_WindDelta 1 2\<rparr> demo_table) 2 = Some (demo_handle vatsim_protocol)"
  using delivery_isolated [OF demo_table_ok, of "\<lparr>dl_recipients = [1], dl_event = Ev_WindDelta 1 2\<rparr>"]
  by (simp add: demo_table_get)

section \<open>Events that cannot be encoded\<close>

lemma long_text_not_encoded:
  assumes "CLASSIC_MAX_FRAME_BYTES \<le> length m" "b = classic_protocol \<or> b = vatsim_protocol"
  shows "\<exists>e. pb_encode b ctx (Ev_Text c d m) = Inl e"
proof -
  have "\<nexists>f. command_frame K_Client ''TM'' (as_str c) (destination_text d) [m] = Inr f"
    using assms(1) by (auto simp: command_frame_def packet_frame_Inr packet_bytes_def packet_head_def)
  then obtain e where "command_frame K_Client ''TM'' (as_str c) (destination_text d) [m] = Inl e"
    by (cases "command_frame K_Client ''TM'' (as_str c) (destination_text d) [m]") auto
  then show ?thesis
    using assms(2)
    by (auto simp: classic_protocol_def vatsim_protocol_def vatsim_encode_def classic_encode_def encode_routed_def)
qed

text \<open>
  C34: One long message disconnects everybody. When an active client sends a text of 511 bytes or
  more to all (a VATSIM listener with the suggested limit of 4096 bytes or an Aster listener let it
  through), the text is encodable for no classic and no VATSIM client, and the connection of every
  one of them that is active and in the connection table is cancelled.
\<close>

theorem long_text_cancels_peers:
  assumes "table_ok sj (rs_connections s)" and "net_inv config (rs_net s)"
    and "pb_decode b (decode_context_for (rs_net s) i chal) frame = Inr (C_Text c To_All m)"
    and "session_of (rs_net s) i = Some x" and "s_phase x = Active" and "session_callsign x = Some c"
    and "CLASSIC_MAX_FRAME_BYTES \<le> length m"
    and "session_of (rs_net s) j = Some y" and "s_phase y = Active" and "j \<noteq> i"
    and "hm_get (rs_connections s) j = Some h"
    and "ch_backend h = classic_protocol \<or> ch_backend h = vatsim_protocol"
  shows "\<exists>h'. hm_get (rs_connections (snd (process_frame rt b i chal frame s))) j = Some h' \<and> ch_cancel h'"
proof -
  let ?net = "rs_net s" and ?ev = "Ev_Text c To_All m"
  let ?rs = "active_ids ?net (Some i)"
  let ?d = "\<lparr>dl_recipients = ?rs, dl_event = ?ev\<rparr>"
  have act: "j \<in> set ?rs" "distinct ?rs"
    using assms(8-10) active_ids_distinct [OF assms(2)] active_ids_iff [OF assms(2)] by auto
  then have "?rs \<noteq> []" by auto
  moreover obtain p where "s_presence x = Some p" "cp_callsign p = c"
    using assms(6) by (auto simp: session_callsign_def)
  ultimately have "execute (ru_network rt) i (C_Text c To_All m) ?net =
      (\<lparr>ef_deliveries = [?d], ef_close = None\<rparr>, ?net)"
    using assms(4,5)
    by (simp add: execute_def execute_active_def handle_routed_command_def resolve_destination_def send_def Let_def)
  then have res: "rs_connections (snd (process_frame rt b i chal frame s)) =
      dispatch_delivery rt ?net ?d (rs_connections s)"
    using assms(3) by (simp add: process_frame_def dispatch_state_def dispatch_def dispatch_close_def Let_def)
  obtain e where "pb_encode (ch_backend h) (encode_context_for rt ?net j) ?ev = Inl e"
    using long_text_not_encoded [OF assms(7,12)] by blast
  then show ?thesis
    unfolding res using act assms(11) dispatch_delivery_get [OF assms(1), of ?d rt ?net j]
    by (simp add: enqueue_def)
qed

definition demo_long_frame :: string where
  "demo_long_frame = packet_bytes \<lparr>rp_kind = K_Client, rp_command = ''TM'', rp_source = ''LFPG'',
     rp_destination = ''*'', rp_fields = [replicate 600 CHR ''x'']\<rparr>"

lemma demo_long_decode:
  "vatsim_decode ctx demo_long_frame = Inr (C_Text demo_tower To_All (replicate 600 CHR ''x''))"
proof -
  let ?p = "\<lparr>rp_kind = K_Client, rp_command = ''TM'', rp_source = ''LFPG'',
     rp_destination = ''*'', rp_fields = [replicate 600 CHR ''x'']\<rparr>"
  have "is_ascii (replicate 600 CHR ''x'')" by (simp add: is_ascii_def list_all_iff byte_def)
  moreover have "is_ascii ''LFPG''" "is_ascii ''TM''" "is_ascii ''*''" by code_simp+
  ultimately have "wf_packet ?p"
    by (simp add: wf_packet_def valid_utf8_ascii del: is_ascii_Cons)
  then have "raw_packet_parse demo_long_frame = Inr ?p"
    unfolding demo_long_frame_def by (rule parse_packet_bytes)
  moreover have "callsign_parse ''LFPG'' = Inr demo_tower" "destination_parse ''*'' = Inr To_All"
    unfolding demo_tower_def by code_simp+
  ultimately show ?thesis
    by (simp add: vatsim_decode_def classic_decode_def decode_packet_def decode_text_def require_fields_def
        decode_callsign_def decode_destination_def)
qed

theorem long_text_cancels_peers_witness:
  "\<exists>h. hm_get (rs_connections (snd (process_frame demo_runtime vatsim_protocol 2 [] demo_long_frame
      \<lparr>rs_net = demo_net, rs_connections = demo_table, rs_next_connection_id = 4\<rparr>))) 1 = Some h \<and> ch_cancel h"
proof -
  let ?s = "\<lparr>rs_net = demo_net, rs_connections = demo_table, rs_next_connection_id = 4\<rparr>"
  have dec: "pb_decode vatsim_protocol (decode_context_for (rs_net ?s) 2 []) demo_long_frame
      = Inr (C_Text demo_tower To_All (replicate 600 CHR ''x''))"
    by (simp add: vatsim_protocol_def demo_long_decode)
  show ?thesis
    using long_text_cancels_peers [of demo_serde ?s demo_config, OF _ _ dec, of demo_tower_session 1 demo_pilot_session
        "demo_handle classic_protocol" demo_runtime]
      demo_table_ok demo_inv(2) demo_lookup demo_table_get
    by (simp add: demo_tower_session_def demo_pilot_session_def session_callsign_def presence_of_login_def
        demo_tower_login_def CLASSIC_MAX_FRAME_BYTES_def demo_handle_def)
qed

section \<open>Frames that cannot be decoded\<close>

text \<open>
  C21: A frame that does not decode harms nobody. The state of the network stays as it is, the
  entries of all other connections stay as they are, and a session that is active on a classic
  or VATSIM connection is not closed for it (an Aster client is, if it names another version).
\<close>

theorem malformed_frame_harmless:
  assumes "table_ok sj (rs_connections s)" and "b \<in> deployed sj"
    and "pb_decode b (decode_context_for (rs_net s) i chal) frame = Inl e"
    and "process_frame rt b i chal frame s = (go, s')"
  shows "rs_net s' = rs_net s \<and> (j = i \<or> hm_get (rs_connections s') j = hm_get (rs_connections s) j)
    \<and> (pb_dialect b = AsterV1 \<or> dc_phase (decode_context_for (rs_net s) i chal) \<noteq> Active \<or> go)"
proof -
  let ?ctx = "decode_context_for (rs_net s) i chal"
  let ?eff = "decode_error_effects i (dc_callsign ?ctx) e"
  from assms(3,4) have s': "go = (\<not> closes_connection (dc_phase ?ctx) e)" "s' = dispatch_state rt ?eff s"
    by (auto simp: process_frame_def Let_def)
  have "hm_get (rs_connections s') j = hm_get (rs_connections s) j" if "j \<noteq> i"
    using that dispatch_plain [OF assms(1), of rt "rs_net s" ?eff] plain_deliveries_other [of "ef_deliveries ?eff" j]
    by (simp add: s' dispatch_state_def plain_dispatch_def decode_error_effects_def dispatch_close_def Let_def)
  moreover have "field_error e" if "pb_dialect b \<noteq> AsterV1"
  proof -
    from that assms(2) consider "b = classic_protocol" | "b = vatsim_protocol"
      by (auto simp: deployed_def)
    then show ?thesis
      using assms(3) fails_withD [OF classic_field_error] fails_withD [OF vatsim_field_error]
      by cases (auto simp: classic_protocol_def vatsim_protocol_def)
  qed
  then have "pb_dialect b = AsterV1 \<or> dc_phase ?ctx \<noteq> Active \<or> go"
    by (auto simp: s' closes_connection_def field_error_def Let_def)
  ultimately show ?thesis by (auto simp: s' dispatch_state_def)
qed

theorem malformed_frame_harmless_witness:
  "fst (process_frame demo_runtime classic_protocol 1 [] ''hello''
     \<lparr>rs_net = demo_net, rs_connections = demo_table, rs_next_connection_id = 4\<rparr>)"
proof -
  let ?s = "\<lparr>rs_net = demo_net, rs_connections = demo_table, rs_next_connection_id = 4\<rparr>"
  have "classic_decode ''hello'' = Inl (protocol_error_new PE_Syntax (codec_error_text (CE_UnknownPrefix CHR ''h'')))"
    by code_simp
  then have dec: "pb_decode classic_protocol (decode_context_for (rs_net ?s) 1 []) ''hello''
      = Inl (protocol_error_new PE_Syntax (codec_error_text (CE_UnknownPrefix CHR ''h'')))"
    by (simp add: classic_protocol_def)
  have "dc_phase (decode_context_for (rs_net ?s) 1 []) = Active"
    by (simp add: decode_context_for_def snapshot_def demo_lookup session_snapshot_of_def demo_pilot_session_def Let_def)
  with malformed_frame_harmless [of demo_serde ?s, OF _ _ dec prod.collapse [symmetric], of demo_runtime]
  show ?thesis using demo_table_ok by (simp add: deployed_def)
qed

section \<open>The end of a connection\<close>

lemma dispatch_one_dom:
  "hm_get (snd (dispatch_one rt net ev i acc)) j = None \<longleftrightarrow> hm_get (snd acc) j = None"
  by (cases acc) (auto simp: dispatch_one_def hm.get_insert split: option.split prod.split)

lemma dispatch_one_wf: "hm_wf (snd acc) \<Longrightarrow> hm_wf (snd (dispatch_one rt net ev i acc))"
  by (cases acc) (auto simp: dispatch_one_def hm.wf_insert split: option.split prod.split)

lemma dispatch_fold_dom:
  "hm_get (snd (fold (dispatch_one rt net ev) is acc)) j = None \<longleftrightarrow> hm_get (snd acc) j = None"
  by (induction "is" arbitrary: acc) (simp_all add: dispatch_one_dom)

lemma dispatch_fold_wf: "hm_wf (snd acc) \<Longrightarrow> hm_wf (snd (fold (dispatch_one rt net ev) is acc))"
  by (induction "is" arbitrary: acc) (simp_all add: dispatch_one_wf)

lemma dispatch_deliveries:
  "hm_get (fold (dispatch_delivery rt net) ds c) j = None \<longleftrightarrow> hm_get c j = None"
  "hm_wf c \<Longrightarrow> hm_wf (fold (dispatch_delivery rt net) ds c)"
  by (induction ds arbitrary: c) (simp_all add: dispatch_delivery_def dispatch_fold_dom dispatch_fold_wf)

lemma dispatch_state_simps [simp]:
  "rs_net (dispatch_state rt eff s) = rs_net s"
  "hm_get (rs_connections (dispatch_state rt eff s)) j = None \<longleftrightarrow> hm_get (rs_connections s) j = None"
  "hm_wf (rs_connections s) \<Longrightarrow> hm_wf (rs_connections (dispatch_state rt eff s))"
  "rs_next_connection_id (dispatch_state rt eff s) = rs_next_connection_id s"
proof -
  have "hm_get (dispatch_close rt close c) j = None \<longleftrightarrow> hm_get c j = None"
      "hm_wf c \<Longrightarrow> hm_wf (dispatch_close rt close c)" for close c
    by (auto simp: dispatch_close_def hm.get_insert hm.wf_insert split: option.split)
  then show "hm_get (rs_connections (dispatch_state rt eff s)) j = None \<longleftrightarrow> hm_get (rs_connections s) j = None"
      "hm_wf (rs_connections s) \<Longrightarrow> hm_wf (rs_connections (dispatch_state rt eff s))"
    by (simp_all add: dispatch_state_def dispatch_def dispatch_deliveries)
qed (simp_all add: dispatch_state_def)

text \<open>What holds of the runtime between two tasks.\<close>

definition runtime_ok :: "'ch runtime \<Rightarrow> 'ch runtime_state \<Rightarrow> bool" where
  "runtime_ok rt s = (net_inv (nw_config (ru_network rt)) (rs_net s) \<and> hm_wf (rs_connections s))"

definition connection_gone :: "connection_id \<Rightarrow> 'ch runtime_state \<Rightarrow> bool" where
  "connection_gone i s = (session_of (rs_net s) i = None \<and> hm_get (rs_connections s) i = None)"

lemma dispatch_ok: "runtime_ok rt s \<Longrightarrow> runtime_ok rt (dispatch_state rt eff s)"
  by (simp add: runtime_ok_def)

lemma process_frame_ok: "runtime_ok rt s \<Longrightarrow> runtime_ok rt (snd (process_frame rt b i chal frame s))"
  using execute_inv [of "ru_network rt" "rs_net s" i]
  by (auto simp: process_frame_def Let_def runtime_ok_def split: sum.split prod.split)
    (metis snd_conv)

lemma read_connection_ok: "runtime_ok rt s \<Longrightarrow> runtime_ok rt (read_connection rt b i chal es s)"
proof (induction es arbitrary: s)
  case (Cons e es)
  have "runtime_ok rt s'" if "process_frame rt b i chal frame s = (go, s')" for frame go s'
    using process_frame_ok [OF Cons.prems, of b i chal frame] that by simp
  with Cons show ?case by (auto split: read_event.split prod.split bool.split)
qed simp

lemma drop_session_ok:
  assumes "runtime_ok rt s"
  shows "runtime_ok rt (drop_session rt i reason s)"
    and "session_of (rs_net (drop_session rt i reason s)) i = None"
    and "hm_get (rs_connections (drop_session rt i reason s)) j = None \<longleftrightarrow> hm_get (rs_connections s) j = None"
proof -
  from assms have inv: "net_inv (nw_config (ru_network rt)) (rs_net s)" by (simp add: runtime_ok_def)
  then have wf: "hm_wf (ns_sessions (rs_net s))" by (simp add: net_inv_def)
  show "runtime_ok rt (drop_session rt i reason s)"
    using disconnect_inv [OF inv, of i reason] assms
    by (auto simp: drop_session_def disconnect_def runtime_ok_def split: prod.split)
  show "session_of (rs_net (drop_session rt i reason s)) i = None"
    using disconnect_session_of [OF wf, of i reason i]
    by (auto simp: drop_session_def disconnect_def split: prod.split)
  show "hm_get (rs_connections (drop_session rt i reason s)) j = None \<longleftrightarrow> hm_get (rs_connections s) j = None"
    by (auto simp: drop_session_def split: prod.split)
qed

lemma register_connection_ok:
  assumes "runtime_ok rt s" "connection_gone i s" "register_connection rt codec flush b i peer d s = (r, w, s')"
  shows "runtime_ok rt s'" "hm_get (rs_connections s') i = None" "\<not> r \<Longrightarrow> connection_gone i s'"
  using assms register_inv [of "nw_config (ru_network rt)" "rs_net s" i peer d]
  by (auto simp: register_connection_def register_def runtime_ok_def connection_gone_def split: if_splits)

lemma send_handshake_ok:
  assumes "runtime_ok rt s" "hm_get (rs_connections s) (hc_connection_id ctx) = None"
    "send_handshake rt codec flush b ctx s = (r, w, s')"
  shows "runtime_ok rt s'" "\<not> r \<Longrightarrow> connection_gone (hc_connection_id ctx) s'"
  using assms drop_session_ok [OF assms(1)]
  by (auto simp: send_handshake_def connection_gone_def split: sum.splits prod.splits bool.splits)

lemma open_connection_ok:
  assumes "runtime_ok rt s" "connection_gone (rs_next_connection_id s) s"
    "open_connection rt listener flush peer b chal s = (r, w, s')"
  shows "runtime_ok rt s'" "r = None \<Longrightarrow> connection_gone (rs_next_connection_id s) s'"
    "r = None \<or> r = Some (rs_next_connection_id s)"
proof -
  let ?i = "rs_next_connection_id s"
  let ?s = "s\<lparr>rs_next_connection_id := ?i + 1\<rparr>"
  have s: "runtime_ok rt ?s" "connection_gone ?i ?s"
    using assms(1,2) by (simp_all add: runtime_ok_def connection_gone_def)
  have "runtime_ok rt s' \<and> (r = None \<longrightarrow> connection_gone ?i s') \<and> (r = None \<or> r = Some ?i)"
  proof (cases "codec_new (li_max_frame_bytes listener)")
    case (Inl e)
    with assms(3) s show ?thesis by (auto simp: open_connection_def Let_def)
  next
    case (Inr codec)
    obtain r1 w1 s1 where reg: "register_connection rt codec flush b ?i peer (li_protocol listener) ?s = (r1, w1, s1)"
      by (metis prod_cases3)
    note ok1 = register_connection_ok [OF s reg]
    let ?ctx = "\<lparr>hc_connection_id = ?i, hc_peer = peer, hc_server_name = sc_server_name (ru_config rt),
        hc_server_version = sc_server_version (ru_config rt), hc_challenge = chal\<rparr>"
    obtain r2 w2 s2 where hs: "send_handshake rt codec flush b ?ctx s1 = (r2, w2, s2)"
      by (metis prod_cases3)
    have ok2: "runtime_ok rt s2" "\<not> r2 \<Longrightarrow> connection_gone ?i s2"
      using send_handshake_ok [OF ok1(1) _ hs] ok1(2) by simp_all
    from assms(3) Inr reg hs ok1 ok2 show ?thesis
      by (cases r1; cases r2) (auto simp: open_connection_def Let_def runtime_ok_def hm.wf_insert)
  qed
  then show "runtime_ok rt s'" "r = None \<Longrightarrow> connection_gone ?i s'" "r = None \<or> r = Some ?i" by auto
qed

lemma close_connection_ok:
  assumes "runtime_ok rt s"
  shows "runtime_ok rt (close_connection_task rt i s) \<and> connection_gone i (close_connection_task rt i s)"
proof -
  let ?s = "s\<lparr>rs_connections := hm_remove i (rs_connections s)\<rparr>"
  have "runtime_ok rt ?s" using assms by (simp add: runtime_ok_def hm.wf_remove)
  from drop_session_ok [OF this] assms show ?thesis
    by (simp add: close_connection_task_def connection_gone_def runtime_ok_def hm.get_remove)
qed

text \<open>
  A connection leaves nothing behind. However it ends (refused, handshake failed, shut down,
  timed out, broken, closed by the server or by the client, after any frames whatsoever), when
  its task is over it has no session, no entry in the connection table and owns no callsign, so
  the place and the callsign are free for the next client; and the state of the network is
  still consistent.
\<close>

theorem connection_leaves_nothing:
  assumes "net_inv (nw_config (ru_network rt)) (rs_net s)" and "hm_wf (rs_connections s)"
    and "session_of (rs_net s) (rs_next_connection_id s) = None"
    and "hm_get (rs_connections s) (rs_next_connection_id s) = None"
    and "s' = handle_connection rt listener flush peer b chal inputs s"
  shows "session_of (rs_net s') (rs_next_connection_id s) = None
    \<and> hm_get (rs_connections s') (rs_next_connection_id s) = None
    \<and> (\<forall>c. owner_of (rs_net s') c \<noteq> Some (rs_next_connection_id s))
    \<and> net_inv (nw_config (ru_network rt)) (rs_net s')"
proof -
  let ?i = "rs_next_connection_id s"
  have s: "runtime_ok rt s" "connection_gone ?i s"
    using assms(1-4) by (simp_all add: runtime_ok_def connection_gone_def)
  obtain r w s1 where op: "open_connection rt listener flush peer b chal s = (r, w, s1)"
    by (metis prod_cases3)
  note ok = open_connection_ok [OF s op]
  have "runtime_ok rt s' \<and> connection_gone ?i s'"
  proof (cases r)
    case None
    with ok op assms(5) show ?thesis by (simp add: handle_connection_def)
  next
    case (Some j)
    with ok(3) have "j = ?i" by simp
    with close_connection_ok [OF read_connection_ok [OF ok(1)], of ?i b ?i chal inputs] Some op assms(5)
    show ?thesis by (simp add: handle_connection_def)
  qed
  then show ?thesis
    by (auto simp: runtime_ok_def connection_gone_def net_inv_owner)
qed

theorem connection_leaves_nothing_witness:
  "session_of (rs_net (handle_connection demo_runtime
     \<lparr>li_name = [], li_address = [], li_port = 0, li_protocol = Classic, li_max_frame_bytes = 511,
      li_idle_timeout_seconds = 500\<rparr> (\<lambda>_. True) demo_peer classic_protocol [] [Read_Frame ''#DAX1:X'', Read_End]
     \<lparr>rs_net = demo_net, rs_connections = demo_table, rs_next_connection_id = 4\<rparr>)) 4 = None"
proof -
  let ?s = "\<lparr>rs_net = demo_net, rs_connections = demo_table, rs_next_connection_id = 4\<rparr>"
  have "session_of demo_net 4 = None" "hm_get demo_table 4 = None" "hm_wf demo_table"
    using demo_table_ok by (simp_all add: demo_net_def demo_table_def hm_get_def table_ok_def)
  then show ?thesis
    using connection_leaves_nothing [of demo_runtime ?s, OF _ _ _ _ refl] demo_inv(2)
    by (simp add: demo_runtime_def demo_network_def)
qed

section \<open>What a client reads\<close>

lemma sink_send_ok:
  "sendable f \<Longrightarrow> length (frame_bytes f) \<le> fc_max_frame_bytes codec \<Longrightarrow>
     sink_send codec (\<lambda>_. True) f w = (w @ frame_bytes f @ [cr, lf], True)"
  by (simp add: sink_send_def frame_encode_bytes_def sendable_def list_ex_iff list_all_iff)

lemma send_all_ok:
  "\<forall>f \<in> set fs. sendable f \<and> length (frame_bytes f) \<le> fc_max_frame_bytes codec \<Longrightarrow>
     send_all codec (\<lambda>_. True) fs w = (w @ concat (map (\<lambda>f. frame_bytes f @ [cr, lf]) fs), True)"
  by (induction fs arbitrary: w) (simp_all add: sink_send_ok)

lemma run_writer_ok:
  "\<forall>fs \<in> set batches. \<forall>f \<in> set fs. sendable f \<and> length (frame_bytes f) \<le> fc_max_frame_bytes codec \<Longrightarrow>
     run_writer codec (\<lambda>_. True) (map Out_Frames batches @ Out_Close # ms) w
     = (w @ concat (map (\<lambda>f. frame_bytes f @ [cr, lf]) (concat batches)), W_Close_Requested)"
  by (induction batches arbitrary: w) (simp_all add: send_all_ok)

text \<open>
  C29: A client reads what was queued for it. If the batches in a mailbox hold sendable frames within
  the limit of the listener and the socket takes what is written, then up to the point where the
  connection is asked to close the peer's codec splits the bytes into exactly the queued frames, in
  order, and the frames queued before the close request are all delivered.
\<close>

theorem queued_frames_arrive:
  assumes "\<forall>fs \<in> set batches. \<forall>f \<in> set fs. sendable f \<and> length (frame_bytes f) \<le> fc_max_frame_bytes codec"
    and "run_writer codec (\<lambda>_. True) (map Out_Frames batches @ Out_Close # ms) [] = (bytes, outcome)"
  shows "outcome = W_Close_Requested \<and> drain codec bytes = (map frame_bytes (concat batches), Inr [])"
proof -
  from run_writer_ok [OF assms(1), of ms "[]"] assms(2)
  have "outcome = W_Close_Requested" "bytes = concat (map (\<lambda>f. frame_bytes f @ [cr, lf]) (concat batches))"
    by simp_all
  moreover have "drain codec (concat (map (\<lambda>f. f @ [cr, lf]) (map frame_bytes (concat batches))))
      = (map frame_bytes (concat batches), Inr [])"
    using assms(1) by (intro drain_encoded) (auto simp: sendable_def)
  ultimately show ?thesis by (simp add: comp_def)
qed

theorem queued_frames_arrive_witness:
  "drain \<lparr>fc_max_frame_bytes = 511\<rparr>
     (fst (run_writer \<lparr>fc_max_frame_bytes = 511\<rparr> (\<lambda>_. True)
        [Out_Frames [Wire_Frame ''#TMserver:A1:hi''], Out_Close] [])) = ([''#TMserver:A1:hi''], Inr [])"
  using queued_frames_arrive [of "[[Wire_Frame ''#TMserver:A1:hi'']]" "\<lparr>fc_max_frame_bytes = 511\<rparr>" "[]",
      OF _ prod.collapse [symmetric]]
  by (simp add: sendable_def is_delim_def cr_def lf_def)

section \<open>The VATSIM handshake\<close>

lemma hex_char_bytes: "n < 16 \<Longrightarrow> hex_char n \<in> set ''0123456789abcdef''"
  unfolding hex_char_def by (rule nth_mem) simp

lemma hex_char_inj: "m < 16 \<Longrightarrow> n < 16 \<Longrightarrow> hex_char m = hex_char n \<longleftrightarrow> m = n"
proof -
  have "distinct ''0123456789abcdef''" by simp
  then show "m < 16 \<Longrightarrow> n < 16 \<Longrightarrow> hex_char m = hex_char n \<longleftrightarrow> m = n"
    unfolding hex_char_def by (intro nth_eq_iff_index_eq) simp_all
qed

lemma nibbles:
  fixes b :: u8
  shows "unat (drop_bit 4 b) = unat b div 16" "unat (and b 15) = unat b mod 16"
proof -
  show "unat (drop_bit 4 b) = unat b div 16"
    unfolding unat_drop_bit_eq by (simp add: drop_bit_eq_div)
  have "unat (and b (mask 4)) = take_bit 4 (unat b)"
    by (simp add: take_bit_eq_mask [symmetric] unsigned_take_bit_eq)
  then show "unat (and b 15) = unat b mod 16"
    by (simp add: mask_eq_exp_minus_1 take_bit_eq_mod)
qed

lemma nibble_bounds:
  fixes b :: u8
  shows "unat (drop_bit 4 b) < 16" "unat (and b 15) < 16"
proof -
  have "unat b < 2 ^ LENGTH(8)" by (rule unsigned_less)
  then show "unat (drop_bit 4 b) < 16" unfolding nibbles by (intro less_mult_imp_div_less) simp
  show "unat (and b 15) < 16" by (simp add: nibbles)
qed

lemma challenge_bytes: "c \<in> set (challenge bytes) \<Longrightarrow> c \<in> set ''0123456789abcdef''"
proof -
  assume "c \<in> set (challenge bytes)"
  then have "\<exists>b::u8. c = hex_char (unat (drop_bit 4 b)) \<or> c = hex_char (unat (and b 15))"
    by (auto simp: challenge_def)
  then show ?thesis using hex_char_bytes nibble_bounds by metis
qed

lemma length_challenge: "length (challenge bytes) = 2 * length bytes"
  by (induction bytes) (simp_all add: challenge_def)

lemma challenge_inj: "challenge bs = challenge cs \<Longrightarrow> bs = cs"
proof (induction bs arbitrary: cs)
  case Nil
  then show ?case using length_challenge [of cs] by (simp add: challenge_def)
next
  case (Cons b bs)
  then have "cs \<noteq> []" using length_challenge [of "b # bs"] by (auto simp: challenge_def)
  then obtain c cs' where cs: "cs = c # cs'" by (cases cs) auto
  with Cons.prems have eq: "hex_char (unat (drop_bit 4 b)) = hex_char (unat (drop_bit 4 c))"
      "hex_char (unat (and b 15)) = hex_char (unat (and c 15))" "challenge bs = challenge cs'"
    by (simp_all add: challenge_def)
  then have "unat b div 16 = unat c div 16" "unat b mod 16 = unat c mod 16"
    using nibble_bounds by (simp_all add: hex_char_inj nibbles [symmetric])
  then have "unat b = unat c" by (metis div_mult_mod_eq)
  then have "b = c" by (simp add: word_unat_eq_iff)
  with Cons.IH [OF eq(3)] cs show ?case by simp
qed

text \<open>
  The VATSIM handshake never fails. Whatever eleven random bytes the challenge is made from,
  the greeting is encodable, is one frame of 56 bytes (so it passes a listener with the classic
  limit), and reads as a \<open>$DI\<close> packet that hands over the challenge; different random bytes
  give different challenges.
\<close>

theorem handshake_never_fails:
  assumes "length bytes = 11" and "hc_challenge context = challenge bytes"
  shows "\<exists>f. vatsim_initial_frames context = Inr [f] \<and> sendable f \<and> length (frame_bytes f) = 56
    \<and> raw_packet_parse (frame_bytes f) = Inr \<lparr>rp_kind = K_Request, rp_command = ''DI'', rp_source = ''CLIENT'',
        rp_destination = ''SERVER'', rp_fields = [''VATSIM FSD V3.13'', challenge bytes]\<rparr>
    \<and> (challenge bytes = challenge bytes' \<longrightarrow> bytes = bytes')"
proof -
  let ?p = "\<lparr>rp_kind = K_Request, rp_command = ''DI'', rp_source = ''CLIENT'',
        rp_destination = ''SERVER'', rp_fields = [''VATSIM FSD V3.13'', challenge bytes]\<rparr>"
  have chars: "list_all (\<lambda>c. \<not> is_delim c \<and> c \<noteq> colon \<and> byte c < 128) ''0123456789abcdef''"
    by (simp add: is_delim_def cr_def lf_def byte_def)
  then have ok: "\<not> is_delim c \<and> c \<noteq> colon \<and> byte c < 128" if "c \<in> set (challenge bytes)" for c
    using challenge_bytes [OF that] unfolding list_all_iff by blast
  then have "is_ascii (challenge bytes)" "colon \<notin> set (challenge bytes)"
      and nd: "list_all (\<lambda>c. \<not> is_delim c) (challenge bytes)"
    by (auto simp: is_ascii_def list_all_iff)
  moreover have "is_ascii ''SERVER''" "is_ascii ''CLIENT''" "is_ascii ''DI''" "is_ascii ''VATSIM FSD V3.13''"
    by code_simp+
  ultimately have "wf_packet ?p"
    by (simp add: wf_packet_def valid_utf8_ascii del: is_ascii_Cons)
  then have parse: "raw_packet_parse (packet_bytes ?p) = Inr ?p" by (rule parse_packet_bytes)
  have bytes: "packet_bytes ?p = ''$DISERVER:CLIENT:VATSIM FSD V3.13:'' @ challenge bytes"
    by (simp add: packet_bytes_def packet_head_def)
  have len: "length (packet_bytes ?p) = 56"
    unfolding bytes using length_challenge [of bytes] assms(1) by simp
  have plain: "list_all (\<lambda>c. \<not> is_delim c) (packet_bytes ?p)"
    unfolding bytes using nd by (simp add: is_delim_def cr_def lf_def)
  have "vatsim_initial_frames context = Inr [Wire_Frame (packet_bytes ?p)]"
    using assms(2) len plain
    by (simp add: vatsim_initial_frames_def vatsim_frame_Inr [THEN iffD2] VATSIM_FRAME_LIMIT_def)
  with parse len plain challenge_inj [of bytes bytes'] show ?thesis
    by (auto simp: sendable_def)
qed

theorem handshake_never_fails_witness:
  "\<exists>f. vatsim_initial_frames \<lparr>hc_connection_id = 1, hc_peer = demo_peer, hc_server_name = [],
      hc_server_version = [], hc_challenge = challenge (replicate 11 171)\<rparr> = Inr [f]"
  using handshake_never_fails [of "replicate 11 171" "\<lparr>hc_connection_id = 1, hc_peer = demo_peer,
      hc_server_name = [], hc_server_version = [], hc_challenge = challenge (replicate 11 171)\<rparr>" "[]"]
  by auto

end
