(* ===== verification/End_To_End.thy ===== *)
theory End_To_End
  imports Server_Properties Net_Properties
begin

text \<open>
  A message through the whole server: from the frame on the sender's socket to the mailbox of
  each recipient and to the frames its codec reads. The parts are proved elsewhere: decoding and
  encoding in \<open>Classic_Relay\<close>, routing in \<open>Net_Routing\<close>, dispatching in \<open>Backends\<close>.
\<close>

section \<open>Where a message goes\<close>

text \<open>The destination and the meaning of a range that commands.rs resolves it with.\<close>

fun route_of :: "command \<Rightarrow> (destination \<times> range_policy) option" where
  "route_of (C_Text _ d _) = Some (d, Range_Message)"
| "route_of (C_Response _ d _ _) = Some (d, Range_Source)"
| "route_of (C_Pong _ d _) = Some (d, Range_Source)"
| "route_of (C_Handoff _ t _ _) = Some (To_Direct t, Range_Source)"
| "route_of (C_ClientData _ t _ _) = Some (To_Direct t, Range_Source)"
| "route_of (C_Ping _ d _) = (if d = To_Server then None else Some (d, Range_Source))"
| "route_of (C_Query _ d _ _) = (if d = To_Server then None else Some (d, Range_Source))"
| "route_of _ = None"

lemma execute_routed:
  assumes "session_of st i = Some x" "s_phase x = Active" "session_callsign x = command_source cmd"
    and "route_of cmd = Some (d, policy)" "relayed cmd = Some ev"
  shows "execute nw i cmd st = (send (resolve_destination (nw_libm nw) st i d policy) ev, st)"
  using assms
  by (cases cmd)
    (auto simp: execute_def execute_active_def handle_routed_command_def handle_ping_def handle_query_def
      session_callsign_def Let_def split: option.splits if_splits)

section \<open>The two dialects of text frames\<close>

lemma vatsim_decodes_classic:
  assumes "classic_decode frame = Inr cmd"
  shows "vatsim_decode ctx frame = Inr cmd"
proof -
  from assms obtain p where p: "raw_packet_parse frame = Inr p" "decode_packet p = Inr cmd"
    by (auto simp: classic_decode_def and_then_Inr_iff)
  have "rp_command p \<noteq> ''ID''"
  proof
    assume id: "rp_command p = ''ID''"
    with raw_packet_parse_wf [OF p(1)] have "rp_kind p \<noteq> K_PilotPosition \<and> rp_kind p \<noteq> K_AtcPosition"
      by (auto simp: wf_packet_def)
    with id p(2) show False by (simp add: decode_packet_def)
  qed
  with p(1) assms show ?thesis by (simp add: vatsim_decode_def)
qed

lemma text_decode_classic:
  assumes "b = classic_protocol \<or> b = vatsim_protocol" "pb_decode b ctx frame = Inr cmd" "relayed cmd = Some ev"
  shows "classic_decode frame = Inr cmd"
proof (cases "b = classic_protocol")
  case False
  with assms have d: "vatsim_decode ctx frame = Inr cmd" by (simp add: vatsim_protocol_def)
  show ?thesis
  proof (cases "\<exists>c. cmd = C_Identify c")
    case False
    with d show ?thesis
      by (auto simp: vatsim_decode_def and_then_Inr_iff split: if_splits list.splits)
  qed (use assms(3) in auto)
qed (use assms in \<open>simp add: classic_protocol_def\<close>)

lemma text_decode:
  "b = classic_protocol \<or> b = vatsim_protocol \<Longrightarrow> classic_decode frame = Inr cmd \<Longrightarrow> pb_decode b ctx frame = Inr cmd"
  using vatsim_decodes_classic by (auto simp: classic_protocol_def vatsim_protocol_def)

lemma text_encode:
  "b = classic_protocol \<or> b = vatsim_protocol \<Longrightarrow> relayed cmd = Some ev \<Longrightarrow> pb_encode b ctx ev = classic_encode ctx' ev"
  using classic_encode_context [of ctx ev ctx']
  by (cases cmd) (auto simp: classic_protocol_def vatsim_protocol_def vatsim_encode_def)

section \<open>The property\<close>

text \<open>
  C6: A message goes through the whole server. When a classic or VATSIM client, active under the
  callsign the frame names as its source, sends a frame (within the classic limit, without
  delimiters) that is a text, a query, a ping with a payload or another routed message, then
  handling it keeps the connection and the state of the network, and there is one frame that is
  put, once, into the mailbox of exactly the recipients the destination resolves to; a recipient
  whose mailbox does not take it is cancelled, and no other classic or VATSIM connection is
  touched. The frame, closed by CR LF, is what the codec of a recipient reads, and the decoder
  of either dialect gives the very command the sender's frame gave.
\<close>

theorem message_end_to_end:
  assumes "table_ok sj (rs_connections s)" and "net_inv config (rs_net s)"
    and "b = classic_protocol \<or> b = vatsim_protocol"
    and "pb_decode b (decode_context_for (rs_net s) i chal) frame = Inr cmd" and "message_command cmd"
    and "list_all (\<lambda>c. \<not> is_delim c) frame" and "length frame \<le> CLASSIC_MAX_FRAME_BYTES"
    and "session_of (rs_net s) i = Some x" and "s_phase x = Active"
    and "session_callsign x = command_source cmd" and "route_of cmd = Some (d, policy)"
    and "process_frame rt b i chal frame s = (go, s')"
  shows "\<exists>f. go \<and> rs_net s' = rs_net s
    \<and> (\<forall>j h. hm_get (rs_connections s) j = Some h
          \<and> (ch_backend h = classic_protocol \<or> ch_backend h = vatsim_protocol)
        \<longrightarrow> hm_get (rs_connections s') j = Some
              (if j \<in> set (resolve_destination (nw_libm (ru_network rt)) (rs_net s) i d policy)
               then enqueue (ru_mpsc rt) (Inr [f]) h else h))
    \<and> (\<forall>codec. CLASSIC_MAX_FRAME_BYTES \<le> fc_max_frame_bytes codec
        \<longrightarrow> drain codec (frame_bytes f @ [cr, lf]) = ([frame_bytes f], Inr []))
    \<and> (\<forall>b' ctx. b' = classic_protocol \<or> b' = vatsim_protocol \<longrightarrow> pb_decode b' ctx (frame_bytes f) = Inr cmd)"
proof -
  let ?net = "rs_net s" and ?rs = "resolve_destination (nw_libm (ru_network rt)) (rs_net s) i d policy"
  from assms(5) obtain ev where ev: "relayed cmd = Some ev"
    by (cases cmd) (auto simp: message_command_def)
  from message_encoded [OF text_decode_classic [OF assms(3,4) ev] assms(5) ev assms(6,7)]
  obtain f where f: "classic_encode demo_context ev = Inr [f]" "classic_decode (frame_bytes f) = Inr cmd"
    by blast
  let ?d = "\<lparr>dl_recipients = ?rs, dl_event = ev\<rparr>"
  have go: go and s': "rs_net s' = ?net"
      "rs_connections s' = (if ?rs = [] then rs_connections s else dispatch_delivery rt ?net ?d (rs_connections s))"
    using assms(4,12) execute_routed [OF assms(8-11) ev, of "ru_network rt"]
    by (auto simp: process_frame_def Let_def dispatch_state_def dispatch_def dispatch_close_def send_def
        effects_default_def)
  have entry: "hm_get (rs_connections s') j = Some (if j \<in> set ?rs then enqueue (ru_mpsc rt) (Inr [f]) h else h)"
    if "hm_get (rs_connections s) j = Some h" "ch_backend h = classic_protocol \<or> ch_backend h = vatsim_protocol" for j h
    using that dispatch_delivery_get [OF assms(1), of ?d rt ?net j] resolve_destination_spec(1) [OF assms(2)]
      text_encode [OF that(2) ev, of _ demo_context] f(1)
    by (auto simp: s'(2))
  have "classic_sendable f" using classic_encode_sendable [OF f(1)] by simp
  then have arrive: "drain codec (frame_bytes f @ [cr, lf]) = ([frame_bytes f], Inr [])"
    if "CLASSIC_MAX_FRAME_BYTES \<le> fc_max_frame_bytes codec" for codec
    using classic.encode_arrives [of demo_context ev "[f]" codec] f(1) that
    by (auto simp: classic_protocol_def classic_sendable_def)
  show ?thesis
    using go s'(1) entry arrive f(2) text_decode by (intro exI [of _ f]) blast
qed

text \<open>A private text of the pilot to the controller, who uses the VATSIM dialect.\<close>

definition demo_state :: "(nat \<times> outbound list) runtime_state" where
  "demo_state = \<lparr>rs_net = demo_net, rs_connections = demo_table, rs_next_connection_id = 4\<rparr>"

theorem message_end_to_end_witness:
  "\<exists>f. hm_get (rs_connections (snd (process_frame demo_runtime classic_protocol 1 [] demo_frame demo_state))) 2
       = Some (enqueue queue_mpsc (Inr [f]) (demo_handle vatsim_protocol))
     \<and> classic_decode (frame_bytes f) = Inr (C_Text demo_pilot (To_Direct demo_tower) ''hi:there'')"
proof -
  let ?cmd = "C_Text demo_pilot (To_Direct demo_tower) ''hi:there''"
  have dec: "pb_decode classic_protocol (decode_context_for (rs_net demo_state) 1 []) demo_frame = Inr ?cmd"
    by (simp add: classic_protocol_def demo_frame_decode)
  have short: "list_all (\<lambda>c. \<not> is_delim c) demo_frame" "length demo_frame \<le> CLASSIC_MAX_FRAME_BYTES"
    by (simp_all add: demo_frame_def is_delim_def cr_def lf_def CLASSIC_MAX_FRAME_BYTES_def)
  have st: "rs_net demo_state = demo_net" "rs_connections demo_state = demo_table" by (simp_all add: demo_state_def)
  have to: "2 \<in> set (resolve_destination (nw_libm (ru_network demo_runtime)) demo_net 1 (To_Direct demo_tower) Range_Message)"
    by (simp add: resolve_destination_def demo_lookup)
  have x: "session_of (rs_net demo_state) 1 = Some demo_pilot_session" "s_phase demo_pilot_session = Active"
      "session_callsign demo_pilot_session = command_source ?cmd"
    by (simp_all add: st demo_lookup demo_pilot_session_def session_callsign_def presence_of_login_def demo_pilot_login_def)
  from message_end_to_end [of demo_serde demo_state demo_config, OF _ _ _ dec _ short x _ prod.collapse [symmetric],
      of "To_Direct demo_tower" Range_Message demo_runtime]
  obtain f where "\<forall>j h. hm_get demo_table j = Some h \<and> (ch_backend h = classic_protocol \<or> ch_backend h = vatsim_protocol)
        \<longrightarrow> hm_get (rs_connections (snd (process_frame demo_runtime classic_protocol 1 [] demo_frame demo_state))) j = Some
              (if j \<in> set (resolve_destination (nw_libm (ru_network demo_runtime)) demo_net 1 (To_Direct demo_tower) Range_Message)
               then enqueue (ru_mpsc demo_runtime) (Inr [f]) h else h)"
    and f: "\<forall>b' ctx. b' = classic_protocol \<or> b' = vatsim_protocol \<longrightarrow> pb_decode b' ctx (frame_bytes f) = Inr ?cmd"
    using demo_table_ok demo_inv(2) by (auto simp: st message_command_def)
  from this(1) [rule_format, of 2 "demo_handle vatsim_protocol"] to f [rule_format, of classic_protocol]
  show ?thesis by (intro exI [of _ f]) (simp add: demo_table_get demo_handle_def demo_runtime_def classic_protocol_def)
qed

end
