(* ===== verification/Config.thy ===== *)
theory Config
  imports Backends Auth
begin

text \<open>
  The service configuration (\<open>src/config.rs\<close>): defaults, validation before anything is
  started, and the conversion into the settings of the runtime, the core and the database.
  Reading the file is left to the TOML library; of the logging library's settings only the
  level is used here.
\<close>

section \<open>Settings\<close>

datatype config_error =
    EmptyServerName | InvalidProductMessage | CE_NoListeners | DuplicateListener
  | InvalidListenerLimit | ClassicFrameLimit | InvalidServerLimit | InvalidDatabasePool
  | EmptyLoggingLevel

fun config_error_text :: "config_error \<Rightarrow> string" where
  "config_error_text EmptyServerName = ''server name must not be empty''"
| "config_error_text InvalidProductMessage =
     ''server product message must not be empty or contain line delimiters''"
| "config_error_text CE_NoListeners = ''at least one listener is required''"
| "config_error_text DuplicateListener = ''listener name and address/port pairs must be unique''"
| "config_error_text InvalidListenerLimit =
     ''listener frame limits and timeouts must be greater than zero''"
| "config_error_text ClassicFrameLimit = ''classic listener frame limit must not exceed 511 bytes''"
| "config_error_text InvalidServerLimit =
     ''server client/mailbox/maintenance limits must be greater than zero''"
| "config_error_text InvalidDatabasePool = ''database connection limits are invalid''"
| "config_error_text EmptyLoggingLevel = ''logging level must not be empty''"

record server_settings =
  gs_name :: string
  gs_version :: string
  gs_product_message :: string
  gs_max_clients :: nat
  gs_mailbox_capacity :: nat
  gs_wind_delta_interval_seconds :: u64
  gs_motd :: "string list"

record listener_settings =
  ls_name :: string
  ls_protocol :: protocol_dialect
  ls_address :: string
  ls_port :: u16
  ls_max_frame_bytes :: nat
  ls_idle_timeout_seconds :: u64

datatype sqlx_level = Level_Error | Level_Warn | Level_Info | Level_Debug | Level_Trace

fun sqlx_level_str :: "sqlx_level \<Rightarrow> string" where
  "sqlx_level_str Level_Error = ''error''"
| "sqlx_level_str Level_Warn = ''warn''"
| "sqlx_level_str Level_Info = ''info''"
| "sqlx_level_str Level_Debug = ''debug''"
| "sqlx_level_str Level_Trace = ''trace''"

record database_settings =
  ds_url :: string
  ds_max_connections :: u32
  ds_min_connections :: u32
  ds_sqlx_logging :: bool
  ds_sqlx_logging_level :: sqlx_level

record logging_config =
  lg_level :: string

record config =
  cg_server :: server_settings
  cg_listeners :: "listener_settings list"
  cg_logging :: logging_config
  cg_database :: database_settings

section \<open>Defaults\<close>

text \<open>The version of the package is fixed at build time: an argument.\<close>

definition server_settings_default :: "string \<Rightarrow> server_settings" where
  "server_settings_default pkg_version =
     \<lparr>gs_name = ''AsterFSD'', gs_version = pkg_version,
      gs_product_message = ''AsterFSD '' @ pkg_version, gs_max_clients = 1000,
      gs_mailbox_capacity = 256, gs_wind_delta_interval_seconds = 70, gs_motd = []\<rparr>"

definition default_listeners :: "listener_settings list" where
  "default_listeners =
     [\<lparr>ls_name = ''classic'', ls_protocol = Classic, ls_address = ''0.0.0.0'', ls_port = 6809,
       ls_max_frame_bytes = 511, ls_idle_timeout_seconds = 500\<rparr>]"

definition database_settings_default :: database_settings where
  "database_settings_default =
     \<lparr>ds_url = ''sqlite://asterfsd.db'', ds_max_connections = 100, ds_min_connections = 5,
      ds_sqlx_logging = False, ds_sqlx_logging_level = Level_Debug\<rparr>"

definition config_default :: "string \<Rightarrow> logging_config \<Rightarrow> config" where
  "config_default pkg_version logging =
     \<lparr>cg_server = server_settings_default pkg_version, cg_listeners = default_listeners,
      cg_logging = logging, cg_database = database_settings_default\<rparr>"

section \<open>Validation\<close>

text \<open>A character with the Unicode property \<open>White_Space\<close>, as its UTF-8 bytes.\<close>

definition is_white_space :: "uchar \<Rightarrow> bool" where
  "is_white_space c =
     (map byte c \<in> {[9], [10], [11], [12], [13], [32], [0xC2, 0x85], [0xC2, 0xA0],
        [0xE1, 0x9A, 0x80], [0xE2, 0x80, 0xA8], [0xE2, 0x80, 0xA9], [0xE2, 0x80, 0xAF],
        [0xE2, 0x81, 0x9F], [0xE3, 0x80, 0x80]}
      \<or> (length c = 3 \<and> byte (c ! 0) = 0xE2 \<and> byte (c ! 1) = 0x80
          \<and> 0x80 \<le> byte (c ! 2) \<and> byte (c ! 2) \<le> 0x8A))"

text \<open>\<open>s.trim().is_empty()\<close>: nothing but white space.\<close>

function is_blank :: "string \<Rightarrow> bool" where
  "is_blank s =
     (case utf8_next s of
        None \<Rightarrow> s = []
      | Some (c, t) \<Rightarrow> is_white_space c \<and> is_blank t)"
  by pat_completeness auto
termination
  by (relation "measure length") (auto dest: utf8_next_smaller)

declare is_blank.simps [simp del]

text \<open>The loop over the listeners, with the names and bind targets met so far.\<close>

fun check_listeners ::
  "string set \<Rightarrow> (string \<times> u16) set \<Rightarrow> listener_settings list \<Rightarrow> config_error + unit" where
  "check_listeners names addresses [] = Inr ()"
| "check_listeners names addresses (l # ls) =
     (if ls_max_frame_bytes l = 0 \<or> ls_idle_timeout_seconds l = 0 then Inl InvalidListenerLimit
      else if ls_protocol l = Classic \<and> 511 < ls_max_frame_bytes l then Inl ClassicFrameLimit
      else if ls_name l \<in> names \<or> (ls_address l, ls_port l) \<in> addresses then Inl DuplicateListener
      else check_listeners (insert (ls_name l) names) (insert (ls_address l, ls_port l) addresses) ls)"

definition config_validate :: "config \<Rightarrow> config_error + unit" where
  "config_validate c =
     (let server = cg_server c; database = cg_database c in
      if is_blank (gs_name server) then Inl EmptyServerName
      else if is_blank (gs_product_message server)
              \<or> list_ex is_delim (gs_product_message server)
      then Inl InvalidProductMessage
      else if is_blank (lg_level (cg_logging c)) then Inl EmptyLoggingLevel
      else if gs_max_clients server = 0 \<or> gs_mailbox_capacity server = 0
              \<or> gs_wind_delta_interval_seconds server = 0
      then Inl InvalidServerLimit
      else if cg_listeners c = [] then Inl CE_NoListeners
      else and_then (check_listeners {} {} (cg_listeners c)) (\<lambda>_.
        if ds_min_connections database = 0 \<or> ds_max_connections database = 0
           \<or> ds_max_connections database < ds_min_connections database
        then Inl InvalidDatabasePool
        else Inr ()))"

section \<open>Conversions\<close>

definition effective_logging_config :: "config \<Rightarrow> logging_config" where
  "effective_logging_config c =
     (if ds_sqlx_logging (cg_database c)
      then (cg_logging c)\<lparr>lg_level :=
             lg_level (cg_logging c) @ '',sqlx='' @ sqlx_level_str (ds_sqlx_logging_level (cg_database c))\<rparr>
      else cg_logging c)"

definition runtime_listener :: "listener_settings \<Rightarrow> listener_config" where
  "runtime_listener l =
     \<lparr>li_name = ls_name l, li_address = ls_address l, li_port = ls_port l,
      li_protocol = ls_protocol l, li_max_frame_bytes = ls_max_frame_bytes l,
      li_idle_timeout_seconds = ls_idle_timeout_seconds l\<rparr>"

definition runtime_server_config :: "config \<Rightarrow> server_config" where
  "runtime_server_config c =
     \<lparr>sc_server_name = gs_name (cg_server c), sc_server_version = gs_version (cg_server c),
      sc_mailbox_capacity = gs_mailbox_capacity (cg_server c),
      sc_wind_delta_interval_seconds = gs_wind_delta_interval_seconds (cg_server c),
      sc_listeners = map runtime_listener (cg_listeners c)\<rparr>"

definition runtime_core_config :: "config \<Rightarrow> core_config" where
  "runtime_core_config c =
     \<lparr>co_max_clients = gs_max_clients (cg_server c),
      co_product_message = gs_product_message (cg_server c), co_motd = gs_motd (cg_server c)\<rparr>"

fun runtime_sqlx_level :: "sqlx_level \<Rightarrow> sqlx_log_level" where
  "runtime_sqlx_level Level_Error = Sqlx_Error"
| "runtime_sqlx_level Level_Warn = Sqlx_Warn"
| "runtime_sqlx_level Level_Info = Sqlx_Info"
| "runtime_sqlx_level Level_Debug = Sqlx_Debug"
| "runtime_sqlx_level Level_Trace = Sqlx_Trace"

definition runtime_database_config :: "config \<Rightarrow> database_config" where
  "runtime_database_config c =
     \<lparr>db_url = ds_url (cg_database c), db_max_connections = ds_max_connections (cg_database c),
      db_min_connections = ds_min_connections (cg_database c),
      db_sqlx_logging = ds_sqlx_logging (cg_database c),
      db_sqlx_logging_level = runtime_sqlx_level (ds_sqlx_logging_level (cg_database c))\<rparr>"

section \<open>What validation guarantees\<close>

definition listener_ok :: "listener_settings \<Rightarrow> bool" where
  "listener_ok l =
     (0 < ls_max_frame_bytes l \<and> ls_idle_timeout_seconds l \<noteq> 0
      \<and> (ls_protocol l = Classic \<longrightarrow> ls_max_frame_bytes l \<le> 511))"

lemma check_listeners_ok_iff:
  "check_listeners names addresses ls = Inr () \<longleftrightarrow>
     list_all listener_ok ls
     \<and> distinct (map ls_name ls) \<and> set (map ls_name ls) \<inter> names = {}
     \<and> distinct (map (\<lambda>l. (ls_address l, ls_port l)) ls)
     \<and> set (map (\<lambda>l. (ls_address l, ls_port l)) ls) \<inter> addresses = {}"
  by (induction ls arbitrary: names addresses) (auto simp: listener_ok_def)

lemma config_validate_ok_iff:
  "config_validate c = Inr () \<longleftrightarrow>
     \<not> is_blank (gs_name (cg_server c)) \<and> \<not> is_blank (gs_product_message (cg_server c))
     \<and> \<not> list_ex is_delim (gs_product_message (cg_server c)) \<and> \<not> is_blank (lg_level (cg_logging c))
     \<and> gs_max_clients (cg_server c) \<noteq> 0 \<and> gs_mailbox_capacity (cg_server c) \<noteq> 0
     \<and> gs_wind_delta_interval_seconds (cg_server c) \<noteq> 0 \<and> cg_listeners c \<noteq> []
     \<and> list_all listener_ok (cg_listeners c) \<and> distinct (map ls_name (cg_listeners c))
     \<and> distinct (map (\<lambda>l. (ls_address l, ls_port l)) (cg_listeners c))
     \<and> ds_min_connections (cg_database c) \<noteq> 0 \<and> ds_max_connections (cg_database c) \<noteq> 0
     \<and> ds_min_connections (cg_database c) \<le> ds_max_connections (cg_database c)"
  by (auto simp: config_validate_def Let_def and_then_Inr_iff check_listeners_ok_iff)

lemma bind_listeners_error:
  "bind_listeners listen (service_registry sj) ls = Inl e \<Longrightarrow>
     \<exists>l \<in> set ls. \<exists>m. listen l = Inl m \<and> e = ListenerIo (li_name l) m"
proof (induction ls)
  case (Cons l ls)
  obtain b where "registry_get (service_registry sj) (li_protocol l) = Some b"
    using registry_total by blast
  with Cons show ?case
    by (cases "listen l"; cases "bind_listeners listen (service_registry sj) ls") auto
qed simp

end
