(* ===== verification/Config_Properties.thy ===== *)
theory Config_Properties
  imports Config Server_Properties
begin

text \<open>
  The properties of the configuration together with the server it starts.
\<close>

section \<open>Starting the server\<close>

text \<open>
  A validated configuration starts. The server accepts the settings made from it, every
  listener has a usable codec (and a classic one keeps the classic frame limit) and a backend,
  and binding can fail only because a socket could not be opened, in the words of the socket.
\<close>

theorem validated_config_starts:
  assumes "config_validate c = Inr ()"
  shows "\<exists>sv. server_new ms (runtime_server_config c) nw net (service_registry sj) = Inr sv
    \<and> list_all (\<lambda>l. \<exists>codec. codec_new (li_max_frame_bytes l) = Inr codec
         \<and> (li_protocol l = Classic \<longrightarrow> fc_max_frame_bytes codec \<le> CLASSIC_MAX_FRAME_BYTES))
         (sc_listeners (ru_config (sv_runtime sv)))
    \<and> (case bind_listeners listen (sv_registry sv) (sc_listeners (ru_config (sv_runtime sv))) of
          Inr bound \<Rightarrow> map fst bound = map runtime_listener (cg_listeners c)
        | Inl e \<Rightarrow> \<exists>l \<in> set (cg_listeners c). \<exists>m. listen (runtime_listener l) = Inl m \<and> e = ListenerIo (ls_name l) m)"
proof -
  from assms have ok: "list_all listener_ok (cg_listeners c)" "gs_mailbox_capacity (cg_server c) \<noteq> 0"
      "gs_wind_delta_interval_seconds (cg_server c) \<noteq> 0" "cg_listeners c \<noteq> []"
    by (auto simp: config_validate_ok_iff)
  let ?sv = "\<lparr>sv_runtime = \<lparr>ru_config = runtime_server_config c, ru_network = nw, ru_mpsc = ms\<rparr>,
      sv_state = \<lparr>rs_net = net, rs_connections = [], rs_next_connection_id = 1\<rparr>,
      sv_registry = service_registry sj\<rparr>"
  have new: "server_new ms (runtime_server_config c) nw net (service_registry sj) = Inr ?sv"
    using ok by (auto simp: server_new_def runtime_server_config_def runtime_listener_def list_ex_iff
        list_all_iff listener_ok_def)
  have codecs: "list_all (\<lambda>l. \<exists>codec. codec_new (li_max_frame_bytes l) = Inr codec
      \<and> (li_protocol l = Classic \<longrightarrow> fc_max_frame_bytes codec \<le> CLASSIC_MAX_FRAME_BYTES))
      (map runtime_listener (cg_listeners c))"
    using ok(1) by (auto simp: list_all_iff listener_ok_def codec_new_def runtime_listener_def
        CLASSIC_MAX_FRAME_BYTES_def)
  have bound: "map fst bs = ls" if "bind_listeners listen (service_registry sj) ls = Inr bs" for ls bs
    using that by (induction ls arbitrary: bs) (auto simp: and_then_Inr_iff)
  show ?thesis
    using new codecs bound bind_listeners_error [of listen sj "map runtime_listener (cg_listeners c)"]
    by (intro exI [of _ ?sv])
      (auto simp: runtime_server_config_def runtime_listener_def split: sum.split)
qed

definition demo_settings :: "string \<Rightarrow> string list \<Rightarrow> config" where
  "demo_settings product motd =
     (let c = config_default ''0.2.0'' \<lparr>lg_level = ''info''\<rparr>
      in c\<lparr>cg_server := (cg_server c)\<lparr>gs_product_message := product, gs_motd := motd\<rparr>\<rparr>)"

lemma is_blank_first: "is_blank (c # s) \<Longrightarrow> byte c < 128 \<Longrightarrow> is_white_space [c]"
  by (subst (asm) is_blank.simps) (simp add: utf8_next_def)

lemma demo_settings_valid:
  assumes "list_all (\<lambda>c. \<not> is_delim c) product" "product \<noteq> []" "hd product = CHR ''A''"
  shows "config_validate (demo_settings product motd) = Inr ()"
proof -
  have vis: "\<not> is_blank (c # s)" if "c \<in> {CHR ''A'', CHR ''i''}" for c s
    using is_blank_first [of c s] that by (auto simp: is_white_space_def byte_def)
  have "\<not> is_blank product" using vis assms(2,3) by (cases product) auto
  with assms(1) vis show ?thesis
    by (auto simp: config_validate_ok_iff demo_settings_def config_default_def server_settings_default_def
        default_listeners_def database_settings_default_def listener_ok_def Let_def list_ex_iff list_all_iff)
qed

theorem validated_config_starts_witness:
  "is_ok (server_new queue_mpsc (runtime_server_config (demo_settings ''AsterFSD'' [])) demo_network demo_net
     (service_registry demo_serde))"
  using validated_config_starts [OF demo_settings_valid [of "''AsterFSD''" "[]"], of queue_mpsc demo_network
      demo_net demo_serde "\<lambda>_. Inl []"]
  by (auto simp: is_delim_def cr_def lf_def)

text \<open>
  C40: Validation lets through settings with which no classic or VATSIM client can stay connected: a
  product message too long for a frame, or a line of the message of the day that holds a line
  delimiter. The welcome event made of it is encodable for none of them, so the dispatch after
  the login cancels the connection that has just logged in.
\<close>

theorem valid_config_locks_out:
  "config_validate (demo_settings (replicate 511 CHR ''A'') [''a'' @ [lf] @ ''b'']) = Inr ()
   \<and> (\<exists>e. classic_encode ctx (Ev_Welcome c (co_product_message
          (runtime_core_config (demo_settings (replicate 511 CHR ''A'') motd)))) = Inl e)
   \<and> (\<exists>e. vatsim_encode ctx (Ev_Welcome c (co_product_message
          (runtime_core_config (demo_settings (replicate 511 CHR ''A'') motd)))) = Inl e)
   \<and> (\<exists>e. classic_encode ctx (Ev_Welcome c (hd (co_motd
          (runtime_core_config (demo_settings product [''a'' @ [lf] @ ''b'']))))) = Inl e)
   \<and> (\<exists>e. vatsim_encode ctx (Ev_Welcome c (hd (co_motd
          (runtime_core_config (demo_settings product [''a'' @ [lf] @ ''b'']))))) = Inl e)"
proof -
  have enc: "classic_encode ctx (Ev_Welcome c m) = and_then (command_frame K_Client ''TM'' ''server'' (as_str c) [m]) (\<lambda>f. Inr [f])"
      "vatsim_encode ctx (Ev_Welcome c m) = classic_encode ctx (Ev_Welcome c m)" for m
    by (simp_all add: classic_encode_def encode_status_def vatsim_encode_def)
  have fails: "\<exists>e. classic_encode ctx (Ev_Welcome c m) = Inl e"
    if "CLASSIC_MAX_FRAME_BYTES \<le> length m \<or> list_ex is_delim m" for m
  proof -
    have "\<nexists>f. command_frame K_Client ''TM'' ''server'' (as_str c) [m] = Inr f"
      using that by (auto simp: command_frame_def packet_frame_Inr packet_bytes_def packet_head_def
          list_ex_iff list_all_iff)
    then show ?thesis
      unfolding enc by (cases "command_frame K_Client ''TM'' ''server'' (as_str c) [m]") auto
  qed
  have conv: "co_product_message (runtime_core_config (demo_settings product motd)) = product"
      "co_motd (runtime_core_config (demo_settings product motd)) = motd" for product motd
    by (simp_all add: runtime_core_config_def demo_settings_def Let_def)
  have "config_validate (demo_settings (replicate 511 CHR ''A'') [''a'' @ [lf] @ ''b'']) = Inr ()"
    by (rule demo_settings_valid) (simp_all add: list_all_iff is_delim_def cr_def lf_def)
  then show ?thesis
    using fails by (simp add: conv enc(2) CLASSIC_MAX_FRAME_BYTES_def is_delim_def)
qed

end
