(* ===== verification/Dialect_Properties.thy ===== *)
theory Dialect_Properties
  imports Backends Classic_Properties
begin

text \<open>
  The properties of the dialects taken alone: what decoding guarantees of a command, which
  \<open>$ID\<close> frames identify a VATSIM client, the version gate of the Aster dialect, and the one
  callsign no classic client can address.
\<close>




text \<open>
  C39: The Aster dialect accepts version 1 only. A message of another version becomes the version
  error that closes the connection in every phase; the branch "classification mismatch" is never
  reached; and a decoded login carries the revision the core expects of an Aster session, so it is
  never refused for its revision: it is refused or not for its callsign alone.
\<close>

theorem aster_version_gate:
  "(incoming_version m \<noteq> 1 \<longrightarrow>
      (\<exists>e. into_command m = Inl e \<and> closes_connection phase e))
   \<and> into_command m \<noteq> Inl (protocol_error_new PE_Syntax ''internal Aster command classification mismatch'')
   \<and> (\<forall>c x. into_command m = Inr (C_Login c) \<and> session_of st i = Some x
        \<and> s_dialect x = AsterV1 \<and> s_phase x \<noteq> Active \<longrightarrow>
        login_generation st i c =
          (if owner_of st (lc_callsign c) = None then Inr (s_generation x)
           else Inl (error_and_close i (Some (lc_callsign c)) E_CallsignInUse [])))"
proof (intro conjI impI allI)
  show "\<exists>e. into_command m = Inl e \<and> closes_connection phase e" if "incoming_version m \<noteq> 1"
    using that by (simp add: into_command_def ASTER_VERSION_def closes_connection_def protocol_error_new_def Let_def)
  show "into_command m \<noteq> Inl (protocol_error_new PE_Syntax ''internal Aster command classification mismatch'')"
    by (rule into_command_classified)
  show "login_generation st i c =
      (if owner_of st (lc_callsign c) = None then Inr (s_generation x)
       else Inl (error_and_close i (Some (lc_callsign c)) E_CallsignInUse []))"
    if "into_command m = Inr (C_Login c) \<and> session_of st i = Some x
        \<and> s_dialect x = AsterV1 \<and> s_phase x \<noteq> Active" for c x
    using that into_command_login [of m c] by (auto simp: login_generation_def ASTER_VERSION_def)
qed

theorem aster_version_gate_witness:
  "\<exists>e. into_command (In_Logoff 2 ''AFR1'') = Inl e \<and> closes_connection Active e"
  using aster_version_gate [of "In_Logoff 2 ''AFR1''" Active] by simp

text \<open>
  The callsign SERVER is not reserved, but it cannot be addressed. A client may log in under
  it; no destination a classic client can write means that client (the name means the server
  itself), the classic encoding of the direct destination reads back as the server, and the
  responses the client sends are the very events the server sends in its own name.
\<close>

theorem server_callsign_shadowed:
  "callsign_parse ''server'' = Inr (Callsign ''SERVER'')
   \<and> destination_parse v \<noteq> Inr (To_Direct (Callsign ''SERVER''))
   \<and> destination_parse (destination_text (To_Direct (Callsign ''SERVER''))) = Inr To_Server
   \<and> relayed (C_Response (Callsign ''SERVER'') d k args) = Some (Ev_Response ''SERVER'' d k args)"
proof (intro conjI)
  show "callsign_parse ''server'' = Inr (Callsign ''SERVER'')" by code_simp
  show "destination_parse v \<noteq> Inr (To_Direct (Callsign ''SERVER''))"
    by (auto simp: destination_parse_Direct callsign_parse_def split: if_splits)
  show "destination_parse (destination_text (To_Direct (Callsign ''SERVER''))) = Inr To_Server"
    by code_simp
qed simp

end
