(* ===== verification/Server_System.thy ===== *)
theory Server_System
  imports Backends Net_System
begin

text \<open>
  The whole server under concurrency: connection tasks, writers and the maintenance task take
  turns on the shared runtime. A step is what a task does between two points at which it waits
  (for the network lock, for the connection table, for a port, for a mailbox): decoding a frame,
  one critical section of the network, encoding and queueing for one recipient. Between two
  steps of one task any steps of the others may happen.

  Taking the next connection id and registering it is one step here, as in \<open>Net_System\<close>;
  a listener whose frame limit is zero, for which \<open>handle_connection\<close> returns at once, is
  refused by the validation of the configuration and does not occur.
\<close>

section \<open>Tasks\<close>

text \<open>What a task goes on with when its effects are dispatched.\<close>

datatype after = Read_On backend string | Stop_Reading backend | Task_Over

text \<open>
  Where the task of a connection is: it has registered and owes the client the handshake; it waits
  for a frame; it has decoded a command; it waits for a port; it dispatches effects, delivery by
  delivery and recipient by recipient; it has left the reading loop; it has given up its entry
  in the connection table.
\<close>

datatype task =
    T_Handshake backend string
  | T_Reading backend string
  | T_Execute backend string command
  | T_Waiting backend string pending
  | T_Dispatch "delivery list" frame_cache "close_connection option" after
  | T_Finished backend
  | T_Closing

datatype actor = Connection connection_id | Writer connection_id | Maintenance

record 'ch server_system =
  sy_system :: system
  sy_connections :: "'ch connections"
  sy_tasks :: "actor \<Rightarrow> task option"

definition dispatching :: "effects \<Rightarrow> after \<Rightarrow> task" where
  "dispatching eff k = T_Dispatch (ef_deliveries eff) [] (ef_close eff) k"

fun task_after :: "after \<Rightarrow> task option" where
  "task_after (Read_On b chal) = Some (T_Reading b chal)"
| "task_after (Stop_Reading b) = Some (T_Finished b)"
| "task_after Task_Over = None"

text \<open>The port call a label is the answer to.\<close>

fun answers :: "pending \<Rightarrow> label \<Rightarrow> bool" where
  "answers (Pending_Identify i c _) (L_Authorized j d _) = (i = j \<and> c = d)"
| "answers (Pending_Login i c _) (L_Authenticated j d _) = (i = j \<and> c = d)"
| "answers (Pending_Weather i src station parsed) (L_Weather j src' station' parsed' _) =
     (i = j \<and> src = src' \<and> station = station' \<and> parsed = parsed')"
| "answers _ _ = False"

definition handshake_context_for ::
  "'ch runtime \<Rightarrow> connection_id \<Rightarrow> socket_addr \<Rightarrow> string \<Rightarrow> handshake_context" where
  "handshake_context_for rt connection_id peer chal =
     \<lparr>hc_connection_id = connection_id, hc_peer = peer,
      hc_server_name = sc_server_name (ru_config rt),
      hc_server_version = sc_server_version (ru_config rt), hc_challenge = chal\<rparr>"

abbreviation config_of :: "'ch runtime \<Rightarrow> core_config" where
  "config_of rt \<equiv> nw_config (ru_network rt)"

abbreviation net_step :: "'ch runtime \<Rightarrow> system \<Rightarrow> label \<times> effects \<Rightarrow> system \<Rightarrow> bool" where
  "net_step rt \<equiv> sys_step (config_of rt) (nw_libm (ru_network rt))"

text \<open>Set what the actor does next.\<close>

definition becomes :: "actor \<Rightarrow> task option \<Rightarrow> 'ch server_system \<Rightarrow> 'ch server_system" where
  "becomes a t s = s\<lparr>sy_tasks := (sy_tasks s)(a := t)\<rparr>"

definition server_init :: "'ch server_system \<Rightarrow> bool" where
  "server_init s =
     (sys_init (sy_system s) \<and> sy_connections s = [] \<and> sy_tasks s = Map.empty)"

section \<open>The step relation\<close>

inductive server_step ::
  "'ch runtime \<Rightarrow> backend_registry \<Rightarrow> 'ch server_system \<Rightarrow> actor \<Rightarrow> 'ch server_system \<Rightarrow> bool"
  for rt :: "'ch runtime" and registry :: backend_registry where
  Sv_Accepted:
    "listener \<in> set (sc_listeners (ru_config rt)) \<Longrightarrow>
     registry_get registry (li_protocol listener) = Some b \<Longrightarrow>
     y = sy_system s \<Longrightarrow> i = of_nat (sys_next y) \<Longrightarrow> sys_next y < 2 ^ 64 \<Longrightarrow>
     register (config_of rt) i peer (li_protocol listener) (sys_net y) = (Inr (), st) \<Longrightarrow>
     server_step rt registry s (Connection i)
       (becomes (Connection i) (Some (T_Handshake b chal))
         (s\<lparr>sy_system := y\<lparr>sys_net := st, sys_next := Suc (sys_next y)\<rparr>\<rparr>))"
| Sv_Turned_Away:
    "listener \<in> set (sc_listeners (ru_config rt)) \<Longrightarrow>
     y = sy_system s \<Longrightarrow> i = of_nat (sys_next y) \<Longrightarrow> sys_next y < 2 ^ 64 \<Longrightarrow>
     register (config_of rt) i peer (li_protocol listener) (sys_net y) = (Inl r, st) \<Longrightarrow>
     server_step rt registry s (Connection i)
       (s\<lparr>sy_system := y\<lparr>sys_net := st, sys_next := Suc (sys_next y)\<rparr>\<rparr>)"
| Sv_Handshake_Sent:
    "sy_tasks s (Connection i) = Some (T_Handshake b chal) \<Longrightarrow>
     pb_initial_frames b (handshake_context_for rt i peer chal) = Inr fs \<Longrightarrow>
     h = \<lparr>ch_backend = b,
          ch_outbound = mp_channel (ru_mpsc rt) (sc_mailbox_capacity (ru_config rt)),
          ch_cancel = False\<rparr> \<Longrightarrow>
     server_step rt registry s (Connection i)
       (becomes (Connection i) (Some (T_Reading b chal))
         (s\<lparr>sy_connections := hm_insert i h (sy_connections s)\<rparr>))"
| Sv_Handshake_Failed:
    "sy_tasks s (Connection i) = Some (T_Handshake b chal) \<Longrightarrow>
     reason \<in> {''handshake encoding failed'', ''handshake write failed''} \<Longrightarrow>
     net_step rt (sy_system s) (L_Disconnect i reason, e) y \<Longrightarrow>
     server_step rt registry s (Connection i)
       (becomes (Connection i) (Some (dispatching e Task_Over)) (s\<lparr>sy_system := y\<rparr>))"
| Sv_Decoded:
    "sy_tasks s (Connection i) = Some (T_Reading b chal) \<Longrightarrow>
     pb_decode b (decode_context_for (sys_net (sy_system s)) i chal) frame = Inr command \<Longrightarrow>
     server_step rt registry s (Connection i)
       (becomes (Connection i) (Some (T_Execute b chal command)) s)"
| Sv_Malformed:
    "sy_tasks s (Connection i) = Some (T_Reading b chal) \<Longrightarrow>
     context = decode_context_for (sys_net (sy_system s)) i chal \<Longrightarrow>
     pb_decode b context frame = Inl err \<Longrightarrow>
     k = (if closes_connection (dc_phase context) err then Stop_Reading b else Read_On b chal) \<Longrightarrow>
     server_step rt registry s (Connection i)
       (becomes (Connection i)
         (Some (dispatching (decode_error_effects i (dc_callsign context) err) k)) s)"
| Sv_Reader_Stops:
    "sy_tasks s (Connection i) = Some (T_Reading b chal) \<Longrightarrow>
     server_step rt registry s (Connection i) (becomes (Connection i) (Some (T_Finished b)) s)"
| Sv_Executed:
    "sy_tasks s (Connection i) = Some (T_Execute b chal command) \<Longrightarrow>
     net_step rt (sy_system s) (L_Command i command, e) y \<Longrightarrow>
     sys_pending y = sys_pending (sy_system s) \<Longrightarrow>
     server_step rt registry s (Connection i)
       (becomes (Connection i) (Some (dispatching e (Read_On b chal))) (s\<lparr>sy_system := y\<rparr>))"
| Sv_Asks_Port:
    "sy_tasks s (Connection i) = Some (T_Execute b chal command) \<Longrightarrow>
     net_step rt (sy_system s) (L_Command i command, e) y \<Longrightarrow>
     sys_pending y = p # sys_pending (sy_system s) \<Longrightarrow>
     server_step rt registry s (Connection i)
       (becomes (Connection i) (Some (T_Waiting b chal p)) (s\<lparr>sy_system := y\<rparr>))"
| Sv_Port_Answers:
    "sy_tasks s (Connection i) = Some (T_Waiting b chal p) \<Longrightarrow> answers p l \<Longrightarrow>
     net_step rt (sy_system s) (l, e) y \<Longrightarrow>
     sys_pending y = remove1 p (sys_pending (sy_system s)) \<Longrightarrow>
     server_step rt registry s (Connection i)
       (becomes (Connection i) (Some (dispatching e (Read_On b chal))) (s\<lparr>sy_system := y\<rparr>))"
| Sv_Recipient:
    "sy_tasks s a = Some (T_Dispatch (\<lparr>dl_recipients = j # js, dl_event = ev\<rparr> # ds) cache close k) \<Longrightarrow>
     dispatch_one rt (sys_net (sy_system s)) ev j (cache, sy_connections s) = (cache', c) \<Longrightarrow>
     server_step rt registry s a
       (becomes a (Some (T_Dispatch (\<lparr>dl_recipients = js, dl_event = ev\<rparr> # ds) cache' close k))
         (s\<lparr>sy_connections := c\<rparr>))"
| Sv_Delivered:
    "sy_tasks s a = Some (T_Dispatch (\<lparr>dl_recipients = [], dl_event = ev\<rparr> # ds) cache close k) \<Longrightarrow>
     server_step rt registry s a (becomes a (Some (T_Dispatch ds [] close k)) s)"
| Sv_Dispatched:
    "sy_tasks s a = Some (T_Dispatch [] cache close k) \<Longrightarrow>
     server_step rt registry s a
       (becomes a (task_after k) (s\<lparr>sy_connections := dispatch_close rt close (sy_connections s)\<rparr>))"
| Sv_Unlisted:
    "sy_tasks s (Connection i) = Some (T_Finished b) \<Longrightarrow>
     server_step rt registry s (Connection i)
       (becomes (Connection i) (Some T_Closing)
         (s\<lparr>sy_connections := hm_remove i (sy_connections s)\<rparr>))"
| Sv_Disconnected:
    "sy_tasks s (Connection i) = Some T_Closing \<Longrightarrow>
     net_step rt (sy_system s) (L_Disconnect i ''connection closed'', e) y \<Longrightarrow>
     server_step rt registry s (Connection i)
       (becomes (Connection i) (Some (dispatching e Task_Over)) (s\<lparr>sy_system := y\<rparr>))"
| Sv_Tick:
    "sy_tasks s Maintenance = None \<Longrightarrow>
     ev = Ev_WindDelta (uint (b1 :: u8) mod 11 - 5) (uint (b2 :: u8) mod 21 - 10) \<Longrightarrow>
     net_step rt (sy_system s) (L_Broadcast ev, e) y \<Longrightarrow>
     server_step rt registry s Maintenance
       (becomes Maintenance (Some (dispatching e Task_Over)) (s\<lparr>sy_system := y\<rparr>))"
| Sv_Writer:
    "hm_get (sy_connections s) i = Some h \<Longrightarrow> (ch_cancel h \<longrightarrow> stop) \<Longrightarrow>
     server_step rt registry s (Writer i)
       (s\<lparr>sy_connections := hm_insert i (h\<lparr>ch_outbound := ch, ch_cancel := stop\<rparr>) (sy_connections s)\<rparr>)"

section \<open>What a step of the network does to one connection\<close>

fun pending_of :: "pending \<Rightarrow> connection_id" where
  "pending_of (Pending_Identify i _ _) = i"
| "pending_of (Pending_Login i _ _) = i"
| "pending_of (Pending_Weather i _ _ _) = i"

text \<open>The connection a critical section runs for.\<close>

fun subject :: "label \<Rightarrow> connection_id option" where
  "subject (L_Register _ _) = None"
| "subject (L_Disconnect i _) = Some i"
| "subject (L_Command i _) = Some i"
| "subject (L_Authorized i _ _) = Some i"
| "subject (L_Authenticated i _ _) = Some i"
| "subject (L_Weather i _ _ _ _) = Some i"
| "subject (L_Broadcast _) = None"

definition calls_of :: "connection_id \<Rightarrow> system \<Rightarrow> pending list" where
  "calls_of i y = filter (\<lambda>p. pending_of p = i) (sys_pending y)"

definition session_like :: "session \<Rightarrow> session \<Rightarrow> bool" where
  "session_like u v =
     (s_dialect v = s_dialect u \<and> s_generation v = s_generation u \<and> s_phase v = s_phase u)"

text \<open>A step that leaves a connection alone: at most its session is removed.\<close>

definition quiet :: "connection_id \<Rightarrow> system \<Rightarrow> system \<Rightarrow> bool" where
  "quiet j y z =
     ((\<forall>v. session_of (sys_net z) j = Some v \<longrightarrow>
         (\<exists>u. session_of (sys_net y) j = Some u \<and> session_like u v))
      \<and> calls_of j z = calls_of j y \<and> sys_next y \<le> sys_next z)"

lemma session_like_refl [simp]: "session_like u u"
  by (simp add: session_like_def)

lemma evolves_trivial: "(\<And>u. R u u) \<Longrightarrow> evolves R st st"
  by (simp add: evolves_def)

lemma like_disconnect:
  "net_inv config st \<Longrightarrow> evolves session_like st (snd (disconnect_locked i reason st))"
  using disconnect_session_of [OF net_inv_wf(1)] by (auto simp: evolves_def split: if_splits)

lemma like_put:
  "session_of st i = Some x \<Longrightarrow> session_like x y \<Longrightarrow> evolves session_like st (put_session i y st)"
  by (auto simp: evolves_def)

lemma like_execute_active:
  assumes inv: "net_inv config st"
  shows "evolves session_like st (snd (execute_active lm i command st))"
  using inv
proof (cases rule: execute_active_cases [of config st lm i command])
  case (handled s p)
  note gone = like_disconnect [OF inv]
  show ?thesis
  proof (cases command)
    case (C_Position pos)
    with handled show ?thesis
      by (auto simp: execute_active_def Let_def handle_state_command_def evolves_trivial split: sum.splits
          intro!: like_put) (auto simp: session_like_def)
  next
    case (C_FlightPlan plan)
    with handled show ?thesis
      by (auto simp: execute_active_def Let_def handle_state_command_def evolves_trivial
          intro!: like_put) (auto simp: session_like_def)
  next
    case (C_Kill src target reason)
    with handled gone [of _ reason] show ?thesis
      by (auto simp: execute_active_def Let_def handle_kill_def case_prod_unfold evolves_trivial
          split: option.splits)
  qed (use handled gone in \<open>auto simp: execute_active_def Let_def handle_state_command_def evolves_trivial\<close>)
qed (simp_all add: evolves_trivial)

lemma quietI:
  "evolves session_like (sys_net y) st \<Longrightarrow> calls_of j z = calls_of j y \<Longrightarrow> sys_next y \<le> sys_next z
     \<Longrightarrow> sys_net z = st \<Longrightarrow> quiet j y z"
  by (auto simp: quiet_def evolves_def)

lemma calls_of_simps [simp]:
  "calls_of j (y\<lparr>sys_net := st\<rparr>) = calls_of j y"
  "calls_of j (y\<lparr>sys_next := n\<rparr>) = calls_of j y"
  "calls_of j (y\<lparr>sys_net := st, sys_next := n\<rparr>) = calls_of j y"
  "calls_of j (y\<lparr>sys_pending := p # sys_pending y\<rparr>) =
     (if pending_of p = j then p # calls_of j y else calls_of j y)"
  by (simp_all add: calls_of_def)

lemma filter_remove1_other: "\<not> P p \<Longrightarrow> filter P (remove1 p ps) = filter P ps"
  by (induction ps) auto

lemma calls_of_remove1:
  "pending_of p \<noteq> j \<Longrightarrow> calls_of j (y\<lparr>sys_net := st, sys_pending := remove1 p (sys_pending y)\<rparr>) = calls_of j y"
  "pending_of p \<noteq> j \<Longrightarrow> calls_of j (y\<lparr>sys_pending := remove1 p (sys_pending y)\<rparr>) = calls_of j y"
  by (simp_all add: calls_of_def filter_remove1_other)

lemma identify_finish_other:
  "j \<noteq> i \<Longrightarrow> session_of (snd (identify_finish i c g answer st)) j = session_of st j"
  by (auto simp: identify_finish_def split: sum.splits option.splits)

lemma login_resume_other:
  "j \<noteq> i \<Longrightarrow> session_of (snd (login_resume config i c g answer st)) j = session_of st j"
  by (cases rule: login_resume_cases [of answer i c g st config]) (auto simp: Let_def)

lemma quiet_same: "session_of (sys_net z) j = session_of (sys_net y) j \<Longrightarrow> calls_of j z = calls_of j y
    \<Longrightarrow> sys_next y \<le> sys_next z \<Longrightarrow> quiet j y z"
  by (auto simp: quiet_def)

lemma quiet_step:
  assumes inv: "sys_inv config y" and step: "sys_step config lm y (l, e) z"
    and other: "subject l \<noteq> Some j" "\<And>peer d. l = L_Register peer d \<Longrightarrow> j \<noteq> of_nat (sys_next y)"
  shows "quiet j y z"
  using step
proof (cases rule: sys_step.cases)
  case (Step_Register peer dialect r st)
  with other(2) show ?thesis
    by (intro quiet_same) (auto simp: register_def split: if_splits)
next
  case (Step_Disconnect i reason st)
  then have "st = snd (disconnect_locked i reason (sys_net y))" by (simp add: disconnect_def)
  with Step_Disconnect like_disconnect [OF sys_inv_net [OF inv], of i reason] show ?thesis
    by (intro quietI [where st = st]) simp_all
next
  case (Step_Active command i st)
  with like_execute_active [OF sys_inv_net [OF inv], of lm i command] show ?thesis
    by (intro quietI [where st = st]) simp_all
next
  case (Step_Identify_Finish i c g answer st)
  with other(1) identify_finish_other [of j i c g answer "sys_net y"] show ?thesis
    by (intro quiet_same) (auto simp: calls_of_remove1)
next
  case (Step_Login_Finish i c g answer st)
  with other(1) login_resume_other [of j i config c g answer "sys_net y"] show ?thesis
    by (intro quiet_same) (auto simp: calls_of_remove1)
qed (use other(1) in \<open>auto intro!: quiet_same simp: calls_of_remove1\<close>)

text \<open>A command of a connection itself may leave one pending call, made for its present session.\<close>

fun call_current :: "net_state \<Rightarrow> pending \<Rightarrow> bool" where
  "call_current st (Pending_Identify i _ g) =
     (\<forall>x. session_of st i = Some x \<longrightarrow> s_generation x = g \<and> s_phase x = Connected)"
| "call_current st (Pending_Login i _ g) =
     (\<forall>x. session_of st i = Some x \<longrightarrow> s_generation x = g \<and> s_phase x \<noteq> Active)"
| "call_current st (Pending_Weather _ _ _ _) = True"

lemma command_step:
  assumes inv: "sys_inv config y" and step: "sys_step config lm y (L_Command i command, e) z"
  shows "evolves session_like (sys_net y) (sys_net z)" "sys_next z = sys_next y"
    and "sys_pending z = sys_pending y
      \<or> (\<exists>p. sys_pending z = p # sys_pending y \<and> pending_of p = i \<and> call_current (sys_net z) p)"
  using step like_execute_active [OF sys_inv_net [OF inv], of lm i command]
  by (auto elim!: command_stepE simp: evolves_trivial identify_begin_def login_generation_def
      split: option.splits if_splits)

lemma disconnect_step:
  assumes inv: "sys_inv config y" and step: "sys_step config lm y (L_Disconnect i reason, e) z"
  shows "session_of (sys_net z) i = None" "sys_next z = sys_next y" "sys_pending z = sys_pending y"
  using step disconnect_session_of [OF net_inv_wf(1) [OF sys_inv_net [OF inv]], of i reason]
  by (auto elim!: disconnect_stepE simp: disconnect_def)

lemma answers_subject: "answers p l \<Longrightarrow> subject l = Some (pending_of p)"
  by (cases p; cases l) auto

lemma answer_step:
  assumes inv: "sys_inv config y" and step: "sys_step config lm y (l, e) z" and "answers p l"
    and "session_of (sys_net z) (pending_of p) = Some v"
  shows "\<exists>u. session_of (sys_net y) (pending_of p) = Some u \<and> s_dialect v = s_dialect u"
  using step
proof (cases rule: sys_step.cases)
  case (Step_Identify_Finish i c g answer st)
  with assms(3,4) evolves_identify_finish [of "sys_net y" i c g answer] show ?thesis
    by (cases p) (auto simp: evolves_def session_same_def session_kept_def)
next
  case (Step_Login_Finish i c g answer st)
  with assms(3,4) evolves_login_resume [of "sys_net y" config i c g answer] show ?thesis
    by (cases p) (auto simp: evolves_def session_kept_def)
qed (use assms(3,4) in \<open>auto elim: answers.elims\<close>)

lemma answer_next: "sys_step config lm y (l, e) z \<Longrightarrow> answers p l \<Longrightarrow> sys_next z = sys_next y"
  by (cases rule: sys_step.cases) (auto elim: answers.elims)

lemma broadcast_step: "sys_step config lm y (L_Broadcast ev, e) z \<Longrightarrow> z = y \<and> e = broadcast (sys_net y) ev"
  by (simp add: broadcast_step_iff)

text \<open>Only taking a fresh id makes a session.\<close>

lemma sys_step_gone:
  assumes inv: "sys_inv config y" and step: "sys_step config lm y (l, e) z"
    and none: "session_of (sys_net y) i = None" and old: "unat i < sys_next y"
  shows "session_of (sys_net z) i = None" "sys_next y \<le> sys_next z"
proof -
  have gone: "evolves session_kept (sys_net y) st \<Longrightarrow> session_of st i = None" for st
    using none unfolding evolves_def by (metis option.exhaust option.distinct(1))
  have "session_of (sys_net z) i = None \<and> sys_next y \<le> sys_next z"
  proof (cases "subject l = Some i")
    case False
    have "sys_next y < 2 ^ 64 \<Longrightarrow> i \<noteq> of_nat (sys_next y)"
      using old by (auto simp: unat_of_nat take_bit_nat_eq_self)
    then have "quiet i y z"
      using quiet_step [OF inv step False] step by (auto elim!: register_stepE)
    with none show ?thesis by (cases "session_of (sys_net z) i") (auto simp: quiet_def)
  next
    case True
    from step show ?thesis
    proof (cases rule: sys_step.cases)
      case (Step_Disconnect j reason st)
      with True disconnect_step [OF inv, of lm i reason e z] step show ?thesis by simp
    next
      case (Step_Active command j st)
      with evolves_mono [OF evolves_execute_active [OF sys_inv_net [OF inv], of lm j command]]
      show ?thesis by (simp add: gone)
    next
      case (Step_Identify_Finish j c g answer st)
      with evolves_mono [OF evolves_identify_finish [of "sys_net y" j c g answer]]
      show ?thesis by (simp add: gone)
    next
      case (Step_Login_Finish j c g answer st)
      with evolves_login_resume [of "sys_net y" config j c g answer] show ?thesis by (simp add: gone)
    qed (use True none in simp_all)
  qed
  then show "session_of (sys_net z) i = None" "sys_next y \<le> sys_next z" by simp_all
qed

section \<open>The invariant of the server\<close>

fun after_backend :: "after \<Rightarrow> backend option" where
  "after_backend (Read_On b _) = Some b"
| "after_backend (Stop_Reading b) = Some b"
| "after_backend Task_Over = None"

fun task_backend :: "task \<Rightarrow> backend option" where
  "task_backend (T_Handshake b _) = Some b"
| "task_backend (T_Reading b _) = Some b"
| "task_backend (T_Execute b _ _) = Some b"
| "task_backend (T_Waiting b _ _) = Some b"
| "task_backend (T_Dispatch _ _ _ k) = after_backend k"
| "task_backend (T_Finished b) = Some b"
| "task_backend T_Closing = None"

text \<open>Whether the task has an entry in the connection table, and with which backend.\<close>

fun tabled :: "task \<Rightarrow> backend option" where
  "tabled (T_Handshake _ _) = None"
| "tabled t = task_backend t"

text \<open>Whether the task has still to disconnect its session.\<close>

fun holds_session :: "task \<Rightarrow> bool" where
  "holds_session (T_Dispatch _ _ _ k) = (k \<noteq> Task_Over)"
| "holds_session _ = True"

fun waits_for :: "task \<Rightarrow> pending list" where
  "waits_for (T_Waiting _ _ p) = [p]"
| "waits_for _ = []"

definition keyed :: "backend_registry \<Rightarrow> bool" where
  "keyed registry = (\<forall>d b. registry_get registry d = Some b \<longrightarrow> pb_dialect b = d)"

definition backend_ok :: "backend_registry \<Rightarrow> net_state \<Rightarrow> connection_id \<Rightarrow> backend \<Rightarrow> bool" where
  "backend_ok registry st i b =
     (registry_get registry (pb_dialect b) = Some b
      \<and> (\<forall>x. session_of st i = Some x \<longrightarrow> s_dialect x = pb_dialect b))"

definition handle_backend :: "'ch connections \<Rightarrow> connection_id \<Rightarrow> backend option" where
  "handle_backend c i = map_option ch_backend (hm_get c i)"

definition conn_ok :: "backend_registry \<Rightarrow> 'ch server_system \<Rightarrow> connection_id \<Rightarrow> bool" where
  "conn_ok registry s i =
     (let y = sy_system s; session = session_of (sys_net y) i in
      case sy_tasks s (Connection i) of
        None \<Rightarrow> session = None \<and> handle_backend (sy_connections s) i = None \<and> calls_of i y = []
      | Some t \<Rightarrow>
          unat i < sys_next y \<and> (\<not> holds_session t \<longrightarrow> session = None)
          \<and> handle_backend (sy_connections s) i = tabled t
          \<and> (\<forall>b. task_backend t = Some b \<longrightarrow> backend_ok registry (sys_net y) i b)
          \<and> calls_of i y = waits_for t \<and> list_all (call_current (sys_net y)) (waits_for t))"

definition maintenance_ok :: "task option \<Rightarrow> bool" where
  "maintenance_ok t =
     (case t of None \<Rightarrow> True | Some u \<Rightarrow> \<exists>ds cache close. u = T_Dispatch ds cache close Task_Over)"

definition server_inv :: "'ch runtime \<Rightarrow> backend_registry \<Rightarrow> 'ch server_system \<Rightarrow> bool" where
  "server_inv rt registry s =
     (sys_inv (config_of rt) (sy_system s) \<and> hm_wf (sy_connections s)
      \<and> (\<forall>i. conn_ok registry s i) \<and> (\<forall>i. sy_tasks s (Writer i) = None)
      \<and> maintenance_ok (sy_tasks s Maintenance))"

lemma becomes_simps [simp]:
  "sy_system (becomes a t s) = sy_system s" "sy_connections (becomes a t s) = sy_connections s"
  "sy_tasks (becomes a t s) = (sy_tasks s)(a := t)"
  by (simp_all add: becomes_def)

lemma handle_backend_simps [simp]:
  "handle_backend (hm_insert i h c) j = (if j = i then Some (ch_backend h) else handle_backend c j)"
  "hm_wf c \<Longrightarrow> handle_backend (hm_remove i c) j = (if j = i then None else handle_backend c j)"
  "handle_backend [] j = None"
  by (simp_all add: handle_backend_def hm.get_insert hm.get_remove)

lemma handle_backend_None: "handle_backend c i = None \<longleftrightarrow> hm_get c i = None"
  by (simp add: handle_backend_def)

lemma handle_backend_Some: "hm_get c i = Some h \<Longrightarrow> handle_backend c i = Some (ch_backend h)"
  by (simp add: handle_backend_def)

lemma dispatch_one_table:
  assumes "dispatch_one rt net ev j (cache, c) = (cache', c')"
  shows "handle_backend c' = handle_backend c" "hm_wf c \<Longrightarrow> hm_wf c'"
proof (rule ext)
  fix i
  show "handle_backend c' i = handle_backend c i"
    using assms by (auto simp: dispatch_one_def handle_backend_Some split: option.splits prod.splits)
qed (use assms in \<open>auto simp: dispatch_one_def hm.wf_insert split: option.splits prod.splits\<close>)

lemma dispatch_close_table:
  "handle_backend (dispatch_close rt close c) = handle_backend c"
  "hm_wf c \<Longrightarrow> hm_wf (dispatch_close rt close c)"
  by (rule ext) (auto simp: dispatch_close_def handle_backend_Some hm.wf_insert
      split: option.splits prod.splits send_outcome.splits)

lemma quiet_refl [simp]: "quiet j y y"
  by (simp add: quiet_same)

lemma backend_ok_quiet: "backend_ok registry (sys_net y) j b \<Longrightarrow> quiet j y z \<Longrightarrow> backend_ok registry (sys_net z) j b"
  by (auto simp: backend_ok_def quiet_def session_like_def)

lemma call_current_quiet:
  "call_current (sys_net y) p \<Longrightarrow> quiet (pending_of p) y z \<Longrightarrow> call_current (sys_net z) p"
  by (cases p) (auto simp: quiet_def session_like_def)

lemma calls_of_pending: "p \<in> set (calls_of j y) \<Longrightarrow> pending_of p = j"
  by (simp add: calls_of_def)

lemma conn_ok_quiet:
  assumes "conn_ok registry s j" "quiet j (sy_system s) (sy_system t)"
    and "sy_tasks t (Connection j) = sy_tasks s (Connection j)"
    and "handle_backend (sy_connections t) j = handle_backend (sy_connections s) j"
  shows "conn_ok registry t j"
proof -
  have sess: "session_of (sys_net (sy_system s)) j = None \<Longrightarrow> session_of (sys_net (sy_system t)) j = None"
    using assms(2) by (cases "session_of (sys_net (sy_system t)) j") (auto simp: quiet_def)
  have q: "calls_of j (sy_system t) = calls_of j (sy_system s)" "sys_next (sy_system s) \<le> sys_next (sy_system t)"
    using assms(2) by (auto simp: quiet_def)
  show ?thesis
  proof (cases "sy_tasks s (Connection j)")
    case None
    with assms sess q show ?thesis by (simp add: conn_ok_def Let_def)
  next
    case (Some u)
    with assms(1) have u: "calls_of j (sy_system s) = waits_for u" "list_all (call_current (sys_net (sy_system s))) (waits_for u)"
      by (simp_all add: conn_ok_def Let_def)
    then have "list_all (call_current (sys_net (sy_system t))) (waits_for u)"
      using call_current_quiet [of "sy_system s" _ "sy_system t"] calls_of_pending [of _ j "sy_system s"] assms(2)
      by (metis (no_types, lifting) list_all_iff)
    with Some assms sess q show ?thesis
      by (auto simp: conn_ok_def Let_def intro: backend_ok_quiet [OF _ assms(2)])
  qed
qed

lemma server_inv_conn: "server_inv rt registry s \<Longrightarrow> conn_ok registry s i"
  by (simp add: server_inv_def)

lemma server_inv_sys: "server_inv rt registry s \<Longrightarrow> sys_inv (config_of rt) (sy_system s)"
  by (simp add: server_inv_def)

lemma server_inv_wf: "server_inv rt registry s \<Longrightarrow> hm_wf (sy_connections s)"
  by (simp add: server_inv_def)

text \<open>A step of one connection keeps the invariant if it does for that connection.\<close>

lemma server_inv_actor:
  assumes "server_inv rt registry s" "sys_inv (config_of rt) (sy_system t)" "hm_wf (sy_connections t)"
    and "sy_tasks t = (sy_tasks s)(Connection i := u)"
    and "\<And>j. j \<noteq> i \<Longrightarrow> handle_backend (sy_connections t) j = handle_backend (sy_connections s) j"
    and "\<And>j. j \<noteq> i \<Longrightarrow> quiet j (sy_system s) (sy_system t)"
    and "conn_ok registry t i"
  shows "server_inv rt registry t"
proof -
  have "conn_ok registry t j" for j
  proof (cases "j = i")
    case False
    with assms(4-6) show ?thesis
      by (intro conn_ok_quiet [OF server_inv_conn [OF assms(1)], of j t]) simp_all
  qed (use assms(7) in simp)
  with assms(1-4) show ?thesis by (simp add: server_inv_def)
qed

text \<open>What the invariant says of a connection whose task is known.\<close>

lemma conn_okD:
  assumes "server_inv rt registry s" "sy_tasks s (Connection i) = Some t"
  shows "unat i < sys_next (sy_system s)" "\<not> holds_session t \<Longrightarrow> session_of (sys_net (sy_system s)) i = None"
    "handle_backend (sy_connections s) i = tabled t"
    "task_backend t = Some b \<Longrightarrow> backend_ok registry (sys_net (sy_system s)) i b"
    "calls_of i (sy_system s) = waits_for t" "list_all (call_current (sys_net (sy_system s))) (waits_for t)"
  using server_inv_conn [OF assms(1), of i] assms(2) by (simp_all add: conn_ok_def Let_def)

lemma conn_ok_taskI:
  assumes "sy_tasks t (Connection i) = Some u" "unat i < sys_next (sy_system t)"
    and "\<not> holds_session u \<Longrightarrow> session_of (sys_net (sy_system t)) i = None"
    and "handle_backend (sy_connections t) i = tabled u"
    and "\<And>b. task_backend u = Some b \<Longrightarrow> backend_ok registry (sys_net (sy_system t)) i b"
    and "calls_of i (sy_system t) = waits_for u" "list_all (call_current (sys_net (sy_system t))) (waits_for u)"
  shows "conn_ok registry t i"
  using assms by (simp add: conn_ok_def Let_def)

text \<open>A step on which the connection only moves on, with the network and the table as they were.\<close>

lemma server_inv_moves:
  assumes "server_inv rt registry s" "sy_tasks s (Connection i) = Some t"
    and "tabled u = tabled t" "task_backend u = task_backend t" "holds_session u = holds_session t"
    and "waits_for t = []" "waits_for u = []"
    and "handle_backend c = handle_backend (sy_connections s)" "hm_wf c"
  shows "server_inv rt registry (becomes (Connection i) (Some u) (s\<lparr>sy_connections := c\<rparr>))"
  by (rule server_inv_actor [OF assms(1)])
    (use assms(3-) conn_okD [OF assms(1,2)] server_inv_sys [OF assms(1)]
     in \<open>auto intro!: conn_ok_taskI [where u = u]\<close>)

section \<open>The invariant is inductive\<close>

lemma fresh_connection:
  assumes "server_inv rt registry s" "sys_next (sy_system s) < 2 ^ 64" "i = of_nat (sys_next (sy_system s))"
  shows "sy_tasks s (Connection i) = None" "unat i = sys_next (sy_system s)"
    "session_of (sys_net (sy_system s)) i = None" "handle_backend (sy_connections s) i = None"
    "calls_of i (sy_system s) = []"
proof -
  show u: "unat i = sys_next (sy_system s)"
    using assms(2,3) by (simp add: unat_of_nat take_bit_nat_eq_self)
  show none: "sy_tasks s (Connection i) = None"
  proof (rule ccontr)
    assume "sy_tasks s (Connection i) \<noteq> None"
    with conn_okD(1) [OF assms(1), of i] u show False by auto
  qed
  with server_inv_conn [OF assms(1), of i]
  show "session_of (sys_net (sy_system s)) i = None" "handle_backend (sy_connections s) i = None"
    "calls_of i (sy_system s) = []" by (simp_all add: conn_ok_def Let_def)
qed

lemma register_quiet:
  assumes "server_inv rt registry s" "y = sy_system s" "i = of_nat (sys_next y)" "sys_next y < 2 ^ 64"
    "register (config_of rt) i peer d (sys_net y) = (r, st)"
  shows "sys_inv (config_of rt) (y\<lparr>sys_net := st, sys_next := Suc (sys_next y)\<rparr>)"
    and "j \<noteq> i \<Longrightarrow> quiet j y (y\<lparr>sys_net := st, sys_next := Suc (sys_next y)\<rparr>)"
    and "r \<noteq> Inr () \<Longrightarrow> st = sys_net y"
    and "session_of st i = Some x \<Longrightarrow> s_dialect x = d"
proof -
  have step: "sys_step (config_of rt) lm y (L_Register peer d, effects_default)
      (y\<lparr>sys_net := st, sys_next := Suc (sys_next y)\<rparr>)" for lm
    using assms(3-5) by (auto intro: Step_Register)
  have inv: "sys_inv (config_of rt) y" using server_inv_sys [OF assms(1)] assms(2) by simp
  show "sys_inv (config_of rt) (y\<lparr>sys_net := st, sys_next := Suc (sys_next y)\<rparr>)"
    by (rule sys_inv_step [OF inv step])
  show "j \<noteq> i \<Longrightarrow> quiet j y (y\<lparr>sys_net := st, sys_next := Suc (sys_next y)\<rparr>)"
    using quiet_step [OF inv step, of j] assms(3) by simp
  show "r \<noteq> Inr () \<Longrightarrow> st = sys_net y" "session_of st i = Some x \<Longrightarrow> s_dialect x = d"
    using assms(5) fresh_connection(3) [OF assms(1)] assms(2-4)
    by (auto simp: register_def fresh_session_def split: if_splits)
qed

lemma server_inv_accepted:
  assumes inv: "server_inv rt registry s" and key: "keyed registry"
    and reg: "registry_get registry d = Some b"
    and y: "y = sy_system s" "i = of_nat (sys_next y)" "sys_next y < 2 ^ 64"
    and r: "register (config_of rt) i peer d (sys_net y) = (Inr (), st)"
  shows "server_inv rt registry (becomes (Connection i) (Some (T_Handshake b chal))
    (s\<lparr>sy_system := y\<lparr>sys_net := st, sys_next := Suc (sys_next y)\<rparr>\<rparr>))"
proof (rule server_inv_actor [OF inv])
  have b: "pb_dialect b = d" using key reg by (simp add: keyed_def)
  note f = fresh_connection [OF inv, of i] and q = register_quiet [OF inv y r]
  show "conn_ok registry (becomes (Connection i) (Some (T_Handshake b chal))
      (s\<lparr>sy_system := y\<lparr>sys_net := st, sys_next := Suc (sys_next y)\<rparr>\<rparr>)) i"
    using f q(4) y b reg by (intro conn_ok_taskI [where u = "T_Handshake b chal"]) (auto simp: backend_ok_def)
qed (use register_quiet [OF inv y r] y server_inv_wf [OF inv] in auto)

lemma server_inv_turned_away:
  assumes inv: "server_inv rt registry s"
    and y: "y = sy_system s" "i = of_nat (sys_next y)" "sys_next y < 2 ^ 64"
    and r: "register (config_of rt) i peer d (sys_net y) = (Inl e, st)"
  shows "server_inv rt registry (s\<lparr>sy_system := y\<lparr>sys_net := st, sys_next := Suc (sys_next y)\<rparr>\<rparr>)"
proof (rule server_inv_actor [OF inv])
  note f = fresh_connection [OF inv, of i] and q = register_quiet [OF inv y r]
  show "sy_tasks (s\<lparr>sy_system := y\<lparr>sys_net := st, sys_next := Suc (sys_next y)\<rparr>\<rparr>)
      = (sy_tasks s)(Connection i := None)"
    using f(1) y by (simp add: fun_upd_idem)
  show "conn_ok registry (s\<lparr>sy_system := y\<lparr>sys_net := st, sys_next := Suc (sys_next y)\<rparr>\<rparr>) i"
    using f q(3) y by (simp add: conn_ok_def Let_def)
qed (use register_quiet [OF inv y r] y server_inv_wf [OF inv] in auto)

text \<open>A critical section that disconnects the session of the acting connection.\<close>

lemma server_inv_disconnects:
  assumes inv: "server_inv rt registry s" and t: "sy_tasks s (Connection i) = Some t"
    and tab: "tabled t = None" "waits_for t = []"
    and step: "net_step rt (sy_system s) (L_Disconnect i reason, e) y"
  shows "server_inv rt registry
    (becomes (Connection i) (Some (dispatching e Task_Over)) (s\<lparr>sy_system := y\<rparr>))"
proof (rule server_inv_actor [OF inv])
  note sys = server_inv_sys [OF inv] and d = disconnect_step [OF server_inv_sys [OF inv] step]
  show "conn_ok registry (becomes (Connection i) (Some (dispatching e Task_Over)) (s\<lparr>sy_system := y\<rparr>)) i"
    using conn_okD [OF inv t] tab d
    by (intro conn_ok_taskI [where u = "dispatching e Task_Over"]) (auto simp: dispatching_def calls_of_def)
qed (use sys_inv_step [OF server_inv_sys [OF inv] step] quiet_step [OF server_inv_sys [OF inv] step]
     server_inv_wf [OF inv] in auto)

lemma backend_ok_like:
  "backend_ok registry st i b \<Longrightarrow> evolves session_like st st' \<Longrightarrow> backend_ok registry st' i b"
  by (fastforce simp: backend_ok_def evolves_def session_like_def)

text \<open>A critical section of a command.\<close>

lemma server_inv_executes:
  assumes inv: "server_inv rt registry s" and t: "sy_tasks s (Connection i) = Some (T_Execute b chal command)"
    and step: "net_step rt (sy_system s) (L_Command i command, e) y"
    and u: "tabled u = Some b" "task_backend u = Some b" "holds_session u"
    and w: "sys_pending y = waits_for u @ sys_pending (sy_system s)"
  shows "server_inv rt registry (becomes (Connection i) (Some u) (s\<lparr>sy_system := y\<rparr>))"
proof (rule server_inv_actor [OF inv])
  note sys = server_inv_sys [OF inv] and c = command_step [OF server_inv_sys [OF inv] step]
  have calls: "calls_of i (sy_system s) = []" using conn_okD(5) [OF inv t] by simp
  have p: "list_all (\<lambda>p. pending_of p = i \<and> call_current (sys_net y) p) (waits_for u)"
    using c(3) w by (cases u) auto
  then have "calls_of i y = waits_for u"
    using w calls by (simp add: calls_of_def list_all_iff)
  moreover have "list_all (call_current (sys_net y)) (waits_for u)"
    using p by (auto simp: list_all_iff)
  ultimately show "conn_ok registry (becomes (Connection i) (Some u) (s\<lparr>sy_system := y\<rparr>)) i"
    using conn_okD [OF inv t] u c(1,2)
    by (intro conn_ok_taskI [where u = u]) (auto intro: backend_ok_like)
qed (use sys_inv_step [OF server_inv_sys [OF inv] step] quiet_step [OF server_inv_sys [OF inv] step]
     server_inv_wf [OF inv] in auto)

lemma server_inv_answered:
  assumes inv: "server_inv rt registry s" and t: "sy_tasks s (Connection i) = Some (T_Waiting b chal p)"
    and ans: "answers p l" and step: "net_step rt (sy_system s) (l, e) y"
    and w: "sys_pending y = remove1 p (sys_pending (sy_system s))"
  shows "server_inv rt registry (becomes (Connection i) (Some (dispatching e (Read_On b chal))) (s\<lparr>sy_system := y\<rparr>))"
proof (rule server_inv_actor [OF inv])
  let ?u = "dispatching e (Read_On b chal)"
  note sys = server_inv_sys [OF inv]
  have calls: "calls_of i (sy_system s) = [p]" using conn_okD(5) [OF inv t] by simp
  then have pi: "pending_of p = i" using calls_of_pending [of p i "sy_system s"] by simp
  have subj: "subject l = Some i" using answers_subject [OF ans] pi by simp
  have "calls_of i y = []"
    using calls w by (metis calls_of_def filter_remove1 remove1.simps)
  moreover have "backend_ok registry (sys_net y) i b"
    using conn_okD(4) [OF inv t, of b] answer_step [OF sys step ans] pi by (auto simp: backend_ok_def)
  ultimately show "conn_ok registry (becomes (Connection i) (Some ?u) (s\<lparr>sy_system := y\<rparr>)) i"
    using conn_okD [OF inv t] answer_next [OF step ans]
    by (intro conn_ok_taskI [where u = ?u]) (auto simp: dispatching_def)
  show "quiet j (sy_system s) (sy_system (becomes (Connection i) (Some ?u) (s\<lparr>sy_system := y\<rparr>)))" if "j \<noteq> i" for j
    using quiet_step [OF sys step, of j] subj that by (cases l) simp_all
qed (use sys_inv_step [OF server_inv_sys [OF inv] step] server_inv_wf [OF inv] in auto)

lemma task_after_dispatch:
  assumes inv: "server_inv rt registry s" and t: "sy_tasks s (Connection i) = Some (T_Dispatch [] cache close k)"
  shows "server_inv rt registry
    (becomes (Connection i) (task_after k) (s\<lparr>sy_connections := dispatch_close rt close (sy_connections s)\<rparr>))"
proof (cases k)
  case Task_Over
  show ?thesis
    by (rule server_inv_actor [OF inv, where i = i and u = "task_after k"])
      (use Task_Over conn_okD [OF inv t] server_inv_sys [OF inv] server_inv_wf [OF inv]
       in \<open>auto simp: dispatch_close_table conn_ok_def Let_def\<close>)
next
  case (Read_On b chal)
  with server_inv_moves [OF inv t, of "T_Reading b chal"] server_inv_wf [OF inv] show ?thesis
    by (simp add: dispatch_close_table)
next
  case (Stop_Reading b)
  with server_inv_moves [OF inv t, of "T_Finished b"] server_inv_wf [OF inv] show ?thesis
    by (simp add: dispatch_close_table)
qed

text \<open>A dispatching step of the maintenance task, or of a writer, on the table alone.\<close>

lemma server_inv_background:
  assumes "server_inv rt registry s" "maintenance_ok u" "handle_backend c = handle_backend (sy_connections s)" "hm_wf c"
  shows "server_inv rt registry (becomes Maintenance u (s\<lparr>sy_connections := c\<rparr>))"
proof -
  have "conn_ok registry (becomes Maintenance u (s\<lparr>sy_connections := c\<rparr>)) j" for j
    using assms(3) by (intro conn_ok_quiet [OF server_inv_conn [OF assms(1)], of j]) simp_all
  with assms show ?thesis by (simp add: server_inv_def)
qed

lemma server_inv_table:
  assumes "server_inv rt registry s" "handle_backend c = handle_backend (sy_connections s)" "hm_wf c"
  shows "server_inv rt registry (s\<lparr>sy_connections := c\<rparr>)"
proof -
  have "conn_ok registry (s\<lparr>sy_connections := c\<rparr>) j" for j
    using assms(2) by (intro conn_ok_quiet [OF server_inv_conn [OF assms(1)], of j]) simp_all
  with assms show ?thesis by (simp add: server_inv_def)
qed

text \<open>Who dispatches: a connection or the maintenance task, never a writer.\<close>

lemma server_inv_dispatches:
  assumes inv: "server_inv rt registry s" and t: "sy_tasks s a = Some (T_Dispatch ds cache close k)"
    and c: "handle_backend c = handle_backend (sy_connections s)" "hm_wf c"
  shows "server_inv rt registry (becomes a (Some (T_Dispatch ds' cache' close k)) (s\<lparr>sy_connections := c\<rparr>))"
proof (cases a)
  case (Connection i)
  with server_inv_moves [OF inv, of i _ "T_Dispatch ds' cache' close k"] t c show ?thesis by simp
next
  case (Writer i)
  with inv t show ?thesis by (simp add: server_inv_def)
next
  case Maintenance
  with inv t have "k = Task_Over" by (auto simp: server_inv_def maintenance_ok_def)
  with Maintenance server_inv_background [OF inv _ c] show ?thesis by (simp add: maintenance_ok_def)
qed

lemma unchanged_connections: "s\<lparr>sy_connections := sy_connections s\<rparr> = s"
  by simp

lemma server_inv_init: "server_init s \<Longrightarrow> server_inv rt registry s"
  using sys_inv_init [of "sy_system s" "config_of rt"]
  by (auto simp: server_init_def server_inv_def conn_ok_def Let_def sys_init_def calls_of_def
      maintenance_ok_def hm_wf_def net_state_default_def)

lemma server_inv_step:
  assumes inv: "server_inv rt registry s" and key: "keyed registry" and step: "server_step rt registry s a t"
  shows "server_inv rt registry t"
  using step
proof (cases rule: server_step.cases)
  case (Sv_Accepted listener b y i peer st chal)
  with server_inv_accepted [OF inv key] show ?thesis by metis
next
  case (Sv_Turned_Away listener y i peer r st)
  with server_inv_turned_away [OF inv] show ?thesis by metis
next
  case (Sv_Handshake_Sent i b chal peer fs h)
  show ?thesis
    unfolding Sv_Handshake_Sent(2)
    by (rule server_inv_actor [OF inv, of _ i "Some (T_Reading b chal)"])
      (use Sv_Handshake_Sent(5) conn_okD [OF inv Sv_Handshake_Sent(3)] server_inv_sys [OF inv] server_inv_wf [OF inv]
       in \<open>auto intro!: conn_ok_taskI [where u = "T_Reading b chal"] simp: hm.wf_insert\<close>)
next
  case (Sv_Handshake_Failed i b chal reason e y)
  with server_inv_disconnects [OF inv, of i "T_Handshake b chal"] show ?thesis by simp
next
  case (Sv_Decoded i b chal frame command)
  with server_inv_moves [OF inv, of i _ "T_Execute b chal command" "sy_connections s"] server_inv_wf [OF inv]
  show ?thesis by simp
next
  case (Sv_Malformed i b chal ctx frame err k)
  with server_inv_moves [OF inv, of i _ "dispatching (decode_error_effects i (dc_callsign ctx) err) k"
      "sy_connections s"] server_inv_wf [OF inv]
  show ?thesis by (auto simp: dispatching_def split: if_splits)
next
  case (Sv_Reader_Stops i b chal)
  with server_inv_moves [OF inv, of i _ "T_Finished b" "sy_connections s"] server_inv_wf [OF inv] show ?thesis by simp
next
  case (Sv_Executed i b chal command e y)
  with server_inv_executes [OF inv, of i b chal command e y "dispatching e (Read_On b chal)"] show ?thesis
    by (simp add: dispatching_def)
next
  case (Sv_Asks_Port i b chal command e y p)
  with server_inv_executes [OF inv, of i b chal command e y "T_Waiting b chal p"] show ?thesis by simp
next
  case (Sv_Port_Answers i b chal p l e y)
  with server_inv_answered [OF inv] show ?thesis by simp
next
  case (Sv_Recipient j js ev ds cache close k cache' c)
  with server_inv_dispatches [OF inv] dispatch_one_table server_inv_wf [OF inv] show ?thesis by metis
next
  case (Sv_Delivered ev ds cache close k)
  with server_inv_dispatches [OF inv, of a _ cache close k "sy_connections s" ds "[]"] server_inv_wf [OF inv]
  show ?thesis by simp
next
  case (Sv_Dispatched cache close k)
  show ?thesis
  proof (cases a)
    case (Connection i)
    with task_after_dispatch [OF inv] Sv_Dispatched show ?thesis by simp
  next
    case (Writer i)
    with inv Sv_Dispatched show ?thesis by (simp add: server_inv_def)
  next
    case Maintenance
    with inv Sv_Dispatched have "k = Task_Over" by (auto simp: server_inv_def maintenance_ok_def)
    with Maintenance Sv_Dispatched server_inv_wf [OF inv] show ?thesis
      using server_inv_background [OF inv, of None] by (simp add: maintenance_ok_def dispatch_close_table)
  qed
next
  case (Sv_Unlisted i b)
  show ?thesis
    unfolding Sv_Unlisted(2)
    by (rule server_inv_actor [OF inv, of _ i "Some T_Closing"])
      (use conn_okD [OF inv Sv_Unlisted(3)] server_inv_sys [OF inv] server_inv_wf [OF inv]
       in \<open>auto intro!: conn_ok_taskI [where u = T_Closing] simp: hm.wf_remove\<close>)
next
  case (Sv_Disconnected i e y)
  with server_inv_disconnects [OF inv, of i T_Closing] show ?thesis by simp
next
  case (Sv_Tick ev b1 b2 e y)
  with broadcast_step have "y = sy_system s" by blast
  with Sv_Tick server_inv_background [OF inv, of "Some (dispatching e Task_Over)" "sy_connections s"] server_inv_wf [OF inv]
  show ?thesis by (simp add: maintenance_ok_def dispatching_def)
next
  case (Sv_Writer i h stop ch)
  have "handle_backend (hm_insert i (h\<lparr>ch_outbound := ch, ch_cancel := stop\<rparr>) (sy_connections s))
      = handle_backend (sy_connections s)"
    using Sv_Writer by (auto simp: handle_backend_Some)
  with Sv_Writer server_inv_table [OF inv] server_inv_wf [OF inv] show ?thesis by (simp add: hm.wf_insert)
qed

end
