(* ===== verification/Server_Reach.thy ===== *)
theory Server_Reach
  imports Server_System Server_Properties
begin

text \<open>
  What holds of the server in every interleaving: its network is a network of \<open>Net_System\<close>,
  sessions, connection table and tasks belong together, a session that is gone stays gone, and
  every task can be brought to its end.
\<close>

section \<open>The server runs the network\<close>


lemma server_step_view:
  assumes "server_step rt registry s a t"
  shows "sy_system t = sy_system s \<or> (\<exists>l. net_step rt (sy_system s) l (sy_system t))"
  using assms
proof (cases rule: server_step.cases)
  case (Sv_Accepted listener b y i peer st chal)
  have "net_step rt y (L_Register peer (li_protocol listener), effects_default)
      (y\<lparr>sys_net := st, sys_next := Suc (sys_next y)\<rparr>)"
    by (rule Step_Register) (use Sv_Accepted in auto)
  with Sv_Accepted(2,5) show ?thesis by auto
next
  case (Sv_Turned_Away listener y i peer r st)
  have "net_step rt y (L_Register peer (li_protocol listener), effects_default)
      (y\<lparr>sys_net := st, sys_next := Suc (sys_next y)\<rparr>)"
    by (rule Step_Register) (use Sv_Turned_Away in auto)
  with Sv_Turned_Away(2,4) show ?thesis by auto
qed auto


lemma service_keyed: "keyed (service_registry sj)"
  using registry_total [of sj] unfolding keyed_def by (metis option.inject)

interpretation server: invariant_system server_init "server_step rt (service_registry sj)"
    "server_inv rt (service_registry sj)"
  for rt sj
  by unfold_locales (auto intro: server_inv_init server_inv_step [OF _ service_keyed])

section \<open>What a task can do on its own\<close>






lemma becomes_again [simp]:
  "becomes a u ((becomes a t s)\<lparr>sy_connections := c\<rparr>) = becomes a u (s\<lparr>sy_connections := c\<rparr>)"
  "becomes a u (becomes a t s) = becomes a u s"
  by (simp_all add: becomes_def)






section \<open>Leaving\<close>

definition left_behind :: "connection_id \<Rightarrow> 'ch server_system \<Rightarrow> bool" where
  "left_behind i s =
     (sy_tasks s (Connection i) \<noteq> None \<or> session_of (sys_net (sy_system s)) i \<noteq> None
      \<or> hm_get (sy_connections s) i \<noteq> None)"














lemma execute_no_session:
  "session_of st i = None \<Longrightarrow> execute nw i command st = (effects_default, st)"
  by (cases command)
    (simp_all add: execute_def identify_def identify_begin_def login_def login_generation_def execute_active_def
      weather_request_def weather_request_coordinates_def)

lemma gone_step:
  assumes "server_step rt registry s a t" "server_inv rt registry s"
    and "unat i < sys_next (sy_system s)" "session_of (sys_net (sy_system s)) i = None"
  shows "unat i < sys_next (sy_system t)" "session_of (sys_net (sy_system t)) i = None"
  using server_step_view [OF assms(1)] sys_step_gone [OF server_inv_sys [OF assms(2)] _ assms(4,3)] assms(3,4)
  by (auto intro: less_le_trans)

section \<open>A first connection\<close>

text \<open>A client connects, gets its (empty) handshake, and sends a login; and one that breaks off.\<close>

definition demo_begin :: "(nat \<times> outbound list) server_system" where
  "demo_begin = \<lparr>sy_system = demo_start, sy_connections = [], sy_tasks = Map.empty\<rparr>"

definition demo_net1 :: net_state where
  "demo_net1 = \<lparr>ns_sessions = [(1, fresh_session 1 demo_peer Classic)], ns_callsigns = []\<rparr>"

definition demo_accepted :: "(nat \<times> outbound list) server_system" where
  "demo_accepted = becomes (Connection 1) (Some (T_Handshake classic_protocol []))
     (demo_begin\<lparr>sy_system := demo_start\<lparr>sys_net := demo_net1, sys_next := Suc 1\<rparr>\<rparr>)"

definition demo_reading :: "(nat \<times> outbound list) server_system" where
  "demo_reading = becomes (Connection 1) (Some (T_Reading classic_protocol []))
     (demo_accepted\<lparr>sy_connections := [(1, demo_handle classic_protocol)]\<rparr>)"

definition demo_executing :: "(nat \<times> outbound list) server_system" where
  "demo_executing =
     becomes (Connection 1) (Some (T_Execute classic_protocol [] (C_Login demo_pilot_login))) demo_reading"

definition demo_call :: pending where "demo_call = Pending_Login 1 demo_pilot_login 0"

definition demo_waiting :: "(nat \<times> outbound list) server_system" where
  "demo_waiting = becomes (Connection 1) (Some (T_Waiting classic_protocol [] demo_call))
     (demo_executing\<lparr>sy_system :=
       (sy_system demo_executing)\<lparr>sys_pending := demo_call # sys_pending (sy_system demo_executing)\<rparr>\<rparr>)"

definition demo_broken :: "(nat \<times> outbound list) server_system" where
  "demo_broken = becomes (Connection 1)
     (Some (dispatching \<lparr>ef_deliveries = [],
        ef_close = Some \<lparr>cc_connection_id = 1, cc_reason = ''handshake write failed''\<rparr>\<rparr> Task_Over))
     (demo_accepted\<lparr>sy_system := (sy_system demo_accepted)\<lparr>sys_net := net_state_default\<rparr>\<rparr>)"

abbreviation demo_reachable :: "(nat \<times> outbound list) server_system \<Rightarrow> bool" where
  "demo_reachable \<equiv> reach server_init (server_step demo_runtime (service_registry demo_serde))"

lemma demo_accepted_reachable: "demo_reachable demo_accepted"
proof (rule reach_step)
  show "demo_reachable demo_begin"
    by (rule reach_init) (simp add: server_init_def demo_begin_def sys_init_def demo_start_def)
  have "register (config_of demo_runtime) 1 demo_peer Classic (sys_net demo_start) = (Inr (), demo_net1)"
    by (simp add: register_def demo_start_def net_state_default_def demo_net1_def demo_runtime_def
        demo_network_def demo_config_def put_session_def hm_get_def hm_insert_def hm_values_def)
  then have "server_step demo_runtime (service_registry demo_serde) demo_begin (Connection 1)
      (becomes (Connection 1) (Some (T_Handshake classic_protocol []))
        (demo_begin\<lparr>sy_system := demo_start\<lparr>sys_net := demo_net1, sys_next := Suc (sys_next demo_start)\<rparr>\<rparr>))"
    by (intro Sv_Accepted [where listener = demo_listener and y = demo_start and peer = demo_peer])
      (simp_all add: demo_runtime_def demo_server_config_def demo_listener_def demo_begin_def demo_start_def
        service_registry_def registry_register_def registry_get_def hm.get_insert)
  then show "server_step demo_runtime (service_registry demo_serde) demo_begin (Connection 1) demo_accepted"
    by (simp add: demo_accepted_def demo_start_def)
qed

lemma demo_reading_reachable: "demo_reachable demo_reading"
proof (rule reach_step [OF demo_accepted_reachable])
  show "server_step demo_runtime (service_registry demo_serde) demo_accepted (Connection 1) demo_reading"
    using Sv_Handshake_Sent [of demo_accepted 1 classic_protocol "[]" demo_runtime demo_peer "[]", OF _ _ refl]
    by (simp add: demo_reading_def demo_accepted_def demo_begin_def classic_protocol_def demo_runtime_def
        demo_server_config_def demo_handle_def queue_mpsc_def hm_insert_def becomes_def)
qed

lemma demo_executing_reachable: "demo_reachable demo_executing"
proof (rule reach_step [OF demo_reading_reachable])
  have "classic_decode ''#APAFR1:SERVER:100:pw:15:9:1:A'' = Inr (C_Login demo_pilot_login)"
    unfolding demo_pilot_login_def demo_pilot_def by code_simp
  then show "server_step demo_runtime (service_registry demo_serde) demo_reading (Connection 1) demo_executing"
    unfolding demo_executing_def
    by (intro Sv_Decoded [where frame = "''#APAFR1:SERVER:100:pw:15:9:1:A''"])
      (simp_all add: demo_reading_def classic_protocol_def)
qed

lemma demo_waiting_reachable: "demo_reachable demo_waiting"
proof (rule reach_step [OF demo_executing_reachable])
  have "login_generation demo_net1 1 demo_pilot_login = Inr 0"
    by (simp add: login_generation_def demo_net1_def hm_get_def fresh_session_def demo_pilot_login_def
        CLASSIC_PROTOCOL_REVISION_def)
  then have "net_step demo_runtime (sy_system demo_executing) (L_Command 1 (C_Login demo_pilot_login), effects_default)
      ((sy_system demo_executing)\<lparr>sys_pending := demo_call # sys_pending (sy_system demo_executing)\<rparr>)"
    unfolding demo_call_def
    by (intro Step_Login_Begin) (simp add: demo_executing_def demo_reading_def demo_accepted_def)
  then show "server_step demo_runtime (service_registry demo_serde) demo_executing (Connection 1) demo_waiting"
    unfolding demo_waiting_def by (intro Sv_Asks_Port) (simp_all add: demo_executing_def)
qed

lemma demo_broken_reachable: "demo_reachable demo_broken"
proof (rule reach_step [OF demo_accepted_reachable])
  have "disconnect 1 ''handshake write failed'' demo_net1 =
      (\<lparr>ef_deliveries = [], ef_close = Some \<lparr>cc_connection_id = 1, cc_reason = ''handshake write failed''\<rparr>\<rparr>,
       net_state_default)"
    by (simp add: disconnect_def disconnect_locked_def demo_net1_def hm_get_def hm_remove_def fresh_session_def
        effects_default_def net_state_default_def)
  then show "server_step demo_runtime (service_registry demo_serde) demo_accepted (Connection 1) demo_broken"
    unfolding demo_broken_def
    by (intro Sv_Handshake_Failed [where b = classic_protocol and chal = "[]"] Step_Disconnect)
      (simp_all add: demo_accepted_def)
qed

section \<open>The connection table\<close>

lemma server_tabled:
  assumes "server_inv rt registry s"
  shows "map_option ch_backend (hm_get (sy_connections s) i) = Option.bind (sy_tasks s (Connection i)) tabled"
  using server_inv_conn [OF assms, of i]
  by (auto simp: conn_ok_def Let_def handle_backend_def split: option.splits)

lemma server_table:
  assumes inv: "server_inv rt (service_registry sj) s"
  shows "table_ok sj (sy_connections s)"
proof -
  have "ch_backend h \<in> deployed sj" if h: "hm_get (sy_connections s) i = Some h" for i h
  proof -
    from server_tabled [OF inv, of i] h obtain t where
      t: "sy_tasks s (Connection i) = Some t" "tabled t = Some (ch_backend h)"
      by (cases "sy_tasks s (Connection i)") auto
    then have "task_backend t = Some (ch_backend h)" by (cases t) auto
    from conn_okD(4) [OF inv t(1) this] show ?thesis
      using registry_total [of sj "pb_dialect (ch_backend h)"] by (auto simp: backend_ok_def)
  qed
  with server_inv_wf [OF inv] show ?thesis by (auto simp: table_ok_def)
qed

section \<open>Properties\<close>



text \<open>
  C8: No ghosts. In every reachable state of the server each session is held by the task of its
  connection, whose backend has the dialect of the session; a callsign is owned only by a
  connection with a running task; and the connection table has an entry exactly for the tasks
  between handshake and removal, with the backend of the task, one of the registered ones.
\<close>

theorem sessions_belong_to_tasks:
  assumes "reach server_init (server_step rt (service_registry sj)) s"
  shows "(\<forall>i x. session_of (sys_net (sy_system s)) i = Some x \<longrightarrow>
      (\<exists>t. sy_tasks s (Connection i) = Some t \<and> holds_session t
         \<and> (\<forall>b. task_backend t = Some b \<longrightarrow> pb_dialect b = s_dialect x)))
    \<and> (\<forall>c i. owner_of (sys_net (sy_system s)) c = Some i \<longrightarrow>
         (\<exists>t. sy_tasks s (Connection i) = Some t \<and> holds_session t))
    \<and> (\<forall>i. map_option ch_backend (hm_get (sy_connections s) i)
         = Option.bind (sy_tasks s (Connection i)) tabled)
    \<and> table_ok sj (sy_connections s)"
proof (intro conjI allI impI)
  note inv = server.reach_inv [OF assms] and net = server_inv_sys [OF server.reach_inv [OF assms]]
  show 1: "\<exists>t. sy_tasks s (Connection i) = Some t \<and> holds_session t
      \<and> (\<forall>b. task_backend t = Some b \<longrightarrow> pb_dialect b = s_dialect x)"
    if "session_of (sys_net (sy_system s)) i = Some x" for i x
    using server_inv_conn [OF inv, of i] that
    by (auto simp: conn_ok_def Let_def backend_ok_def split: option.splits)
  show "\<exists>t. sy_tasks s (Connection i) = Some t \<and> holds_session t"
    if "owner_of (sys_net (sy_system s)) c = Some i" for c i
    using net_inv_owner [OF sys_inv_net [OF net], of c i] that 1 by blast
  show "map_option ch_backend (hm_get (sy_connections s) i) = Option.bind (sy_tasks s (Connection i)) tabled" for i
    by (rule server_tabled [OF inv])
  show "table_ok sj (sy_connections s)" by (rule server_table [OF inv])
qed

theorem sessions_belong_to_tasks_witness:
  "table_ok demo_serde (sy_connections demo_waiting)
   \<and> (\<exists>t. sy_tasks demo_waiting (Connection 1) = Some t \<and> tabled t = Some classic_protocol)"
proof -
  have "hm_get (sy_connections demo_waiting) 1 = Some (demo_handle classic_protocol)"
    by (simp add: demo_waiting_def demo_executing_def demo_reading_def hm_get_def)
  with sessions_belong_to_tasks [OF demo_waiting_reachable] show ?thesis
    by (metis (no_types, lifting) bind_eq_Some_conv demo_handle_def connection_handle.select_convs(1) option.simps(9))
qed

text \<open>
  C10: Whoever is removed stays out. Once a connection id has been given out and has no session (its
  client logged off, was killed, or was never let in), it has none in any later state of
  the server, it never owns a callsign, and no command of that connection has any effect.
\<close>

theorem removed_stays_out:
  assumes "reach server_init (server_step rt (service_registry sj)) s"
    and "unat i < sys_next (sy_system s)" and "session_of (sys_net (sy_system s)) i = None"
    and "(\<lambda>u v. \<exists>a. server_step rt (service_registry sj) u a v)\<^sup>*\<^sup>* s t"
  shows "session_of (sys_net (sy_system t)) i = None
    \<and> (\<forall>c. owner_of (sys_net (sy_system t)) c \<noteq> Some i)
    \<and> execute (ru_network rt) i command (sys_net (sy_system t)) = (effects_default, sys_net (sy_system t))"
proof -
  let ?gone = "\<lambda>s. server_inv rt (service_registry sj) s \<and> unat i < sys_next (sy_system s)
      \<and> session_of (sys_net (sy_system s)) i = None"
  from assms(4) have "?gone t"
  proof (induction rule: rtranclp_induct)
    case base
    from server.reach_inv [OF assms(1)] assms(2,3) show ?case by simp
  next
    case (step u v)
    then obtain a where "server_step rt (service_registry sj) u a v" by blast
    with step.IH gone_step [OF this] server_inv_step [OF _ service_keyed this] show ?case by blast
  qed
  moreover from this have "net_inv (config_of rt) (sys_net (sy_system t))"
    by (blast intro: sys_inv_net server_inv_sys)
  ultimately show ?thesis
    by (auto simp: net_inv_owner execute_no_session)
qed

theorem removed_stays_out_witness:
  "execute demo_network 1 (C_Logoff demo_pilot) (sys_net (sy_system demo_broken))
     = (effects_default, sys_net (sy_system demo_broken))"
  using removed_stays_out [OF demo_broken_reachable, of 1 demo_broken "C_Logoff demo_pilot"]
  by (simp add: demo_broken_def demo_accepted_def net_state_default_def hm_get_def demo_runtime_def)










end
