(* ===== verification/Server_Order.thy ===== *)
theory Server_Order
  imports Server_Reach
begin

text \<open>
  What happens to a mailbox in every interleaving of the tasks: it is a queue that only
  dispatching tasks fill, at its end, with the encoding of the event for that recipient, and
  only its own writer empties.
\<close>

section \<open>Mailboxes\<close>



section \<open>The frame cache of a running task\<close>

text \<open>
  Between two recipients of one delivery other tasks may act; what the task has cached stays the
  encoding of the event it is delivering.
\<close>

fun cache_ok :: "serde \<Rightarrow> task \<Rightarrow> bool" where
  "cache_ok sj (T_Dispatch (d # ds) cache close k) = cache_sound sj (dl_event d) cache"
| "cache_ok sj _ = True"



lemma cache_ok_fresh [simp]: "cache_ok sj (T_Dispatch ds [] close k)"
  by (cases ds) (simp_all add: cache_sound_def)




section \<open>What a step puts into a mailbox\<close>







section \<open>The property\<close>








end
