(* ===== verification/Sample_Client.thy ===== *)
theory Sample_Client
  imports Server_Properties Position_Relay
begin

text \<open>
  The sample client of the repository (\<open>examples/simple_client.rs\<close>): the bytes it writes, and
  what the server makes of them.
\<close>

section \<open>What the client writes\<close>

definition EXAMPLE_CALLSIGN :: string where "EXAMPLE_CALLSIGN = ''TEST123''"
definition EXAMPLE_CID :: string where "EXAMPLE_CID = ''1234567''"
definition EXAMPLE_PASSWORD :: string where "EXAMPLE_PASSWORD = ''password''"

definition login_packet :: string where
  "login_packet = ''#AP'' @ EXAMPLE_CALLSIGN @ '':SERVER:'' @ EXAMPLE_CID @ '':'' @ EXAMPLE_PASSWORD
     @ '':1:9:2:John Doe KJFK'' @ [cr, lf]"

definition pos_packet :: string where
  "pos_packet = ''@N:'' @ EXAMPLE_CALLSIGN @ '':1200:1:40.6413:-73.7781:5000:250:414141414:30'' @ [cr, lf]"

definition msg_packet :: string where
  "msg_packet = ''#TM'' @ EXAMPLE_CALLSIGN @ '':*:Hello from the example client!'' @ [cr, lf]"

definition logoff_packet :: string where
  "logoff_packet = ''#DP'' @ EXAMPLE_CALLSIGN @ '':'' @ EXAMPLE_CID @ [cr, lf]"

definition client_writes :: string where
  "client_writes = login_packet @ pos_packet @ msg_packet @ logoff_packet"

section \<open>What the server reads\<close>

definition sample_callsign :: callsign where "sample_callsign = Callsign EXAMPLE_CALLSIGN"

definition sample_login :: login_command where
  "sample_login = \<lparr>lc_callsign = sample_callsign, lc_client_type = Pilot, lc_network_id = EXAMPLE_CID,
     lc_password = EXAMPLE_PASSWORD, lc_requested_rating = 1, lc_protocol_revision = 9,
     lc_real_name = ''John Doe KJFK'', lc_simulator_type = Some 2\<rparr>"

definition sample_position :: pilot_position where
  "sample_position = \<lparr>pp_callsign = sample_callsign, pp_mode = ''N'', pp_squawk = ''1200'', pp_rating = 1,
     pp_latitude = f64_lit (406413 / 10000), pp_longitude = f64_lit (- 737781 / 10000), pp_altitude = 5000,
     pp_groundspeed = 250, pp_pbh = 414141414, pp_flags = 30\<rparr>"

definition sample_commands :: "command list" where
  "sample_commands = [C_Login sample_login, C_Position (Position_Pilot sample_position),
     C_Text sample_callsign To_All ''Hello from the example client!'', C_Logoff sample_callsign]"

definition sample_frames :: "string list" where
  "sample_frames = map (\<lambda>p. take (length p - 2) p) [login_packet, pos_packet, msg_packet, logoff_packet]"

lemmas sample_packets = login_packet_def pos_packet_def msg_packet_def logoff_packet_def
  EXAMPLE_CALLSIGN_def EXAMPLE_CID_def EXAMPLE_PASSWORD_def

lemma sample_frames_eq: "sample_frames =
    [''#APTEST123:SERVER:1234567:password:1:9:2:John Doe KJFK'',
     ''@N:TEST123:1200:1:40.6413:-73.7781:5000:250:414141414:30'',
     ''#TMTEST123:*:Hello from the example client!'', ''#DPTEST123:1234567'']"
  by (simp add: sample_frames_def sample_packets)

lemma client_writes_frames: "client_writes = concat (map (\<lambda>f. f @ [cr, lf]) sample_frames)"
  by (simp add: sample_frames_eq client_writes_def sample_packets)

lemma sample_frames_arrive:
  assumes "CLASSIC_MAX_FRAME_BYTES \<le> fc_max_frame_bytes codec"
  shows "drain codec client_writes = (sample_frames, Inr [])"
  unfolding client_writes_frames
  by (rule drain_encoded)
    (use assms in \<open>simp add: sample_frames_eq CLASSIC_MAX_FRAME_BYTES_def is_delim_def cr_def lf_def\<close>)

lemma sample_coordinates:
  "parse_f64_str ''40.6413'' = Some (f64_lit (406413 / 10000))"
  "parse_f64_str ''-73.7781'' = Some (f64_lit (- 737781 / 10000))"
proof -
  have "digits_value ''406413'' = 406413" "digits_value ''737781'' = 737781" by code_simp+
  moreover have "list_all is_ascii_digit ''40''" "list_all is_ascii_digit ''6413''"
      "list_all is_ascii_digit ''73''" "list_all is_ascii_digit ''7781''" by code_simp+
  ultimately show "parse_f64_str ''40.6413'' = Some (f64_lit (406413 / 10000))"
      "parse_f64_str ''-73.7781'' = Some (f64_lit (- 737781 / 10000))"
    using parse_decimal [of "''40''" "''6413''" False] parse_decimal [of "''73''" "''7781''" True]
    by (simp_all add: f64_lit_def)
qed

lemma sample_position_decode:
  "classic_decode ''@N:TEST123:1200:1:40.6413:-73.7781:5000:250:414141414:30''
     = Inr (C_Position (Position_Pilot sample_position))"
proof -
  have packet: "raw_packet_parse ''@N:TEST123:1200:1:40.6413:-73.7781:5000:250:414141414:30'' = Inr
      \<lparr>rp_kind = K_PilotPosition, rp_command = ''N'', rp_source = ''TEST123'', rp_destination = [],
       rp_fields = [''1200'', ''1'', ''40.6413'', ''-73.7781'', ''5000'', ''250'', ''414141414'', ''30'']\<rparr>"
    by code_simp
  have "decode_callsign ''TEST123'' E_InvalidSource = Inr sample_callsign" "first_char ''N'' = Some ''N''"
      "canonical_squawk ''1200'' = Inr ''1200''" "parse_i32_str ''1'' = Some 1" "parse_i32_str ''5000'' = Some 5000"
      "parse_i32_str ''250'' = Some 250" "parse_i32_str ''30'' = Some 30"
      "parse_u32_str ''414141414'' = Some 414141414"
    unfolding sample_callsign_def EXAMPLE_CALLSIGN_def by code_simp+
  then show ?thesis
    by (simp add: classic_decode_def packet decode_packet_def position_decode_def parse_i32_def parse_f64_def
        parse_u32_def sample_coordinates sample_position_def decode_callsign_def)
qed

lemma sample_frames_decode: "map classic_decode sample_frames = map Inr sample_commands"
proof -
  have "classic_decode ''#APTEST123:SERVER:1234567:password:1:9:2:John Doe KJFK'' = Inr (C_Login sample_login)"
    "classic_decode ''#TMTEST123:*:Hello from the example client!''
      = Inr (C_Text sample_callsign To_All ''Hello from the example client!'')"
    "classic_decode ''#DPTEST123:1234567'' = Inr (C_Logoff sample_callsign)"
    unfolding sample_login_def sample_callsign_def EXAMPLE_CALLSIGN_def EXAMPLE_CID_def EXAMPLE_PASSWORD_def
    by code_simp+
  with sample_position_decode show ?thesis by (simp add: sample_frames_eq sample_commands_def)
qed

lemma sample_position_valid: "position_validate (Position_Pilot sample_position) = Inr ()"
proof -
  have lat: "f64_lit (406413 / 10000) = F64_Fin False (rounded_mag (406413 / 10000))"
    and lon: "f64_lit (- 737781 / 10000) = F64_Fin True (rounded_mag (737781 / 10000))"
    by (simp_all add: f64_lit_def f64_round_small)
  have le: "0 \<le> rounded_mag q \<and> rounded_mag q \<le> q + 1" if "0 \<le> q" "q < 256" for q
    using rounded_mag_error [OF that] unfolding abs_le_iff by (simp add: field_simps)
  have "f64_within 90 (pp_latitude sample_position)" "f64_within 180 (pp_longitude sample_position)"
    using le [of "406413 / 10000"] le [of "737781 / 10000"] unfolding sample_position_def pilot_position.simps lat lon
    by simp_all
  then have "report_within (Position_Pilot sample_position)" by (simp add: report_within_def)
  then show ?thesis
    by (subst validate_within)
      (auto simp: report_mags_def report_within_def sample_position_def is_octal_digit_def byte_def
        dest: f64_within_mag)
qed

section \<open>The session\<close>

lemma read_frames:
  assumes "list_all2 (\<lambda>f c. classic_decode f = Inr c) frames cmds"
  shows "rs_net (read_connection rt classic_protocol i chal (map Read_Frame frames) s)
    = fold (\<lambda>c net. snd (execute (ru_network rt) i c net)) cmds (rs_net s)"
  using assms
proof (induction frames cmds arbitrary: s rule: list_all2_induct)
  case (Cons f fs c cs)
  have "process_frame rt classic_protocol i chal f s = (True, dispatch_state rt
      (fst (execute (ru_network rt) i c (rs_net s))) (s\<lparr>rs_net := snd (execute (ru_network rt) i c (rs_net s))\<rparr>))"
    using Cons.hyps(1) by (simp add: process_frame_def classic_protocol_def Let_def case_prod_unfold)
  with Cons.IH show ?case by simp
qed simp

lemma sample_login_runs:
  assumes "session_of st i = Some x" "s_phase x = Connected" "s_dialect x = Classic"
    and "owner_of st sample_callsign = None"
    and "au_authenticate (nw_authenticator nw) EXAMPLE_CID EXAMPLE_PASSWORD = Inr who"
    and "\<not> ai_suspended who" "ai_pilot_rating who \<noteq> Unrated"
  shows "snd (execute nw i (C_Login sample_login) st) =
    (let t = put_session i (x\<lparr>s_phase := Active, s_presence := Some (presence_of_login sample_login who),
               s_generation := s_generation x + 1\<rparr>) st
     in t\<lparr>ns_callsigns := hm_insert sample_callsign i (ns_callsigns t)\<rparr>)"
proof -
  have "pilot_allows_wire_value (ai_pilot_rating who) 1"
    using assms(7) by (cases "ai_pilot_rating who") (simp_all add: pilot_allows_wire_value_def)
  with assms show ?thesis
    by (simp add: execute_def login_def login_generation_def login_resume_def validate_rating_def activate_login_def
        sample_login_def CLASSIC_PROTOCOL_REVISION_def Let_def)
qed

text \<open>The remaining commands of an active session.\<close>

lemma sample_active_runs:
  assumes inv: "net_inv config st" and x: "session_of st i = Some x" "s_phase x = Active"
    and p: "s_presence x = Some p" "cp_callsign p = sample_callsign" "cp_client_type p = Pilot"
  shows "snd (execute nw i (C_Position (Position_Pilot sample_position)) st)
      = put_session i (x\<lparr>s_position := Some (Position_Pilot sample_position)\<rparr>) st"
    and "snd (execute nw i (C_Text sample_callsign To_All m) st) = st"
    and "session_of (snd (execute nw i (C_Logoff sample_callsign) st)) j = (if j = i then None else session_of st j)"
    and "owner_of (snd (execute nw i (C_Logoff sample_callsign) st)) c
      = (if c = sample_callsign then None else owner_of st c)"
proof -
  have src: "position_callsign (Position_Pilot sample_position) = sample_callsign"
    by (simp add: sample_position_def)
  show "snd (execute nw i (C_Position (Position_Pilot sample_position)) st)
      = put_session i (x\<lparr>s_position := Some (Position_Pilot sample_position)\<rparr>) st"
    using x p src sample_position_valid
    by (simp add: execute_def execute_active_def handle_state_command_def Let_def)
  show "snd (execute nw i (C_Text sample_callsign To_All m) st) = st"
    using x p by (simp add: execute_def execute_active_def Let_def)
  have off: "execute nw i (C_Logoff sample_callsign) st = disconnect_locked i ''client logoff'' st"
    using x p by (simp add: execute_def execute_active_def handle_state_command_def Let_def)
  show "session_of (snd (execute nw i (C_Logoff sample_callsign) st)) j = (if j = i then None else session_of st j)"
    unfolding off by (rule disconnect_session_of [OF net_inv_wf(1) [OF inv]])
  show "owner_of (snd (execute nw i (C_Logoff sample_callsign) st)) c
      = (if c = sample_callsign then None else owner_of st c)"
    unfolding off disconnect_owner_of [OF net_inv_wf(2) [OF inv]]
    using x p by (simp add: session_callsign_def)
qed

text \<open>
  C30: The sample client of the repository works. However the transport cuts the bytes it writes,
  the server reads four frames; on a fresh classic connection, with its callsign free and its
  credentials accepted, the first logs it in under its callsign, the second stores its
  position, the third leaves the network as it is, and after the fourth its session and callsign
  are gone and every other session and callsign is as before it connected.
\<close>

theorem sample_session:
  assumes "net_inv (nw_config (ru_network rt)) (rs_net s)"
    and "session_of (rs_net s) i = Some x" and "s_phase x = Connected" and "s_dialect x = Classic"
    and "owner_of (rs_net s) sample_callsign = None"
    and "au_authenticate (nw_authenticator (ru_network rt)) EXAMPLE_CID EXAMPLE_PASSWORD = Inr who"
    and "\<not> ai_suspended who" and "ai_pilot_rating who \<noteq> Unrated"
    and "CLASSIC_MAX_FRAME_BYTES \<le> fc_max_frame_bytes codec" and "concat chunks = client_writes"
    and "run = (\<lambda>n. rs_net (read_connection rt classic_protocol i chal
                       (map Read_Frame (take n (fst (feed codec [] chunks)))) s))"
  shows "snd (feed codec [] chunks) = Inr [] \<and> length (fst (feed codec [] chunks)) = 4
    \<and> (\<exists>y. session_of (run 1) i = Some y \<and> s_phase y = Active \<and> session_callsign y = Some sample_callsign)
    \<and> owner_of (run 1) sample_callsign = Some i
    \<and> (\<exists>y. session_of (run 2) i = Some y \<and> s_position y = Some (Position_Pilot sample_position))
    \<and> run 3 = run 2
    \<and> (\<forall>j. session_of (run 4) j = (if j = i then None else session_of (rs_net s) j))
    \<and> (\<forall>c. owner_of (run 4) c = owner_of (rs_net s) c)"
proof -
  let ?nw = "ru_network rt" and ?st = "rs_net s"
  have feed: "feed codec [] chunks = (sample_frames, Inr [])"
    using feed_concat_from [of codec "[]" chunks] sample_frames_arrive [OF assms(9)]
    by (simp add: drain_empty assms(10))
  have len: "length sample_frames = 4" by (simp add: sample_frames_eq)
  have "list_all2 (\<lambda>f c. classic_decode f = Inr c) sample_frames sample_commands"
    using sample_frames_decode by (simp add: list_all2_conv_all_nth list_eq_iff_nth_eq)
  then have run: "run n = fold (\<lambda>c net. snd (execute ?nw i c net)) (take n sample_commands) ?st" for n
    unfolding assms(11) feed fst_conv by (intro read_frames list_all2_takeI)
  define y where "y = x\<lparr>s_phase := Active, s_presence := Some (presence_of_login sample_login who),
               s_generation := s_generation x + 1\<rparr>"
  define t1 where "t1 = snd (execute ?nw i (C_Login sample_login) ?st)"
  have t1: "session_of t1 j = (if j = i then Some y else session_of ?st j)"
    "owner_of t1 c = (if c = sample_callsign then Some i else owner_of ?st c)" for j c
    unfolding t1_def sample_login_runs [OF assms(2-8)] y_def
    by (simp_all add: Let_def put_session_def hm.get_insert)
  have inv1: "net_inv (nw_config ?nw) t1" unfolding t1_def by (rule execute_inv [OF assms(1)])
  define t2 where "t2 = snd (execute ?nw i (C_Position (Position_Pilot sample_position)) t1)"
  have p: "s_presence y = Some (presence_of_login sample_login who)" "s_phase y = Active"
      "cp_callsign (presence_of_login sample_login who) = sample_callsign"
      "cp_client_type (presence_of_login sample_login who) = Pilot"
    by (simp_all add: y_def presence_of_login_def sample_login_def)
  let ?z = "y\<lparr>s_position := Some (Position_Pilot sample_position)\<rparr>"
  have t2: "session_of t2 j = (if j = i then Some ?z else session_of t1 j)" "owner_of t2 c = owner_of t1 c" for j c
    unfolding t2_def using sample_active_runs(1) [OF inv1 _ p(2,1,3,4)] t1(1)
    by (simp_all add: put_session_def hm.get_insert)
  have inv2: "net_inv (nw_config ?nw) t2" unfolding t2_def by (rule execute_inv [OF inv1])
  have z: "session_of t2 i = Some ?z" "s_phase ?z = Active" "s_presence ?z = Some (presence_of_login sample_login who)"
    using t2(1) p by simp_all
  note act = sample_active_runs [OF inv2 z p(3,4)]
  have runs: "run 1 = t1" "run 2 = t2" "run 3 = t2"
      "run 4 = snd (execute ?nw i (C_Logoff sample_callsign) t2)"
    using act(2) by (simp_all add: run sample_commands_def t1_def t2_def eval_nat_numeral)
  show ?thesis
    unfolding runs using feed len t1 t2 p act(3,4) assms(5)
    by (simp add: session_callsign_def)
qed

text \<open>The test authenticator of the repository admits everybody; the third connection is fresh.\<close>

theorem sample_session_witness:
  "session_of (rs_net (read_connection demo_runtime classic_protocol 3 [] (map Read_Frame sample_frames)
     \<lparr>rs_net = demo_net, rs_connections = demo_table, rs_next_connection_id = 4\<rparr>)) 3 = None
   \<and> length (fst (feed \<lparr>fc_max_frame_bytes = 511\<rparr> [] [client_writes])) = 4"
proof -
  let ?s = "\<lparr>rs_net = demo_net, rs_connections = demo_table, rs_next_connection_id = 4\<rparr>"
  let ?codec = "\<lparr>fc_max_frame_bytes = 511\<rparr>"
  have "session_of demo_net 3 = Some (fresh_session 3 demo_peer Classic)" "owner_of demo_net sample_callsign = None"
    by (simp_all add: demo_net_def hm_get_def sample_callsign_def EXAMPLE_CALLSIGN_def demo_pilot_def demo_tower_def)
  moreover have "au_authenticate (nw_authenticator (ru_network demo_runtime)) EXAMPLE_CID EXAMPLE_PASSWORD
      = Inr \<lparr>ai_network_id = EXAMPLE_CID, ai_real_name = EXAMPLE_CID, ai_atc_rating = Administrator,
             ai_pilot_rating = FlightExaminer, ai_suspended = False\<rparr>"
    by (simp add: demo_runtime_def demo_network_def allow_all_authenticator_def allow_all_authenticate_def)
  moreover have "net_inv (nw_config (ru_network demo_runtime)) demo_net"
    using demo_inv(2) by (simp add: demo_runtime_def demo_network_def)
  moreover have "fst (feed ?codec [] [client_writes]) = sample_frames"
    using feed_concat_from [of ?codec "[]" "[client_writes]"] sample_frames_arrive [of ?codec]
    by (simp add: drain_empty CLASSIC_MAX_FRAME_BYTES_def)
  moreover have "length sample_frames = 4" by (simp add: sample_frames_eq)
  ultimately show ?thesis
    using sample_session [of demo_runtime ?s 3 "fresh_session 3 demo_peer Classic" _ ?codec "[client_writes]" _ "[]", OF _ _ _ _ _ _ _ _ _ _ refl]
    by (auto simp: fresh_session_def CLASSIC_MAX_FRAME_BYTES_def)
qed

end
