(* ===== verification/Persistence.thy ===== *)
theory Persistence
  imports Auth
begin

text \<open>
  What \<open>aster_fsd_persistence\<close> does besides answering the port (that is in \<open>Auth\<close>): opening the
  database, creating users, the texts under which ratings are stored, and the schema of
  \<open>aster_fsd_migration\<close>. SeaORM, the database and Argon2 are parameters; the locale
  \<open>user_store\<close> states what is relied on of the table of users.
\<close>

section \<open>Ratings as stored (identity.rs)\<close>

fun atc_string_value :: "atc_rating \<Rightarrow> string" where
  "atc_string_value Atc_Suspended = ''suspended''"
| "atc_string_value Atc_Observer = ''observer''"
| "atc_string_value Student1 = ''student_1''"
| "atc_string_value Student2 = ''student_2''"
| "atc_string_value Student3 = ''student_3''"
| "atc_string_value Controller1 = ''controller_1''"
| "atc_string_value Controller2 = ''controller_2''"
| "atc_string_value Controller3 = ''controller_3''"
| "atc_string_value Instructor1 = ''instructor_1''"
| "atc_string_value Instructor2 = ''instructor_2''"
| "atc_string_value Instructor3 = ''instructor_3''"
| "atc_string_value Supervisor = ''supervisor''"
| "atc_string_value Administrator = ''administrator''"

fun pilot_string_value :: "pilot_rating \<Rightarrow> string" where
  "pilot_string_value Unrated = ''unrated''"
| "pilot_string_value PrivatePilotLicense = ''private_pilot_license''"
| "pilot_string_value InstrumentRating = ''instrument_rating''"
| "pilot_string_value CommercialMultiEngineLicense = ''commercial_multi_engine_license''"
| "pilot_string_value AirlineTransportPilotLicense = ''airline_transport_pilot_license''"
| "pilot_string_value FlightInstructor = ''flight_instructor''"
| "pilot_string_value FlightExaminer = ''flight_examiner''"

text \<open>Reading a column back: the rating with that text, which \<open>DeriveActiveEnum\<close> looks up.\<close>

definition atc_ratings :: "atc_rating list" where
  "atc_ratings = [Atc_Suspended, Atc_Observer, Student1, Student2, Student3, Controller1, Controller2,
     Controller3, Instructor1, Instructor2, Instructor3, Supervisor, Administrator]"

definition pilot_ratings :: "pilot_rating list" where
  "pilot_ratings = [Unrated, PrivatePilotLicense, InstrumentRating, CommercialMultiEngineLicense,
     AirlineTransportPilotLicense, FlightInstructor, FlightExaminer]"

definition atc_from_value :: "string \<Rightarrow> atc_rating option" where
  "atc_from_value v = find (\<lambda>r. atc_string_value r = v) atc_ratings"

definition pilot_from_value :: "string \<Rightarrow> pilot_rating option" where
  "pilot_from_value v = find (\<lambda>r. pilot_string_value r = v) pilot_ratings"

interpretation atc_column: wire_codec atc_string_value "\<lambda>v. ok_or () (atc_from_value v)" "\<lambda>_. True"
  by unfold_locales (rename_tac r, case_tac r; simp add: atc_from_value_def atc_ratings_def)

interpretation pilot_column: wire_codec pilot_string_value "\<lambda>v. ok_or () (pilot_from_value v)" "\<lambda>_. True"
  by unfold_locales (rename_tac r, case_tac r; simp add: pilot_from_value_def pilot_ratings_def)

section \<open>The schema (aster\_fsd\_migration)\<close>

datatype column_type = Col_Integer | Col_String | Col_String_Len nat | Col_Boolean | Col_Timestamp

datatype column_default = Default_Text string | Default_Bool bool | Default_Now

record column =
  cl_name :: string
  cl_type :: column_type
  cl_not_null :: bool
  cl_auto_increment :: bool
  cl_primary_key :: bool
  cl_unique_key :: bool
  cl_default :: "column_default option"

datatype cell = Cell_Text string | Cell_Bool bool

datatype statement =
    Create_Table string bool "column list"
  | Insert_Rows string "string list" "cell list list"
  | Drop_Table string

record migration =
  mg_up :: "statement list"
  mg_down :: "statement list"

text \<open>\<open>ColumnDef::new\<close> with a type, and the modifiers the migrations use.\<close>

definition column_of :: "string \<Rightarrow> column_type \<Rightarrow> column" where
  "column_of name t =
     \<lparr>cl_name = name, cl_type = t, cl_not_null = True, cl_auto_increment = False,
      cl_primary_key = False, cl_unique_key = False, cl_default = None\<rparr>"

definition users_columns :: "column list" where
  "users_columns =
     [(column_of ''id'' Col_Integer)\<lparr>cl_auto_increment := True, cl_primary_key := True\<rparr>,
      (column_of ''network_id'' Col_String)\<lparr>cl_unique_key := True\<rparr>,
      column_of ''password_hash'' Col_String,
      column_of ''real_name'' Col_String,
      (column_of ''atc_rating'' (Col_String_Len 16))\<lparr>cl_default := Some (Default_Text ''observer'')\<rparr>,
      (column_of ''pilot_rating'' (Col_String_Len 32))
        \<lparr>cl_default := Some (Default_Text ''private_pilot_license'')\<rparr>,
      (column_of ''created_at'' Col_Timestamp)\<lparr>cl_default := Some Default_Now\<rparr>,
      (column_of ''updated_at'' Col_Timestamp)\<lparr>cl_default := Some Default_Now\<rparr>]"

definition create_users :: migration where
  "create_users =
     \<lparr>mg_up = [Create_Table ''users'' True users_columns], mg_down = [Drop_Table ''users'']\<rparr>"

definition whitelist_columns :: "column list" where
  "whitelist_columns =
     [(column_of ''id'' Col_Integer)\<lparr>cl_auto_increment := True, cl_primary_key := True\<rparr>,
      (column_of ''client_id'' Col_String)\<lparr>cl_unique_key := True\<rparr>,
      column_of ''client_name'' Col_String,
      (column_of ''enabled'' Col_Boolean)\<lparr>cl_default := Some (Default_Bool True)\<rparr>,
      (column_of ''created_at'' Col_Timestamp)\<lparr>cl_default := Some Default_Now\<rparr>]"

definition default_clients :: "cell list list" where
  "default_clients =
     [[Cell_Text ''69d7'', Cell_Text ''EuroScope 3.2'', Cell_Bool True],
      [Cell_Text ''88e4'', Cell_Text ''vPilot'', Cell_Bool True],
      [Cell_Text ''48e2'', Cell_Text ''Swift'', Cell_Bool True],
      [Cell_Text ''de1e'', Cell_Text ''VRC'', Cell_Bool True]]"

definition create_client_whitelist :: migration where
  "create_client_whitelist =
     \<lparr>mg_up = [Create_Table ''client_whitelist'' True whitelist_columns,
               Insert_Rows ''client_whitelist'' [''client_id'', ''client_name'', ''enabled''] default_clients],
      mg_down = [Drop_Table ''client_whitelist'']\<rparr>"

definition migrations :: "migration list" where
  "migrations = [create_users, create_client_whitelist]"

section \<open>Opening the database\<close>

datatype level_filter = Filter_Error | Filter_Warn | Filter_Info | Filter_Debug | Filter_Trace

fun level_filter_from :: "sqlx_log_level \<Rightarrow> level_filter" where
  "level_filter_from Sqlx_Error = Filter_Error"
| "level_filter_from Sqlx_Warn = Filter_Warn"
| "level_filter_from Sqlx_Info = Filter_Info"
| "level_filter_from Sqlx_Debug = Filter_Debug"
| "level_filter_from Sqlx_Trace = Filter_Trace"

text \<open>\<open>ConnectOptions\<close>, as far as they are set; times in seconds.\<close>

record connect_options =
  op_url :: string
  op_max_connections :: u32
  op_min_connections :: u32
  op_connect_timeout :: nat
  op_acquire_timeout :: nat
  op_idle_timeout :: nat
  op_max_lifetime :: nat
  op_sqlx_logging :: bool
  op_sqlx_logging_level :: level_filter

text \<open>
  The database engine: opening a pool, running the pending migrations, inserting a user, and the
  queries of the port on its present contents. Errors are the texts of a \<open>DbErr\<close>.
\<close>

record user_active_model =
  ua_network_id :: string
  ua_password_hash :: string
  ua_real_name :: string
  ua_atc_rating :: atc_rating
  ua_pilot_rating :: pilot_rating
  ua_created_at :: nat
  ua_updated_at :: nat

record 'db engine =
  en_connect :: "connect_options \<Rightarrow> string + 'db"
  en_migrate :: "migration list \<Rightarrow> 'db \<Rightarrow> string + 'db"
  en_insert_user :: "user_active_model \<Rightarrow> 'db \<Rightarrow> string + user_row \<times> 'db"
  en_queries :: "'db \<Rightarrow> database"

definition connect_options_of :: "database_config \<Rightarrow> connect_options" where
  "connect_options_of c =
     \<lparr>op_url = db_url c, op_max_connections = db_max_connections c,
      op_min_connections = db_min_connections c, op_connect_timeout = 8, op_acquire_timeout = 8,
      op_idle_timeout = 5 * 60, op_max_lifetime = 30 * 60, op_sqlx_logging = db_sqlx_logging c,
      op_sqlx_logging_level = level_filter_from (db_sqlx_logging_level c)\<rparr>"

definition connect :: "'db engine \<Rightarrow> database_config \<Rightarrow> string + 'db" where
  "connect en c = and_then (en_connect en (connect_options_of c)) (en_migrate en migrations)"

section \<open>Creating users\<close>

text \<open>The clock is an argument.\<close>

definition create_user ::
  "'db engine \<Rightarrow> nat \<Rightarrow> string \<Rightarrow> string \<Rightarrow> string \<Rightarrow> atc_rating \<Rightarrow> pilot_rating \<Rightarrow> 'db
   \<Rightarrow> string + user_row \<times> 'db" where
  "create_user en now network_id password_hash real_name atc_rating pilot_rating db =
     en_insert_user en
       \<lparr>ua_network_id = network_id, ua_password_hash = password_hash, ua_real_name = real_name,
        ua_atc_rating = atc_rating, ua_pilot_rating = pilot_rating,
        ua_created_at = now, ua_updated_at = now\<rparr> db"

text \<open>
  \<open>hash_password\<close>: the salt from sixteen random bytes, and the hash in its text form. Both can
  fail in the library.
\<close>

record argon2_hasher =
  ah_salt :: "u8 list \<Rightarrow> string option"
  ah_hash :: "string \<Rightarrow> string \<Rightarrow> string option"

definition hash_password :: "argon2_hasher \<Rightarrow> u8 list \<Rightarrow> string \<Rightarrow> auth_error + string" where
  "hash_password ah bytes password =
     and_then (ok_or Auth_InvalidPasswordHash (ah_salt ah bytes)) (\<lambda>salt.
       ok_or Auth_InvalidPasswordHash (ah_hash ah password salt))"

text \<open>A hash of a password is read back, and the password verifies against it.\<close>

definition argon2_pair :: "argon2_hasher \<Rightarrow> 'h argon2 \<Rightarrow> bool" where
  "argon2_pair ah ar =
     (\<forall>password salt hash. ah_hash ah password salt = Some hash \<longrightarrow>
        (\<exists>h. ar_parse ar hash = Some h \<and> ar_verify ar password h = Argon_Ok))"

text \<open>The row of an inserted user.\<close>

definition row_of :: "user_active_model \<Rightarrow> user_row" where
  "row_of u =
     \<lparr>ur_network_id = ua_network_id u, ur_password_hash = ua_password_hash u,
      ur_real_name = ua_real_name u, ur_atc_rating = ua_atc_rating u, ur_pilot_rating = ua_pilot_rating u\<rparr>"

text \<open>
  The table of users under its unique key: an insertion succeeds only for a new network id, and
  then this id finds the inserted row, while the other queries are as before.
\<close>

locale user_store =
  fixes en :: "'db engine"
  assumes unique: "db_find_user (en_queries en db) (ua_network_id u) = Inr (Some r) \<Longrightarrow>
      \<exists>e. en_insert_user en u db = Inl e"
    and inserted: "en_insert_user en u db = Inr (r, db') \<Longrightarrow>
      r = row_of u \<and> db_find_user (en_queries en db') (ua_network_id u) = Inr (Some r)"
    and others: "en_insert_user en u db = Inr (r, db') \<Longrightarrow> n \<noteq> ua_network_id u \<Longrightarrow>
      db_find_user (en_queries en db') n = db_find_user (en_queries en db) n"
    and clients: "en_insert_user en u db = Inr (r, db') \<Longrightarrow>
      db_find_client (en_queries en db') = db_find_client (en_queries en db)"
begin

lemma created_found:
  "create_user en now n hash name a p db = Inr (r, db') \<Longrightarrow>
     db_find_user (en_queries en db') n =
       Inr (Some \<lparr>ur_network_id = n, ur_password_hash = hash, ur_real_name = name,
                  ur_atc_rating = a, ur_pilot_rating = p\<rparr>)"
  using inserted unfolding create_user_def by (fastforce simp: row_of_def)

lemma created_others:
  "create_user en now n hash name a p db = Inr (r, db') \<Longrightarrow> m \<noteq> n \<Longrightarrow>
     db_find_user (en_queries en db') m = db_find_user (en_queries en db) m"
  using others unfolding create_user_def by fastforce

lemma created_again:
  assumes "create_user en now n hash name a p db = Inr (r, db')"
  shows "\<exists>e. create_user en now2 n hash2 name2 a2 p2 db' = Inl e"
  using unique [of db' "\<lparr>ua_network_id = n, ua_password_hash = hash2, ua_real_name = name2,
      ua_atc_rating = a2, ua_pilot_rating = p2, ua_created_at = now2, ua_updated_at = now2\<rparr>"]
    created_found [OF assms]
  by (simp add: create_user_def)

end

text \<open>Tables held in memory, as an instance; migrating adds the rows the migrations insert.\<close>

fun seed_row :: "cell list \<Rightarrow> whitelist_row option" where
  "seed_row [Cell_Text client_id, Cell_Text _, Cell_Bool enabled] =
     Some \<lparr>wr_client_id = client_id, wr_enabled = enabled\<rparr>"
| "seed_row _ = None"

fun seeded :: "statement \<Rightarrow> whitelist_row list" where
  "seeded (Insert_Rows table _ rows) =
     (if table = ''client_whitelist'' then List.map_filter seed_row rows else [])"
| "seeded _ = []"

definition table_engine :: "(user_row list \<times> whitelist_row list) engine" where
  "table_engine =
     \<lparr>en_connect = (\<lambda>_. Inr ([], [])), en_migrate = (\<lambda>ms (users, clients). Inr (users, clients @ concat (map seeded (concat (map mg_up ms))))),
      en_insert_user = (\<lambda>u (users, clients).
        if \<exists>r \<in> set users. ur_network_id r = ua_network_id u then Inl ''unique''
        else Inr (row_of u, row_of u # users, clients)),
      en_queries = (\<lambda>(users, clients). table_database users clients)\<rparr>"

interpretation table_store: user_store table_engine
  by unfold_locales
    (auto simp: table_engine_def table_database_def find_Some_iff row_of_def split: if_splits prod.splits
      dest: nth_mem)

end
