(* ===== verification/Persistence_Properties.thy ===== *)
theory Persistence_Properties
  imports Persistence Scenario
begin

text \<open>
  The properties of the persistence adapter: a created user can log in, and the schema the
  migrations create holds what the model stores in it.
\<close>

section \<open>An instance of Argon2\<close>



section \<open>Users\<close>



section \<open>The schema\<close>




end
