(* ===== verification/Supervision.thy ===== *)
theory Supervision
  imports Server
begin

text \<open>
  Supervision of the tasks (\<open>listener.rs\<close>, \<open>BoundServer::serve\<close> in \<open>server.rs\<close>): what the loops
  do with what the runtime of tokio reports to them. The sockets and the scheduler are not under
  \<open>src/\<close>; what \<open>select!\<close> and \<open>join_next\<close> yield is an argument.
\<close>

section \<open>Joining tasks\<close>

text \<open>A \<open>JoinError\<close>: the task was cancelled or it panicked; its text.\<close>

datatype join_error = Join_Cancelled string | Join_Panicked string

fun is_cancelled :: "join_error \<Rightarrow> bool" where
  "is_cancelled (Join_Cancelled _) = True"
| "is_cancelled (Join_Panicked _) = False"

fun join_error_text :: "join_error \<Rightarrow> string" where
  "join_error_text (Join_Cancelled t) = t"
| "join_error_text (Join_Panicked t) = t"

section \<open>Accepting (listener.rs)\<close>

datatype accept_event =
    Ac_Shutdown | Ac_Accepted socket_addr | Ac_Failed string | Ac_Joined "join_error option"

text \<open>
  \<open>accept_loop\<close> on the events it meets: the peers it starts a connection task for, and its
  result; \<open>None\<close> while it is running. After shutdown it waits for its tasks and logs their
  errors, then returns. The first argument is the local address, which may not be available.
\<close>

fun accept_events :: "listener_config \<Rightarrow> accept_event list \<Rightarrow> socket_addr list \<times> (server_error + unit) option" where
  "accept_events config [] = ([], None)"
| "accept_events config (e # es) =
     (case e of
        Ac_Shutdown \<Rightarrow> ([], Some (Inr ()))
      | Ac_Accepted peer \<Rightarrow> (case accept_events config es of (peers, r) \<Rightarrow> (peer # peers, r))
      | Ac_Failed source \<Rightarrow> ([], Some (Inl (ListenerIo (li_name config) source)))
      | Ac_Joined _ \<Rightarrow> accept_events config es)"

definition accept_loop ::
  "string + socket_addr \<Rightarrow> listener_config \<Rightarrow> accept_event list
   \<Rightarrow> socket_addr list \<times> (server_error + unit) option" where
  "accept_loop local config es =
     (case local of
        Inl source \<Rightarrow> ([], Some (Inl (ListenerIo (li_name config) source)))
      | Inr _ \<Rightarrow> accept_events config es)"

section \<open>Serving (server.rs)\<close>

type_synonym listener_outcome = "join_error + (server_error + unit)"

text \<open>What ends the first \<open>select!\<close>: shutdown, or a listener task (\<open>None\<close> if there is none).\<close>

datatype serve_event = Serve_Shutdown | Serve_Joined "listener_outcome option"

definition first_outcome :: "serve_event \<Rightarrow> server_error + unit" where
  "first_outcome e =
     (case e of
        Serve_Shutdown \<Rightarrow> Inr ()
      | Serve_Joined None \<Rightarrow> Inr ()
      | Serve_Joined (Some (Inr result)) \<Rightarrow> result
      | Serve_Joined (Some (Inl err)) \<Rightarrow> Inl (ListenerTask (join_error_text err)))"

fun drain_listeners :: "listener_outcome list \<Rightarrow> server_error + unit" where
  "drain_listeners [] = Inr ()"
| "drain_listeners (o1 # os) =
     (case o1 of
        Inr (Inr _) \<Rightarrow> drain_listeners os
      | Inr (Inl err) \<Rightarrow> Inl err
      | Inl err \<Rightarrow> if is_cancelled err then drain_listeners os else Inl (ListenerTask (join_error_text err)))"

definition maintenance_outcome :: "join_error option \<Rightarrow> server_error + unit" where
  "maintenance_outcome m =
     (case m of
        None \<Rightarrow> Inr ()
      | Some err \<Rightarrow> if is_cancelled err then Inr () else Inl (ListenerTask (join_error_text err)))"

text \<open>
  \<open>serve\<close>: the end of the first wait, the outcomes of the other listeners after shutdown was
  requested, and that of the maintenance task.
\<close>

definition serve :: "serve_event \<Rightarrow> listener_outcome list \<Rightarrow> join_error option \<Rightarrow> server_error + unit" where
  "serve e rest m =
     and_then (first_outcome e) (\<lambda>_. and_then (drain_listeners rest) (\<lambda>_. maintenance_outcome m))"

section \<open>How they end\<close>

lemma accept_events_ends:
  "snd (accept_events config es) = Some r \<Longrightarrow>
     r = Inr () \<and> Ac_Shutdown \<in> set es
     \<or> (\<exists>source. r = Inl (ListenerIo (li_name config) source) \<and> Ac_Failed source \<in> set es)"
  by (induction es) (auto split: accept_event.splits prod.splits)

lemma accept_events_fails:
  "list_all (\<lambda>e. \<exists>p j. e = Ac_Accepted p \<or> e = Ac_Joined j) es \<Longrightarrow>
     accept_events config (es @ Ac_Failed source # es')
       = (List.map_filter (\<lambda>e. case e of Ac_Accepted p \<Rightarrow> Some p | _ \<Rightarrow> None) es,
          Some (Inl (ListenerIo (li_name config) source)))"
  by (induction es) (auto simp: map_filter_simps split: accept_event.splits)

lemma drain_ok_iff:
  "drain_listeners rest = Inr () \<longleftrightarrow>
     list_all (\<lambda>x. x = Inr (Inr ()) \<or> (\<exists>t. x = Inl (Join_Cancelled t))) rest"
proof (induction rest)
  case (Cons x xs)
  then show ?case by (cases x) (auto split: sum.splits elim: is_cancelled.elims)
qed simp

lemma serve_ok_iff:
  "serve e rest m = Inr () \<longleftrightarrow>
     (e = Serve_Shutdown \<or> e = Serve_Joined None \<or> e = Serve_Joined (Some (Inr (Inr ()))))
     \<and> list_all (\<lambda>x. x = Inr (Inr ()) \<or> (\<exists>t. x = Inl (Join_Cancelled t))) rest
     \<and> (m = None \<or> (\<exists>t. m = Some (Join_Cancelled t)))"
proof -
  have "maintenance_outcome m = Inr () \<longleftrightarrow> m = None \<or> (\<exists>t. m = Some (Join_Cancelled t))"
    by (auto simp: maintenance_outcome_def split: option.splits elim: is_cancelled.elims)
  moreover have "first_outcome e = Inr () \<longleftrightarrow>
      e = Serve_Shutdown \<or> e = Serve_Joined None \<or> e = Serve_Joined (Some (Inr (Inr ())))"
    by (auto simp: first_outcome_def split: serve_event.splits option.splits sum.splits)
  ultimately show ?thesis by (auto simp: serve_def and_then_Inr_iff drain_ok_iff)
qed

end
