(* ===== verification/Startup.thy ===== *)
theory Startup
  imports Config_Properties Persistence_Properties Supervision Server_Reach
begin

text \<open>
  The composition root (\<open>src/main.rs\<close>) from a configuration to the bound server, and how the
  server ends.
\<close>

section \<open>Starting (main.rs)\<close>

datatype start_error = Start_Config config_error | Start_Database string | Start_Server server_error

text \<open>\<open>Network::new\<close> and \<open>Network::with_weather_provider\<close>: the parts, and an empty state.\<close>

definition with_weather_provider ::
  "libm \<Rightarrow> core_config \<Rightarrow> authenticator \<Rightarrow> weather_provider \<Rightarrow> network \<times> net_state" where
  "with_weather_provider lm config auth provider =
     (\<lparr>nw_config = config, nw_authenticator = auth, nw_weather_provider = provider, nw_libm = lm\<rparr>,
      net_state_default)"

definition network_new :: "libm \<Rightarrow> core_config \<Rightarrow> authenticator \<Rightarrow> network \<times> net_state" where
  "network_new lm config auth = with_weather_provider lm config auth unavailable_weather_provider"

text \<open>
  \<open>main\<close> up to \<open>serve\<close>: validation, the database, the network, the backends, the server and
  its listeners. The first failure ends the program.
\<close>

definition start ::
  "'db engine \<Rightarrow> (string \<Rightarrow> string \<Rightarrow> auth_error + bool) \<Rightarrow> libm \<Rightarrow> serde \<Rightarrow> 'ch mpsc
   \<Rightarrow> (listener_config \<Rightarrow> string + socket_addr) \<Rightarrow> config
   \<Rightarrow> start_error + 'ch server \<times> (listener_config \<times> socket_addr \<times> backend) list" where
  "start en verify lm sj ms listen config =
     and_then (map_err Start_Config (config_validate config)) (\<lambda>_.
     and_then (map_err Start_Database (connect en (runtime_database_config config))) (\<lambda>db.
     case network_new lm (runtime_core_config config) (sea_orm_authenticator (en_queries en db) verify) of
       (nw, net) \<Rightarrow>
     and_then (map_err Start_Server
         (server_new ms (runtime_server_config config) nw net (service_registry sj))) (\<lambda>sv.
     and_then (map_err Start_Server
         (bind_listeners listen (sv_registry sv) (sc_listeners (ru_config (sv_runtime sv))))) (\<lambda>bound.
       Inr (sv, bound)))))"

text \<open>The state of the server when its tasks are started.\<close>

definition started :: "'ch server \<Rightarrow> 'ch server_system" where
  "started sv =
     \<lparr>sy_system = \<lparr>sys_net = rs_net (sv_state sv), sys_pending = [],
                   sys_next = unat (rs_next_connection_id (sv_state sv))\<rparr>,
      sy_connections = rs_connections (sv_state sv), sy_tasks = Map.empty\<rparr>"

lemma bound_listeners:
  "bind_listeners listen (service_registry sj) ls = Inr bound \<Longrightarrow>
     map fst bound = ls \<and> list_all (\<lambda>(l, _, b). b \<in> deployed sj \<and> pb_dialect b = li_protocol l) bound"
proof (induction ls arbitrary: bound)
  case (Cons l ls)
  then show ?case
    using registry_total [of sj "li_protocol l"] by (auto simp: and_then_Inr_iff)
qed simp

text \<open>The server that a validated configuration leads to, before its sockets are opened.\<close>

definition fresh_server ::
  "libm \<Rightarrow> serde \<Rightarrow> 'ch mpsc \<Rightarrow> config \<Rightarrow> authenticator \<Rightarrow> 'ch server" where
  "fresh_server lm sj ms config auth =
     \<lparr>sv_runtime = \<lparr>ru_config = runtime_server_config config,
        ru_network = \<lparr>nw_config = runtime_core_config config, nw_authenticator = auth,
          nw_weather_provider = unavailable_weather_provider, nw_libm = lm\<rparr>, ru_mpsc = ms\<rparr>,
      sv_state = \<lparr>rs_net = net_state_default, rs_connections = [], rs_next_connection_id = 1\<rparr>,
      sv_registry = service_registry sj\<rparr>"

lemma start_valid:
  assumes "config_validate config = Inr ()" "connect en (runtime_database_config config) = Inr db"
  shows "start en verify lm sj ms listen config =
    map_err Start_Server
      (and_then (bind_listeners listen (service_registry sj) (map runtime_listener (cg_listeners config)))
        (\<lambda>bound. Inr (fresh_server lm sj ms config (sea_orm_authenticator (en_queries en db) verify), bound)))"
proof -
  let ?auth = "sea_orm_authenticator (en_queries en db) verify"
  let ?nw = "ru_network (sv_runtime (fresh_server lm sj ms config ?auth))"
  obtain sv where sv: "server_new ms (runtime_server_config config) ?nw net_state_default (service_registry sj) = Inr sv"
    using validated_config_starts [OF assms(1), of ms ?nw net_state_default sj listen] by blast
  then have "sv = fresh_server lm sj ms config ?auth"
    by (simp add: server_new_def fresh_server_def split: if_splits)
  with sv have "server_new ms (runtime_server_config config)
      \<lparr>nw_config = runtime_core_config config, nw_authenticator = ?auth,
       nw_weather_provider = unavailable_weather_provider, nw_libm = lm\<rparr> net_state_default (service_registry sj)
      = Inr (fresh_server lm sj ms config ?auth)"
    by (simp add: fresh_server_def)
  moreover have "sv_registry (fresh_server lm sj ms config ?auth) = service_registry sj"
    "sc_listeners (ru_config (sv_runtime (fresh_server lm sj ms config ?auth))) = map runtime_listener (cg_listeners config)"
    by (simp_all add: fresh_server_def runtime_server_config_def)
  ultimately show ?thesis
    using assms
    by (cases "bind_listeners listen (service_registry sj) (map runtime_listener (cg_listeners config))")
      (simp_all add: start_def network_new_def with_weather_provider_def)
qed

lemma fresh_server_init: "server_init (started (fresh_server lm sj ms config auth))"
  by (simp add: server_init_def started_def sys_init_def fresh_server_def)

lemma validated_listeners:
  assumes "config_validate config = Inr ()"
    and "bind_listeners listen (service_registry sj) (map runtime_listener (cg_listeners config)) = Inr bound"
  shows "list_all (\<lambda>(l, _, b). b \<in> deployed sj \<and> pb_dialect b = li_protocol l
      \<and> is_ok (codec_new (li_max_frame_bytes l))) bound"
proof -
  note b = bound_listeners [OF assms(2)]
  have "\<forall>l \<in> set (cg_listeners config). is_ok (codec_new (ls_max_frame_bytes l))"
    using assms(1) by (simp add: config_validate_ok_iff list_all_iff listener_ok_def codec_new_def)
  then have "\<forall>l \<in> set (map runtime_listener (cg_listeners config)). is_ok (codec_new (li_max_frame_bytes l))"
    by (simp add: runtime_listener_def)
  then have "\<forall>l \<in> set (map fst bound). is_ok (codec_new (li_max_frame_bytes l))"
    by (simp only: b)
  then have "list_all (\<lambda>x. is_ok (codec_new (li_max_frame_bytes (fst x)))) bound"
    by (simp add: list_all_iff)
  with b show ?thesis by (auto simp: list_all_iff case_prod_unfold)
qed

text \<open>
  C25: Starting. With any database and any sockets, the program does not start only because the
  configuration is invalid, the database could not be opened or migrated, or a socket could not be
  opened, and then reports just that: a validated configuration never fails the server's own checks.
  When it starts, every configured listener is bound with the backend of its dialect and a
  frame limit the codec accepts, the core has the configured capacity, and the state is the
  initial state of the server system.
\<close>

theorem start_outcome:
  "case start en verify lm sj ms listen config of
     Inl (Start_Config e) \<Rightarrow> config_validate config = Inl e
   | Inl (Start_Database t) \<Rightarrow> config_validate config = Inr ()
       \<and> connect en (runtime_database_config config) = Inl t
   | Inl (Start_Server e) \<Rightarrow> config_validate config = Inr ()
       \<and> (\<exists>l \<in> set (cg_listeners config). \<exists>t. listen (runtime_listener l) = Inl t
            \<and> e = ListenerIo (ls_name l) t)
   | Inr (sv, bound) \<Rightarrow> config_validate config = Inr ()
       \<and> map fst bound = map runtime_listener (cg_listeners config)
       \<and> list_all (\<lambda>(l, _, b). b \<in> deployed sj \<and> pb_dialect b = li_protocol l
            \<and> is_ok (codec_new (li_max_frame_bytes l))) bound
       \<and> co_max_clients (nw_config (ru_network (sv_runtime sv))) = gs_max_clients (cg_server config)
       \<and> sv_registry sv = service_registry sj \<and> server_init (started sv)"
proof (cases "config_validate config")
  case (Inl e)
  then show ?thesis by (simp add: start_def)
next
  case (Inr u)
  then have valid: "config_validate config = Inr ()" by simp
  show ?thesis
  proof (cases "connect en (runtime_database_config config)")
    case (Inl t)
    with valid show ?thesis by (simp add: start_def)
  next
    case (Inr db)
    note start = start_valid [OF valid Inr, of verify lm sj ms listen]
    show ?thesis
    proof (cases "bind_listeners listen (service_registry sj) (map runtime_listener (cg_listeners config))")
      case (Inl e)
      with bind_listeners_error [OF Inl] start valid show ?thesis by (auto simp: runtime_listener_def)
    next
      case (Inr bound)
      with bound_listeners [OF Inr] validated_listeners [OF valid Inr] start valid fresh_server_init
      show ?thesis by (simp add: fresh_server_def runtime_core_config_def)
    qed
  qed
qed

section \<open>Ending\<close>

text \<open>
  C35: One failing \<open>accept\<close> stops the whole server. Whatever connections were accepted before and
  are still open, the first error the listening socket reports ends the accept loop of its
  listener, and \<open>serve\<close> returns that error whatever the other listeners and the maintenance
  task do; without such an error, a panic or an unavailable local address it returns
  without error.
\<close>

theorem accept_error_stops_server:
  "list_all (\<lambda>e. \<exists>p j. e = Ac_Accepted p \<or> e = Ac_Joined j) es \<Longrightarrow>
     (case accept_loop (Inr address) config (es @ Ac_Failed source # es') of
        (peers, Some r) \<Rightarrow> r = Inl (ListenerIo (li_name config) source)
          \<and> set peers = {p. Ac_Accepted p \<in> set es}
          \<and> serve (Serve_Joined (Some (Inr r))) rest m = Inl (ListenerIo (li_name config) source)
      | (peers, None) \<Rightarrow> False)
     \<and> (serve Serve_Shutdown (map Inr rs) None = Inr () \<longleftrightarrow> set rs \<subseteq> {Inr ()})"
  by (auto simp: accept_loop_def accept_events_fails serve_def first_outcome_def and_then_Inr_iff drain_ok_iff
      maintenance_outcome_def map_filter_def list_all_iff image_iff split: accept_event.splits)

theorem accept_error_stops_server_witness:
  "serve (Serve_Joined (Some (Inr (Inl (ListenerIo ''classic'' ''too many open files''))))) [Inr (Inr ())] None
     = Inl (ListenerIo ''classic'' ''too many open files'')
   \<and> accept_loop (Inr demo_peer) demo_listener [Ac_Accepted demo_peer, Ac_Failed ''too many open files'']
     = ([demo_peer], Some (Inl (ListenerIo ''classic'' ''too many open files'')))"
  using accept_error_stops_server [where es = "[Ac_Accepted demo_peer]" and address = demo_peer
      and config = demo_listener and source = "''too many open files''" and es' = "[]"
      and rest = "[Inr (Inr ())]" and m = None and rs = "[]"]
  by (simp add: accept_loop_def demo_listener_def)

end
