(* ===== verification/Model_Tests.thy ===== *)
theory Model_Tests
  imports Persistence Float_Accuracy
begin

text \<open>
  The unit tests the source keeps beside the domain model (crate \<open>aster_fsd_model\<close>), each as a
  boolean computed by the definitions of this library: what
  the test asserts of the program, asserted of its model. A test that holds here is a
  concrete input on which model and program agree. \<open>ok_and\<close> is \<open>unwrap\<close> followed by the
  assertions on the value, \<open>err_and\<close> is \<open>unwrap_err\<close>. The assertions about \<open>serde\<close>'s text of
  a rating are left to the string values of the database columns, which use the same names.
\<close>

definition ok_and :: "'e + 'a \<Rightarrow> ('a \<Rightarrow> bool) \<Rightarrow> bool" where
  "ok_and r P = (case r of Inl _ \<Rightarrow> False | Inr x \<Rightarrow> P x)"

definition err_and :: "'e + 'a \<Rightarrow> ('e \<Rightarrow> bool) \<Rightarrow> bool" where
  "err_and r P = (case r of Inl e \<Rightarrow> P e | Inr _ \<Rightarrow> False)"

section \<open>Domain model\<close>

definition test_atc_ratings :: bool where
  "test_atc_ratings =
     (list_all (\<lambda>(rating, wire_value, serialized).
          atc_wire_value rating = wire_value
          \<and> atc_try_from wire_value = Inr rating
          \<and> atc_string_value rating = serialized)
        [(Atc_Suspended, 0, ''suspended''), (Atc_Observer, 1, ''observer''),
         (Student1, 2, ''student_1''), (Student2, 3, ''student_2''), (Student3, 4, ''student_3''),
         (Controller1, 5, ''controller_1''), (Controller2, 6, ''controller_2''),
         (Controller3, 7, ''controller_3''), (Instructor1, 8, ''instructor_1''),
         (Instructor2, 9, ''instructor_2''), (Instructor3, 10, ''instructor_3''),
         (Supervisor, 11, ''supervisor''), (Administrator, 12, ''administrator'')]
      \<and> list_all (\<lambda>invalid. \<not> is_ok (atc_try_from invalid)) [- 1, 13, 2 ^ 31 - 1]
      \<and> atc_allows_wire_value Administrator 12
      \<and> \<not> atc_allows_wire_value Atc_Observer 2
      \<and> \<not> atc_allows_wire_value Atc_Suspended 0)"

lemma test_atc_ratings: test_atc_ratings
  by code_simp

definition test_pilot_ratings :: bool where
  "test_pilot_ratings =
     (list_all (\<lambda>(rating, wire_value, serialized).
          pilot_wire_value rating = wire_value
          \<and> pilot_try_from wire_value = Inr rating
          \<and> pilot_string_value rating = serialized)
        [(Unrated, 0, ''unrated''), (PrivatePilotLicense, 1, ''private_pilot_license''),
         (InstrumentRating, 3, ''instrument_rating''),
         (CommercialMultiEngineLicense, 7, ''commercial_multi_engine_license''),
         (AirlineTransportPilotLicense, 15, ''airline_transport_pilot_license''),
         (FlightInstructor, 31, ''flight_instructor''), (FlightExaminer, 63, ''flight_examiner'')]
      \<and> list_all (\<lambda>invalid. \<not> is_ok (pilot_try_from invalid))
          [- 1, 2, 4, 6, 8, 16, 32, 64, 2 ^ 31 - 1]
      \<and> pilot_allows_wire_value FlightExaminer 63
      \<and> pilot_allows_wire_value InstrumentRating 1
      \<and> \<not> pilot_allows_wire_value InstrumentRating 7
      \<and> \<not> pilot_allows_wire_value FlightExaminer 2
      \<and> \<not> pilot_allows_wire_value Unrated 0)"

lemma test_pilot_ratings: test_pilot_ratings
  by code_simp

definition test_callsigns :: bool where
  "test_callsigns =
     (ok_and (callsign_parse ''ecp4143'') (\<lambda>c. as_str c = ''ECP4143'')
      \<and> is_ok (callsign_parse ''AB'')
      \<and> is_ok (callsign_parse ''ABCDEFGHIJKL'')
      \<and> \<not> is_ok (callsign_parse ''A'')
      \<and> \<not> is_ok (callsign_parse ''ABC DEF''))"

lemma test_callsigns: test_callsigns
  by code_simp

lemma f64_lit_small: "\<bar>q\<bar> < 256 \<Longrightarrow> f64_lit q = F64_Fin (q < 0) (rounded_mag \<bar>q\<bar>)"
  by (simp add: f64_lit_def f64_round_small)

lemma rounded_mag_between:
  "0 \<le> q \<Longrightarrow> q < 256 \<Longrightarrow> q - 1 / 2 ^ 46 \<le> rounded_mag q"
  "0 \<le> q \<Longrightarrow> q < 256 \<Longrightarrow> rounded_mag q \<le> q + 1 / 2 ^ 46"
  using rounded_mag_error(1) [of q] unfolding abs_le_iff by linarith+

definition position_test_pilot :: "f64 \<Rightarrow> f64 \<Rightarrow> string \<Rightarrow> uchar \<Rightarrow> position" where
  "position_test_pilot latitude longitude squawk mode =
     Position_Pilot \<lparr>pp_callsign = Callsign ''ECP1'', pp_mode = mode, pp_squawk = squawk,
       pp_rating = 1, pp_latitude = latitude, pp_longitude = longitude, pp_altitude = 0,
       pp_groundspeed = 0, pp_pbh = 0, pp_flags = 0\<rparr>"

definition test_position_validation :: bool where
  "test_position_validation =
     (let pilot = (\<lambda>latitude longitude squawk mode.
            is_ok (position_validate (position_test_pilot latitude longitude squawk mode)));
          atc = Position_Atc \<lparr>ap_callsign = Callsign ''CTR1'', ap_frequency = 199998,
            ap_facility_type = 5, ap_visual_range = - 1, ap_rating = 5, ap_latitude = f64_lit 0,
            ap_longitude = f64_lit 0, ap_altitude = 0\<rparr>
      in pilot (f64_lit (- 90)) (f64_lit 180) ''0000'' ''N''
       \<and> pilot (f64_lit 0) (f64_lit 0) ''0'' ''N''
       \<and> pilot (f64_lit 0) (f64_lit 0) ''0001'' ''N''
       \<and> pilot (f64_lit 90) (f64_lit (- 180)) ''7777'' ''Y''
       \<and> \<not> pilot F64_NaN (f64_lit 0) ''1200'' ''N''
       \<and> \<not> pilot (f64_lit (90000001 / 1000000)) (f64_lit 0) ''1200'' ''N''
       \<and> \<not> pilot (f64_lit 0) (f64_lit (- 180000001 / 1000000)) ''1200'' ''N''
       \<and> \<not> pilot (f64_lit 0) (f64_lit 0) ''1280'' ''N''
       \<and> \<not> pilot (f64_lit 0) (f64_lit 0) '''' ''N''
       \<and> \<not> pilot (f64_lit 0) (f64_lit 0) ''10000'' ''N''
       \<and> \<not> pilot (f64_lit 0) (f64_lit 0) ''1200'' ''X''
       \<and> \<not> is_ok (position_validate atc))"

lemma test_position_validation: test_position_validation
  using rounded_mag_between(1) [of "90000001 / 1000000"]
    rounded_mag_between(1) [of "180000001 / 1000000"]
  by (simp add: test_position_validation_def position_test_pilot_def position_validate_def
      f64_in_range_def is_octal_digit_def byte_def Let_def
      f64_lit_small [of "90000001 / 1000000"] f64_lit_small [of "- (180000001 / 1000000)"])

definition weather_test_profile :: weather_profile where
  "weather_test_profile =
     (let wind = \<lparr>wl_ceiling = - 1, wl_floor = - 1, wl_direction = 0, wl_speed = 0, wl_gusting = 0,
            wl_turbulence = 0\<rparr>;
          cloud = \<lparr>cl_ceiling = - 1, cl_floor = - 1, cl_coverage = 0, cl_icing = 0,
            cl_turbulence = 0\<rparr>
      in \<lparr>wp_temperatures = (\<lparr>tl_ceiling = 100, tl_temperature = 15\<rparr>,
            \<lparr>tl_ceiling = 10000, tl_temperature = - 5\<rparr>,
            \<lparr>tl_ceiling = 18000, tl_temperature = - 21\<rparr>,
            \<lparr>tl_ceiling = 35000, tl_temperature = - 51\<rparr>),
          wp_winds = (wind, wind, wind, wind), wp_clouds = (cloud, cloud),
          wp_thunderstorm = cloud, wp_barometer = 2950, wp_visibility = f64_lit 15\<rparr>)"

definition test_weather_validation :: bool where
  "test_weather_validation =
     (is_ok (weather_validate weather_test_profile)
      \<and> \<not> is_ok (weather_validate (weather_test_profile\<lparr>wp_visibility := f64_lit (- 1 / 100)\<rparr>))
      \<and> \<not> is_ok (weather_validate (weather_test_profile\<lparr>wp_visibility := F64_Inf False\<rparr>)))"

lemma test_weather_validation: test_weather_validation
  using rounded_mag_between(1) [of "1 / 100"]
  by (simp add: test_weather_validation_def weather_test_profile_def weather_validate_def
      f64_lt_def Let_def f64_lit_small [of "- (1 / 100)"])

definition test_destinations :: bool where
  "test_destinations =
     (destination_parse ''*A'' = Inr To_Atc
      \<and> destination_parse ''*P'' = Inr To_Pilots
      \<and> destination_parse ''@94836'' = Inr (To_Range ''@94836''))"

lemma test_destinations: test_destinations
  by code_simp

text \<open>\<open>str::contains\<close>.\<close>

definition contains_text :: "string \<Rightarrow> string \<Rightarrow> bool" where
  "contains_text s part =
     list_ex (\<lambda>n. take (length part) (drop n s) = part) [0..<Suc (length s)]"

definition test_observability_names :: bool where
  "test_observability_names =
     (let login = C_Login \<lparr>lc_callsign = Callsign ''ECP1'', lc_client_type = Pilot,
            lc_network_id = ''CID1'', lc_password = ''sentinel-secret'', lc_requested_rating = 1,
            lc_protocol_revision = 9, lc_real_name = ''Test Pilot'', lc_simulator_type = Some 2\<rparr>;
          handoff = C_Handoff (Callsign ''ECP1'') (Callsign ''ECP2'') H_Request [''handoff-data''];
          event = Ev_Text (Callsign ''ECP1'') To_All ''sentinel-message''
      in command_kind login = ''login''
       \<and> command_destination login = None
       \<and> direct_target login = None
       \<and> \<not> contains_text (command_kind login) ''sentinel-secret''
       \<and> command_destination handoff = None
       \<and> map_option as_str (direct_target handoff) = Some ''ECP2''
       \<and> event_kind event = ''text''
       \<and> \<not> contains_text (event_kind event) ''sentinel-message'')"

lemma test_observability_names: test_observability_names
  by code_simp

end
