(* ===== verification/Codec_Tests.thy ===== *)
theory Codec_Tests
  imports Model_Tests Packets
begin

text \<open>
  The unit tests of \<open>aster_fsd_codec\<close>: the frame codec and the packet tokenizer on the bytes
  the source tests them with.
\<close>

section \<open>Frames\<close>

definition test_decoder_delimiters :: bool where
  "test_decoder_delimiters =
     ok_and (codec_new 32) (\<lambda>codec.
       let s0 = ''one'' @ [cr] @ ''two'' @ [lf] @ ''three'' @ [cr, lf];
           (s1, r1) = frame_decode codec s0;
           (s2, r2) = frame_decode codec s1;
           (s3, r3) = frame_decode codec s2;
           (s4, r4) = frame_decode codec s3
       in r1 = Inr (Some ''one'') \<and> r2 = Inr (Some ''two'') \<and> r3 = Inr (Some ''three'')
        \<and> r4 = Inr None)"

lemma test_decoder_delimiters: test_decoder_delimiters
  by code_simp

definition test_decoder_limit :: bool where
  "test_decoder_limit =
     ok_and (codec_new 4) (\<lambda>codec.
       let (source, r) = frame_decode codec ''12345''
       in err_and r (\<lambda>e. io_kind e = IO_InvalidData) \<and> source = [])"

lemma test_decoder_limit: test_decoder_limit
  by code_simp

definition test_frame_limits :: bool where
  "test_frame_limits =
     (codec_new 0 = Inl (CE_FrameTooLong 0)
      \<and> ok_and (codec_new 4) (\<lambda>codec.
          let (destination, r) = frame_encode codec ''1234'' []
          in is_ok r \<and> destination = ''1234'' @ [cr, lf]
           \<and> err_and (snd (frame_encode codec ''12345'' [])) (\<lambda>e. io_kind e = IO_InvalidData)))"

lemma test_frame_limits: test_frame_limits
  by code_simp

definition test_encoder_delimiters :: bool where
  "test_encoder_delimiters =
     ok_and (codec_new 32) (\<lambda>codec.
       list_all (\<lambda>frame.
           let (destination, r) = frame_encode codec frame []
           in err_and r (\<lambda>e. io_kind e = IO_InvalidInput) \<and> destination = [])
         [''one'' @ [cr] @ ''two'', ''one'' @ [lf] @ ''two''])"

lemma test_encoder_delimiters: test_encoder_delimiters
  by code_simp

section \<open>Packets\<close>

definition test_packet_spaces :: bool where
  "test_packet_spaces =
     ok_and (raw_packet_parse ''#TMECP1:ECP2:hello  '') (\<lambda>packet.
       rp_fields packet = [''hello  '']
       \<and> raw_packet_encode packet CLASSIC_MAX_FRAME_BYTES = Inr ''#TMECP1:ECP2:hello  '')"

lemma test_packet_spaces: test_packet_spaces
  by code_simp

definition test_pilot_forms :: bool where
  "test_pilot_forms =
     list_all (\<lambda>frame. ok_and (raw_packet_parse frame) (\<lambda>packet.
         rp_command packet = ''S'' \<and> rp_source packet = ''ECP1''))
       [''@S:ECP1:1200:1:1:2:3:4:5:6'', ''@SECP1:1200:1:1:2:3:4:5:6'']"

lemma test_pilot_forms: test_pilot_forms
  by code_simp

definition test_packet_errors :: bool where
  "test_packet_errors =
     (raw_packet_parse [CHR ''#'', CHR 0xFF] = Inl CE_InvalidUtf8
      \<and> raw_packet_parse ''?TMONE:TWO'' = Inl (CE_UnknownPrefix (CHR ''?''))
      \<and> raw_packet_parse ''#TMONE'' = Inl (CE_Missing ''destination separator''))"

lemma test_packet_errors: test_packet_errors
  by code_simp

end
