(* ===== verification/Dialect_Tests.thy ===== *)
theory Dialect_Tests
  imports Model_Tests Vatsim
begin

text \<open>
  The unit tests of \<open>aster_fsd_protocol_classic\<close> (\<open>src/tests\<close>) and
  \<open>aster_fsd_protocol_vatsim\<close>: the frames the source decodes and encodes, decoded and encoded
  by the backends of this library.
\<close>

section \<open>Contexts (tests/support.rs)\<close>

definition test_decode_context :: decode_context where
  "test_decode_context = \<lparr>dc_connection_id = 1, dc_phase = Connected, dc_callsign = None,
     dc_challenge = []\<rparr>"

definition test_encode_context :: encode_context where
  "test_encode_context = \<lparr>ec_connection_id = 2, ec_recipient = None, ec_server_name = ''AsterFSD''\<rparr>"

definition test_weather_profile :: weather_profile where
  "test_weather_profile =
     \<lparr>wp_temperatures = (\<lparr>tl_ceiling = 100, tl_temperature = 15\<rparr>,
        \<lparr>tl_ceiling = 10000, tl_temperature = - 5\<rparr>, \<lparr>tl_ceiling = 18000, tl_temperature = - 21\<rparr>,
        \<lparr>tl_ceiling = 35000, tl_temperature = - 51\<rparr>),
      wp_winds =
        (\<lparr>wl_ceiling = 2500, wl_floor = 0, wl_direction = 180, wl_speed = 12, wl_gusting = 0,
          wl_turbulence = 1\<rparr>,
         \<lparr>wl_ceiling = 10400, wl_floor = 2500, wl_direction = 190, wl_speed = 22, wl_gusting = 1,
          wl_turbulence = 2\<rparr>,
         \<lparr>wl_ceiling = 22600, wl_floor = 10400, wl_direction = 210, wl_speed = 35, wl_gusting = 0,
          wl_turbulence = 3\<rparr>,
         \<lparr>wl_ceiling = 90000, wl_floor = 22700, wl_direction = 240, wl_speed = 55, wl_gusting = 1,
          wl_turbulence = 4\<rparr>),
      wp_clouds =
        (\<lparr>cl_ceiling = 5000, cl_floor = 3000, cl_coverage = 4, cl_icing = 0, cl_turbulence = 1\<rparr>,
         \<lparr>cl_ceiling = 12000, cl_floor = 10000, cl_coverage = 2, cl_icing = 1, cl_turbulence = 0\<rparr>),
      wp_thunderstorm =
        \<lparr>cl_ceiling = 35000, cl_floor = 20000, cl_coverage = 1, cl_icing = 2, cl_turbulence = 3\<rparr>,
      wp_barometer = 2992, wp_visibility = f64_lit (25 / 2)\<rparr>"

definition test_flight_plan :: flight_plan where
  "test_flight_plan =
     \<lparr>fp_callsign = Callsign ''ECP1'', fp_flight_rules = ''I'', fp_aircraft = ''B738'',
      fp_cruise_speed = 450, fp_departure = ''ZSPD'', fp_estimated_departure = 1200,
      fp_actual_departure = 1205, fp_cruise_altitude = ''FL350'', fp_destination = ''ZBAA'',
      fp_hours_enroute = 2, fp_minutes_enroute = 0, fp_hours_fuel = 4, fp_minutes_fuel = 0,
      fp_alternate = ''ZSNJ'', fp_remarks = ''RMK'', fp_route = ''DCT PIKAS DCT''\<rparr>"

abbreviation test_decode :: "string \<Rightarrow> protocol_error + command" where
  "test_decode frame \<equiv> pb_decode classic_protocol test_decode_context frame"

abbreviation test_encode :: "event \<Rightarrow> protocol_error + wire_frame list" where
  "test_encode ev \<equiv> pb_encode classic_protocol test_encode_context ev"

section \<open>Decoding (tests/decode.rs)\<close>

definition test_pilot_login :: bool where
  "test_pilot_login =
     ok_and (test_decode ''#APECP4143:SERVER:ECP1547:secret:1:9:2:Test Pilot'') (\<lambda>command.
       case command of
         C_Login login \<Rightarrow> lc_protocol_revision login = 9 \<and> lc_password login = ''secret''
       | _ \<Rightarrow> False)"

lemma test_pilot_login: test_pilot_login
  by code_simp

definition test_login_callsign :: bool where
  "test_login_callsign =
     err_and (test_decode ''#APBAD CALL:SERVER:ECP1547:secret:1:9:2:Test Pilot'')
       (\<lambda>e. pe_error_code e = Some E_InvalidCallsign)"

lemma test_login_callsign: test_login_callsign
  by code_simp

definition test_multicast_refused :: bool where
  "test_multicast_refused =
     list_all (\<lambda>frame. err_and (test_decode frame) (\<lambda>e. pe_kind e = PE_Syntax))
       [''$HOECP1:*:payload'', ''$HAECP1:*A:payload'', ''#SBECP1:*P:payload'',
        ''#PCECP1:@94836:payload'', ''$C?ECP1:*:payload'', ''$CIECP1:*:payload'',
        ''$CRECP1:*:RN:payload'']"

lemma test_multicast_refused: test_multicast_refused
  by code_simp

definition test_command_directions :: bool where
  "test_command_directions =
     (list_all (\<lambda>(frame, expected).
          ok_and (test_decode frame) (\<lambda>command.
            case command of
              C_Handoff _ target kind fs \<Rightarrow>
                as_str target = ''ECP2'' \<and> kind = expected \<and> fs = [''payload'']
            | _ \<Rightarrow> False))
        [(''$HOECP1:ECP2:payload'', H_Request), (''$HAECP1:ECP2:payload'', H_Accept)]
      \<and> list_all (\<lambda>(frame, expected).
          ok_and (test_decode frame) (\<lambda>command.
            case command of
              C_ClientData _ target kind fs \<Rightarrow>
                as_str target = ''ECP2'' \<and> kind = expected \<and> fs = [''payload'']
            | _ \<Rightarrow> False))
        [(''#SBECP1:ECP2:payload'', SquawkBox), (''#PCECP1:ECP2:payload'', ProController),
         (''$C?ECP1:ECP2:payload'', CommunicationRequest),
         (''$CIECP1:ECP2:payload'', CommunicationReply)]
      \<and> list_all (\<lambda>frame. err_and (test_decode frame) (\<lambda>e. pe_kind e = PE_Syntax))
          [''$HOECP1:ECP2'', ''$HAECP1:ECP2'', ''$CIECP1:ECP2''])"

lemma test_command_directions: test_command_directions
  by code_simp

definition test_query_kinds :: bool where
  "test_query_kinds =
     (list_all (\<lambda>(frame, expected_kind, expected_arguments).
          ok_and (test_decode frame) (\<lambda>command.
            case command of
              C_Query source (To_Direct target) kind arguments \<Rightarrow>
                as_str source = ''ECP1'' \<and> as_str target = ''ECP2''
                \<and> kind = expected_kind \<and> arguments = expected_arguments
            | _ \<Rightarrow> False))
        [(''$CQECP1:ECP2:CAPS'', Q_Capabilities, []),
         (''$CQECP1:ECP2:ACC:CONFIG:FULL'', Q_AircraftConfiguration, [''CONFIG'', ''FULL'']),
         (''$CQECP1:ECP2:ATIS'', Q_Atis, []), (''$CQECP1:ECP2:INF'', Q_SystemInfo, [])]
      \<and> ok_and (test_decode ''$CRECP2:ECP1:CAPS:VERSION=1:ATCINFO=1'') (\<lambda>command.
          case command of
            C_Response source (To_Direct target) Q_Capabilities arguments \<Rightarrow>
              as_str source = ''ECP2'' \<and> as_str target = ''ECP1''
              \<and> arguments = [''VERSION=1'', ''ATCINFO=1'']
          | _ \<Rightarrow> False)
      \<and> err_and (test_decode ''$CRECP2:ECP1:CAPS'') (\<lambda>e. pe_kind e = PE_Syntax))"

lemma test_query_kinds: test_query_kinds
  by code_simp

section \<open>Encoding (tests/encode.rs)\<close>

definition encodes_to :: "event \<Rightarrow> string list \<Rightarrow> bool" where
  "encodes_to ev frames = ok_and (test_encode ev) (\<lambda>fs. map frame_bytes fs = frames)"

definition test_public_presence :: bool where
  "test_public_presence =
     ok_and (test_encode (Ev_ClientAdded
         \<lparr>cp_callsign = Callsign ''ECP4143'', cp_client_type = Pilot, cp_network_id = ''ECP1547'',
          cp_real_name = ''Test Pilot'', cp_rating = 1, cp_protocol_revision = 9,
          cp_simulator_type = Some 2\<rparr>)) (\<lambda>fs.
       frame_bytes (fs ! 0) = ''#APECP4143:SERVER:ECP1547::1:9:2''
       \<and> \<not> contains_text (frame_bytes (fs ! 0)) ''secret'')"

lemma test_public_presence: test_public_presence
  by code_simp

definition test_direct_events :: bool where
  "test_direct_events =
     (let ecp1 = Callsign ''ECP1''; ecp2 = Callsign ''ECP2''
      in list_all (\<lambda>(event, expected). encodes_to event [expected])
        [(Ev_Handoff ecp1 ecp2 H_Request [''ECP3'', ''123.450''], ''$HOECP1:ECP2:ECP3:123.450''),
         (Ev_Handoff ecp2 ecp1 H_Accept [''ECP3''], ''$HAECP2:ECP1:ECP3''),
         (Ev_ClientData ecp1 ecp2 SquawkBox [], ''#SBECP1:ECP2''),
         (Ev_ClientData ecp1 ecp2 ProController [''VERSION''], ''#PCECP1:ECP2:VERSION''),
         (Ev_ClientData ecp1 ecp2 CommunicationRequest [], ''$C?ECP1:ECP2''),
         (Ev_ClientData ecp2 ecp1 CommunicationReply [''123.450''], ''$CIECP2:ECP1:123.450''),
         (Ev_Ping ecp1 To_All ''nonce'', ''$PIECP1:*:nonce''),
         (Ev_Pong ''server'' (To_Direct ecp1) ''nonce'', ''$POserver:ECP1:nonce'')])"

lemma test_direct_events: test_direct_events
  by code_simp

definition test_query_encoding :: bool where
  "test_query_encoding =
     list_all (\<lambda>(event, expected). ok_and (test_encode event) (\<lambda>fs. frame_bytes (fs ! 0) = expected))
       [(Ev_Query ''ECP1'' (To_Direct (Callsign ''ECP2'')) Q_AircraftConfiguration
           [''CONFIG'', ''FULL''], ''$CQECP1:ECP2:ACC:CONFIG:FULL''),
        (Ev_Response ''ECP2'' (To_Direct (Callsign ''ECP1'')) Q_Capabilities [''VERSION=1''],
         ''$CRECP2:ECP1:CAPS:VERSION=1''),
        (Ev_FlightPlan test_flight_plan (To_Direct (Callsign ''ECP2'')),
         ''$FPECP1:ECP2:I:B738:450:ZSPD:1200:1205:FL350:ZBAA:2:0:4:0:ZSNJ:RMK:DCT PIKAS DCT'')]"

lemma test_query_encoding: test_query_encoding
  by code_simp

definition test_transponder :: bool where
  "test_transponder =
     list_all (\<lambda>(input, expected).
         ok_and (test_decode (''@NECP1:'' @ input @ '':1:31.23000:121.47000:5000:200:0:0'')) (\<lambda>command.
           case command of
             C_Position position \<Rightarrow>
               is_ok (position_validate position)
               \<and> encodes_to (Ev_Position position)
                   [''@N:ECP1:'' @ expected @ '':1:31.23000:121.47000:5000:200:0:0'']
           | _ \<Rightarrow> False))
       [(''0'', ''0''), (''0000'', ''0''), (''0700'', ''700'')]"

definition transponder_position :: "string \<Rightarrow> pilot_position" where
  "transponder_position squawk =
     \<lparr>pp_callsign = Callsign ''ECP1'', pp_mode = ''N'', pp_squawk = squawk, pp_rating = 1,
      pp_latitude = F64_Fin False (rounded_mag (of_int 3123000 / 10 ^ 5)),
      pp_longitude = F64_Fin False (rounded_mag (of_int 12147000 / 10 ^ 5)),
      pp_altitude = 5000, pp_groundspeed = 200, pp_pbh = 0, pp_flags = 0\<rparr>"

lemma transponder_coordinates:
  "parse_f64_str ''31.23000'' = Some (F64_Fin False (rounded_mag (of_int 3123000 / 10 ^ 5)))"
  "parse_f64_str ''121.47000'' = Some (F64_Fin False (rounded_mag (of_int 12147000 / 10 ^ 5)))"
proof -
  have "digits_value ''3123000'' = 3123000" "digits_value ''12147000'' = 12147000" by code_simp+
  moreover have "list_all is_ascii_digit ''31''" "list_all is_ascii_digit ''23000''"
      "list_all is_ascii_digit ''121''" "list_all is_ascii_digit ''47000''" by code_simp+
  ultimately show "parse_f64_str ''31.23000'' = Some (F64_Fin False (rounded_mag (of_int 3123000 / 10 ^ 5)))"
      "parse_f64_str ''121.47000'' = Some (F64_Fin False (rounded_mag (of_int 12147000 / 10 ^ 5)))"
    using parse_decimal [of "''31''" "''23000''" False] parse_decimal [of "''121''" "''47000''" False]
    by (simp_all add: f64_round_small)
qed

lemma transponder_decoded:
  assumes packet: "raw_packet_parse frame = Inr
      \<lparr>rp_kind = K_PilotPosition, rp_command = ''N'', rp_source = ''ECP1'', rp_destination = [],
       rp_fields = [input, ''1'', ''31.23000'', ''121.47000'', ''5000'', ''200'', ''0'', ''0'']\<rparr>"
    and squawk: "canonical_squawk input = Inr squawk"
  shows "test_decode frame = Inr (C_Position (Position_Pilot (transponder_position squawk)))"
proof -
  have "decode_callsign ''ECP1'' E_InvalidSource = Inr (Callsign ''ECP1'')"
      "first_char ''N'' = Some ''N''" "parse_i32_str ''1'' = Some 1" "parse_i32_str ''0'' = Some 0"
      "parse_i32_str ''5000'' = Some 5000" "parse_i32_str ''200'' = Some 200" "parse_u32_str ''0'' = Some 0"
    by code_simp+
  then show ?thesis
    by (simp add: classic_protocol_def classic_decode_def packet squawk decode_packet_def
        position_decode_def parse_i32_def parse_f64_def parse_u32_def decode_callsign_def
        transponder_coordinates [simplified] transponder_position_def)
qed

lemma transponder_printed:
  "show_fixed 5 (pp_latitude (transponder_position squawk)) = ''31.23000''"
  "show_fixed 5 (pp_longitude (transponder_position squawk)) = ''121.47000''"
proof -
  have "show_nat 31 = ''31''" "show_nat 121 = ''121''" "show_padded 5 23000 = ''23000''"
      "show_padded 5 47000 = ''47000''" by code_simp+
  with units5_rounded [of 3123000] units5_rounded [of 12147000]
  show "show_fixed 5 (pp_latitude (transponder_position squawk)) = ''31.23000''"
      "show_fixed 5 (pp_longitude (transponder_position squawk)) = ''121.47000''"
    by (simp_all add: transponder_position_def units5_def Let_def)
qed

lemma transponder_encoded:
  assumes "squawk \<in> {''0'', ''700''}"
  shows "encodes_to (Ev_Position (Position_Pilot (transponder_position squawk)))
    [''@N:ECP1:'' @ squawk @ '':1:31.23000:121.47000:5000:200:0:0'']"
proof -
  have "show_int 1 = ''1''" "show_int 0 = ''0''" "show_nat 0 = ''0''" "show_int 5000 = ''5000''"
      "show_int 200 = ''200''" by code_simp+
  then have "packet_bytes (position_packet (Position_Pilot (transponder_position squawk)))
      = ''@N:ECP1:'' @ squawk @ '':1:31.23000:121.47000:5000:200:0:0''"
    by (simp add: packet_bytes_def packet_head_def transponder_printed)
      (simp add: transponder_position_def)
  moreover have "list_all (\<lambda>c. \<not> is_delim c) (''@N:ECP1:'' @ squawk @ '':1:31.23000:121.47000:5000:200:0:0'')"
      "length (''@N:ECP1:'' @ squawk @ '':1:31.23000:121.47000:5000:200:0:0'') \<le> CLASSIC_MAX_FRAME_BYTES"
    using assms by (auto simp: is_delim_def cr_def lf_def CLASSIC_MAX_FRAME_BYTES_def)
  ultimately have "packet_frame (position_packet (Position_Pilot (transponder_position squawk)))
      = Inr (Wire_Frame (''@N:ECP1:'' @ squawk @ '':1:31.23000:121.47000:5000:200:0:0''))"
    by (simp only: packet_frame_Inr simp_thms)
  then show ?thesis
    by (simp add: encodes_to_def ok_and_def classic_protocol_def classic_encode_def encode_position_def
        del: position_packet.simps)
qed

lemma transponder_valid:
  assumes "squawk \<in> {''0'', ''700''}"
  shows "position_validate (Position_Pilot (transponder_position squawk)) = Inr ()"
  using assms rounded_mag_between [of "of_int 3123000 / 10 ^ 5"] rounded_mag_error(2) [of "of_int 3123000 / 10 ^ 5"]
    rounded_mag_between [of "of_int 12147000 / 10 ^ 5"] rounded_mag_error(2) [of "of_int 12147000 / 10 ^ 5"]
  by (auto simp: position_validate_def transponder_position_def f64_in_range_def is_octal_digit_def byte_def)

lemma test_transponder: test_transponder
proof -
  have "test_decode ''@NECP1:0:1:31.23000:121.47000:5000:200:0:0''
      = Inr (C_Position (Position_Pilot (transponder_position ''0'')))"
    "test_decode ''@NECP1:0000:1:31.23000:121.47000:5000:200:0:0''
      = Inr (C_Position (Position_Pilot (transponder_position ''0'')))"
    "test_decode ''@NECP1:0700:1:31.23000:121.47000:5000:200:0:0''
      = Inr (C_Position (Position_Pilot (transponder_position ''700'')))"
    by (rule transponder_decoded, code_simp, code_simp)+
  then show ?thesis
    using transponder_encoded [of "''0''"] transponder_encoded [of "''700''"]
    by (simp add: test_transponder_def ok_and_def transponder_valid)
qed

section \<open>Boundaries (tests/boundaries.rs)\<close>

definition test_client_speaks_first :: bool where
  "test_client_speaks_first =
     (pb_initial_frames classic_protocol
        \<lparr>hc_connection_id = 1, hc_peer = \<lparr>sa_ip = ''127.0.0.1'', sa_port = 1234\<rparr>,
         hc_server_name = ''AsterFSD'', hc_server_version = ''0.2.0'',
         hc_challenge = ''unused''\<rparr> = Inr [])"

lemma test_client_speaks_first: test_client_speaks_first
  by code_simp

definition test_error_wire :: bool where
  "test_error_wire =
     list_all (\<lambda>(code, expected).
         let environment = (if code = E_InvalidCredentials then ''ECP1547'' else '''')
         in description code = expected
          \<and> encodes_to (Ev_Error (Some (Callsign ''ECP4143'')) code environment expected)
              [''$ERserver:ECP4143:'' @ show_padded 3 (error_code_number code) @ '':''
                 @ environment @ '':'' @ expected])
       [(E_NoError, ''No error''), (E_CallsignInUse, ''Callsign in use''),
        (E_InvalidCallsign, ''Invalid callsign''), (E_AlreadyRegistered, ''Already registerd''),
        (E_Syntax, ''Syntax error''), (E_InvalidSource, ''Invalid source callsign''),
        (E_InvalidCredentials, ''Invalid CID/password''),
        (E_NoSuchCallsign, ''No such callsign''), (E_NoFlightPlan, ''No flightplan''),
        (E_NoWeather, ''No such weather profile''),
        (E_InvalidProtocolRevision, ''Invalid protocol revision''),
        (E_RequestedLevelTooHigh, ''Requested level too high''),
        (E_ServerFull, ''Too many clients connected''), (E_Suspended, ''CID/PID was suspended'')]"

lemma test_error_wire: test_error_wire
  by code_simp

definition test_login_minimums :: bool where
  "test_login_minimums =
     (list_all (\<lambda>frame. err_and (test_decode frame)
          (\<lambda>e. pe_kind e = PE_Syntax \<and> pe_error_code e = None))
        [''#AAATC1:SERVER:Name:CID:secret:5'', ''#APPILOT1:SERVER:CID:secret:1:9:2'',
         ''#APX:SERVER:CID:secret'']
      \<and> list_all (\<lambda>frame. err_and (test_decode frame)
          (\<lambda>e. pe_kind e = PE_InvalidField \<and> pe_error_code e = Some E_InvalidProtocolRevision))
        [''#AAATC1:SERVER:Name:CID:secret:5:not-a-number'',
         ''#APPILOT1:SERVER:CID:secret:1:65536:2:Name''])"

lemma test_login_minimums: test_login_minimums
  by code_simp

definition test_payload_minimums :: bool where
  "test_payload_minimums =
     (list_all (\<lambda>frame. err_and (test_decode frame) (\<lambda>e. pe_kind e = PE_Syntax))
        [''#TMECP1:ECP2'', ''$AXECP1:SERVER'', ''$CRECP1:ECP2:CAPS'', ''$!!ECP1:ECP2'']
      \<and> ok_and (test_decode ''$!!ECP1:ECP2:network abuse'') (\<lambda>command.
          case command of
            C_Kill source target reason \<Rightarrow>
              as_str source = ''ECP1'' \<and> as_str target = ''ECP2'' \<and> reason = ''network abuse''
          | _ \<Rightarrow> False))"

lemma test_payload_minimums: test_payload_minimums
  by code_simp

definition test_frame_limit :: bool where
  "test_frame_limit =
     err_and (test_encode (Ev_Text (Callsign ''ECP1'') To_All
         (replicate CLASSIC_MAX_FRAME_BYTES (CHR ''x''))))
       (\<lambda>e. pe_kind e = PE_Encoding)"

lemma test_frame_limit: test_frame_limit
  by code_simp

definition test_malformed_categories :: bool where
  "test_malformed_categories =
     (err_and (test_decode ''#APECP1:SERVER:CID:password'') (\<lambda>e. pe_kind e = PE_Syntax)
      \<and> err_and (test_decode ''$ZZECP1:SERVER:payload'') (\<lambda>e. pe_kind e = PE_Unsupported)
      \<and> ok_and (test_decode ''@NECP1:1200:1:91:0:0:0:0:0'') (\<lambda>command.
          case command of
            C_Position position \<Rightarrow> \<not> is_ok (position_validate position)
          | _ \<Rightarrow> False))"

lemma parse_whole:
  assumes "ws \<noteq> []" "list_all is_ascii_digit ws"
  shows "parse_f64_str ws = Some (f64_round False (of_nat (digits_value ws)))"
proof -
  obtain c t where ws: "ws = c # t" using assms(1) by (cases ws) auto
  with assms(2) have c: "is_ascii_digit c" by simp
  then have "c \<noteq> CHR ''-''" "c \<noteq> CHR ''+''" by auto
  moreover have "span_digits ws = (ws, [])" "span_digits [] = ([], [])"
    using takeWhile_all_digits [OF assms(2)] by (simp_all add: span_digits_def)
  ultimately show ?thesis
    using digit_start_no_word [OF c, of t]
    by (simp add: parse_f64_str_def parse_f64_magnitude_def ws Let_def parse_exponent_def pow10_def)
qed

lemma test_malformed_position:
  "test_decode ''@NECP1:1200:1:91:0:0:0:0:0'' = Inr (C_Position (Position_Pilot
     \<lparr>pp_callsign = Callsign ''ECP1'', pp_mode = ''N'', pp_squawk = ''1200'', pp_rating = 1,
      pp_latitude = f64_lit 91, pp_longitude = f64_lit 0, pp_altitude = 0, pp_groundspeed = 0,
      pp_pbh = 0, pp_flags = 0\<rparr>))"
proof -
  have packet: "raw_packet_parse ''@NECP1:1200:1:91:0:0:0:0:0'' = Inr
      \<lparr>rp_kind = K_PilotPosition, rp_command = ''N'', rp_source = ''ECP1'', rp_destination = [],
       rp_fields = [''1200'', ''1'', ''91'', ''0'', ''0'', ''0'', ''0'', ''0'']\<rparr>"
    by code_simp
  have "digits_value ''91'' = 91" "digits_value ''0'' = 0"
      "list_all is_ascii_digit ''91''" "list_all is_ascii_digit ''0''" by code_simp+
  with parse_whole [of "''91''"] parse_whole [of "''0''"]
  have "parse_f64_str ''91'' = Some (f64_lit 91)" "parse_f64_str ''0'' = Some (f64_lit 0)"
    by (simp_all add: f64_lit_def)
  moreover have "decode_callsign ''ECP1'' E_InvalidSource = Inr (Callsign ''ECP1'')"
      "first_char ''N'' = Some ''N''" "canonical_squawk ''1200'' = Inr ''1200''"
      "parse_i32_str ''1'' = Some 1" "parse_i32_str ''0'' = Some 0" "parse_u32_str ''0'' = Some 0"
    by code_simp+
  ultimately show ?thesis
    by (simp add: classic_protocol_def classic_decode_def packet decode_packet_def position_decode_def
        parse_i32_def parse_f64_def parse_u32_def decode_callsign_def)
qed

lemma test_malformed_categories: test_malformed_categories
proof -
  have "err_and (test_decode ''#APECP1:SERVER:CID:password'') (\<lambda>e. pe_kind e = PE_Syntax)"
      "err_and (test_decode ''$ZZECP1:SERVER:payload'') (\<lambda>e. pe_kind e = PE_Unsupported)"
    by code_simp+
  then show ?thesis
    by (simp add: test_malformed_categories_def test_malformed_position ok_and_def position_validate_def
        f64_in_range_def)
qed

section \<open>Weather (tests/weather.rs)\<close>

definition test_weather_requests :: bool where
  "test_weather_requests =
     (test_decode ''#WXECP1:SERVER:kjfk:ignored''
        = Inr (C_WeatherRequest (Callsign ''ECP1'') ''KJFK'' True)
      \<and> test_decode ''$AXECP1:SERVER:metar:kjfk''
        = Inr (C_WeatherRequest (Callsign ''ECP1'') ''KJFK'' False)
      \<and> list_all (\<lambda>frame. test_decode frame = Inr (C_Noop (Callsign ''ECP1'')))
          [''$AXECP1:SERVER:METAR'', ''$AXECP1:SERVER:TAF:KJFK''])"

lemma test_weather_requests: test_weather_requests
  by code_simp

definition test_weather_frames :: bool where
  "test_weather_frames =
     (encodes_to (Ev_WeatherProfile (Callsign ''ECP1'') ''KJFK'' test_weather_profile)
        [''#TDserver:ECP1:100:15:10000:-5:18000:-21:35000:-51:2992'',
         ''#WDserver:ECP1:2500:0:180:12:0:1:10400:2500:190:22:1:2:22600:10400:210:35:0:3:90000:22700:240:55:1:4'',
         ''#CDserver:ECP1:5000:3000:4:0:1:12000:10000:2:1:0:35000:20000:1:2:3:12.50'']
      \<and> err_and (test_encode (Ev_WeatherProfile (Callsign ''ECP1'') ''KJFK''
            (test_weather_profile\<lparr>wp_visibility := F64_NaN\<rparr>)))
          (\<lambda>e. pe_kind e = PE_Encoding))"

lemma test_visibility: "f64_lit (25 / 2) = F64_Fin False (25 / 2)"
  using f64_round_nearest [of 3 "25 / 2" "25 * 2 ^ 48" False] by (simp add: f64_lit_def pow2_def)

lemma test_weather_frames: test_weather_frames
  unfolding test_weather_frames_def test_weather_profile_def test_visibility by code_simp

section \<open>The VATSIM dialect\<close>

definition vatsim_test_context :: decode_context where
  "vatsim_test_context = test_decode_context\<lparr>dc_challenge := ''challenge''\<rparr>"

abbreviation vatsim_test_decode :: "string \<Rightarrow> protocol_error + command" where
  "vatsim_test_decode frame \<equiv> pb_decode vatsim_protocol vatsim_test_context frame"

definition test_server_speaks_first :: bool where
  "test_server_speaks_first =
     ok_and (pb_initial_frames vatsim_protocol
        \<lparr>hc_connection_id = 1, hc_peer = \<lparr>sa_ip = ''127.0.0.1'', sa_port = 1234\<rparr>,
         hc_server_name = ''AsterFSD'', hc_server_version = ''0.2.0'',
         hc_challenge = ''0123456789abcdef012345''\<rparr>)
       (\<lambda>fs. frame_bytes (fs ! 0) = ''$DISERVER:CLIENT:VATSIM FSD V3.13:0123456789abcdef012345'')"

lemma test_server_speaks_first: test_server_speaks_first
  by code_simp

definition test_identification :: bool where
  "test_identification =
     (vatsim_test_decode ''$IDECP4143:SERVER:48e2:swift:3:2:ECP1547:987654321''
        = Inr (C_Identify \<lparr>id_callsign = Callsign ''ECP4143'', id_client_id = ''48e2'',
                 id_client_name = ''swift'', id_network_id = Some ''ECP1547''\<rparr>))"

lemma test_identification: test_identification
  by code_simp

definition test_identification_errors :: bool where
  "test_identification_errors =
     (err_and (vatsim_test_decode ''$IDECP1:SERVER:48e2:swift'') (\<lambda>e. pe_kind e = PE_Syntax)
      \<and> err_and (vatsim_test_decode ''$IDBAD CALL:SERVER:48e2:swift:3:2:CID1:987654321'')
          (\<lambda>e. pe_error_code e = Some E_InvalidCallsign))"

lemma test_identification_errors: test_identification_errors
  by code_simp

definition test_identification_fields :: bool where
  "test_identification_fields =
     (list_all (\<lambda>frame. err_and (vatsim_test_decode frame)
          (\<lambda>e. pe_kind e = PE_InvalidField \<or> pe_kind e = PE_Syntax))
        [''$IDECP1:OTHER:48e2:swift:3:2:CID1:987654321'',
         ''$IDECP1:SERVER:xyz1:swift:3:2:CID1:987654321'',
         ''$IDECP1:SERVER:48e20:swift:3:2:CID1:987654321'',
         ''$IDECP1:SERVER:48e2:swift:4:2:CID1:987654321'',
         ''$IDECP1:SERVER:48e2:swift:3:1:CID1:987654321'',
         ''$IDECP1:SERVER:48e2:swift:3:2::987654321'',
         ''$IDECP1:SERVER:48e2:swift:3:2:CID1:12345678'',
         ''$IDECP1:SERVER:48e2:swift:3:2:CID1:12345678x'',
         ''$IDECP1:SERVER:48e2:swift:3:2:CID1:987654321:EXTRA'']
      \<and> list_all (\<lambda>number.
          ok_and (vatsim_test_decode (''$IDECP1:server:48e2:swift:3:2:CID1:'' @ number))
            (\<lambda>command. case command of C_Identify _ \<Rightarrow> True | _ \<Rightarrow> False))
        [''+987654321'', ''-987654321''])"

lemma test_identification_fields: test_identification_fields
  by code_simp

definition test_vatsim_presence :: bool where
  "test_vatsim_presence =
     list_all (\<lambda>(client, expected).
         ok_and (pb_encode vatsim_protocol test_encode_context (Ev_ClientAdded client))
           (\<lambda>fs. frame_bytes (fs ! 0) = expected))
       [(\<lparr>cp_callsign = Callsign ''ECP1'', cp_client_type = Pilot, cp_network_id = ''CID1'',
          cp_real_name = ''Pilot'', cp_rating = 1,
          cp_protocol_revision = VATSIM_PROTOCOL_REVISION, cp_simulator_type = Some 2\<rparr>,
         ''#APECP1:SERVER:CID1::1:100:2:Pilot''),
        (\<lparr>cp_callsign = Callsign ''ZSPD_TWR'', cp_client_type = Atc, cp_network_id = ''CID2'',
          cp_real_name = ''Controller'', cp_rating = 5,
          cp_protocol_revision = VATSIM_PROTOCOL_REVISION, cp_simulator_type = None\<rparr>,
         ''#AAZSPD_TWR:SERVER:Controller:CID2::5:100'')]"

lemma test_vatsim_presence: test_vatsim_presence
  by code_simp

end
