(* ===== verification/Core_Tests.thy ===== *)
theory Core_Tests
  imports Model_Tests Net_Commands
begin

text \<open>
  The tests of the network core (\<open>aster_fsd_core/src/network/tests\<close>), run on the model: the
  same registrations and commands, in the same order, and the assertions of the source about
  the effects and the state that is left. The math library is a parameter of the model; here it
  is the small-angle approximation \<open>test_libm\<close>. The tests whose distances are not zero are
  left out.
\<close>

section \<open>Fixtures (tests/support.rs)\<close>

definition some_and :: "'a option \<Rightarrow> ('a \<Rightarrow> bool) \<Rightarrow> bool" where
  "some_and r P = (case r of None \<Rightarrow> False | Some x \<Rightarrow> P x)"

definition test_libm :: libm where
  "test_libm = \<lparr>lm_sin = (\<lambda>x. x), lm_cos = (\<lambda>_. F64_Fin False 1), lm_atan2 = (\<lambda>y _. y),
                lm_powi = (\<lambda>x _. f64_mul x x)\<rparr>"

definition test_peer :: socket_addr where
  "test_peer = \<lparr>sa_ip = ''127.0.0.1'', sa_port = 1000\<rparr>"

definition failing_authenticator :: "auth_error \<Rightarrow> authenticator" where
  "failing_authenticator failure =
     \<lparr>au_authorize_client = (\<lambda>_. Inr ()), au_authenticate = (\<lambda>_ _. Inl failure)\<rparr>"

definition pilot_login :: "string \<Rightarrow> login_command" where
  "pilot_login c =
     \<lparr>lc_callsign = Callsign (to_ascii_uppercase c), lc_client_type = Pilot, lc_network_id = c,
      lc_password = ''secret'', lc_requested_rating = 1, lc_protocol_revision = 9,
      lc_real_name = c, lc_simulator_type = Some 2\<rparr>"

definition atc_login :: "string \<Rightarrow> i32 \<Rightarrow> login_command" where
  "atc_login c rating =
     \<lparr>lc_callsign = Callsign (to_ascii_uppercase c), lc_client_type = Atc, lc_network_id = c,
      lc_password = ''secret'', lc_requested_rating = rating, lc_protocol_revision = 9,
      lc_real_name = c, lc_simulator_type = None\<rparr>"

definition vatsim_identification :: "string \<Rightarrow> string option \<Rightarrow> identification" where
  "vatsim_identification c network_id =
     \<lparr>id_callsign = Callsign (to_ascii_uppercase c), id_client_id = ''48e2'',
      id_client_name = ''swift'', id_network_id = network_id\<rparr>"

definition vatsim_pilot_login :: "string \<Rightarrow> string \<Rightarrow> login_command" where
  "vatsim_pilot_login c network_id =
     (pilot_login c)\<lparr>lc_network_id := network_id, lc_protocol_revision := VATSIM_PROTOCOL_REVISION\<rparr>"

definition vatsim_atc_login :: "string \<Rightarrow> string \<Rightarrow> login_command" where
  "vatsim_atc_login c network_id =
     (atc_login c 5)\<lparr>lc_network_id := network_id, lc_protocol_revision := VATSIM_PROTOCOL_REVISION\<rparr>"

definition test_network :: network where
  "test_network =
     \<lparr>nw_config = core_config_default ''0.2.0'', nw_authenticator = allow_all_authenticator,
      nw_weather_provider = unavailable_weather_provider, nw_libm = test_libm\<rparr>"

text \<open>Registering the connections, each registration unwrapped.\<close>

definition test_registered ::
  "network \<Rightarrow> socket_addr \<Rightarrow> protocol_dialect \<Rightarrow> connection_id list \<Rightarrow> net_state option" where
  "test_registered nw peer dialect ids =
     foldl (\<lambda>st i. Option.bind st (\<lambda>s.
         case register (nw_config nw) i peer dialect s of
           (Inr _, s') \<Rightarrow> Some s'
         | (Inl _, _) \<Rightarrow> None))
       (Some net_state_default) ids"

text \<open>Executing commands whose effects the test does not look at.\<close>

definition test_state :: "network \<Rightarrow> (connection_id \<times> command) list \<Rightarrow> net_state \<Rightarrow> net_state" where
  "test_state nw cs st = foldl (\<lambda>s (i, c). snd (execute nw i c s)) st cs"

definition any_event :: "effects \<Rightarrow> (event \<Rightarrow> bool) \<Rightarrow> bool" where
  "any_event e P = list_ex (\<lambda>d. P (dl_event d)) (ef_deliveries e)"

definition only_delivery :: "effects \<Rightarrow> (connection_id list \<Rightarrow> event \<Rightarrow> bool) \<Rightarrow> bool" where
  "only_delivery e P =
     (case ef_deliveries e of [d] \<Rightarrow> P (dl_recipients d) (dl_event d) | _ \<Rightarrow> False)"

definition is_error :: "error_code \<Rightarrow> event \<Rightarrow> bool" where
  "is_error code ev = (case ev of Ev_Error _ c _ _ \<Rightarrow> c = code | _ \<Rightarrow> False)"

definition test_phase :: "net_state \<Rightarrow> connection_id \<Rightarrow> session_phase option" where
  "test_phase st i = map_option ss_phase (snapshot st i)"

section \<open>Authentication (tests/authentication.rs)\<close>

definition test_product_message_sent :: bool where
  "test_product_message_sent =
     (let nw = test_network\<lparr>nw_config :=
            (core_config_default ''0.2.0'')\<lparr>co_product_message := ''Welcome to AsterFSD test''\<rparr>\<rparr>
      in some_and (test_registered nw test_peer Classic [1]) (\<lambda>st.
        any_event (fst (execute nw 1 (C_Login (pilot_login ''ECP1'')) st))
          (\<lambda>ev. case ev of Ev_Welcome _ message \<Rightarrow> message = ''Welcome to AsterFSD test'' | _ \<Rightarrow> False)))"

lemma test_product_message_sent: test_product_message_sent
  by code_simp

definition test_duplicate_callsign :: bool where
  "test_duplicate_callsign =
     some_and (test_registered test_network test_peer Classic [1, 2]) (\<lambda>st.
       let st = test_state test_network [(1, C_Login (pilot_login ''ECP1''))] st;
           (effects, st) = execute test_network 2 (C_Login (pilot_login ''ecp1'')) st
       in any_event effects (is_error E_CallsignInUse) \<and> test_phase st 1 = Some Active)"

lemma test_duplicate_callsign: test_duplicate_callsign
  by code_simp

text \<open>
  Two logins at once: both ask the authenticator before either resumes, and either may resume
  first. Whoever does owns the callsign.
\<close>

definition test_concurrent_login :: bool where
  "test_concurrent_login =
     (let logins = [(1, pilot_login ''ECP1''), (2, pilot_login ''ecp1'')];
          resume = (\<lambda>(i, c) g. login_resume (nw_config test_network) i c g
            (au_authenticate (nw_authenticator test_network) (lc_network_id c) (lc_password c)))
      in some_and (test_registered test_network test_peer Classic [1, 2]) (\<lambda>st.
        ok_and (login_generation st 1 (pilot_login ''ECP1'')) (\<lambda>g1.
        ok_and (login_generation st 2 (pilot_login ''ecp1'')) (\<lambda>g2.
          list_all (\<lambda>order.
              let (first, st1) = (case order of (l, g) # _ \<Rightarrow> resume l g st | [] \<Rightarrow> (effects_default, st));
                  (second, st2) = (case order of [_, (l, g)] \<Rightarrow> resume l g st1 | _ \<Rightarrow> (effects_default, st1));
                  successful = filter (\<lambda>e. any_event e (\<lambda>ev. case ev of Ev_Welcome _ _ \<Rightarrow> True | _ \<Rightarrow> False))
                    [first, second];
                  rejected = filter (\<lambda>e. ef_close e \<noteq> None \<and> any_event e (is_error E_CallsignInUse))
                    [first, second]
              in length successful = 1 \<and> length rejected = 1
               \<and> length (filter (\<lambda>s. s_phase s = Active) (hm_values (ns_sessions st2))) = 1
               \<and> length (ns_callsigns st2) = 1)
            [zip logins [g1, g2], rev (zip logins [g1, g2])]))))"

lemma test_concurrent_login: test_concurrent_login
  by code_simp

definition test_login_failures :: bool where
  "test_login_failures =
     list_all (\<lambda>(failure, expected).
         let nw = test_network\<lparr>nw_authenticator := failing_authenticator failure\<rparr>
         in some_and (test_registered nw test_peer Classic [1]) (\<lambda>st.
           let (effects, st) = execute nw 1 (C_Login (pilot_login ''ECP1'')) st
           in ef_close effects \<noteq> None
            \<and> only_delivery effects (\<lambda>recipients ev. recipients = [1] \<and> is_error expected ev)
            \<and> ns_callsigns st = [] \<and> test_phase st 1 = Some Connected))
       [(Auth_InvalidCredentials, E_InvalidCredentials), (Auth_Suspended, E_Suspended)]"

lemma test_login_failures: test_login_failures
  by code_simp

definition test_classic_revision :: bool where
  "test_classic_revision =
     some_and (test_registered test_network test_peer Classic [1]) (\<lambda>st.
       let (effects, st) = execute test_network 1
             (C_Login ((pilot_login ''ECP1'')\<lparr>lc_protocol_revision := 8\<rparr>)) st
       in ef_close effects \<noteq> None
        \<and> only_delivery effects (\<lambda>_ ev. case ev of
             Ev_Error _ code environment _ \<Rightarrow> code = E_InvalidProtocolRevision \<and> environment = []
           | _ \<Rightarrow> False)
        \<and> ns_callsigns st = [])"

lemma test_classic_revision: test_classic_revision
  by code_simp

definition test_vatsim_revision :: bool where
  "test_vatsim_revision =
     some_and (test_registered test_network test_peer Vatsim [1]) (\<lambda>st.
       let st = test_state test_network
             [(1, C_Identify (vatsim_identification ''ECP1'' (Some ''CID1'')))] st;
           (effects, st) = execute test_network 1 (C_Login (pilot_login ''ECP1'')) st
       in ef_close effects \<noteq> None
        \<and> only_delivery effects (\<lambda>_. is_error E_InvalidProtocolRevision)
        \<and> test_phase st 1 = Some Identified \<and> ns_callsigns st = [])"

lemma test_vatsim_revision: test_vatsim_revision
  by code_simp

definition test_vatsim_ownership :: bool where
  "test_vatsim_ownership =
     list_all (\<lambda>(identified_callsign, identified_network_id, login_callsign, login_network_id).
         some_and (test_registered test_network test_peer Vatsim [1]) (\<lambda>st.
           let st = test_state test_network
                 [(1, C_Identify (vatsim_identification identified_callsign identified_network_id))] st;
               (effects, st) = execute test_network 1
                 (C_Login (vatsim_pilot_login login_callsign login_network_id)) st
           in ef_close effects \<noteq> None \<and> only_delivery effects (\<lambda>_. is_error E_InvalidSource)
            \<and> ns_callsigns st = []))
       [(''ECP1'', Some ''CID1'', ''ECP2'', ''CID1''), (''ECP1'', Some ''CID1'', ''ECP1'', ''CID2''),
        (''ECP1'', None, ''ECP1'', ''CID1'')]"

lemma test_vatsim_ownership: test_vatsim_ownership
  by code_simp

definition test_vatsim_pilot_profile :: bool where
  "test_vatsim_pilot_profile =
     some_and (test_registered test_network \<lparr>sa_ip = ''127.0.0.42'', sa_port = 4321\<rparr> Vatsim [1]) (\<lambda>st.
       let st = test_state test_network
             [(1, C_Identify (vatsim_identification ''ECP1'' (Some ''CID1'')))] st;
           effects = fst (execute test_network 1 (C_Login (vatsim_pilot_login ''ECP1'' ''CID1'')) st)
       in case map dl_event (ef_deliveries effects) of
            [Ev_Welcome _ _, Ev_Query source (To_Direct destination) Q_Capabilities arguments,
             Ev_Response ip_source (To_Direct ip_destination) (Q_Raw kind) ip,
             Ev_Error (Some c) E_NoFlightPlan environment _] \<Rightarrow>
              source = ''SERVER'' \<and> as_str destination = ''ECP1'' \<and> arguments = []
              \<and> ip_source = ''SERVER'' \<and> as_str ip_destination = ''ECP1'' \<and> kind = ''IP''
              \<and> ip = [''127.0.0.42''] \<and> as_str c = ''ECP1'' \<and> environment = ''ECP1''
          | _ \<Rightarrow> False)"

lemma test_vatsim_pilot_profile: test_vatsim_pilot_profile
  by code_simp

definition test_vatsim_atc_profile :: bool where
  "test_vatsim_atc_profile =
     some_and (test_registered test_network \<lparr>sa_ip = ''127.0.0.43'', sa_port = 4321\<rparr> Vatsim [1]) (\<lambda>st.
       let st = test_state test_network
             [(1, C_Identify (vatsim_identification ''ZSPD_TWR'' (Some ''CID2'')))] st;
           effects = fst (execute test_network 1 (C_Login (vatsim_atc_login ''ZSPD_TWR'' ''CID2'')) st)
       in case map dl_event (ef_deliveries effects) of
            [Ev_Welcome _ _, Ev_Query s1 _ Q_Capabilities a1, Ev_Response s2 _ (Q_Raw k2) a2,
             Ev_Response s3 _ Q_Capabilities a3, Ev_Response s4 _ (Q_Raw k4) a4] \<Rightarrow>
              s1 = ''SERVER'' \<and> a1 = []
              \<and> s2 = ''SERVER'' \<and> k2 = ''ATC'' \<and> a2 = [''N'', ''ZSPD_TWR'']
              \<and> s3 = ''SERVER'' \<and> a3 = [''ATCINFO=1'', ''SECPOS=1'']
              \<and> s4 = ''SERVER'' \<and> k4 = ''IP'' \<and> a4 = [''127.0.0.43'']
          | _ \<Rightarrow> False)"

lemma test_vatsim_atc_profile: test_vatsim_atc_profile
  by code_simp

section \<open>State (tests/state.rs)\<close>

definition test_pilot_position :: "string \<Rightarrow> f64 \<Rightarrow> f64 \<Rightarrow> i32 \<Rightarrow> command" where
  "test_pilot_position c latitude longitude alt =
     C_Position (Position_Pilot \<lparr>pp_callsign = Callsign (to_ascii_uppercase c), pp_mode = ''N'',
       pp_squawk = ''1200'', pp_rating = 1, pp_latitude = latitude, pp_longitude = longitude,
       pp_altitude = alt, pp_groundspeed = 200, pp_pbh = 0, pp_flags = 0\<rparr>)"

definition test_spoofed_source :: bool where
  "test_spoofed_source =
     some_and (test_registered test_network test_peer Classic [1]) (\<lambda>st.
       let st = test_state test_network [(1, C_Login (pilot_login ''ECP1''))] st;
           effects = fst (execute test_network 1 (C_Text (Callsign ''ECP2'') To_All ''spoof'') st)
       in case ef_deliveries effects of
            d # _ \<Rightarrow> dl_recipients d = [1] \<and> is_error E_InvalidSource (dl_event d)
          | [] \<Rightarrow> False)"

lemma test_spoofed_source: test_spoofed_source
  by code_simp

definition test_rating_gap :: bool where
  "test_rating_gap =
     some_and (test_registered test_network test_peer Classic [1, 2]) (\<lambda>st.
       let (effects, st) = execute test_network 1
             (C_Login ((pilot_login ''ECP1'')\<lparr>lc_requested_rating := 2\<rparr>)) st;
           st = test_state test_network [(2, C_Login (pilot_login ''ECP1''))] st;
           repeated = fst (execute test_network 2 (C_Login (pilot_login ''ECP1'')) st)
       in any_event effects (is_error E_RequestedLevelTooHigh)
        \<and> any_event repeated (is_error E_AlreadyRegistered))"

lemma test_rating_gap: test_rating_gap
  by code_simp

definition test_position_mismatch :: bool where
  "test_position_mismatch =
     some_and (test_registered test_network test_peer Classic [1]) (\<lambda>st.
       let st = test_state test_network [(1, C_Login (pilot_login ''ECP1''))] st;
           effects = fst (execute test_network 1
             (C_Position (Position_Atc \<lparr>ap_callsign = Callsign ''ECP1'', ap_frequency = 199998,
                ap_facility_type = 5, ap_visual_range = 100, ap_rating = 1, ap_latitude = F64_Fin False 0,
                ap_longitude = F64_Fin False 0, ap_altitude = 0\<rparr>)) st)
       in any_event effects (is_error E_Syntax))"

lemma test_position_mismatch: test_position_mismatch
  by code_simp

text \<open>\<open>f64::EPSILON\<close>.\<close>

definition f64_epsilon :: f64 where
  "f64_epsilon = F64_Fin False (1 / 2 ^ 52)"

fun f64_abs :: "f64 \<Rightarrow> f64" where
  "f64_abs F64_NaN = F64_NaN"
| "f64_abs (F64_Inf _) = F64_Inf False"
| "f64_abs (F64_Fin _ q) = F64_Fin False q"

definition f64_close :: "f64 \<Rightarrow> f64 \<Rightarrow> bool" where
  "f64_close x y = f64_lt (f64_abs (f64_sub x y)) f64_epsilon"

definition test_position_kept :: bool where
  "test_position_kept =
     some_and (test_registered test_network test_peer Classic [1]) (\<lambda>st.
       let st = test_state test_network
             [(1, C_Login (pilot_login ''ECP1'')),
              (1, test_pilot_position ''ECP1'' (f64_lit (3123 / 100)) (f64_lit (12147 / 100)) 5000)] st;
           (invalid, st) = execute test_network 1
             (test_pilot_position ''ECP1'' (f64_lit 91) (f64_lit (12147 / 100)) 10000) st;
           (spoof, st) = execute test_network 1
             (test_pilot_position ''ECP2'' (f64_lit 32) (f64_lit (12147 / 100)) 10000) st
       in only_delivery invalid (\<lambda>_. is_error E_Syntax)
        \<and> only_delivery spoof (\<lambda>_. is_error E_InvalidSource)
        \<and> (case Option.bind (session_of st 1) s_position of
             Some (Position_Pilot p) \<Rightarrow>
               f64_close (pp_latitude p) (f64_lit (3123 / 100))
               \<and> f64_close (pp_longitude p) (f64_lit (12147 / 100)) \<and> pp_altitude p = 5000
           | _ \<Rightarrow> False))"

lemma test_position_kept: test_position_kept
  by code_simp

section \<open>Routing (tests/routing.rs)\<close>

definition test_core_flight_plan :: "string \<Rightarrow> flight_plan" where
  "test_core_flight_plan c =
     \<lparr>fp_callsign = Callsign (to_ascii_uppercase c), fp_flight_rules = ''I'', fp_aircraft = ''B738'',
      fp_cruise_speed = 450, fp_departure = ''ZSPD'', fp_estimated_departure = 1200,
      fp_actual_departure = 1205, fp_cruise_altitude = ''FL350'', fp_destination = ''ZBAA'',
      fp_hours_enroute = 2, fp_minutes_enroute = 0, fp_hours_fuel = 4, fp_minutes_fuel = 0,
      fp_alternate = ''ZSNJ'', fp_remarks = ''RMK'', fp_route = ''DCT PIKAS DCT''\<rparr>"

definition test_unknown_destination :: bool where
  "test_unknown_destination =
     some_and (test_registered test_network test_peer Classic [1]) (\<lambda>st.
       let st = test_state test_network [(1, C_Login (pilot_login ''ECP1''))] st
       in effects_is_empty (fst (execute test_network 1
            (C_Text (Callsign ''ECP1'') (To_Direct (Callsign ''MISSING'')) ''nobody'') st)))"

lemma test_unknown_destination: test_unknown_destination
  by code_simp

definition test_direct_relay :: bool where
  "test_direct_relay =
     some_and (test_registered test_network test_peer Classic [1, 2]) (\<lambda>st.
       let st = test_state test_network
             [(1, C_Login (pilot_login ''ECP1'')), (2, C_Login (pilot_login ''ECP2''))] st;
           (handoff, st) = execute test_network 1
             (C_Handoff (Callsign ''ECP1'') (Callsign ''ECP2'') H_Request [''ECP3'']) st;
           (client_data, st) = execute test_network 2
             (C_ClientData (Callsign ''ECP2'') (Callsign ''ECP1'') CommunicationReply [''122.800'']) st;
           (unknown, st) = execute test_network 1
             (C_Handoff (Callsign ''ECP1'') (Callsign ''MISSING'') H_Accept [''ECP3'']) st
       in only_delivery handoff (\<lambda>recipients ev. recipients = [2] \<and> (case ev of
            Ev_Handoff source target _ fs \<Rightarrow>
              as_str source = ''ECP1'' \<and> as_str target = ''ECP2'' \<and> fs = [''ECP3'']
          | _ \<Rightarrow> False))
        \<and> only_delivery client_data (\<lambda>recipients ev. recipients = [1] \<and> (case ev of
            Ev_ClientData _ target _ fs \<Rightarrow> as_str target = ''ECP1'' \<and> fs = [''122.800'']
          | _ \<Rightarrow> False))
        \<and> effects_is_empty unknown)"

lemma test_direct_relay: test_direct_relay
  by code_simp

definition test_server_queries :: bool where
  "test_server_queries =
     some_and (test_registered test_network test_peer Classic [1, 2]) (\<lambda>st.
       let st = test_state test_network
             [(1, C_Login (pilot_login ''ECP1'')), (2, C_Login (pilot_login ''ECP2'')),
              (1, C_FlightPlan (test_core_flight_plan ''ECP1''))] st;
           (response, st) = execute test_network 2
             (C_Query (Callsign ''ECP2'') To_Server Q_FlightPlan [''ECP1'']) st;
           (unsupported, st) = execute test_network 2
             (C_Query (Callsign ''ECP2'') To_Server Q_Capabilities []) st;
           (missing, st) = execute test_network 1
             (C_Query (Callsign ''ECP1'') To_Server Q_FlightPlan [''ECP2'']) st
       in only_delivery response (\<lambda>recipients ev. recipients = [2] \<and> (case ev of
            Ev_FlightPlan plan (To_Direct target) \<Rightarrow>
              as_str (fp_callsign plan) = ''ECP1'' \<and> as_str target = ''ECP2''
          | _ \<Rightarrow> False))
        \<and> effects_is_empty unsupported
        \<and> only_delivery missing (\<lambda>_ ev. case ev of
            Ev_Error _ code environment _ \<Rightarrow> code = E_NoFlightPlan \<and> environment = []
          | _ \<Rightarrow> False))"

lemma test_server_queries: test_server_queries
  by code_simp

section \<open>Lifecycle (tests/lifecycle.rs)\<close>

definition test_disconnect_once :: bool where
  "test_disconnect_once =
     some_and (test_registered test_network test_peer Classic [1]) (\<lambda>st.
       let st = test_state test_network [(1, C_Login (pilot_login ''ECP1''))] st;
           (first, st) = disconnect 1 ''EOF'' st;
           (second, st) = disconnect 1 ''EOF'' st;
           (registered, st) = register (nw_config test_network) 2
             \<lparr>sa_ip = ''127.0.0.1'', sa_port = 1001\<rparr> Classic st;
           effects = fst (execute test_network 2 (C_Login (pilot_login ''ECP1'')) st)
       in \<not> effects_is_empty first \<and> effects_is_empty second \<and> is_ok registered
        \<and> \<not> any_event effects (is_error E_CallsignInUse))"

lemma test_disconnect_once: test_disconnect_once
  by code_simp

definition test_registration_capacity :: bool where
  "test_registration_capacity =
     (let nw = test_network\<lparr>nw_config := (core_config_default ''0.2.0'')\<lparr>co_max_clients := 1\<rparr>\<rparr>
      in some_and (test_registered nw test_peer Classic [1]) (\<lambda>st.
        let (full, st) = register (nw_config nw) 2 \<lparr>sa_ip = ''127.0.0.1'', sa_port = 1001\<rparr> Classic st;
            (effects, st) = execute nw 1 (C_Text (Callsign ''ECP1'') To_All ''prelogin'') st
        in full = Inl ServerFull \<and> effects_is_empty effects \<and> test_phase st 1 = Some Connected))"

lemma test_registration_capacity: test_registration_capacity
  by code_simp

definition test_kill :: bool where
  "test_kill =
     some_and (test_registered test_network test_peer Classic [1, 2]) (\<lambda>st.
       let st = test_state test_network
             [(1, C_Login (atc_login ''ECP1'' 11)), (2, C_Login (pilot_login ''ECP2''))] st;
           (unknown, st) = execute test_network 2
             (C_Kill (Callsign ''ECP2'') (Callsign ''MISSING'') ''reason'') st;
           (denied, st) = execute test_network 2
             (C_Kill (Callsign ''ECP2'') (Callsign ''ECP1'') ''reason'') st;
           (accepted, st) = execute test_network 1
             (C_Kill (Callsign ''ECP1'') (Callsign ''ECP2'') ''network abuse'') st
       in only_delivery unknown (\<lambda>_ ev. case ev of
            Ev_Error _ code environment _ \<Rightarrow> code = E_NoSuchCallsign \<and> environment = ''MISSING''
          | _ \<Rightarrow> False)
        \<and> only_delivery denied (\<lambda>recipients ev. recipients = [2] \<and> (case ev of
            Ev_Welcome _ message \<Rightarrow> message = ''You are not allowed to kill users!''
          | _ \<Rightarrow> False))
        \<and> map dl_recipients (ef_deliveries accepted) = [[1], [2], [1]]
        \<and> (case map dl_event (ef_deliveries accepted) of
            [Ev_Welcome _ message, Ev_Disconnect target reason, Ev_ClientRemoved c _ _] \<Rightarrow>
              message = ''Attempting to kill ECP2'' \<and> as_str target = ''ECP2''
              \<and> reason = ''network abuse'' \<and> as_str c = ''ECP2''
          | _ \<Rightarrow> False)
        \<and> ef_close accepted = Some \<lparr>cc_connection_id = 2, cc_reason = ''network abuse''\<rparr>
        \<and> snapshot st 2 = None)"

lemma test_kill: test_kill
  by code_simp

section \<open>Weather (tests/weather.rs)\<close>

definition test_core_weather :: weather_profile where
  "test_core_weather =
     (let temperature = \<lparr>tl_ceiling = 100, tl_temperature = 15\<rparr>;
          wind = \<lparr>wl_ceiling = 2500, wl_floor = 0, wl_direction = 180, wl_speed = 12,
            wl_gusting = 0, wl_turbulence = 1\<rparr>;
          cloud = \<lparr>cl_ceiling = 5000, cl_floor = 3000, cl_coverage = 4, cl_icing = 0,
            cl_turbulence = 1\<rparr>
      in \<lparr>wp_temperatures = (temperature, temperature, temperature, temperature),
          wp_winds = (wind, wind, wind, wind), wp_clouds = (cloud, cloud),
          wp_thunderstorm = \<lparr>cl_ceiling = 35000, cl_floor = 20000, cl_coverage = 1, cl_icing = 2,
            cl_turbulence = 3\<rparr>,
          wp_barometer = 2992, wp_visibility = F64_Fin False (25 / 2)\<rparr>)"

text \<open>A provider with one fixed answer.\<close>

definition weather_network :: "weather_provider_error + weather_observation option \<Rightarrow> network" where
  "weather_network result = test_network\<lparr>nw_weather_provider := (\<lambda>_. result)\<rparr>"

definition test_weather_answers :: bool where
  "test_weather_answers =
     (let report = ''KJFK 161651Z 18012KT 10SM FEW030 15/08 A2992'';
          nw = weather_network (Inr (Some
            \<lparr>wo_raw_metar = Some report, wo_profile = Some test_core_weather\<rparr>))
      in some_and (test_registered nw test_peer Classic [1]) (\<lambda>st.
        let st = test_state nw [(1, C_Login (pilot_login ''ECP1''))] st;
            (parsed, st) = execute nw 1 (C_WeatherRequest (Callsign ''ECP1'') ''KJFK'' True) st;
            (raw, st) = execute nw 1 (C_WeatherRequest (Callsign ''ECP1'') ''KJFK'' False) st
        in only_delivery parsed (\<lambda>recipients ev. recipients = [1] \<and> (case ev of
             Ev_WeatherProfile destination station actual \<Rightarrow>
               as_str destination = ''ECP1'' \<and> station = ''KJFK'' \<and> actual = test_core_weather
           | _ \<Rightarrow> False))
         \<and> only_delivery raw (\<lambda>recipients ev. recipients = [1] \<and> (case ev of
             Ev_WeatherReport source destination station text \<Rightarrow>
               source = ''server'' \<and> as_str destination = ''ECP1'' \<and> station = ''KJFK''
               \<and> take 5 text = ''KJFK ''
           | _ \<Rightarrow> False))))"

lemma test_weather_answers: test_weather_answers
  by code_simp

definition test_weather_refusals :: bool where
  "test_weather_refusals =
     (let nw = weather_network (Inl (Weather_Provider_Error ''upstream details''))
      in some_and (test_registered nw test_peer Classic [1]) (\<lambda>st.
        let st = test_state nw [(1, C_Login (pilot_login ''ECP1''))] st;
            (spoof, st) = execute nw 1 (C_WeatherRequest (Callsign ''ECP2'') ''KJFK'' True) st;
            (failure, st) = execute nw 1 (C_WeatherRequest (Callsign ''ECP1'') ''KJFK'' True) st
        in (case map dl_event (ef_deliveries spoof) of
              ev # _ \<Rightarrow> is_error E_InvalidSource ev | [] \<Rightarrow> False)
         \<and> (case map dl_event (ef_deliveries failure) of
              Ev_Error _ code environment _ # _ \<Rightarrow> code = E_NoWeather \<and> environment = ''KJFK''
            | _ \<Rightarrow> False)))"

lemma test_weather_refusals: test_weather_refusals
  by code_simp

end
