(* ===== verification/Server_Tests.thy ===== *)
theory Server_Tests
  imports Core_Tests Server_Properties
begin

text \<open>
  The tests of \<open>aster_fsd_server\<close>: the mailbox test of \<open>runtime.rs\<close>, the writer test of
  \<open>connection/writer.rs\<close>, and the tests that talk to a running server over TCP
  (\<open>src/tests\<close>), each as a script of what the clients write and read. A script is run by the
  functions of \<open>Server\<close>: the bytes a client writes pass the frame decoder, every frame is
  processed by the runtime, and then the writers empty the mailboxes into the sockets. The tests
  read every reply before they go on, so one schedule suffices: a task runs until it waits. The
  mailboxes are bounded queues.
\<close>

section \<open>One mailbox is full (runtime.rs)\<close>

definition mailbox_test_runtime :: "(nat \<times> outbound list) runtime" where
  "mailbox_test_runtime =
     \<lparr>ru_config =
        \<lparr>sc_server_name = ''AsterFSD'', sc_server_version = ''0.2.0'', sc_mailbox_capacity = 1,
         sc_wind_delta_interval_seconds = 70,
         sc_listeners = [\<lparr>li_name = ''classic'', li_address = ''127.0.0.1'', li_port = 0,
           li_protocol = Classic, li_max_frame_bytes = 511, li_idle_timeout_seconds = 500\<rparr>]\<rparr>,
      ru_network = test_network, ru_mpsc = queue_mpsc\<rparr>"

definition test_full_mailbox :: bool where
  "test_full_mailbox =
     (let handle = (\<lambda>capacity. \<lparr>ch_backend = classic_protocol,
            ch_outbound = mp_channel queue_mpsc capacity, ch_cancel = False\<rparr>);
          wind = (\<lambda>speed. \<lparr>ef_deliveries = [\<lparr>dl_recipients = [1, 2], dl_event = Ev_WindDelta speed 0\<rparr>],
            ef_close = None\<rparr>);
          table = fold (\<lambda>speed. dispatch mailbox_test_runtime net_state_default (wind speed)) [1, 2]
            [(1, handle 1), (2, handle 2)]
      in case (hm_get table 1, hm_get table 2) of
           (Some slow, Some healthy) \<Rightarrow>
             ch_cancel slow \<and> \<not> ch_cancel healthy
             \<and> (case snd (ch_outbound slow) of [Out_Frames _] \<Rightarrow> True | _ \<Rightarrow> False)
             \<and> (case snd (ch_outbound healthy) of [Out_Frames _, Out_Frames _] \<Rightarrow> True | _ \<Rightarrow> False)
         | _ \<Rightarrow> False)"

lemma test_full_mailbox: test_full_mailbox
  by code_simp

section \<open>A write fails (connection/writer.rs)\<close>

text \<open>The result says that the writer ended on a failed write; ending cancels the connection.\<close>

definition test_writer_failure :: bool where
  "test_writer_failure =
     ok_and (codec_new 511) (\<lambda>codec.
     ok_and (wire_frame_from_text ''#TMserver:ECP1:test'') (\<lambda>frame.
       snd (run_writer codec (\<lambda>_. False) [Out_Frames [frame]] []) = W_Write_Failed))"

lemma test_writer_failure: test_writer_failure
  by code_simp

text \<open>The loop of the reader, in a form that evaluates step by step.\<close>

fun drain_next ::
  "frame_codec \<Rightarrow> string \<times> (io_error + string option) \<Rightarrow> string list \<times> (io_error + string)" where
  "drain_next codec (rest, Inl e) = ([], Inl e)"
| "drain_next codec (rest, Inr None) = ([], Inr rest)"
| "drain_next codec (rest, Inr (Some frame)) = map_prod (Cons frame) id (drain codec rest)"

lemma drain_code [code]: "drain codec buffer = drain_next codec (frame_decode codec buffer)"
  by (subst drain.simps) (auto split: prod.split sum.split option.split)

section \<open>A server and its sockets (tests/support.rs)\<close>

record test_socket =
  ts_codec :: frame_codec
  ts_backend :: backend
  ts_input :: string
  ts_output :: string
  ts_closed :: bool

record test_world =
  tw_runtime :: "(nat \<times> outbound list) runtime"
  tw_state :: "(nat \<times> outbound list) runtime_state"
  tw_sockets :: "(connection_id, test_socket) hash_map"

definition test_weather_provider :: weather_provider where
  "test_weather_provider request =
     (if wk_station request \<noteq> ''KJFK'' then Inr None
      else Inr (Some
        \<lparr>wo_raw_metar = Some ''KJFK 161651Z 18012KT 10SM FEW030 15/08 A2992'',
         wo_profile = Some test_core_weather\<rparr>))"

definition test_listener :: "string \<Rightarrow> protocol_dialect \<Rightarrow> nat \<Rightarrow> listener_config" where
  "test_listener name protocol max_frame_bytes =
     \<lparr>li_name = name, li_address = ''127.0.0.1'', li_port = 0, li_protocol = protocol,
      li_max_frame_bytes = max_frame_bytes, li_idle_timeout_seconds = 500\<rparr>"

definition start_server :: "authenticator \<Rightarrow> listener_config list \<Rightarrow> test_world option" where
  "start_server auth listeners =
     (case server_new queue_mpsc
         \<lparr>sc_server_name = ''AsterFSD'', sc_server_version = ''0.2.0'', sc_mailbox_capacity = 16,
          sc_wind_delta_interval_seconds = 70, sc_listeners = listeners\<rparr>
         (test_network\<lparr>nw_authenticator := auth, nw_weather_provider := test_weather_provider\<rparr>)
         net_state_default
         (registry_register vatsim_protocol (registry_register classic_protocol [])) of
        Inl _ \<Rightarrow> None
      | Inr server \<Rightarrow>
          Some \<lparr>tw_runtime = sv_runtime server, tw_state = sv_state server, tw_sockets = []\<rparr>)"

text \<open>The end of a connection's task; the socket is closed once its writer is done.\<close>

definition close_socket :: "connection_id \<Rightarrow> test_world \<Rightarrow> test_world" where
  "close_socket i w =
     w\<lparr>tw_state := close_connection_task (tw_runtime w) i (tw_state w),
       tw_sockets := (case hm_get (tw_sockets w) i of
           None \<Rightarrow> tw_sockets w
         | Some socket \<Rightarrow> hm_insert i (socket\<lparr>ts_closed := True\<rparr>) (tw_sockets w))\<rparr>"

definition close_socket_if :: "bool \<Rightarrow> connection_id \<Rightarrow> test_world \<Rightarrow> test_world" where
  "close_socket_if closing i w = (if closing then close_socket i w else w)"

text \<open>The writer of a connection takes what is in its mailbox.\<close>

definition drain_mailbox :: "connection_id \<Rightarrow> test_world \<Rightarrow> test_world" where
  "drain_mailbox i w =
     (case (hm_get (rs_connections (tw_state w)) i, hm_get (tw_sockets w) i) of
        (Some handle, Some socket) \<Rightarrow>
          (case ch_outbound handle of
             (capacity, messages) \<Rightarrow>
               (case run_writer (ts_codec socket) (\<lambda>_. True) messages (ts_output socket) of
                  (output, why) \<Rightarrow>
                    close_socket_if (why \<noteq> W_Senders_Gone \<or> ch_cancel handle) i
                      (w\<lparr>tw_state := (tw_state w)\<lparr>rs_connections :=
                           hm_insert i (handle\<lparr>ch_outbound := (capacity, [])\<rparr>)
                             (rs_connections (tw_state w))\<rparr>,
                         tw_sockets := hm_insert i (socket\<lparr>ts_output := output\<rparr>) (tw_sockets w)\<rparr>)))
      | _ \<Rightarrow> w)"

fun drain_mailboxes :: "connection_id list \<Rightarrow> test_world \<Rightarrow> test_world" where
  "drain_mailboxes [] w = w"
| "drain_mailboxes (i # ids) w = drain_mailboxes ids (drain_mailbox i w)"

text \<open>Closing one connection may write to others, hence the second round.\<close>

definition settle :: "test_world \<Rightarrow> test_world" where
  "settle w =
     drain_mailboxes (map fst (tw_sockets w)) (drain_mailboxes (map fst (tw_sockets w)) w)"

fun process_frames ::
  "'ch runtime \<Rightarrow> backend \<Rightarrow> connection_id \<Rightarrow> string list \<Rightarrow> 'ch runtime_state
   \<Rightarrow> bool \<times> 'ch runtime_state" where
  "process_frames rt b i [] s = (True, s)"
| "process_frames rt b i (f # fs) s =
     (case process_frame rt b i ''0123456789abcdef012345'' f s of
        (True, s') \<Rightarrow> process_frames rt b i fs s'
      | (False, s') \<Rightarrow> (False, s'))"

section \<open>Scripts\<close>

text \<open>
  What a test does: open a connection to the listener of a dialect, write bytes, read a line and
  compare it or its beginning, find nothing to read, find the socket closed, reset the connection,
  wait for the idle timeout, shut the server down.
\<close>

datatype script_step =
    Connects protocol_dialect
  | Writes connection_id string
  | Reads connection_id string
  | Reads_Prefix connection_id string
  | Reads_Nothing connection_id
  | Finds_Closed connection_id
  | Resets connection_id
  | Idles connection_id
  | Shuts_Down

definition find_listener :: "test_world \<Rightarrow> protocol_dialect \<Rightarrow> listener_config option" where
  "find_listener w dialect =
     List.find (\<lambda>l. li_protocol l = dialect) (sc_listeners (ru_config (tw_runtime w)))"

definition test_backend :: "protocol_dialect \<Rightarrow> backend" where
  "test_backend dialect = (if dialect = Vatsim then vatsim_protocol else classic_protocol)"

definition connects :: "protocol_dialect \<Rightarrow> test_world \<Rightarrow> test_world option" where
  "connects dialect w =
     (case find_listener w dialect of
        None \<Rightarrow> None
      | Some listener \<Rightarrow>
          (case codec_new (li_max_frame_bytes listener) of
             Inl _ \<Rightarrow> None
           | Inr codec \<Rightarrow>
               (case open_connection (tw_runtime w) listener (\<lambda>_. True) test_peer (test_backend dialect)
                       ''0123456789abcdef012345'' (tw_state w) of
                  (None, _, _) \<Rightarrow> None
                | (Some i, greeting, s) \<Rightarrow>
                    Some (w\<lparr>tw_state := s, tw_sockets := hm_insert i
                      \<lparr>ts_codec = codec, ts_backend = test_backend dialect, ts_input = [],
                       ts_output = greeting, ts_closed = False\<rparr> (tw_sockets w)\<rparr>))))"

fun after_frames ::
  "connection_id \<Rightarrow> test_socket \<Rightarrow> test_world \<Rightarrow> bool \<times> (nat \<times> outbound list) runtime_state
   \<Rightarrow> io_error + string \<Rightarrow> test_world" where
  "after_frames i socket w (going, s) (Inl e) =
     settle (close_socket i (settle
       (w\<lparr>tw_state := s, tw_sockets := hm_insert i (socket\<lparr>ts_input := []\<rparr>) (tw_sockets w)\<rparr>)))"
| "after_frames i socket w (going, s) (Inr left) =
     settle (close_socket_if (\<not> going) i (settle
       (w\<lparr>tw_state := s, tw_sockets := hm_insert i (socket\<lparr>ts_input := left\<rparr>) (tw_sockets w)\<rparr>)))"

fun receives ::
  "connection_id \<Rightarrow> test_socket \<Rightarrow> test_world \<Rightarrow> string list \<times> (io_error + string) \<Rightarrow> test_world" where
  "receives i socket w (frames, rest) =
     after_frames i socket w
       (process_frames (tw_runtime w) (ts_backend socket) i frames (tw_state w)) rest"

text \<open>Reading goes on until a frame ends the connection or the codec refuses the bytes.\<close>

definition writes :: "connection_id \<Rightarrow> string \<Rightarrow> test_world \<Rightarrow> test_world option" where
  "writes i bytes w =
     (case hm_get (tw_sockets w) i of
        None \<Rightarrow> None
      | Some socket \<Rightarrow>
          if ts_closed socket then None
          else Some (receives i socket w (drain (ts_codec socket) (ts_input socket @ bytes))))"

definition take_line :: "string \<Rightarrow> string \<times> string" where
  "take_line s =
     (let n = length (takeWhile (\<lambda>c. c \<noteq> lf) s) in (take (Suc n) s, drop (Suc n) s))"

definition reads :: "connection_id \<Rightarrow> (string \<Rightarrow> bool) \<Rightarrow> test_world \<Rightarrow> test_world option" where
  "reads i P w =
     (case hm_get (tw_sockets w) i of
        None \<Rightarrow> None
      | Some socket \<Rightarrow>
          (case take_line (ts_output socket) of
             (line, rest) \<Rightarrow>
               if P line
               then Some (w\<lparr>tw_sockets := hm_insert i (socket\<lparr>ts_output := rest\<rparr>) (tw_sockets w)\<rparr>)
               else None))"

definition holds_socket :: "connection_id \<Rightarrow> (test_socket \<Rightarrow> bool) \<Rightarrow> test_world \<Rightarrow> test_world option" where
  "holds_socket i P w = (if some_and (hm_get (tw_sockets w) i) P then Some w else None)"

definition forget_socket :: "connection_id \<Rightarrow> test_world \<Rightarrow> test_world" where
  "forget_socket i w = w\<lparr>tw_sockets := hm_remove i (tw_sockets w)\<rparr>"

text \<open>The reader of a connection ends without a frame: end of stream, idle timer, shutdown.\<close>

definition ends :: "read_event \<Rightarrow> connection_id \<Rightarrow> test_world \<Rightarrow> test_world" where
  "ends ev i w =
     (case hm_get (rs_connections (tw_state w)) i of
        None \<Rightarrow> w
      | Some handle \<Rightarrow>
          settle (close_socket i (w\<lparr>tw_state :=
            read_connection (tw_runtime w) (ch_backend handle) i [] [ev] (tw_state w)\<rparr>)))"

fun run_step :: "script_step \<Rightarrow> test_world \<Rightarrow> test_world option" where
  "run_step (Connects dialect) w = connects dialect w"
| "run_step (Writes i bytes) w = writes i (bytes @ [cr, lf]) w"
| "run_step (Reads i line) w = reads i (\<lambda>l. l = line @ [cr, lf]) w"
| "run_step (Reads_Prefix i start) w = reads i (\<lambda>l. take (length start) l = start) w"
| "run_step (Reads_Nothing i) w = holds_socket i (\<lambda>s. ts_output s = [] \<and> \<not> ts_closed s) w"
| "run_step (Finds_Closed i) w =
     map_option (forget_socket i) (holds_socket i (\<lambda>s. ts_output s = [] \<and> ts_closed s) w)"
| "run_step (Resets i) w = Some (ends Read_End i w)"
| "run_step (Idles i) w = Some (ends Read_Idle i w)"
| "run_step Shuts_Down w =
     Some (fold (ends Read_Shutdown) (map fst (rs_connections (tw_state w))) w)"

text \<open>A script passes if every step does.\<close>

fun run_script :: "script_step list \<Rightarrow> test_world \<Rightarrow> bool" where
  "run_script [] w = True"
| "run_script (st # sts) w = (case run_step st w of None \<Rightarrow> False | Some w' \<Rightarrow> run_script sts w')"

definition passes :: "test_world option \<Rightarrow> script_step list \<Rightarrow> bool" where
  "passes start steps = (case start of None \<Rightarrow> False | Some w \<Rightarrow> run_script steps w)"

definition classic_server :: "test_world option" where
  "classic_server = start_server allow_all_authenticator [test_listener ''classic'' Classic 511]"

section \<open>Classic clients (tests/classic.rs)\<close>

definition test_login_errors :: bool where
  "test_login_errors = passes classic_server
     [Connects Classic, Writes 1 ''#APX:SERVER:CID1:secret:1:9:2:Invalid Callsign'',
      Reads 1 ''$ERserver:unknown:002::Invalid callsign'', Finds_Closed 1,
      Connects Classic, Writes 2 ''#APECP1:SERVER:CID1:secret:1:8:2:Wrong Revision'',
      Reads 2 ''$ERserver:ECP1:010::Invalid protocol revision'', Finds_Closed 2,
      Connects Classic, Writes 3 ''#APECP1:SERVER:CID1:secret:1:invalid:2:Bad Revision'',
      Reads 3 ''$ERserver:unknown:010::Invalid protocol revision'', Finds_Closed 3,
      Connects Classic, Writes 4 ''#APECP1:SERVER:CID1:secret'',
      Reads 4 ''$ERserver:unknown:004::Syntax error'',
      Writes 4 ''#APECP1:SERVER:CID1:secret:1:9:2:Valid Pilot'', Reads_Prefix 4 ''#TMserver:ECP1:'',
      Writes 4 ''#APECP1:SERVER:CID1:secret:1:9:2:Repeated Pilot'',
      Reads 4 ''$ERserver:ECP1:003::Already registerd'',
      Connects Classic, Writes 5 ''#APPEER1:SERVER:CID2:secret:1:9:2:Peer Pilot'',
      Reads_Prefix 5 ''#TMserver:PEER1:'', Reads 4 ''#APPEER1:SERVER:CID2::1:9:2'']"

lemma test_login_errors: test_login_errors
  by code_simp

definition test_credential_failures :: bool where
  "test_credential_failures =
     list_all (\<lambda>(failure, expected).
         passes (start_server (failing_authenticator failure) [test_listener ''classic'' Classic 511])
           [Connects Classic, Writes 1 ''#APECP1:SERVER:CID1:never-log-this:1:9:2:Rejected Pilot'',
            Reads 1 expected, Finds_Closed 1])
       [(Auth_InvalidCredentials, ''$ERserver:ECP1:006:CID1:Invalid CID/password''),
        (Auth_Suspended, ''$ERserver:ECP1:013::CID/PID was suspended'')]"

lemma test_credential_failures: test_credential_failures
  by code_simp

text \<open>Two pilots log in, the second seen by the first.\<close>

definition two_pilots :: "script_step list" where
  "two_pilots =
     [Connects Classic, Writes 1 ''#APECP1:SERVER:CID1:first-secret:1:9:2:First Pilot'',
      Reads_Prefix 1 ''#TMserver:ECP1:'',
      Connects Classic, Writes 2 ''#APECP2:SERVER:CID2:second-secret:1:9:2:Second Pilot'',
      Reads_Prefix 2 ''#TMserver:ECP2:'', Reads 1 ''#APECP2:SERVER:CID2::1:9:2'']"

text \<open>The part of the test before the positions.\<close>

definition test_multi_client :: bool where
  "test_multi_client = passes classic_server (two_pilots @
     [Writes 1 ''#TMECP1:ECP2:private message'', Reads 2 ''#TMECP1:ECP2:private message'',
      Reads_Nothing 1])"

lemma test_multi_client: test_multi_client
  by code_simp

definition relayed :: "connection_id \<Rightarrow> connection_id \<Rightarrow> string \<Rightarrow> script_step list" where
  "relayed i j frame = [Writes i frame, Reads j frame, Reads_Nothing i]"

definition test_direct_commands :: bool where
  "test_direct_commands = passes classic_server (two_pilots
     @ concat (map (relayed 1 2)
         [''$HOECP1:ECP2:ECP3:123.450'', ''#SBECP1:ECP2'', ''#PCECP1:ECP2:VERSION'', ''$C?ECP1:ECP2''])
     @ concat (map (relayed 2 1) [''$HAECP2:ECP1:ECP3'', ''$CIECP2:ECP1:123.450''])
     @ [Writes 1 ''#SBECP1:MISSING'', Reads_Nothing 1, Reads_Nothing 2,
        Writes 1 ''$HOECP1:ECP2'', Reads 1 ''$ERserver:ECP1:004::Syntax error'', Reads_Nothing 2,
        Writes 1 ''$HOFAKE:ECP2:ECP3'',
        Reads 1 ''$ERserver:ECP1:005:FAKE:Invalid source callsign'', Reads_Nothing 2])"

lemma test_direct_commands: test_direct_commands
  by code_simp

definition test_server_query_relay :: bool where
  "test_server_query_relay = passes classic_server (two_pilots
     @ concat (map (relayed 1 2)
         [''$CQECP1:ECP2:CAPS'', ''$CQECP1:ECP2:ACC:CONFIG:FULL'', ''$CQECP1:ECP2:ATIS'',
          ''$CQECP1:ECP2:INF''])
     @ concat (map (relayed 2 1)
         [''$CRECP2:ECP1:CAPS:VERSION=1'', ''$CRECP2:ECP1:ACC:CONFIG=FULL'',
          ''$CRECP2:ECP1:ATIS:LINE=Test ATIS'', ''$CRECP2:ECP1:INF:CLIENT=swift''])
     @ [Writes 2 ''$CRECP2:ECP1:CAPS'', Reads 2 ''$ERserver:ECP2:004::Syntax error'', Reads_Nothing 1,
        Writes 1 ''$CQECP1:SERVER:CAPS'', Reads_Nothing 1, Reads_Nothing 2,
        Writes 1 ''$FPECP1:*A:I:B738:450:ZSPD:1200:1205:FL350:ZBAA:2:0:4:0:ZSNJ:RMK:DCT PIKAS DCT'',
        Reads_Nothing 1, Reads_Nothing 2,
        Writes 2 ''$CQECP2:SERVER:FP:ECP1'',
        Reads 2 ''$FPECP1:ECP2:I:B738:450:ZSPD:1200:1205:FL350:ZBAA:2:0:4:0:ZSNJ:RMK:DCT PIKAS DCT'',
        Reads_Nothing 1])"

lemma test_server_query_relay: test_server_query_relay
  by code_simp

definition test_server_kill :: bool where
  "test_server_kill = passes classic_server
     [Connects Classic, Writes 1 ''#AAECP1:SERVER:Supervisor:CID1:admin-secret:11:9'',
      Reads_Prefix 1 ''#TMserver:ECP1:'',
      Connects Classic, Writes 2 ''#APECP2:SERVER:CID2:pilot-secret:1:9:2:Second Pilot'',
      Reads_Prefix 2 ''#TMserver:ECP2:'', Reads 1 ''#APECP2:SERVER:CID2::1:9:2'',
      Writes 2 ''$!!ECP2:MISSING:reason'', Reads 2 ''$ERserver:ECP2:007:MISSING:No such callsign'',
      Writes 2 ''$!!ECP2:ECP1:reason'', Reads 2 ''#TMserver:ECP2:You are not allowed to kill users!'',
      Writes 1 ''$!!ECP1:ECP2:network abuse'', Reads 1 ''#TMserver:ECP1:Attempting to kill ECP2'',
      Reads 2 ''$!!SERVER:ECP2:network abuse'', Reads 1 ''#DPECP2:CID2'', Finds_Closed 2]"

lemma test_server_kill: test_server_kill
  by code_simp

section \<open>Lifecycle (tests/lifecycle.rs)\<close>

definition test_idle_timeout :: bool where
  "test_idle_timeout = passes
     (start_server allow_all_authenticator
       [(test_listener ''classic'' Classic 511)\<lparr>li_idle_timeout_seconds := 1\<rparr>])
     [Connects Classic, Idles 1, Finds_Closed 1]"

lemma test_idle_timeout: test_idle_timeout
  by code_simp

text \<open>The bytes come without a line end here, so that no frame is complete.\<close>

definition test_oversized_frame :: bool where
  "test_oversized_frame =
     some_and (start_server allow_all_authenticator [test_listener ''classic-boundary'' Classic 8])
       (\<lambda>w. some_and (connects Classic w) (\<lambda>w. some_and (writes 1 ''123456789'' w)
         (run_script [Finds_Closed 1])))"

lemma test_oversized_frame: test_oversized_frame
  by code_simp

definition test_reset_and_logoff :: bool where
  "test_reset_and_logoff = passes classic_server
     [Connects Classic, Writes 1 ''#AAATC1:SERVER:Observer:CID1:secret:5:9'',
      Reads_Prefix 1 ''#TMserver:ATC1:'',
      Connects Classic, Writes 2 ''#APPILOT1:SERVER:CID2:secret:1:9:2:Reset Pilot'',
      Reads_Prefix 2 ''#TMserver:PILOT1:'', Reads 1 ''#APPILOT1:SERVER:CID2::1:9:2'',
      Resets 2, Reads 1 ''#DPPILOT1:CID2'', Reads_Nothing 1,
      Connects Classic, Writes 3 ''#APPILOT1:SERVER:CID2:secret:1:9:2:Logoff Pilot'',
      Reads_Prefix 3 ''#TMserver:PILOT1:'', Reads 1 ''#APPILOT1:SERVER:CID2::1:9:2'',
      Writes 3 ''#DPPILOT1:CID2'', Reads 1 ''#DPPILOT1:CID2'', Finds_Closed 3, Reads_Nothing 1]"

lemma test_reset_and_logoff: test_reset_and_logoff
  by code_simp

definition test_graceful_shutdown :: bool where
  "test_graceful_shutdown = passes classic_server [Connects Classic, Shuts_Down, Finds_Closed 1]"

lemma test_graceful_shutdown: test_graceful_shutdown
  by code_simp

section \<open>VATSIM clients (tests/vatsim.rs)\<close>

definition vatsim_server :: "test_world option" where
  "vatsim_server = start_server allow_all_authenticator [test_listener ''vatsim'' Vatsim 4096]"

definition test_vatsim_session :: bool where
  "test_vatsim_session = passes vatsim_server
     [Connects Vatsim, Reads_Prefix 1 ''$DISERVER:CLIENT:VATSIM FSD V3.13:'',
      Writes 1 ''$IDECP3:SERVER:48e2:swift:3:2:CID3:987654321'',
      Writes 1 ''#APECP3:SERVER:CID3:vatsim-secret:1:100:2:VATSIM Pilot'',
      Reads 1 ''#TMserver:ECP3:AsterFSD 0.2.0'', Reads 1 ''$CQSERVER:ECP3:CAPS'',
      Reads 1 ''$CRSERVER:ECP3:IP:127.0.0.1'', Reads 1 ''$ERserver:ECP3:008:ECP3:No flightplan'',
      Connects Vatsim, Reads_Prefix 2 ''$DISERVER:CLIENT:VATSIM FSD V3.13:'',
      Writes 2 ''$IDZSPD_TWR:SERVER:48e2:swift:3:2:CID4:-987654321'',
      Writes 2 ''#AAZSPD_TWR:SERVER:VATSIM ATC:CID4:vatsim-secret:5:100'',
      Reads 1 ''#AAZSPD_TWR:SERVER:CID4:CID4::5:100'',
      Reads 2 ''#TMserver:ZSPD_TWR:AsterFSD 0.2.0'', Reads 2 ''$CQSERVER:ZSPD_TWR:CAPS'',
      Reads 2 ''$CRSERVER:ZSPD_TWR:ATC:N:ZSPD_TWR'',
      Reads 2 ''$CRSERVER:ZSPD_TWR:CAPS:ATCINFO=1:SECPOS=1'',
      Reads 2 ''$CRSERVER:ZSPD_TWR:IP:127.0.0.1'',
      Connects Vatsim, Reads_Prefix 3 ''$DISERVER:CLIENT:VATSIM FSD V3.13:'',
      Writes 3 ''$IDPILOT2:SERVER:48e2:swift:3:2:CID5:+987654321'',
      Writes 3 ''#APPILOT2:SERVER:CID5:vatsim-secret:1:100:2:VATSIM Pilot'',
      Reads 2 ''#APPILOT2:SERVER:CID5::1:100:2:CID5'']"

lemma test_vatsim_session: test_vatsim_session
  by code_simp

definition test_vatsim_refusals :: bool where
  "test_vatsim_refusals = passes vatsim_server
     (concat (map (\<lambda>(i, identification, login, expected).
         [Connects Vatsim, Reads_Prefix i ''$DISERVER:CLIENT:VATSIM FSD V3.13:'',
          Writes i identification, Writes i login, Reads i expected, Finds_Closed i])
       [(1, ''$IDECP5:SERVER:48e2:swift:3:2:CID5:987654321'',
         ''#APECP5:SERVER:CID5:secret:1:9:2:Wrong Revision'',
         ''$ERserver:ECP5:010::Invalid protocol revision''),
        (2, ''$IDECP6:SERVER:48e2:swift:3:2:CID6:987654321'',
         ''#APECP6:SERVER:OTHER:secret:1:100:2:Wrong CID'',
         ''$ERserver:ECP6:005::Invalid source callsign'')]))"

lemma test_vatsim_refusals: test_vatsim_refusals
  by code_simp

section \<open>Weather (tests/weather.rs)\<close>

definition test_server_weather :: bool where
  "test_server_weather = passes classic_server
     [Connects Classic, Writes 1 ''#APECP1:SERVER:CID1:secret:1:9:2:Weather Pilot'',
      Reads_Prefix 1 ''#TMserver:ECP1:'',
      Writes 1 ''#WXECP1:SERVER:KJFK'',
      Reads 1 ''#TDserver:ECP1:100:15:100:15:100:15:100:15:2992'',
      Reads 1 ''#WDserver:ECP1:2500:0:180:12:0:1:2500:0:180:12:0:1:2500:0:180:12:0:1:2500:0:180:12:0:1'',
      Reads 1 ''#CDserver:ECP1:5000:3000:4:0:1:5000:3000:4:0:1:35000:20000:1:2:3:12.50'',
      Writes 1 ''$AXECP1:SERVER:METAR:KJFK'',
      Reads 1 ''$ARserver:ECP1:METAR:KJFK 161651Z 18012KT 10SM FEW030 15/08 A2992'',
      Writes 1 ''#WXECP1:SERVER:ZZZZ'',
      Reads 1 ''$ERserver:ECP1:009:ZZZZ:No such weather profile'']"

lemma test_server_weather: test_server_weather
  by code_simp

end
