(* ===== verification/Port_Tests.thy ===== *)
theory Port_Tests
  imports Model_Tests Aster
begin

text \<open>
  The tests of the crates that stand in front of a library: password hashing
  (\<open>aster_fsd_auth\<close>), the database (\<open>aster_fsd_persistence\<close>) and the JSON dialect
  (\<open>aster_fsd_protocol_aster\<close>). The libraries are parameters of the model, so a test runs with an
  instance: a hash that keeps the password readable, tables held in memory, and a JSON reader
  that knows the messages of the test.
\<close>

section \<open>Passwords (aster\_fsd\_auth)\<close>

definition test_hasher :: argon2_hasher where
  "test_hasher = \<lparr>ah_salt = (\<lambda>_. Some ''salt''),
     ah_hash = (\<lambda>password _. Some (''$salt$'' @ password))\<rparr>"

definition test_argon2 :: "string argon2" where
  "test_argon2 =
     \<lparr>ar_parse = (\<lambda>hash. if take 6 hash = ''$salt$'' then Some (drop 6 hash) else None),
      ar_verify = (\<lambda>password h. if password = h then Argon_Ok else Argon_Password)\<rparr>"

lemma test_argon2_pair: "argon2_pair test_hasher test_argon2"
  by (simp add: argon2_pair_def test_hasher_def test_argon2_def)

definition test_password_verification :: bool where
  "test_password_verification =
     ok_and (hash_password test_hasher [] ''correct horse'') (\<lambda>hash.
       verify_password test_argon2 None ''correct horse'' hash = Inr True
       \<and> verify_password test_argon2 None ''wrong'' hash = Inr False)"

lemma test_password_verification: test_password_verification
  by code_simp

section \<open>The database (aster\_fsd\_persistence)\<close>

type_synonym test_tables = "user_row list \<times> whitelist_row list"

definition test_database :: "string + test_tables" where
  "test_database = connect table_engine
     (database_config_default\<lparr>db_url := ''sqlite::memory:'', db_min_connections := 1,
        db_max_connections := 1\<rparr>)"

definition test_authenticator :: "test_tables \<Rightarrow> authenticator" where
  "test_authenticator db =
     sea_orm_authenticator (en_queries table_engine db) (verify_password test_argon2 None)"

definition default_of :: "string \<Rightarrow> column_default option" where
  "default_of name = Option.bind (List.find (\<lambda>c. cl_name c = name) users_columns) cl_default"

text \<open>A row inserted by plain SQL without ratings gets the defaults of the columns.\<close>

definition test_database_authentication :: bool where
  "test_database_authentication =
     ok_and test_database (\<lambda>db.
     ok_and (hash_password test_hasher [] ''secret'') (\<lambda>hash.
     ok_and (create_user table_engine 0 ''ECP1547'' hash ''Test User'' Controller1 PrivatePilotLicense db)
       (\<lambda>(stored, db').
       is_ok (au_authorize_client (test_authenticator db) ''48e2'')
       \<and> au_authorize_client (test_authenticator db) ''unknown-client'' = Inl Auth_ClientNotAuthorized
       \<and> ok_and (au_authenticate (test_authenticator db') ''ECP1547'' ''secret'') (\<lambda>identity.
           ai_real_name identity = ''Test User'' \<and> ai_atc_rating identity = Controller1
           \<and> ai_pilot_rating identity = PrivatePilotLicense)
       \<and> atc_string_value (ur_atc_rating stored) = ''controller_1''
       \<and> pilot_string_value (ur_pilot_rating stored) = ''private_pilot_license''
       \<and> default_of ''atc_rating'' = Some (Default_Text ''observer'')
       \<and> default_of ''pilot_rating'' = Some (Default_Text ''private_pilot_license'')
       \<and> \<not> is_ok (au_authenticate (test_authenticator db') ''ECP1547'' ''bad'')
       \<and> au_authenticate (test_authenticator db') ''MISSING'' ''secret'' = Inl Auth_InvalidCredentials
       \<and> is_ok (en_migrate table_engine migrations db'))))"

lemma test_database_authentication: test_database_authentication
  by code_simp

text \<open>One user per rating, under numbered network ids.\<close>

fun test_create_all ::
  "string \<Rightarrow> (atc_rating \<times> pilot_rating) list \<Rightarrow> nat \<Rightarrow> test_tables \<Rightarrow> (bool \<times> test_tables)" where
  "test_create_all name [] n db = (True, db)"
| "test_create_all name ((a, p) # rs) n db =
     (case create_user table_engine 0 (name @ show_nat n) ''unused'' ''Rating'' a p db of
        Inl _ \<Rightarrow> (False, db)
      | Inr (row, db') \<Rightarrow>
          if ur_atc_rating row = a \<and> ur_pilot_rating row = p then test_create_all name rs (Suc n) db'
          else (False, db'))"

definition test_rating_round_trip :: bool where
  "test_rating_round_trip =
     (ok_and test_database (\<lambda>db.
        case test_create_all ''ATC'' (map (\<lambda>r. (r, PrivatePilotLicense)) atc_ratings) 0 db of
          (atc_ok, db') \<Rightarrow>
            atc_ok \<and> fst (test_create_all ''PILOT'' (map (Pair Atc_Observer) pilot_ratings) 0 db'))
      \<and> list_all (\<lambda>r. atc_from_value (atc_string_value r) = Some r) atc_ratings
      \<and> list_all (\<lambda>r. pilot_from_value (pilot_string_value r) = Some r) pilot_ratings)"

lemma test_rating_round_trip: test_rating_round_trip
  by code_simp

text \<open>A column that holds another text is no value of the typed entity.\<close>

definition test_unknown_rating :: bool where
  "test_unknown_rating = (atc_from_value ''root'' = None \<and> pilot_from_value ''unrated'' = Some Unrated)"

lemma test_unknown_rating: test_unknown_rating
  by code_simp

definition test_malformed_hash :: bool where
  "test_malformed_hash =
     ok_and test_database (\<lambda>db.
     ok_and (create_user table_engine 0 ''BROKEN'' ''not-an-argon2-hash'' ''Broken Hash'' Atc_Observer
               PrivatePilotLicense db) (\<lambda>(_, db').
       au_authenticate (test_authenticator db') ''BROKEN'' ''secret'' = Inl Auth_InvalidPasswordHash))"

lemma test_malformed_hash: test_malformed_hash
  by code_simp

section \<open>JSON messages (aster\_fsd\_protocol\_aster)\<close>

text \<open>What \<open>serde_json\<close> reads from the texts of the tests; every other text is no JSON here.\<close>

definition aster_test_messages :: "(string \<times> incoming) list" where
  \<open>aster_test_messages =
     [(''{"v":1,"type":"login","callsign":"ECP4143","client_type":"pilot","network_id":"ECP1547","password":"secret","requested_rating":1,"real_name":"Test Pilot"}'',
       In_Login 1 ''ECP4143'' Pilot ''ECP1547'' ''secret'' 1 ''Test Pilot'' None),
      (''{"v":2,"type":"logoff","source":"ECP1"}'', In_Logoff 2 ''ECP1''),
      (''{"v":1,"type":"logoff","source":"BAD CALL"}'', In_Logoff 1 ''BAD CALL''),
      (''{"v":1,"type":"handoff","source":"ECP1","target":"ECP2","kind":"request","fields":["ECP3","123.450"]}'',
       In_Handoff 1 ''ECP1'' ''ECP2'' H_Request [''ECP3'', ''123.450'']),
      (''{"v":1,"type":"client_data","source":"ECP2","target":"ECP1","kind":"communication_reply","fields":["123.450"]}'',
       In_ClientData 1 ''ECP2'' ''ECP1'' CommunicationReply [''123.450''])]\<close>

definition aster_test_serde :: serde where
  "aster_test_serde =
     \<lparr>sj_from_slice = (\<lambda>text. case map_of aster_test_messages text of
          None \<Rightarrow> Inl ''expected value'' | Some m \<Rightarrow> Inr m),
      sj_to_value = (\<lambda>_. Inr (J_Object [])), sj_to_vec = (\<lambda>_. Inr ''{}'')\<rparr>"

definition aster_test_decode :: "session_phase \<Rightarrow> callsign option \<Rightarrow> string \<Rightarrow> protocol_error + command" where
  "aster_test_decode phase c text =
     pb_decode (aster_protocol aster_test_serde)
       \<lparr>dc_connection_id = 1, dc_phase = phase, dc_callsign = c, dc_challenge = []\<rparr> text"

definition test_aster_login :: bool where
  "test_aster_login =
     ok_and (aster_test_decode Connected None (fst (aster_test_messages ! 0)))
       (\<lambda>cmd. case cmd of C_Login _ \<Rightarrow> True | _ \<Rightarrow> False)"

lemma test_aster_login: test_aster_login
  by code_simp

definition test_aster_boundaries :: bool where
  \<open>test_aster_boundaries =
     (err_and (aster_test_decode Connected None ''{not-json'') (\<lambda>e. pe_kind e = PE_Syntax)
      \<and> err_and (aster_test_decode Connected None ''{"v":2,"type":"logoff","source":"ECP1"}'')
          (\<lambda>e. pe_kind e = PE_Version)
      \<and> err_and (aster_test_decode Connected None ''{"v":1,"type":"logoff","source":"BAD CALL"}'')
          (\<lambda>e. pe_kind e = PE_InvalidField))\<close>

lemma test_aster_boundaries: test_aster_boundaries
  by code_simp

text \<open>The half of the test that decodes; its other half reads back what the library wrote.\<close>

definition test_aster_handoff :: bool where
  "test_aster_handoff =
     (ok_and (aster_test_decode Active (Some (Callsign ''ECP1'')) (fst (aster_test_messages ! 3)))
        (\<lambda>cmd. case cmd of
            C_Handoff source target kind flds \<Rightarrow>
              as_str source = ''ECP1'' \<and> as_str target = ''ECP2'' \<and> kind = H_Request
              \<and> flds = [''ECP3'', ''123.450'']
          | _ \<Rightarrow> False)
      \<and> ok_and (aster_test_decode Active (Some (Callsign ''ECP1'')) (fst (aster_test_messages ! 4)))
        (\<lambda>cmd. case cmd of
            C_ClientData source target kind flds \<Rightarrow>
              as_str source = ''ECP2'' \<and> as_str target = ''ECP1'' \<and> kind = CommunicationReply
              \<and> flds = [''123.450'']
          | _ \<Rightarrow> False))"

lemma test_aster_handoff: test_aster_handoff
  by code_simp

end
