(* ===== verification/Spec2Isabelle.thy ===== *)
theory Spec2Isabelle
  imports Net_Answers Wire_Properties Position_Relay End_To_End Config_Properties
    Dialect_Properties Server_Order Sample_Client Startup Codec_Tests Config_Tests
    Dialect_Tests Server_Tests Port_Tests
begin

text \<open>
  AsterFSD is a server for flight-simulation networks: pilots and air traffic controllers
  connect over TCP, log in under a callsign, and the server relays positions, texts, flight
  plans, queries and weather between them. This library models the server of
  \<open>src/crates\<close> and \<open>src/src\<close> and proves what makes it correct. This theory only collects the
  others.

  \<^bold>\<open>How the program is put together.\<close> A socket belongs to a listener, and a listener to a dialect.
  Bytes are split into frames (\<open>aster_fsd_codec\<close>); a dialect backend
  (\<open>aster_fsd_protocol_classic\<close>, \<open>_vatsim\<close>, \<open>_aster\<close>) decodes a frame into a command of the
  domain model (\<open>aster_fsd_model\<close>); the network core (\<open>aster_fsd_core\<close>) executes the command on
  the one shared state and answers with effects, that is deliveries of events to connections and
  possibly a close; the runtime (\<open>aster_fsd_server\<close>) encodes each event for each recipient and
  puts the frames into the mailbox of the recipient's writer. Authentication is a port
  (\<open>aster_fsd_auth\<close>), implemented over a database (\<open>aster_fsd_persistence\<close>).

  \<^bold>\<open>Theories and code.\<close>
  \<^item> \<open>Prelude\<close>: results (\<open>and_then\<close>, \<open>map_err\<close>), hash maps as association lists without duplicate
    keys (locale \<open>hash_table\<close>, interpreted as \<open>hm\<close>), the contracts \<open>wire_codec\<close> and
    \<open>invariant_system\<close>.
  \<^item> \<open>Rust_Text\<close>, \<open>Utf8\<close>, \<open>Float64\<close>, \<open>Float_Text\<close>: what the code uses of Rust's strings, number
    parsing, UTF-8 and 64-bit floats. Trigonometry and the rounding to text are parameters.
  \<^item> \<open>Domain\<close>: crate \<open>aster_fsd_model\<close>, one section per source file.
  \<^item> \<open>Framing\<close>, \<open>Packets\<close>: \<open>aster_fsd_codec\<close>; the frame decoder and encoders, and the
    packet tokenizer.
  \<^item> \<open>Protocol\<close>: the port \<open>aster_fsd_protocol\<close>; a backend is the record \<open>backend\<close> of its methods,
    and locale \<open>protocol_backend\<close> is what all three share.
  \<^item> \<open>Classic_Decode\<close>, \<open>Classic_Encode\<close>: \<open>aster_fsd_protocol_classic\<close> (\<open>decode/*.rs\<close>,
    \<open>encode/*.rs\<close>); \<open>Vatsim\<close> and \<open>Aster\<close>: the other two dialects.
  \<^item> \<open>Auth\<close>: \<open>aster_fsd_auth\<close> and the authenticator of \<open>aster_fsd_persistence\<close>.
  \<^item> \<open>Net_State\<close> (\<open>network/state.rs\<close>, \<open>mod.rs\<close>, \<open>lifecycle.rs\<close>, \<open>routing.rs\<close>), \<open>Net_Login\<close>
    (\<open>authentication.rs\<close>), \<open>Net_Commands\<close> (\<open>commands.rs\<close>, \<open>weather.rs\<close>): the network core. Its
    state \<open>net_state\<close> holds the two hash maps of \<open>NetworkState\<close>, sessions and callsign index.
  \<^item> \<open>Server\<close>: \<open>aster_fsd_server\<close>; \<open>runtime_state\<close> holds the network, the connection table and
    the next connection id; \<open>handle_connection\<close> is the whole life of a connection.
  \<^item> \<open>Server_System\<close>: the same tasks as a step relation, one step per critical section, with
    every interleaving; \<open>Supervision\<close>: accept loops and \<open>serve\<close>.
  \<^item> \<open>Persistence\<close>: the rest of \<open>aster_fsd_persistence\<close> and the schema of \<open>aster_fsd_migration\<close>.
  \<^item> \<open>Backends\<close>: the registered backends of \<open>src/main.rs\<close>; \<open>Config\<close>: \<open>src/config.rs\<close>;
    \<open>Startup\<close>: \<open>main\<close> up to the running server.
  \<^item> \<open>Sample_Client\<close>: the bytes \<open>examples/simple_client.rs\<close> writes.
  \<^item> \<open>Model_Tests\<close>, \<open>Config_Tests\<close>, \<open>Codec_Tests\<close>, \<open>Dialect_Tests\<close>, \<open>Core_Tests\<close>,
    \<open>Server_Tests\<close>, \<open>Port_Tests\<close>: the tests the repository keeps beside its crates, one
    boolean definition per test function, and a lemma that it evaluates to true. The
    parameters of the model are concrete there, and a test of the running server follows
    one schedule.

  \<^bold>\<open>Concurrency.\<close> Several tasks use the network at once. What runs under one lock is one atomic
  step; identification, login and weather requests release the lock while they wait for a port,
  so each of them is two steps (\<open>identify_begin\<close>/\<open>identify_finish\<close>, \<open>login_generation\<close>/
  \<open>login_resume\<close>, \<open>weather_request\<close>/\<open>weather_resume\<close>). \<open>Net_System\<close> has the step relation
  \<open>sys_step\<close> over states with pending calls, in any order and with any answer of the ports; its
  reachable states are those of every interleaving. \<open>Server_System\<close> puts the tasks of the server on
  top of it: between any two steps of a task (decoding, a critical section, queueing for one
  recipient, an entry in the connection table) others may run. In \<open>Server\<close> the same
  handlers are functions that run a task to its end; \<open>own_dispatch\<close> in \<open>Server_Reach\<close> shows
  that the steps of an undisturbed dispatch compute the function \<open>dispatch\<close>.

  \<^bold>\<open>What is proved.\<close>
  \<^item> \<open>Net_Inv\<close>, \<open>Net_System\<close>: the invariant \<open>net_inv\<close> (well-formed maps, callsign index equal to the
    active sessions, phases, capacity, valid positions) and its preservation by every
    operation and step. \<open>Net_Routing\<close> and \<open>Net_Effects\<close>: who receives what. \<open>Net_Directory\<close>:
    the core refines a directory of callsigns. \<open>Net_Properties\<close> and \<open>Net_Answers\<close> state the
    properties of the core.
  \<^item> \<open>Framing\<close>, \<open>Packets\<close>, \<open>Wire_Properties\<close>: the decoder equals splitting at line ends, whatever
    the chunks; packets and frames survive encoding and decoding.
  \<^item> \<open>Classic_Relay\<close>, \<open>Classic_Properties\<close>: what one classic client sends and the core relays is
    encodable for the others and decoded by them to the same command. \<open>Float_Accuracy\<close> bounds the
    error of the rounding of floats and of their decimal text, so that \<open>Position_Relay\<close> can say how far a relayed
    position is from the one sent; \<open>End_To_End\<close> follows a message from the bytes of its sender to those of
    its recipient.
    \<open>Dialect_Properties\<close>: what decoded commands satisfy, in all three dialects.
  \<^item> \<open>Server_Properties\<close>: the frame cache is transparent, deliveries are isolated, connections
    leave nothing behind, queued frames arrive. \<open>Config_Properties\<close>: what validation guarantees.
  \<^item> \<open>Server_Reach\<close>: in every interleaving the server refines the network, sessions, tasks and
    connection table belong together, who is removed stays out, and dispatching and leaving
    come to an end. \<open>Startup\<close>: why starting fails, and what ends the server.
    \<open>Persistence_Properties\<close>: created users log in, the schema fits the model.
  \<^item> \<open>Server_Order\<close>: in every interleaving a mailbox keeps the order in which events were
    queued, and the caches of frames hold what the backends produce. Locale \<open>fifo_mailbox\<close> is the
    documented contract of the parameter \<open>mpsc\<close>, interpreted on the queue of \<open>Server_Properties\<close>.
    \<open>Sample_Client\<close>: what the server answers to the session of the sample client.
  \<^item> \<open>Scenario\<close> and the definitions named \<open>demo\<close> are concrete states for the witnesses.

  \<^bold>\<open>Bounds.\<close> Words keep their width (\<open>u8\<close>, \<open>u16\<close>, \<open>i32\<close>, \<open>u64\<close>); \<open>usize\<close> is \<open>nat\<close>, since
  lengths of buffers in memory do not reach its end. Connection ids and session generations are
  counted by 64-bit words that wrap; freshness holds while the counter of \<open>Net_System\<close> is below
  \<open>2 ^ 64\<close>, and is a hypothesis where it matters. No definition uses fuel: the loops
  over buffers (\<open>frame_decode\<close>, \<open>is_blank\<close>) shorten their argument, which is their termination
  proof; the reading and writing loops are recursions over what the socket or mailbox yields.

  \<^bold>\<open>Parameters.\<close> \<open>authenticator\<close> and \<open>weather_provider\<close> (ports of the code), the queries and
  the engine of the database (\<open>database\<close>, \<open>engine\<close>; \<open>user_store\<close> names what is relied on),
  Argon2 (\<open>argon2\<close>, \<open>argon2_hasher\<close>), \<open>serde\<close> (JSON; \<open>json_compact\<close>), \<open>mpsc\<close> (bounded
  mailboxes of tokio), \<open>flush\<close> (whether the socket takes the bytes), \<open>listen\<close> (opening a
  listening socket), what \<open>select!\<close> and \<open>join_next\<close> yield, the clock and the random bytes.

  \<^bold>\<open>Not modelled.\<close> Signals, logging, the reading of the TOML file and the derived
  (de)serializers: calls of libraries without logic of the repository; the interactive sample
  client, which waits for a person at the console. Of the tests, those of the whole process (signals, log
  output), those that read what a TOML or JSON library wrote, and those that depend on
  distances other than zero, whose trigonometry the kernel does not evaluate in reasonable time.
\<close>

end
